(* ===== verification/Prelude.thy ===== *)
theory Prelude
  imports Main "HOL-Library.Word" "HOL-Library.Multiset"
begin

text \<open>
  Shared vocabulary of the development: the machine integers of the Go code, the result type
  of fallible functions (\<open>Inl\<close> an error, \<open>Inr\<close> a value), the loop that stops at the first
  error, and generic facts on lists, digits and sums that several components use.
\<close>

section \<open>Types\<close>

type_synonym u64 = "64 word"
type_synonym u32 = "32 word"

text \<open>Go strings and byte slices are both sequences of 8-bit values, as is HOL's \<open>char list\<close>.\<close>

type_synonym bytes = string

named_theorems defs \<open>definitions unfolded by most component proofs\<close>
named_theorems num \<open>facts on the numeric reading of amounts\<close>

section \<open>Fallible functions\<close>

text \<open>
  \<open>bind_err\<close> is Go's \<open>if err != nil { return nil, err }\<close> between two statements.
  \<open>traverse\<close> is the loop \<open>for _, x := range xs { y, err := f(x); if err != nil { return nil, err };
  ys = append(ys, y) }\<close>; \<open>filter_err\<close> is the same loop with a fallible predicate.
\<close>

definition bind_err :: "'e + 'a \<Rightarrow> ('a \<Rightarrow> 'e + 'b) \<Rightarrow> 'e + 'b" where
  "bind_err r f = (case r of Inl e \<Rightarrow> Inl e | Inr x \<Rightarrow> f x)"

lemma bind_err_simps [simp]:
  "bind_err (Inl e) f = Inl e"
  "bind_err (Inr x) f = f x"
  by (simp_all add: bind_err_def)

lemma bind_err_Inr [simp]: "(bind_err r f = Inr y) = (\<exists>x. r = Inr x \<and> f x = Inr y)"
  by (cases r) auto

lemma bind_err_Inl: "(bind_err r f = Inl e) = (r = Inl e \<or> (\<exists>x. r = Inr x \<and> f x = Inl e))"
  by (cases r) auto

fun traverse :: "('a \<Rightarrow> 'e + 'b) \<Rightarrow> 'a list \<Rightarrow> 'e + 'b list" where
  "traverse f [] = Inr []"
| "traverse f (x # xs) =
     bind_err (f x) (\<lambda>y. bind_err (traverse f xs) (\<lambda>ys. Inr (y # ys)))"

fun filter_err :: "('a \<Rightarrow> 'e + bool) \<Rightarrow> 'a list \<Rightarrow> 'e + 'a list" where
  "filter_err p [] = Inr []"
| "filter_err p (x # xs) =
     bind_err (p x) (\<lambda>b. bind_err (filter_err p xs) (\<lambda>ys. Inr (if b then x # ys else ys)))"

lemma traverse_all_Inr: "(\<And>x. x \<in> set xs \<Longrightarrow> f x = Inr (g x)) \<Longrightarrow> traverse f xs = Inr (map g xs)"
  by (induction xs) auto

lemma traverse_length: "traverse f xs = Inr ys \<Longrightarrow> length ys = length xs"
  by (induction xs arbitrary: ys) auto

lemma traverse_Inr_iff: "traverse f xs = Inr ys \<longleftrightarrow> list_all2 (\<lambda>x y. f x = Inr y) xs ys"
  by (induction xs arbitrary: ys) (auto simp: list_all2_Cons1)

lemma traverse_set:
  "traverse f xs = Inr ys \<Longrightarrow> y \<in> set ys \<Longrightarrow> \<exists>x \<in> set xs. f x = Inr y"
  by (induction xs arbitrary: ys) auto

lemma traverse_succeeds_iff:
  "(\<exists>ys. traverse f xs = Inr ys) \<longleftrightarrow> (\<forall>x \<in> set xs. \<exists>y. f x = Inr y)"
  by (induction xs) auto

lemma traverse_cong_set:
  "(\<And>x. x \<in> set xs \<Longrightarrow> f x = g x) \<Longrightarrow> traverse f xs = traverse g xs"
  by (induction xs) auto

lemma filter_err_Inr:
  "filter_err p xs = Inr ys \<longleftrightarrow> (\<forall>x \<in> set xs. \<exists>b. p x = Inr b) \<and> ys = filter (\<lambda>x. p x = Inr True) xs"
proof (induction xs arbitrary: ys)
  case Nil
  then show ?case by auto
next
  case (Cons x xs)
  show ?case
  proof (cases "p x")
    case (Inl e)
    then show ?thesis by simp
  next
    case (Inr b)
    then show ?thesis by (auto simp: Cons.IH)
  qed
qed

lemma filter_err_set: "filter_err p xs = Inr ys \<Longrightarrow> set ys = {x \<in> set xs. p x = Inr True}"
  by (simp add: filter_err_Inr)

section \<open>Sums over lists\<close>

lemma sum_list_map_filter_zero:
  fixes f :: "'a \<Rightarrow> int"
  shows "(\<And>x. x \<in> set xs \<Longrightarrow> \<not> P x \<Longrightarrow> f x = 0) \<Longrightarrow>
    sum_list (map f (filter P xs)) = sum_list (map f xs)"
  by (induction xs) auto

lemma sum_list_concat_zero:
  fixes f :: "'a \<Rightarrow> int"
  shows "(\<And>xs. xs \<in> set xss \<Longrightarrow> sum_list (map f xs) = 0) \<Longrightarrow> sum_list (map f (concat xss)) = 0"
  by (induction xss) auto

section \<open>Digits in a base, most significant first\<close>

definition of_digits :: "nat \<Rightarrow> nat list \<Rightarrow> nat" where
  "of_digits b ds = foldl (\<lambda>a d. a * b + d) 0 ds"

function to_digits :: "nat \<Rightarrow> nat \<Rightarrow> nat list" where
  "to_digits b n = (if b < 2 \<or> n = 0 then [] else to_digits b (n div b) @ [n mod b])"
  by pat_completeness auto
termination
  by (relation "measure snd") auto

declare to_digits.simps [simp del]

lemma of_digits_simps [simp]:
  "of_digits b [] = 0"
  "of_digits b (ds @ [d]) = of_digits b ds * b + d"
  by (simp_all add: of_digits_def)

lemma to_digits_0 [simp]: "to_digits b 0 = []"
  by (simp add: to_digits.simps)

lemma to_digits_lt: "d \<in> set (to_digits b n) \<Longrightarrow> d < b"
proof (induction b n rule: to_digits.induct)
  case (1 b n)
  then show ?case
    by (auto simp: to_digits.simps [of b n] split: if_splits)
qed

lemma of_to_digits [simp]: "2 \<le> b \<Longrightarrow> of_digits b (to_digits b n) = n"
proof (induction b n rule: to_digits.induct)
  case (1 b n)
  then show ?case
    by (cases "n = 0") (simp_all add: to_digits.simps [of b n])
qed

lemma to_digits_eq_Nil: "2 \<le> b \<Longrightarrow> to_digits b n = [] \<longleftrightarrow> n = 0"
  by (metis of_digits_simps(1) of_to_digits to_digits_0)

lemma to_digits_length: "2 \<le> b \<Longrightarrow> length (to_digits b n) \<le> k \<longleftrightarrow> n < b ^ k"
proof (induction k arbitrary: n)
  case 0
  then show ?case by (simp add: to_digits_eq_Nil)
next
  case (Suc k)
  have "n div b < b ^ k \<longleftrightarrow> n < b ^ Suc k"
    using Suc.prems by (simp add: div_less_iff_less_mult mult.commute)
  with Suc.IH [of "n div b"] Suc.prems show ?case by (auto simp: to_digits.simps [of b n])
qed

lemma of_digits_pos_imp:
  "0 < of_digits b ds \<Longrightarrow> \<exists>d \<in> set ds. d \<noteq> 0"
  by (induction ds rule: rev_induct) fastforce+

lemma to_of_digits:
  assumes "2 \<le> b" and "\<forall>d \<in> set ds. d < b"
  shows "to_digits b (of_digits b ds) = dropWhile (\<lambda>d. d = 0) ds"
  using assms(2)
proof (induction ds rule: rev_induct)
  case Nil
  then show ?case by simp
next
  case (snoc d ds)
  from snoc.prems have d: "d < b" by simp
  have IH: "to_digits b (of_digits b ds) = dropWhile (\<lambda>d. d = 0) ds"
    using snoc by simp
  show ?case
  proof (cases "of_digits b ds * b + d = 0")
    case True
    then have "\<forall>e \<in> set ds. e = 0"
      using IH assms(1) by (auto simp: eq_commute [of "[]"] dropWhile_eq_Nil_conv)
    moreover from True have "to_digits b (of_digits b (ds @ [d])) = []"
      using to_digits_0 by (simp only: of_digits_simps)
    moreover from True have "d = 0" by simp
    ultimately show ?thesis by (simp only: dropWhile_append2) simp
  next
    case False
    have step: "to_digits b (of_digits b ds * b + d) = to_digits b (of_digits b ds) @ [d]"
      using False assms(1) d by (simp add: to_digits.simps [of b "of_digits b ds * b + d"])
    show ?thesis
    proof (cases "\<forall>e \<in> set ds. e = 0")
      case True
      then have "dropWhile (\<lambda>d. d = 0) ds = []" by simp
      with IH assms(1) have "of_digits b ds = 0" by (simp add: to_digits_eq_Nil)
      with False True IH step show ?thesis by (simp add: dropWhile_append2)
    next
      case False
      then obtain e where "e \<in> set ds" "e \<noteq> 0" by blast
      with IH step show ?thesis by (simp add: dropWhile_append1)
    qed
  qed
qed

lemma of_digits_bound:
  assumes "2 \<le> b" "\<forall>d \<in> set ds. d < b"
  shows "of_digits b ds < b ^ length ds"
  using assms(2)
proof (induction ds rule: rev_induct)
  case Nil
  then show ?case by simp
next
  case (snoc d ds)
  then have "of_digits b ds + 1 \<le> b ^ length ds" and d: "d < b" by simp_all
  then have "(of_digits b ds + 1) * b \<le> b ^ length ds * b" by (intro mult_right_mono) simp_all
  with d have "of_digits b ds * b + d < b ^ length ds * b"
    by (simp add: algebra_simps)
  then show ?case by (simp add: mult.commute)
qed

end
