(* ===== verification/GoStd.thy ===== *)
theory GoStd
  imports Prelude
begin

text \<open>
  What the source uses of the Go language and its standard library, on byte strings:
  conversions between \<open>int64\<close> and \<open>uint64\<close>, \<open>encoding/hex\<close>, \<open>strings.Split\<close>, \<open>HasPrefix\<close>
  and \<open>Trim\<close>, \<open>big.Int\<close> text and byte conversions, \<open>strconv.ParseUint\<close>, \<open>ParseInt\<close> and
  \<open>FormatUint\<close>. Each comes with the round trips the rest of the development rests on; the
  contract of an encoder and its decoder is the locale \<open>codec\<close>.
\<close>

section \<open>Errors\<close>

text \<open>
  Go's \<open>error\<close> values: one constructor per way the source (or the standard library on its
  behalf) makes one. \<open>Errorf\<close> holds the pieces that \<open>fmt.Errorf\<close> strings together: text and,
  for \<open>%w\<close> and \<open>%v\<close> of an error, that error. \<open>Panic\<close> is not an error value but a run-time
  panic (an index out of range, a nil pointer): no code of the source recovers from one, so it
  ends the request wherever it happens.
\<close>

datatype go_error =
    ErrorsNew string
  | HexInvalidByte char
  | HexErrLength
  | Base64Corrupt string
  | NumErrSyntax string
  | NumErrRange string
  | JsonTypeError string
  | Errorf "err_part list"
  | Panic string
and err_part = Txt string | Err go_error

section \<open>Integer conversions\<close>

text \<open>\<open>int64\<close> values are \<open>int\<close>s in the range of \<open>sint\<close>; conversions keep the 64 bits.\<close>

definition int64_of_uint64 :: "u64 \<Rightarrow> int" where
  "int64_of_uint64 w = sint w"

definition uint64_of_int64 :: "int \<Rightarrow> u64" where
  "uint64_of_int64 i = word_of_int i"

definition int64_mul :: "int \<Rightarrow> int \<Rightarrow> int" where
  "int64_mul a b = sint (word_of_int a * word_of_int b :: u64)"

lemma uint64_int64_roundtrip [simp]: "uint64_of_int64 (int64_of_uint64 w) = w"
  by (simp add: uint64_of_int64_def int64_of_uint64_def)

lemma sint_word_of_int_64:
  "- (2 ^ 63) \<le> i \<Longrightarrow> i < 2 ^ 63 \<Longrightarrow> sint (word_of_int i :: u64) = i"
  by (simp add: int_word_sint)

lemma int64_uint64_roundtrip:
  "- (2 ^ 63) \<le> i \<Longrightarrow> i < 2 ^ 63 \<Longrightarrow> int64_of_uint64 (uint64_of_int64 i) = i"
  by (simp add: uint64_of_int64_def int64_of_uint64_def sint_word_of_int_64)

lemma int64_of_uint64_small: "unat w < 2 ^ 63 \<Longrightarrow> int64_of_uint64 w = int (unat w)"
proof -
  assume "unat w < 2 ^ 63"
  then have "int (unat w) < 2 ^ 63"
    by (metis of_nat_less_iff of_nat_numeral of_nat_power)
  then have "sint (word_of_int (int (unat w)) :: u64) = int (unat w)"
    by (intro sint_word_of_int_64) linarith+
  then show ?thesis by (simp add: int64_of_uint64_def)
qed

lemma int64_mul_exact:
  "- (2 ^ 63) \<le> a * b \<Longrightarrow> a * b < 2 ^ 63 \<Longrightarrow> int64_mul a b = a * b"
  unfolding int64_mul_def of_int_mult [symmetric] by (rule sint_word_of_int_64)

section \<open>Encoders and decoders\<close>

text \<open>
  The contract that an encoder and a fallible decoder owe to each other: decoding gives back
  what was encoded. Its clients are the byte, decimal and base-64 encodings below.
\<close>

locale codec =
  fixes enc :: "'a \<Rightarrow> 'b" and dec :: "'b \<Rightarrow> 'e + 'a"
  assumes dec_enc: "dec (enc x) = Inr x"
begin

lemma enc_inj: "enc x = enc y \<longleftrightarrow> x = y"
  by (metis dec_enc sum.inject(2))

lemma dec_enc_total: "\<exists>y. dec (enc x) = Inr y"
  by (simp add: dec_enc)

lemma traverse_dec_enc: "traverse dec (map enc xs) = Inr xs"
  by (induction xs) (simp_all add: dec_enc)

end

section \<open>Hexadecimal text (encoding/hex)\<close>

definition hextable :: string where
  "hextable = ''0123456789abcdef''"

definition hex_digit :: "nat \<Rightarrow> char" where
  "hex_digit d = hextable ! d"

definition hex_encode :: "bytes \<Rightarrow> string" where
  "hex_encode bs = concat (map (\<lambda>c. [hex_digit (of_char c div 16), hex_digit (of_char c mod 16)]) bs)"

definition from_hex_char :: "char \<Rightarrow> nat option" where
  "from_hex_char c = (let n = of_char c :: nat in
     if 48 \<le> n \<and> n \<le> 57 then Some (n - 48)
     else if 97 \<le> n \<and> n \<le> 102 then Some (n - 97 + 10)
     else if 65 \<le> n \<and> n \<le> 70 then Some (n - 65 + 10)
     else None)"

fun hex_decode :: "string \<Rightarrow> go_error + bytes" where
  "hex_decode [] = Inr []"
| "hex_decode [p] = (case from_hex_char p of None \<Rightarrow> Inl (HexInvalidByte p) | Some _ \<Rightarrow> Inl HexErrLength)"
| "hex_decode (p # q # rest) =
     (case from_hex_char p of
        None \<Rightarrow> Inl (HexInvalidByte p)
      | Some a \<Rightarrow>
          (case from_hex_char q of
             None \<Rightarrow> Inl (HexInvalidByte q)
           | Some b \<Rightarrow> bind_err (hex_decode rest) (\<lambda>bs. Inr (char_of (a * 16 + b) # bs))))"

lemma less_16_cases:
  "d < 16 \<Longrightarrow> d \<in> {0, 1, 2, 3, 4, 5, 6, 7, 8, 9, 10, 11, 12, 13, 14, 15::nat}"
  by (simp add: less_Suc_eq numeral_eq_Suc)

lemma from_hex_digit [simp]: "d < 16 \<Longrightarrow> from_hex_char (hex_digit d) = Some d"
  by (drule less_16_cases) (auto simp: from_hex_char_def hex_digit_def hextable_def)

lemma of_char_less_256 [simp]: "(of_char c :: nat) < 256"
  by (metis char_of_char mod_less_divisor of_char_of zero_less_numeral)

lemma hex_encode_simps [simp]:
  "hex_encode [] = []"
  "hex_encode (c # bs) = hex_digit (of_char c div 16) # hex_digit (of_char c mod 16) # hex_encode bs"
  by (simp_all add: hex_encode_def)

lemma of_char_div_16_less [simp]: "(of_char c :: nat) div 16 < 16"
  by (simp add: less_mult_imp_div_less)

lemma hex_decode_encode [simp]: "hex_decode (hex_encode bs) = Inr bs"
  by (induction bs) simp_all

lemma length_hex_encode [simp]: "length (hex_encode bs) = 2 * length bs"
  by (induction bs) simp_all

interpretation hexc: codec hex_encode hex_decode
  by unfold_locales simp

lemma hex_decode_length: "hex_decode s = Inr bs \<Longrightarrow> length s = 2 * length bs"
  by (induction s arbitrary: bs rule: hex_decode.induct) (auto split: option.splits)

section \<open>Strings\<close>

definition has_prefix :: "string \<Rightarrow> string \<Rightarrow> bool" where
  "has_prefix s p = (take (length p) s = p)"

lemma has_prefix_append [simp]: "has_prefix (p @ s) p"
  by (simp add: has_prefix_def)

lemma has_prefix_iff: "has_prefix s p \<longleftrightarrow> (\<exists>t. s = p @ t)"
  by (metis append_take_drop_id has_prefix_append has_prefix_def)

text \<open>\<open>strings.Split\<close> with a separator of one byte.\<close>

fun split_on :: "char \<Rightarrow> string \<Rightarrow> string list" where
  "split_on sep [] = [[]]"
| "split_on sep (c # cs) =
     (if c = sep then [] # split_on sep cs
      else (case split_on sep cs of [] \<Rightarrow> [[c]] | p # ps \<Rightarrow> (c # p) # ps))"

lemma split_on_nonempty [simp]: "split_on sep s \<noteq> []"
  by (cases s) (auto split: list.splits)

lemma split_on_no_sep: "sep \<notin> set s \<Longrightarrow> split_on sep s = [s]"
  by (induction s) auto

lemma split_on_append_sep: "sep \<notin> set s \<Longrightarrow> split_on sep (s @ sep # t) = s # split_on sep t"
  by (induction s) auto

lemma length_split_on: "length (split_on sep s) = Suc (count_list s sep)"
proof (induction s)
  case Nil
  then show ?case by simp
next
  case (Cons c s)
  then show ?case by (cases "split_on sep s") auto
qed

text \<open>\<open>strings.Trim(s, "-")\<close>: removes the bytes of the cut set at both ends.\<close>

definition trim_char :: "char \<Rightarrow> string \<Rightarrow> string" where
  "trim_char c s = rev (dropWhile (\<lambda>x. x = c) (rev (dropWhile (\<lambda>x. x = c) s)))"

lemma trim_char_id: "c \<notin> set s \<Longrightarrow> trim_char c s = s"
proof -
  assume "c \<notin> set s"
  then have "dropWhile (\<lambda>x. x = c) s = s" "dropWhile (\<lambda>x. x = c) (rev s) = rev s"
    by (auto simp: dropWhile_eq_self_iff hd_in_set) (metis hd_in_set set_rev rev_is_Nil_conv)+
  then show ?thesis by (simp add: trim_char_def)
qed

lemma trim_char_Cons [simp]: "trim_char c (c # s) = trim_char c s"
  by (simp add: trim_char_def)

section \<open>Numbers as text and as bytes\<close>

text \<open>
  Decimal text of a natural number, as \<open>strconv.FormatUint(n, 10)\<close> and \<open>%d\<close> print it, and of
  an integer, as \<open>big.Int.String\<close> prints it. \<open>parse_digits b\<close> reads a non-empty string of
  base-\<open>b\<close> digits; \<open>big_SetString\<close> is \<open>big.Int.SetString(s, 10)\<close>: an optional sign, then at
  least one decimal digit and nothing else.
\<close>

definition dec_digit :: "nat \<Rightarrow> char" where
  "dec_digit d = ''0123456789'' ! d"

definition from_dec_char :: "char \<Rightarrow> nat option" where
  "from_dec_char c = (let n = of_char c :: nat in if 48 \<le> n \<and> n \<le> 57 then Some (n - 48) else None)"

definition is_digit :: "char \<Rightarrow> bool" where
  "is_digit c = (from_dec_char c \<noteq> None)"

definition nat_to_dec :: "nat \<Rightarrow> string" where
  "nat_to_dec n = (if n = 0 then ''0'' else map dec_digit (to_digits 10 n))"

definition int_to_dec :: "int \<Rightarrow> string" where
  "int_to_dec i = (if i < 0 then CHR ''-'' # nat_to_dec (nat (- i)) else nat_to_dec (nat i))"

text \<open>\<open>big.Int.SetBytes\<close> and \<open>big.Int.Bytes\<close>: big-endian magnitude.\<close>

definition big_SetBytes :: "bytes \<Rightarrow> int" where
  "big_SetBytes bs = int (of_digits 256 (map of_char bs))"

definition big_Bytes :: "int \<Rightarrow> bytes" where
  "big_Bytes i = map char_of (to_digits 256 (nat \<bar>i\<bar>))"

definition parse_digits :: "(char \<Rightarrow> nat option) \<Rightarrow> nat \<Rightarrow> string \<Rightarrow> nat option" where
  "parse_digits digit b s =
     (if s = [] \<or> (\<exists>c \<in> set s. digit c = None) then None
      else Some (of_digits b (map (\<lambda>c. the (digit c)) s)))"

definition big_SetString :: "string \<Rightarrow> int option" where
  "big_SetString s =
     (case s of
        [] \<Rightarrow> None
      | c # cs \<Rightarrow>
          if c = CHR ''-'' then map_option (\<lambda>n. - int n) (parse_digits from_dec_char 10 cs)
          else if c = CHR ''+'' then map_option int (parse_digits from_dec_char 10 cs)
          else map_option int (parse_digits from_dec_char 10 s))"

text \<open>
  \<open>strconv.ParseUint(s, base, 64)\<close> for an explicit base: digits only, no sign, and a range
  error above 64 bits. \<open>strconv.ParseInt(s, 10, 32)\<close>: an optional sign, 32-bit range.
\<close>

definition parse_uint64 :: "(char \<Rightarrow> nat option) \<Rightarrow> nat \<Rightarrow> string \<Rightarrow> go_error + u64" where
  "parse_uint64 digit b s =
     (case parse_digits digit b s of
        None \<Rightarrow> Inl (NumErrSyntax s)
      | Some n \<Rightarrow> if n < 2 ^ 64 then Inr (of_nat n) else Inl (NumErrRange s))"

definition parse_int32 :: "string \<Rightarrow> go_error + int" where
  "parse_int32 s =
     (case big_SetString s of
        None \<Rightarrow> Inl (NumErrSyntax s)
      | Some i \<Rightarrow> if - (2 ^ 31) \<le> i \<and> i < 2 ^ 31 then Inr i else Inl (NumErrRange s))"

lemma less_10_cases: "d < 10 \<Longrightarrow> d \<in> {0, 1, 2, 3, 4, 5, 6, 7, 8, 9::nat}"
  by (simp add: less_Suc_eq numeral_eq_Suc)

lemma from_dec_digit [simp]: "d < 10 \<Longrightarrow> from_dec_char (dec_digit d) = Some d"
  by (drule less_10_cases) (auto simp: from_dec_char_def dec_digit_def)

lemma from_dec_char_less: "from_dec_char c = Some d \<Longrightarrow> d < 10"
  by (auto simp: from_dec_char_def Let_def split: if_splits)

lemma from_hex_char_less: "from_hex_char c = Some d \<Longrightarrow> d < 16"
  by (auto simp: from_hex_char_def Let_def split: if_splits)

lemma sign_not_digit [simp]: "\<not> is_digit (CHR ''-'')" "\<not> is_digit (CHR ''+'')"
  by (simp_all add: is_digit_def from_dec_char_def)

lemma is_digit_dec_digit [simp]: "d < 10 \<Longrightarrow> is_digit (dec_digit d)"
  by (simp add: is_digit_def)

lemma parse_digits_map:
  assumes "\<And>d. d < b \<Longrightarrow> digit (chr d) = Some d" "\<forall>d \<in> set ds. d < b" "ds \<noteq> []"
  shows "parse_digits digit b (map chr ds) = Some (of_digits b ds)"
proof -
  have "map (\<lambda>c. the (digit c)) (map chr ds) = ds"
    using assms by (auto intro!: map_idI)
  with assms show ?thesis by (auto simp: parse_digits_def)
qed

lemma parse_digits_nat_to_dec [simp]: "parse_digits from_dec_char 10 (nat_to_dec n) = Some n"
proof (cases "n = 0")
  case True
  then show ?thesis
    by (simp add: nat_to_dec_def parse_digits_def from_dec_char_def of_digits_def)
next
  case False
  then have "parse_digits from_dec_char 10 (map dec_digit (to_digits 10 n)) = Some (of_digits 10 (to_digits 10 n))"
    by (intro parse_digits_map) (auto simp: to_digits_eq_Nil dest: to_digits_lt)
  with False show ?thesis by (simp add: nat_to_dec_def)
qed

lemma nat_to_dec_digits: "c \<in> set (nat_to_dec n) \<Longrightarrow> is_digit c"
  by (auto simp: nat_to_dec_def is_digit_def from_dec_char_def split: if_splits
      dest!: to_digits_lt from_dec_digit [unfolded from_dec_char_def])

lemma nat_to_dec_nonempty [simp]: "nat_to_dec n \<noteq> []"
  by (simp add: nat_to_dec_def to_digits_eq_Nil)

text \<open>Canonical unsigned decimal text, the form in which the network reports amounts.\<close>

definition is_decimal :: "string \<Rightarrow> bool" where
  "is_decimal s = (s \<noteq> [] \<and> list_all is_digit s)"

lemma is_decimal_nat_to_dec [simp]: "is_decimal (nat_to_dec n)"
  by (auto simp: is_decimal_def list_all_iff intro: nat_to_dec_digits)

lemma is_decimal_parse: "is_decimal s \<longleftrightarrow> (\<exists>n. parse_digits from_dec_char 10 s = Some n)"
  by (auto simp: is_decimal_def list_all_iff parse_digits_def is_digit_def)

lemma is_decimal_head: "is_decimal (c # cs) \<Longrightarrow> c \<noteq> CHR ''-'' \<and> c \<noteq> CHR ''+''"
  using sign_not_digit by (auto simp: is_decimal_def)

lemma big_SetString_unsigned:
  "is_decimal s \<Longrightarrow> big_SetString s = map_option int (parse_digits from_dec_char 10 s)"
  by (cases s) (auto simp: big_SetString_def dest: is_decimal_head, simp add: is_decimal_def)

lemma big_SetString_minus [simp]:
  "big_SetString (CHR ''-'' # s) = map_option (\<lambda>n. - int n) (parse_digits from_dec_char 10 s)"
  by (simp add: big_SetString_def)

lemma big_SetString_int_to_dec [simp]: "big_SetString (int_to_dec i) = Some i"
  by (simp add: int_to_dec_def big_SetString_unsigned)

end
