(* ===== verification/Resources.thy ===== *)
theory Resources
  imports GoStd
begin

text \<open>
  The data the server works on: its own resources (\<open>server/resources/*.go\<close>), the Rosetta
  objects it returns, the parts of the network's API objects it reads, and the interface
  \<open>NetworkProvider\<close> of \<open>server/services/interface.go\<close> as a record of functions. Methods whose
  result depends on the observer or on a cache pass a world \<open>'w\<close> along.
\<close>

section \<open>Resources of the server (server/resources)\<close>

record Currency =
  Symbol :: string
  Decimals :: int

record BlockSummary =
  bs_Nonce :: u64
  bs_Hash :: string
  bs_PreviousBlockHash :: string
  bs_Timestamp :: int

record BlockCoordinates =
  bc_Nonce :: u64
  bc_Hash :: string

record OptionalUint64 =
  ou_Value :: u64
  ou_HasValue :: bool

record AccountQueryOptions =
  OnFinalBlock :: bool
  aq_BlockNonce :: OptionalUint64
  aq_BlockHash :: bytes

definition noOptionalUint64 :: OptionalUint64 where
  "noOptionalUint64 = \<lparr>ou_Value = 0, ou_HasValue = False\<rparr>"

definition NewAccountQueryOptionsOnFinalBlock :: AccountQueryOptions where
  "NewAccountQueryOptionsOnFinalBlock =
     \<lparr>OnFinalBlock = True, aq_BlockNonce = noOptionalUint64, aq_BlockHash = []\<rparr>"

definition NewAccountQueryOptionsWithBlockNonce :: "u64 \<Rightarrow> AccountQueryOptions" where
  "NewAccountQueryOptionsWithBlockNonce n =
     \<lparr>OnFinalBlock = False, aq_BlockNonce = \<lparr>ou_Value = n, ou_HasValue = True\<rparr>, aq_BlockHash = []\<rparr>"

definition NewAccountQueryOptionsWithBlockHash :: "bytes \<Rightarrow> AccountQueryOptions" where
  "NewAccountQueryOptionsWithBlockHash h =
     \<lparr>OnFinalBlock = False, aq_BlockNonce = noOptionalUint64, aq_BlockHash = h\<rparr>"

record AccountInfo =
  ac_Address :: string
  ac_Nonce :: u64
  ac_Balance :: string

record AccountOnBlock =
  aob_Account :: AccountInfo
  aob_BlockCoordinates :: BlockCoordinates

record AccountESDTTokenData =
  td_Identifier :: string
  td_Balance :: string

record AccountESDTBalance =
  esdt_TokenData :: AccountESDTTokenData
  esdt_BlockCoordinates :: BlockCoordinates

record AccountBalanceOnBlock =
  abb_Balance :: string
  abb_Nonce :: OptionalUint64
  abb_BlockCoordinates :: BlockCoordinates

record GenesisBalanceDelegation =
  gd_Address :: string
  gd_Value :: string

record GenesisBalance =
  gb_Address :: string
  gb_Supply :: string
  gb_Balance :: string
  gb_StakingValue :: string
  gb_Delegation :: GenesisBalanceDelegation

text \<open>
  A finite non-negative \<open>float64\<close>, as mantissa times a power of two: the value of the
  \<open>--gas-price-modifier\<close> flag.
\<close>

record float64 =
  mantissa :: nat
  exponent :: int

record NetworkConfig =
  nc_BlockchainName :: string
  nc_NetworkID :: string
  nc_NetworkName :: string
  nc_MinGasPrice :: u64
  nc_MinGasLimit :: u64
  nc_GasPerDataByte :: u64
  nc_GasPriceModifier :: float64
  nc_GasLimitCustomTransfer :: u64
  nc_ExtraGasLimitGuardedTx :: u64
  nc_ExtraGasLimitRelayedTxV3 :: u64

record NodeStatus =
  ns_Version :: string
  ns_ConnectedPeersCounts :: string
  ns_ObserverPublicKey :: string
  ns_IsSyncing :: int
  ns_CurrentEpoch :: u32
  ns_HighestNonce :: u64
  ns_HighestFinalNonce :: u64

record EpochStart =
  es_Nonce :: u64

record AggregatedNodeStatus =
  ans_Version :: string
  ans_ConnectedPeersCounts :: "string \<rightharpoonup> int"
  ans_ObserverPublicKey :: string
  ans_Synced :: bool
  ans_LatestBlock :: BlockSummary
  ans_OldestBlockWithHistoricalState :: BlockSummary

text \<open>The envelope of every response of the observer's API: an error message and the payload.\<close>

record 'd ApiResponse =
  ar_Error :: string
  ar_Code :: string
  ar_Data :: 'd

definition GetErrorMessage :: "'d ApiResponse \<Rightarrow> string" where
  "GetErrorMessage r = ar_Error r"

section \<open>Network objects read by the server (fields of mx-chain-core-go)\<close>

record Event =
  ev_Address :: string
  ev_Identifier :: string
  ev_Topics :: "bytes list"
  ev_Data :: bytes

record ApiTransactionResult =
  tx_Type :: string
  tx_ProcessingTypeOnSource :: string
  tx_ProcessingTypeOnDestination :: string
  tx_Hash :: string
  tx_Nonce :: u64
  tx_Value :: string
  tx_Receiver :: string
  tx_Sender :: string
  tx_SenderUsername :: bytes
  tx_ReceiverUsername :: bytes
  tx_GasPrice :: u64
  tx_GasLimit :: u64
  tx_Data :: bytes
  tx_Signature :: string
  tx_RelayerAddress :: string
  tx_RelayerSignature :: string
  tx_GuardianAddr :: string
  tx_Epoch :: u32
  tx_SourceShard :: u32
  tx_DestinationShard :: u32
  tx_BlockNonce :: u64
  tx_MiniBlockType :: string
  tx_MiniBlockHash :: string
  tx_Timestamp :: int
  tx_Status :: string
  tx_Logs :: "Event list option"
  tx_OriginalTransactionHash :: string
  tx_PreviousTransactionHash :: string
  tx_OriginalSender :: string
  tx_IsRefund :: bool
  tx_Operation :: string
  tx_InitiallyPaidFee :: string

record ApiReceipt =
  rc_Value :: "int option"
  rc_SndAddr :: string
  rc_Data :: string
  rc_TxHash :: string

record MiniBlock =
  mb_Type :: string
  mb_Hash :: string
  mb_ProcessingType :: string
  mb_ConstructionState :: string
  mb_SourceShard :: u32
  mb_DestinationShard :: u32
  mb_Transactions :: "ApiTransactionResult list"
  mb_Receipts :: "ApiReceipt list"

record Block =
  bk_Nonce :: u64
  bk_Round :: u64
  bk_Epoch :: u32
  bk_Shard :: u32
  bk_NumTxs :: u32
  bk_Hash :: string
  bk_PrevBlockHash :: string
  bk_StateRootHash :: string
  bk_Status :: string
  bk_Timestamp :: int
  bk_MiniBlocks :: "MiniBlock list"

text \<open>The transaction of mx-chain-proxy-go that \<open>/construction\<close> builds, signs and sends.\<close>

record PreparedTransaction =
  pt_Nonce :: u64
  pt_Value :: string
  pt_Receiver :: string
  pt_Sender :: string
  pt_GasPrice :: u64
  pt_GasLimit :: u64
  pt_Data :: bytes
  pt_Signature :: string
  pt_ChainID :: string
  pt_Version :: u32

section \<open>Rosetta objects returned by the server\<close>

record Amount =
  am_Value :: string
  am_Currency :: Currency

record Operation =
  op_Index :: "int option"
  op_Type :: string
  op_Status :: "string option"
  op_Address :: string
  op_Amount :: Amount

datatype object_value =
    OString string
  | OBytes bytes
  | OUint64 u64
  | OUint32 u32
  | OInt int
  | OCounts "string \<rightharpoonup> int"

type_synonym objectsMap = "string \<rightharpoonup> object_value"

record Transaction =
  rt_Hash :: string
  rt_Operations :: "Operation list"
  rt_Metadata :: "objectsMap option"

record BlockIdentifier =
  bi_Index :: int
  bi_Hash :: string

record PartialBlockIdentifier =
  pbi_Index :: "int option"
  pbi_Hash :: "string option"

section \<open>The interface of the network provider (server/services/interface.go)\<close>

record 'w NetworkProvider =
  np_IsOffline :: bool
  np_GetBlockchainName :: string
  np_GetNativeCurrency :: Currency
  np_GetCustomCurrencies :: "Currency list"
  np_GetCustomCurrencyBySymbol :: "string \<Rightarrow> Currency option"
  np_HasCustomCurrency :: "string \<Rightarrow> bool"
  np_GetNetworkConfig :: NetworkConfig
  np_GetGenesisBlockSummary :: BlockSummary
  np_GetGenesisTimestamp :: int
  np_GetGenesisBalances :: "'w \<Rightarrow> (go_error + GenesisBalance list) \<times> 'w"
  np_GetNodeStatus :: "'w \<Rightarrow> (go_error + AggregatedNodeStatus) \<times> 'w"
  np_GetBlockByNonce :: "u64 \<Rightarrow> 'w \<Rightarrow> (go_error + Block) \<times> 'w"
  np_GetBlockByHash :: "string \<Rightarrow> 'w \<Rightarrow> (go_error + Block) \<times> 'w"
  np_GetAccount :: "string \<Rightarrow> 'w \<Rightarrow> (go_error + AccountOnBlock) \<times> 'w"
  np_GetAccountBalance :: "string \<Rightarrow> string \<Rightarrow> AccountQueryOptions \<Rightarrow> 'w \<Rightarrow> (go_error + AccountBalanceOnBlock) \<times> 'w"
  np_IsAddressObserved :: "string \<Rightarrow> go_error + bool"
  np_ComputeShardIdOfPubKey :: "bytes \<Rightarrow> u32"
  np_ConvertPubKeyToAddress :: "bytes \<Rightarrow> string"
  np_ConvertAddressToPubKey :: "string \<Rightarrow> go_error + bytes"
  np_SendTransaction :: "PreparedTransaction \<Rightarrow> 'w \<Rightarrow> (go_error + string) \<times> 'w"
  np_ComputeTransactionHash :: "PreparedTransaction \<Rightarrow> go_error + string"
  np_ComputeReceiptHash :: "ApiReceipt \<Rightarrow> go_error + string"
  np_ComputeTransactionFeeForMoveBalance :: "ApiTransactionResult \<Rightarrow> int"
  np_GetMempoolTransactionByHash :: "string \<Rightarrow> 'w \<Rightarrow> (go_error + ApiTransactionResult option) \<times> 'w"
  np_IsReleaseSiriusActive :: "u32 \<Rightarrow> bool"
  np_IsReleaseSpicaActive :: "u32 \<Rightarrow> bool"

text \<open>
  Two parts of the interface come with laws that their clients rely on. A currency registry
  answers consistently whether and with which decimals a symbol is supported; a release
  schedule never turns a release off again.
\<close>

locale currency_registry =
  fixes lookup_currency :: "string \<Rightarrow> Currency option" and has_currency :: "string \<Rightarrow> bool"
  assumes has_iff_lookup: "has_currency s \<longleftrightarrow> (\<exists>c. lookup_currency s = Some c)"
    and lookup_symbol: "lookup_currency s = Some c \<Longrightarrow> Symbol c = s"
begin

lemma lookup_of_supported: "has_currency s \<Longrightarrow> \<exists>c. lookup_currency s = Some c \<and> Symbol c = s"
  by (auto simp: has_iff_lookup lookup_symbol)

lemma unsupported_lookup: "\<not> has_currency s \<Longrightarrow> lookup_currency s = None"
  by (cases "lookup_currency s") (auto simp: has_iff_lookup)

end

locale release_schedule =
  fixes active :: "u32 \<Rightarrow> bool"
  assumes stays_active: "active e \<Longrightarrow> e \<le> e' \<Longrightarrow> active e'"
begin

lemma inactive_before: "\<not> active e' \<Longrightarrow> e \<le> e' \<Longrightarrow> \<not> active e"
  using stays_active by blast

end

text \<open>
  The whole interface: a currency registry, the two release schedules, fees that are not
  negative, and an observation test that fails exactly on the addresses that do not decode.
\<close>

locale network_provider =
  currency_registry "np_GetCustomCurrencyBySymbol P" "np_HasCustomCurrency P" +
  sirius: release_schedule "np_IsReleaseSiriusActive P" +
  spica: release_schedule "np_IsReleaseSpicaActive P"
  for P :: "'w NetworkProvider" +
  assumes fee_nonneg: "0 \<le> np_ComputeTransactionFeeForMoveBalance P tx"
    and observed_needs_pubkey:
      "np_IsAddressObserved P a = Inr b \<Longrightarrow> \<exists>k. np_ConvertAddressToPubKey P a = Inr k"

end
