(* ===== verification/Operations.thy ===== *)
theory Operations
  imports Resources
begin

text \<open>
  Amounts, operations and the currency side of the provider, as the services use them:
  \<open>common.go\<close>, \<open>operations.go\<close>, \<open>transactionFilters.go\<close> (the filter over Rosetta
  transactions), the identifiers of \<open>converters.go\<close> and \<open>networkProviderExtension.go\<close>, all in
  \<open>server/services\<close>. The lemmas give the numeric reading of an amount and the balance sheet
  of a list of operations, and show that filtering keeps it.
\<close>

section \<open>Amounts (common.go)\<close>

definition isZeroAmount :: "string \<Rightarrow> bool" where
  "isZeroAmount amount =
     (if amount = [] then True
      else (case big_SetString amount of Some value \<Rightarrow> value = 0 | None \<Rightarrow> False))"

definition isNonZeroAmount :: "string \<Rightarrow> bool" where
  "isNonZeroAmount amount = (\<not> isZeroAmount amount)"

definition isZeroBigIntOrNil :: "int option \<Rightarrow> bool" where
  "isZeroBigIntOrNil value = (case value of None \<Rightarrow> True | Some v \<Rightarrow> v = 0)"

definition getMagnitudeOfAmount :: "string \<Rightarrow> string" where
  "getMagnitudeOfAmount amount = trim_char (CHR ''-'') amount"

definition multiplyUint64 :: "u64 \<Rightarrow> u64 \<Rightarrow> int" where
  "multiplyUint64 a b = uint a * uint b"

definition addBigInt :: "int \<Rightarrow> int \<Rightarrow> int" where
  "addBigInt a b = a + b"

section \<open>Identifiers and units (converters.go)\<close>

definition blockToIdentifier :: "Block \<Rightarrow> BlockIdentifier" where
  "blockToIdentifier block = \<lparr>bi_Index = int64_of_uint64 (bk_Nonce block), bi_Hash = bk_Hash block\<rparr>"

definition accountBlockCoordinatesToIdentifier :: "BlockCoordinates \<Rightarrow> BlockIdentifier" where
  "accountBlockCoordinatesToIdentifier block =
     \<lparr>bi_Index = int64_of_uint64 (bc_Nonce block), bi_Hash = bc_Hash block\<rparr>"

definition blockSummaryToIdentifier :: "BlockSummary \<Rightarrow> BlockIdentifier" where
  "blockSummaryToIdentifier b = \<lparr>bi_Index = int64_of_uint64 (bs_Nonce b), bi_Hash = bs_Hash b\<rparr>"

definition blockIdentifierToAccountQueryOptions ::
  "PartialBlockIdentifier option \<Rightarrow> go_error + AccountQueryOptions" where
  "blockIdentifierToAccountQueryOptions identifier =
     (case identifier of
        None \<Rightarrow> Inr NewAccountQueryOptionsOnFinalBlock
      | Some i \<Rightarrow>
          (case pbi_Index i of
             Some index \<Rightarrow> Inr (NewAccountQueryOptionsWithBlockNonce (uint64_of_int64 index))
           | None \<Rightarrow>
               (case pbi_Hash i of
                  Some h \<Rightarrow> bind_err (hex_decode h) (\<lambda>decodedHash.
                              Inr (NewAccountQueryOptionsWithBlockHash decodedHash))
                | None \<Rightarrow> Inr NewAccountQueryOptionsOnFinalBlock)))"

definition timestampInMilliseconds :: "int \<Rightarrow> int" where
  "timestampInMilliseconds timestamp = int64_mul timestamp 1000"

definition ensureEvenLengthOfHexString :: "string \<Rightarrow> string" where
  "ensureEvenLengthOfHexString s = (if length s mod 2 = 1 then CHR ''0'' # s else s)"

definition stringToHex :: "string \<Rightarrow> string" where
  "stringToHex s = ensureEvenLengthOfHexString (hex_encode s)"

definition amountToHex :: "string \<Rightarrow> string" where
  "amountToHex value =
     (case big_SetString value of
        None \<Rightarrow> []
      | Some bigAmount \<Rightarrow> ensureEvenLengthOfHexString (hex_encode (big_Bytes bigAmount)))"

definition hexToAmount :: "string \<Rightarrow> go_error + string" where
  "hexToAmount hexString =
     bind_err (hex_decode hexString) (\<lambda>amountBytes. Inr (int_to_dec (big_SetBytes amountBytes)))"

section \<open>Operations (operations.go, transactionFilters.go)\<close>

definition opGenesisBalanceMovement :: string where "opGenesisBalanceMovement = ''GenesisBalanceMovement''"
definition opTransfer :: string where "opTransfer = ''Transfer''"
definition opFee :: string where "opFee = ''Fee''"
definition opReward :: string where "opReward = ''Reward''"
definition opScResult :: string where "opScResult = ''SmartContractResult''"
definition opFeeRefundAsScResult :: string where
  "opFeeRefundAsScResult = ''FeeRefundAsSmartContractResult''"
definition opDeveloperRewardsAsScResult :: string where
  "opDeveloperRewardsAsScResult = ''DeveloperRewardsAsSmartContractResult''"
definition opDeveloperRewards :: string where "opDeveloperRewards = ''DeveloperRewards''"
definition opFeeOfInvalidTx :: string where "opFeeOfInvalidTx = ''FeeOfInvalidTransaction''"
definition opFeeRefund :: string where "opFeeRefund = ''FeeRefund''"
definition opCustomTransfer :: string where "opCustomTransfer = ''CustomTransfer''"

definition SupportedOperationTypes :: "string list" where
  "SupportedOperationTypes =
     [opGenesisBalanceMovement, opTransfer, opFee, opReward, opScResult, opFeeRefundAsScResult,
      opDeveloperRewardsAsScResult, opDeveloperRewards, opFeeOfInvalidTx, opFeeRefund, opCustomTransfer]"

definition opStatusSuccess :: string where "opStatusSuccess = ''Success''"
definition opStatusFailure :: string where "opStatusFailure = ''Failure''"

definition supportedOperationStatuses :: "(string \<times> bool) list" where
  "supportedOperationStatuses = [(opStatusSuccess, True), (opStatusFailure, False)]"

text \<open>An operation as the composite literals of the source make it: no index and no status yet.\<close>

definition newOperation :: "string \<Rightarrow> string \<Rightarrow> Amount \<Rightarrow> Operation" where
  "newOperation ty address amount =
     \<lparr>op_Index = None, op_Type = ty, op_Status = None, op_Address = address, op_Amount = amount\<rparr>"

fun indexFrom :: "nat \<Rightarrow> Operation list \<Rightarrow> Operation list" where
  "indexFrom i [] = []"
| "indexFrom i (o1 # os) = o1\<lparr>op_Index := Some (int i)\<rparr> # indexFrom (Suc i) os"

definition indexOperations :: "Operation list \<Rightarrow> Operation list" where
  "indexOperations operations = indexFrom 0 operations"

definition filterOperationsByAddress ::
  "Operation list \<Rightarrow> (string \<Rightarrow> go_error + bool) \<Rightarrow> go_error + Operation list" where
  "filterOperationsByAddress operations predicate =
     bind_err (filter_err (\<lambda>operation. predicate (op_Address operation)) operations)
       (\<lambda>filtered. Inr (indexOperations filtered))"

definition filterOutOperationsWithZeroAmount :: "Operation list \<Rightarrow> Operation list" where
  "filterOutOperationsWithZeroAmount operations =
     indexOperations (filter (\<lambda>operation. isNonZeroAmount (am_Value (op_Amount operation))) operations)"

definition applyDefaultStatusOnOperations :: "Operation list \<Rightarrow> Operation list" where
  "applyDefaultStatusOnOperations operations =
     map (\<lambda>operation. if op_Status operation = None then operation\<lparr>op_Status := Some opStatusSuccess\<rparr>
                      else operation) operations"

definition filterOutRosettaTransactionsWithNoOperations :: "Transaction list \<Rightarrow> Transaction list" where
  "filterOutRosettaTransactionsWithNoOperations rosettaTxs =
     filter (\<lambda>rosettaTx. length (rt_Operations rosettaTx) > 0) rosettaTxs"

section \<open>Currencies of amounts (networkProviderExtension.go)\<close>

definition getNativeCurrency :: "'w NetworkProvider \<Rightarrow> Currency" where
  "getNativeCurrency P =
     \<lparr>Symbol = Symbol (np_GetNativeCurrency P), Decimals = Decimals (np_GetNativeCurrency P)\<rparr>"

definition getNativeCurrencySymbol :: "'w NetworkProvider \<Rightarrow> string" where
  "getNativeCurrencySymbol P = Symbol (np_GetNativeCurrency P)"

definition isNativeCurrency :: "'w NetworkProvider \<Rightarrow> Currency \<Rightarrow> bool" where
  "isNativeCurrency P currency =
     (Symbol currency = Symbol (np_GetNativeCurrency P) \<and> Decimals currency = Decimals (np_GetNativeCurrency P))"

definition isNativeCurrencySymbol :: "'w NetworkProvider \<Rightarrow> string \<Rightarrow> bool" where
  "isNativeCurrencySymbol P symbol = (symbol = getNativeCurrencySymbol P)"

definition valueToNativeAmount :: "'w NetworkProvider \<Rightarrow> string \<Rightarrow> Amount" where
  "valueToNativeAmount P value = \<lparr>am_Value = value, am_Currency = getNativeCurrency P\<rparr>"

definition valueToCustomAmount :: "'w NetworkProvider \<Rightarrow> string \<Rightarrow> string \<Rightarrow> Amount" where
  "valueToCustomAmount P value currencySymbol =
     (let currency = (case np_GetCustomCurrencyBySymbol P currencySymbol of
                        Some c \<Rightarrow> c | None \<Rightarrow> \<lparr>Symbol = currencySymbol, Decimals = 0\<rparr>)
      in \<lparr>am_Value = value, am_Currency = \<lparr>Symbol = Symbol currency, Decimals = Decimals currency\<rparr>\<rparr>)"

definition valueToAmount :: "'w NetworkProvider \<Rightarrow> string \<Rightarrow> string \<Rightarrow> Amount" where
  "valueToAmount P value currencySymbol =
     (if isNativeCurrencySymbol P currencySymbol then valueToNativeAmount P value
      else valueToCustomAmount P value currencySymbol)"

definition getGenesisBlockIdentifier :: "'w NetworkProvider \<Rightarrow> BlockIdentifier" where
  "getGenesisBlockIdentifier P = blockSummaryToIdentifier (np_GetGenesisBlockSummary P)"

text \<open>\<open>core.IsSmartContractAddress\<close> is code of mx-chain-core-go: the parameter \<open>isSC\<close>.\<close>

definition isUserPubKey :: "(bytes \<Rightarrow> bool) \<Rightarrow> bytes \<Rightarrow> bool" where
  "isUserPubKey isSC pubKey = (\<not> isSC pubKey)"

definition isUserAddress :: "(bytes \<Rightarrow> bool) \<Rightarrow> 'w NetworkProvider \<Rightarrow> string \<Rightarrow> bool" where
  "isUserAddress isSC P address =
     (case np_ConvertAddressToPubKey P address of
        Inl err \<Rightarrow> False
      | Inr pubKey \<Rightarrow> isUserPubKey isSC pubKey)"

definition isContractAddress :: "(bytes \<Rightarrow> bool) \<Rightarrow> 'w NetworkProvider \<Rightarrow> string \<Rightarrow> bool" where
  "isContractAddress isSC P address = (\<not> isUserAddress isSC P address)"

section \<open>The numeric reading of amounts and operations\<close>

text \<open>
  \<open>amount_value\<close> is the number an amount denotes (0 for text that is not a number).
  \<open>effect_on\<close> is what a list of operations adds to the balance of an address in a currency:
  operations with status \<open>Failure\<close> change nothing.
\<close>

definition amount_value :: "string \<Rightarrow> int" where
  "amount_value s = (case big_SetString s of None \<Rightarrow> 0 | Some v \<Rightarrow> v)"

definition op_value :: "Operation \<Rightarrow> int" where
  "op_value operation =
     (if op_Status operation = Some opStatusFailure then 0 else amount_value (am_Value (op_Amount operation)))"

definition op_effect :: "Currency \<Rightarrow> Operation \<Rightarrow> int" where
  "op_effect cur operation = (if am_Currency (op_Amount operation) = cur then op_value operation else 0)"

definition total_effect :: "Currency \<Rightarrow> Operation list \<Rightarrow> int" where
  "total_effect cur operations = sum_list (map (op_effect cur) operations)"

definition effect_on :: "string \<Rightarrow> Currency \<Rightarrow> Operation list \<Rightarrow> int" where
  "effect_on address cur operations =
     sum_list (map (\<lambda>operation. if op_Address operation = address then op_effect cur operation else 0) operations)"

lemma amount_value_int_to_dec [simp, num]: "amount_value (int_to_dec i) = i"
  by (simp add: amount_value_def)

lemma amount_value_minus [num]:
  "is_decimal v \<Longrightarrow> amount_value (CHR ''-'' # v) = - amount_value v"
  by (auto simp: amount_value_def big_SetString_unsigned is_decimal_parse)

lemma amount_value_minus_opt [num]:
  "v = [] \<or> is_decimal v \<Longrightarrow> amount_value (CHR ''-'' # v) = - amount_value v"
  by (auto simp: num) (simp add: amount_value_def parse_digits_def big_SetString_def)

lemma amount_value_decimal_nonneg: "is_decimal v \<Longrightarrow> 0 \<le> amount_value v"
  by (auto simp: amount_value_def big_SetString_unsigned split: option.splits)

lemma is_decimal_int_to_dec: "0 \<le> i \<Longrightarrow> is_decimal (int_to_dec i)"
  by (simp add: int_to_dec_def)

lemma amount_value_minus_int_to_dec [simp, num]:
  "0 \<le> i \<Longrightarrow> amount_value (CHR ''-'' # int_to_dec i) = - i"
  by (simp add: amount_value_minus is_decimal_int_to_dec)

lemma zero_amount_value: "isZeroAmount s \<Longrightarrow> amount_value s = 0"
  by (auto simp: isZeroAmount_def amount_value_def big_SetString_def split: if_splits option.splits)

lemma isZeroAmount_iff:
  "isZeroAmount s \<longleftrightarrow> s = [] \<or> big_SetString s = Some 0"
  by (auto simp: isZeroAmount_def split: option.splits)

lemma total_effect_simps [simp]:
  "total_effect cur [] = 0"
  "total_effect cur (o1 # os) = op_effect cur o1 + total_effect cur os"
  "total_effect cur (xs @ ys) = total_effect cur xs + total_effect cur ys"
  by (simp_all add: total_effect_def)

lemma total_effect_concat: "total_effect cur (concat xss) = sum_list (map (total_effect cur) xss)"
  by (induction xss) simp_all

lemma effect_on_simps [simp]:
  "effect_on a cur [] = 0"
  "effect_on a cur (o1 # os) = (if op_Address o1 = a then op_effect cur o1 else 0) + effect_on a cur os"
  "effect_on a cur (xs @ ys) = effect_on a cur xs + effect_on a cur ys"
  by (simp_all add: effect_on_def)

lemma total_effect_as_sum:
  assumes "finite A" "op_Address ` set ops \<subseteq> A"
  shows "total_effect cur ops = (\<Sum>a \<in> A. effect_on a cur ops)"
  using assms(2)
proof (induction ops)
  case Nil
  then show ?case by simp
next
  case (Cons o1 os)
  have "(\<Sum>a \<in> A. if op_Address o1 = a then op_effect cur o1 else 0) = op_effect cur o1"
    using Cons.prems assms(1) by simp
  with Cons show ?case by (simp add: sum.distrib)
qed

section \<open>What the filters keep\<close>

lemma indexFrom_simps [simp]:
  "length (indexFrom i os) = length os"
  "map op_Type (indexFrom i os) = map op_Type os"
  "map op_Address (indexFrom i os) = map op_Address os"
  "map op_Amount (indexFrom i os) = map op_Amount os"
  "map op_Status (indexFrom i os) = map op_Status os"
  by (induction os arbitrary: i) simp_all

lemma indexFrom_nth: "k < length os \<Longrightarrow> op_Index (indexFrom i os ! k) = Some (int (i + k))"
  by (induction os arbitrary: i k) (auto simp: nth_Cons split: nat.splits)

lemma total_effect_indexFrom [simp]: "total_effect cur (indexFrom i os) = total_effect cur os"
  by (induction os arbitrary: i) (simp_all add: op_effect_def op_value_def)

lemma effect_on_indexFrom [simp]: "effect_on a cur (indexFrom i os) = effect_on a cur os"
  by (induction os arbitrary: i) (simp_all add: op_effect_def op_value_def)

text \<open>The indices of a list of operations are its positions, the form Rosetta requires.\<close>

definition well_indexed :: "Operation list \<Rightarrow> bool" where
  "well_indexed os = (\<forall>k < length os. op_Index (os ! k) = Some (int k))"

lemma well_indexed_indexOperations [simp]: "well_indexed (indexOperations os)"
  by (simp add: well_indexed_def indexOperations_def indexFrom_nth)

lemma well_indexed_applyDefault:
  "well_indexed os \<Longrightarrow> well_indexed (applyDefaultStatusOnOperations os)"
  by (simp add: well_indexed_def applyDefaultStatusOnOperations_def)

lemma indexFrom_set:
  "o1 \<in> set (indexFrom i os) \<Longrightarrow> \<exists>o2 \<in> set os. \<exists>k. o1 = o2\<lparr>op_Index := Some k\<rparr>"
  by (induction os arbitrary: i) auto

lemma effect_on_applyDefault [simp]:
  "effect_on a cur (applyDefaultStatusOnOperations os) = effect_on a cur os"
  by (induction os)
    (auto simp: applyDefaultStatusOnOperations_def op_effect_def op_value_def opStatusSuccess_def
        opStatusFailure_def)

lemma applyDefault_status:
  "o1 \<in> set (applyDefaultStatusOnOperations os) \<Longrightarrow> op_Status o1 \<noteq> None"
  by (auto simp: applyDefaultStatusOnOperations_def split: if_splits)

lemma effect_on_filterOutZero [simp]:
  "effect_on a cur (filterOutOperationsWithZeroAmount os) = effect_on a cur os"
proof -
  have "effect_on a cur (filter (\<lambda>x. isNonZeroAmount (am_Value (op_Amount x))) os) = effect_on a cur os"
    unfolding effect_on_def
    by (rule sum_list_map_filter_zero)
      (auto simp: isNonZeroAmount_def op_effect_def op_value_def zero_amount_value)
  then show ?thesis by (simp add: filterOutOperationsWithZeroAmount_def indexOperations_def)
qed

lemma effect_on_filter_address:
  "effect_on a cur (filter (\<lambda>x. p (op_Address x)) os) = (if p a then effect_on a cur os else 0)"
  by (induction os) auto

lemma filterOperationsByAddress_effect:
  assumes "filterOperationsByAddress os p = Inr ys"
  shows "effect_on a cur ys = (if p a = Inr True then effect_on a cur os else 0)"
  using assms
  by (auto simp: filterOperationsByAddress_def filter_err_Inr indexOperations_def
      effect_on_filter_address [where p = "\<lambda>x. p x = Inr True"])

lemma filterOperationsByAddress_address:
  assumes "filterOperationsByAddress os p = Inr ys" "o1 \<in> set ys"
  shows "p (op_Address o1) = Inr True \<and> (\<exists>o2 \<in> set os. \<exists>k. o1 = o2\<lparr>op_Index := Some k\<rparr>)"
  using assms
  by (auto simp: filterOperationsByAddress_def filter_err_Inr indexOperations_def dest!: indexFrom_set)

end
