(* ===== verification/Errors.thy ===== *)
theory Errors
  imports Operations
begin

text \<open>
  The error catalogue of the API (\<open>server/services/errors.go\<close>): codes, prototypes, the factory
  that turns a code (and an original error) into a Rosetta error, and the list of possible
  errors that \<open>/network/options\<close> publishes.
\<close>

section \<open>Codes and prototypes\<close>

definition ErrUnknown :: int where "ErrUnknown = 1"
definition ErrUnableToGetAccount :: int where "ErrUnableToGetAccount = 2"
definition ErrInvalidAccountAddress :: int where "ErrInvalidAccountAddress = 3"
definition ErrUnableToGetBlock :: int where "ErrUnableToGetBlock = 4"
definition ErrNotImplemented :: int where "ErrNotImplemented = 5"
definition ErrUnableToSubmitTransaction :: int where "ErrUnableToSubmitTransaction = 6"
definition ErrMalformedValue :: int where "ErrMalformedValue = 7"
definition ErrUnableToGetNodeStatus :: int where "ErrUnableToGetNodeStatus = 8"
definition ErrMustQueryByIndexOrByHash :: int where "ErrMustQueryByIndexOrByHash = 9"
definition ErrConstruction :: int where "ErrConstruction = 10"
definition ErrUnableToGetNetworkConfig :: int where "ErrUnableToGetNetworkConfig = 11"
definition ErrUnsupportedCurveType :: int where "ErrUnsupportedCurveType = 12"
definition ErrInsufficientGasLimit :: int where "ErrInsufficientGasLimit = 13"
definition ErrGasPriceTooLow :: int where "ErrGasPriceTooLow = 14"
definition ErrTransactionIsNotInPool :: int where "ErrTransactionIsNotInPool = 15"
definition ErrCannotParsePoolTransaction :: int where "ErrCannotParsePoolTransaction = 16"
definition ErrInvalidInputParam :: int where "ErrInvalidInputParam = 17"
definition ErrOfflineMode :: int where "ErrOfflineMode = 18"
definition ErrUnableToGetGenesisBlock :: int where "ErrUnableToGetGenesisBlock = 19"

lemmas err_code_defs =
  ErrUnknown_def ErrUnableToGetAccount_def ErrInvalidAccountAddress_def ErrUnableToGetBlock_def
  ErrNotImplemented_def ErrUnableToSubmitTransaction_def ErrMalformedValue_def
  ErrUnableToGetNodeStatus_def ErrMustQueryByIndexOrByHash_def ErrConstruction_def
  ErrUnableToGetNetworkConfig_def ErrUnsupportedCurveType_def ErrInsufficientGasLimit_def
  ErrGasPriceTooLow_def ErrTransactionIsNotInPool_def ErrCannotParsePoolTransaction_def
  ErrInvalidInputParam_def ErrOfflineMode_def ErrUnableToGetGenesisBlock_def

record errPrototype =
  ep_code :: int
  ep_message :: string
  ep_retriable :: bool

text \<open>The zero value of the struct, which Go's map lookup yields for a missing key.\<close>

definition zeroPrototype :: errPrototype where
  "zeroPrototype = \<lparr>ep_code = 0, ep_message = [], ep_retriable = False\<rparr>"

record errFactory =
  prototypes :: "errPrototype list"
  prototypesMap :: "int \<rightharpoonup> errPrototype"

record RosettaError =
  re_Code :: int
  re_Message :: string
  re_Retriable :: bool
  re_Details :: "go_error option"

definition errPrototypes :: "errPrototype list" where
  "errPrototypes =
     [\<lparr>ep_code = ErrUnknown, ep_message = ''unknown error'', ep_retriable = False\<rparr>,
      \<lparr>ep_code = ErrUnableToGetAccount, ep_message = ''unable to get account'', ep_retriable = True\<rparr>,
      \<lparr>ep_code = ErrInvalidAccountAddress, ep_message = ''invalid account address'', ep_retriable = False\<rparr>,
      \<lparr>ep_code = ErrUnableToGetBlock, ep_message = ''unable to get block'', ep_retriable = True\<rparr>,
      \<lparr>ep_code = ErrNotImplemented, ep_message = ''operation not implemented'', ep_retriable = False\<rparr>,
      \<lparr>ep_code = ErrUnableToSubmitTransaction, ep_message = ''unable to submit transaction'', ep_retriable = True\<rparr>,
      \<lparr>ep_code = ErrMalformedValue, ep_message = ''malformed value'', ep_retriable = False\<rparr>,
      \<lparr>ep_code = ErrUnableToGetNodeStatus, ep_message = ''unable to get node status'', ep_retriable = True\<rparr>,
      \<lparr>ep_code = ErrMustQueryByIndexOrByHash, ep_message = ''must query block by index or by hash'', ep_retriable = False\<rparr>,
      \<lparr>ep_code = ErrConstruction, ep_message = ''construction error'', ep_retriable = False\<rparr>,
      \<lparr>ep_code = ErrUnableToGetNetworkConfig, ep_message = ''unable to get network config'', ep_retriable = True\<rparr>,
      \<lparr>ep_code = ErrInvalidInputParam, ep_message = ''Invalid input param: '', ep_retriable = False\<rparr>,
      \<lparr>ep_code = ErrUnsupportedCurveType, ep_message = ''unsupported curve type'', ep_retriable = False\<rparr>,
      \<lparr>ep_code = ErrInsufficientGasLimit, ep_message = ''insufficient gas limit'', ep_retriable = False\<rparr>,
      \<lparr>ep_code = ErrGasPriceTooLow, ep_message = ''gas price is to low'', ep_retriable = False\<rparr>,
      \<lparr>ep_code = ErrTransactionIsNotInPool, ep_message = ''transaction is not in pool'', ep_retriable = True\<rparr>,
      \<lparr>ep_code = ErrCannotParsePoolTransaction, ep_message = ''cannot parse pool transaction'', ep_retriable = False\<rparr>,
      \<lparr>ep_code = ErrOfflineMode, ep_message = ''rosetta server is in offline mode'', ep_retriable = False\<rparr>,
      \<lparr>ep_code = ErrUnableToGetGenesisBlock, ep_message = ''unable to get genesis block'', ep_retriable = True\<rparr>]"

definition createErrPrototypes :: "errPrototype list \<times> (int \<rightharpoonup> errPrototype)" where
  "createErrPrototypes =
     (errPrototypes, fold (\<lambda>prototype m. m(ep_code prototype \<mapsto> prototype)) errPrototypes Map.empty)"

definition newErrFactory :: errFactory where
  "newErrFactory =
     \<lparr>prototypes = fst createErrPrototypes, prototypesMap = snd createErrPrototypes\<rparr>"

definition getPossibleErrors :: "errFactory \<Rightarrow> RosettaError list" where
  "getPossibleErrors factory =
     map (\<lambda>prototype. \<lparr>re_Code = ep_code prototype, re_Message = ep_message prototype,
            re_Retriable = ep_retriable prototype, re_Details = None\<rparr>) (prototypes factory)"

definition getPrototypeByCode :: "errFactory \<Rightarrow> int \<Rightarrow> errPrototype" where
  "getPrototypeByCode factory code =
     (case prototypesMap factory code of
        Some prototype \<Rightarrow> prototype
      | None \<Rightarrow> (case prototypesMap factory ErrUnknown of Some p \<Rightarrow> p | None \<Rightarrow> zeroPrototype))"

definition newErr :: "errFactory \<Rightarrow> int \<Rightarrow> RosettaError" where
  "newErr factory code =
     (let prototype = getPrototypeByCode factory code
      in \<lparr>re_Code = code, re_Message = ep_message prototype,
          re_Retriable = ep_retriable prototype, re_Details = None\<rparr>)"

definition newErrWithOriginal :: "errFactory \<Rightarrow> int \<Rightarrow> go_error \<Rightarrow> RosettaError" where
  "newErrWithOriginal factory code originalError =
     (newErr factory code)\<lparr>re_Details := Some originalError\<rparr>"

text \<open>The errors of the services that are not plain codes.\<close>

definition errCannotRecognizeEvent :: go_error where
  "errCannotRecognizeEvent = ErrorsNew ''cannot recognize transaction event''"

definition errCannotParseRelayedV1 :: go_error where
  "errCannotParseRelayedV1 = ErrorsNew ''cannot parse relayed V1 transaction''"

section \<open>Answers of the services\<close>

text \<open>
  A service answers with a value, refuses with an error of the catalogue, or crashes: a run-time
  panic is not turned into an error by any code of the source.
\<close>

datatype failure = Refused RosettaError | Crashed string

definition failWith :: "errFactory \<Rightarrow> int \<Rightarrow> go_error \<Rightarrow> failure" where
  "failWith factory code err =
     (case err of Panic what \<Rightarrow> Crashed what | _ \<Rightarrow> Refused (newErrWithOriginal factory code err))"

definition orFail :: "errFactory \<Rightarrow> int \<Rightarrow> go_error + 'a \<Rightarrow> failure + 'a" where
  "orFail factory code r = (case r of Inl err \<Rightarrow> Inl (failWith factory code err) | Inr x \<Rightarrow> Inr x)"

definition nilPointer :: failure where
  "nilPointer = Crashed ''nil pointer dereference''"

lemma orFail_Inr [simp]: "orFail factory code r = Inr x \<longleftrightarrow> r = Inr x"
  by (cases r) (simp_all add: orFail_def)

lemma orFail_simps [simp]: "orFail factory code (Inr x) = Inr x"
  by (simp add: orFail_def)

section \<open>The catalogue is complete and consistent\<close>

lemma errPrototypes_codes: "set (map ep_code errPrototypes) = {1..19}"
proof -
  have "set (map ep_code errPrototypes) =
      {1, 2, 3, 4, 5, 6, 7, 8, 9, 10, 11, 12, 13, 14, 15, 16, 17, 18, 19}"
    by (simp add: errPrototypes_def err_code_defs insert_commute)
  also have "\<dots> = {1..19}" by (rule set_eqI) (simp, presburger)
  finally show ?thesis .
qed

lemma errPrototypes_distinct: "distinct (map ep_code errPrototypes)"
  by (simp add: errPrototypes_def err_code_defs)

lemma fold_prototypes_lookup:
  "distinct (map ep_code ps) \<Longrightarrow> p \<in> set ps \<Longrightarrow>
     fold (\<lambda>prototype m. m(ep_code prototype \<mapsto> prototype)) ps m (ep_code p) = Some p"
proof (induction ps arbitrary: m)
  case Nil
  then show ?case by simp
next
  case (Cons q ps)
  have frame: "ep_code q \<notin> ep_code ` set ps' \<Longrightarrow>
      fold (\<lambda>prototype m. m(ep_code prototype \<mapsto> prototype)) ps' m' (ep_code q) = m' (ep_code q)" for ps' m'
    by (induction ps' arbitrary: m') auto
  show ?case
  proof (cases "p = q")
    case True
    then show ?thesis using Cons.prems by (simp add: frame del: fun_upd_apply) simp
  next
    case False
    then show ?thesis using Cons by simp
  qed
qed

lemma getPrototypeByCode_known:
  "p \<in> set errPrototypes \<Longrightarrow> getPrototypeByCode newErrFactory (ep_code p) = p"
  by (simp add: getPrototypeByCode_def newErrFactory_def createErrPrototypes_def
      fold_prototypes_lookup errPrototypes_distinct)

lemma newErr_published:
  assumes "1 \<le> code" "code \<le> 19"
  shows "newErr newErrFactory code \<in> set (getPossibleErrors newErrFactory)"
proof -
  from assms have "code \<in> set (map ep_code errPrototypes)"
    by (simp only: errPrototypes_codes atLeastAtMost_iff)
  then obtain p where p: "p \<in> set errPrototypes" "code = ep_code p" by auto
  then have "getPrototypeByCode newErrFactory code = p" by (simp add: getPrototypeByCode_known)
  with p show ?thesis
    by (auto simp: newErr_def getPossibleErrors_def newErrFactory_def createErrPrototypes_def image_iff)
qed

end
