(* ===== verification/Events.thy ===== *)
theory Events
  imports Errors
begin

text \<open>
  The events a transaction leaves in its log, and the controller that turns the raw ones
  (an identifier, topics and data) into typed ones: \<open>transactionEvents.go\<close> and
  \<open>transactionEventsController.go\<close> in \<open>server/services\<close>.
\<close>

section \<open>Constants (constants.go)\<close>

text \<open>The names the network gives to its events; those of mx-chain-core-go with their values.\<close>

definition transactionEventSignalError :: string where "transactionEventSignalError = ''signalError''"
definition transactionEventSCDeploy :: string where "transactionEventSCDeploy = ''SCDeploy''"
definition transactionEventTransferValueOnly :: string where
  "transactionEventTransferValueOnly = ''transferValueOnly''"
definition transactionEventESDTTransfer :: string where "transactionEventESDTTransfer = ''ESDTTransfer''"
definition transactionEventESDTNFTTransfer :: string where
  "transactionEventESDTNFTTransfer = ''ESDTNFTTransfer''"
definition transactionEventESDTNFTCreate :: string where "transactionEventESDTNFTCreate = ''ESDTNFTCreate''"
definition transactionEventESDTNFTBurn :: string where "transactionEventESDTNFTBurn = ''ESDTNFTBurn''"
definition transactionEventESDTNFTAddQuantity :: string where
  "transactionEventESDTNFTAddQuantity = ''ESDTNFTAddQuantity''"
definition transactionEventMultiESDTNFTTransfer :: string where
  "transactionEventMultiESDTNFTTransfer = ''MultiESDTNFTTransfer''"
definition transactionEventESDTLocalBurn :: string where "transactionEventESDTLocalBurn = ''ESDTLocalBurn''"
definition transactionEventESDTLocalMint :: string where "transactionEventESDTLocalMint = ''ESDTLocalMint''"
definition transactionEventESDTWipe :: string where "transactionEventESDTWipe = ''ESDTWipe''"
definition transactionEventClaimDeveloperRewards :: string where
  "transactionEventClaimDeveloperRewards = ''ClaimDeveloperRewards''"
definition transactionEventTopicInvalidMetaTransaction :: string where
  "transactionEventTopicInvalidMetaTransaction = ''meta transaction is invalid''"
definition transactionEventTopicInvalidMetaTransactionNotEnoughGas :: string where
  "transactionEventTopicInvalidMetaTransactionNotEnoughGas = ''meta transaction is invalid: not enough gas''"
definition transactionEventDataExecuteOnDestContext :: string where
  "transactionEventDataExecuteOnDestContext = ''ExecuteOnDestContext''"
definition transactionEventDataAsyncCall :: string where "transactionEventDataAsyncCall = ''AsyncCall''"

definition argumentsSeparator :: char where "argumentsSeparator = CHR ''@''"

definition sendingValueToNonPayableContractDataPrefix :: string where
  "sendingValueToNonPayableContractDataPrefix =
     argumentsSeparator # hex_encode ''sending value to non payable contract''"

definition numTopicsOfEventESDTTransfer :: nat where "numTopicsOfEventESDTTransfer = 4"
definition numTopicsPerTransferOfEventMultiESDTNFTTransfer :: nat where
  "numTopicsPerTransferOfEventMultiESDTNFTTransfer = 3"
definition numTopicsOfEventESDTLocalBurn :: nat where "numTopicsOfEventESDTLocalBurn = 3"
definition numTopicsOfEventESDTLocalMint :: nat where "numTopicsOfEventESDTLocalMint = 3"
definition numTopicsOfEventESDTWipe :: nat where "numTopicsOfEventESDTWipe = 4"
definition numTopicsOfEventESDTNFTCreate :: nat where "numTopicsOfEventESDTNFTCreate = 4"
definition numTopicsOfEventESDTNFTBurn :: nat where "numTopicsOfEventESDTNFTBurn = 3"
definition numTopicsOfEventESDTNFTAddQuantity :: nat where "numTopicsOfEventESDTNFTAddQuantity = 3"
definition numTopicsOfEventSCDeployBeforeSirius :: nat where "numTopicsOfEventSCDeployBeforeSirius = 2"
definition numTopicsOfEventClaimDeveloperRewards :: nat where "numTopicsOfEventClaimDeveloperRewards = 2"
definition numTopicsOfEventTransferValueOnlyAfterSirius :: nat where
  "numTopicsOfEventTransferValueOnlyAfterSirius = 2"

lemmas numTopics_defs =
  numTopicsOfEventESDTTransfer_def numTopicsPerTransferOfEventMultiESDTNFTTransfer_def
  numTopicsOfEventESDTLocalBurn_def numTopicsOfEventESDTLocalMint_def numTopicsOfEventESDTWipe_def
  numTopicsOfEventESDTNFTCreate_def numTopicsOfEventESDTNFTBurn_def
  numTopicsOfEventESDTNFTAddQuantity_def numTopicsOfEventSCDeployBeforeSirius_def
  numTopicsOfEventClaimDeveloperRewards_def numTopicsOfEventTransferValueOnlyAfterSirius_def

lemmas event_name_defs =
  transactionEventSignalError_def transactionEventSCDeploy_def transactionEventTransferValueOnly_def
  transactionEventESDTTransfer_def transactionEventESDTNFTTransfer_def transactionEventESDTNFTCreate_def
  transactionEventESDTNFTBurn_def transactionEventESDTNFTAddQuantity_def
  transactionEventMultiESDTNFTTransfer_def transactionEventESDTLocalBurn_def
  transactionEventESDTLocalMint_def transactionEventESDTWipe_def transactionEventClaimDeveloperRewards_def

section \<open>Typed events (transactionEvents.go)\<close>

record eventTransferValueOnly =
  tv_sender :: string
  tv_receiver :: string
  tv_value :: string

record eventESDT =
  senderAddress :: string
  receiverAddress :: string
  otherAddress :: string
  esdt_identifier :: string
  nonceAsBytes :: bytes
  esdt_value :: string

record eventSCDeploy =
  contractAddress :: string
  deployerAddress :: string

record eventClaimDeveloperRewards =
  cdr_value :: string
  cdr_receiverAddress :: string

definition newEventESDTFromBasicTopics :: "bytes list \<Rightarrow> go_error + eventESDT" where
  "newEventESDTFromBasicTopics topics =
     (if length topics < 3
      then Inl (Errorf [Txt ''newEventESDTFromBasicTopics: bad number of topics: '',
                        Txt (nat_to_dec (length topics))])
      else Inr \<lparr>senderAddress = [], receiverAddress = [], otherAddress = [],
                esdt_identifier = topics ! 0, nonceAsBytes = topics ! 1,
                esdt_value = int_to_dec (big_SetBytes (topics ! 2))\<rparr>)"

definition getBaseIdentifier :: "eventESDT \<Rightarrow> string" where
  "getBaseIdentifier event = esdt_identifier event"

definition getExtendedIdentifier :: "eventESDT \<Rightarrow> string" where
  "getExtendedIdentifier event =
     (if length (nonceAsBytes event) > 0
      then esdt_identifier event @ ''-'' @ hex_encode (nonceAsBytes event)
      else esdt_identifier event)"

section \<open>The controller (transactionEventsController.go)\<close>


text \<open>
  \<open>badNumberOfTopics\<close> is the \<open>fmt.Errorf("%w: bad number of topics for ... = %d", ...)\<close> that
  every extractor returns for an event with the wrong number of topics.
\<close>

definition badNumberOfTopics :: "string \<Rightarrow> nat \<Rightarrow> go_error" where
  "badNumberOfTopics what numTopics =
     Errorf [Err errCannotRecognizeEvent, Txt '': bad number of topics for '', Txt what,
             Txt '' = '', Txt (nat_to_dec numTopics)]"

definition hasEvents :: "ApiTransactionResult \<Rightarrow> bool" where
  "hasEvents tx = (case tx_Logs tx of None \<Rightarrow> False | Some events \<Rightarrow> length events > 0)"

text \<open>\<open>tx.Logs.Events\<close>, read behind \<open>hasEvents\<close>.\<close>

definition logEvents :: "ApiTransactionResult \<Rightarrow> Event list" where
  "logEvents tx = (case tx_Logs tx of None \<Rightarrow> [] | Some events \<Rightarrow> events)"

definition eventHasTopic :: "Event \<Rightarrow> string \<Rightarrow> bool" where
  "eventHasTopic event topicToFind = list_ex (\<lambda>topic. topic = topicToFind) (ev_Topics event)"

definition hasAnySignalError :: "ApiTransactionResult \<Rightarrow> bool" where
  "hasAnySignalError tx =
     (if \<not> hasEvents tx then False
      else list_ex (\<lambda>event. ev_Identifier event = transactionEventSignalError) (logEvents tx))"

definition hasSignalErrorOfSendingValueToNonPayableContract :: "ApiTransactionResult \<Rightarrow> bool" where
  "hasSignalErrorOfSendingValueToNonPayableContract tx =
     (if \<not> hasEvents tx then False
      else list_ex (\<lambda>event. ev_Identifier event = transactionEventSignalError \<and>
             has_prefix (ev_Data event) sendingValueToNonPayableContractDataPrefix) (logEvents tx))"

definition hasSignalErrorOfMetaTransactionIsInvalid :: "ApiTransactionResult \<Rightarrow> bool" where
  "hasSignalErrorOfMetaTransactionIsInvalid tx =
     (if \<not> hasEvents tx then False
      else list_ex (\<lambda>event. ev_Identifier event = transactionEventSignalError \<and>
             (eventHasTopic event transactionEventTopicInvalidMetaTransaction \<or>
              eventHasTopic event transactionEventTopicInvalidMetaTransactionNotEnoughGas)) (logEvents tx))"

definition findManyEventsByIdentifier :: "ApiTransactionResult \<Rightarrow> string \<Rightarrow> Event list" where
  "findManyEventsByIdentifier tx ident =
     (if \<not> hasEvents tx then []
      else filter (\<lambda>event. ev_Identifier event = ident) (logEvents tx))"

definition extractEventSCDeploy ::
  "'w NetworkProvider \<Rightarrow> ApiTransactionResult \<Rightarrow> go_error + eventSCDeploy list" where
  "extractEventSCDeploy P tx =
     traverse (\<lambda>event.
       let numTopics = length (ev_Topics event) in
       if numTopics < numTopicsOfEventSCDeployBeforeSirius
       then Inl (badNumberOfTopics ''SCdeploy event'' numTopics)
       else Inr \<lparr>contractAddress = ev_Address event,
                 deployerAddress = np_ConvertPubKeyToAddress P (ev_Topics event ! 1)\<rparr>)
       (findManyEventsByIdentifier tx transactionEventSCDeploy)"

definition decideEffectiveEventTransferValueOnlyAfterSirius ::
  "'w NetworkProvider \<Rightarrow> Event \<Rightarrow> go_error + eventTransferValueOnly option" where
  "decideEffectiveEventTransferValueOnlyAfterSirius P event =
     (let numTopics = length (ev_Topics event) in
      if numTopics \<noteq> numTopicsOfEventTransferValueOnlyAfterSirius
      then Inl (badNumberOfTopics (CHR 0x27 # ''transferValueOnly'' @ [CHR 0x27]) numTopics)
      else
        let valueBytes = ev_Topics event ! 0; receiverPubKey = ev_Topics event ! 1 in
        if length valueBytes = 0 then Inr None
        else if ev_Data event \<noteq> transactionEventDataExecuteOnDestContext \<and>
                ev_Data event \<noteq> transactionEventDataAsyncCall then Inr None
        else
          let sender = ev_Address event in
          bind_err (np_ConvertAddressToPubKey P sender) (\<lambda>senderPubKey.
            let isIntrashard =
                  np_ComputeShardIdOfPubKey P senderPubKey = np_ComputeShardIdOfPubKey P receiverPubKey
            in if \<not> isIntrashard then Inr None
               else Inr (Some \<lparr>tv_sender = sender,
                               tv_receiver = np_ConvertPubKeyToAddress P receiverPubKey,
                               tv_value = int_to_dec (big_SetBytes valueBytes)\<rparr>)))"

definition extractEventTransferValueOnly ::
  "'w NetworkProvider \<Rightarrow> ApiTransactionResult \<Rightarrow> go_error + eventTransferValueOnly list" where
  "extractEventTransferValueOnly P tx =
     (if \<not> np_IsReleaseSiriusActive P (tx_Epoch tx) then Inr []
      else bind_err
             (traverse (decideEffectiveEventTransferValueOnlyAfterSirius P)
                (findManyEventsByIdentifier tx transactionEventTransferValueOnly))
             (\<lambda>decided. Inr (map the (filter (\<lambda>e. e \<noteq> None) decided))))"

text \<open>
  Single transfers of an event, and the transfers of a multi-transfer event. Go's \<open>%\<close>
  truncates towards zero: for an event without topics \<open>numTopicsExceptLast\<close> is -1 and the
  remainder is -1, which is not 0.
\<close>

definition singleTransferOfEvent :: "'w NetworkProvider \<Rightarrow> Event \<Rightarrow> go_error + eventESDT" where
  "singleTransferOfEvent P event =
     (let numTopics = length (ev_Topics event) in
      if numTopics \<noteq> numTopicsOfEventESDTTransfer
      then Inl (badNumberOfTopics ''(ESDT|ESDTNFT)Transfer event'' numTopics)
      else bind_err (newEventESDTFromBasicTopics (ev_Topics event)) (\<lambda>typedEvent.
        Inr (typedEvent\<lparr>receiverAddress := np_ConvertPubKeyToAddress P (ev_Topics event ! 3),
                        senderAddress := ev_Address event\<rparr>)))"

definition multiTransfersOfEvent :: "'w NetworkProvider \<Rightarrow> Event \<Rightarrow> go_error + eventESDT list" where
  "multiTransfersOfEvent P event =
     (let numTopics = length (ev_Topics event);
          numTopicsPerTransfer = numTopicsPerTransferOfEventMultiESDTNFTTransfer
      in if numTopics = 0 \<or> (numTopics - 1) mod numTopicsPerTransfer \<noteq> 0
         then Inl (badNumberOfTopics ''MultiESDTNFTTransfer event'' numTopics)
         else
           let numTransfers = (numTopics - 1) div numTopicsPerTransfer;
               receiver = np_ConvertPubKeyToAddress P (ev_Topics event ! (numTopics - 1))
           in traverse (\<lambda>i.
                bind_err (newEventESDTFromBasicTopics
                            (take 3 (drop (i * numTopicsPerTransfer) (ev_Topics event))))
                  (\<lambda>typedEvent. Inr (typedEvent\<lparr>receiverAddress := receiver,
                                                senderAddress := ev_Address event\<rparr>)))
                [0..<numTransfers])"

definition extractEventsESDTOrESDTNFTTransfers ::
  "'w NetworkProvider \<Rightarrow> ApiTransactionResult \<Rightarrow> go_error + eventESDT list" where
  "extractEventsESDTOrESDTNFTTransfers P tx =
     (let rawEventsESDTTransfer = findManyEventsByIdentifier tx transactionEventESDTTransfer;
          rawEventsESDTNFTTransfer = findManyEventsByIdentifier tx transactionEventESDTNFTTransfer;
          rawEventsMultiESDTNFTTransfer = findManyEventsByIdentifier tx transactionEventMultiESDTNFTTransfer
      in bind_err (traverse (singleTransferOfEvent P) (rawEventsESDTTransfer @ rawEventsESDTNFTTransfer))
           (\<lambda>singles. bind_err (traverse (multiTransfersOfEvent P) rawEventsMultiESDTNFTTransfer)
             (\<lambda>multis. Inr (singles @ concat multis))))"

definition extractEventsESDTLocalBurn :: "ApiTransactionResult \<Rightarrow> go_error + eventESDT list" where
  "extractEventsESDTLocalBurn tx =
     traverse (\<lambda>event.
       let numTopics = length (ev_Topics event) in
       if numTopics \<noteq> numTopicsOfEventESDTLocalBurn
       then Inl (badNumberOfTopics ''ESDTLocalBurn event'' numTopics)
       else bind_err (newEventESDTFromBasicTopics (ev_Topics event)) (\<lambda>typedEvent.
         Inr (typedEvent\<lparr>otherAddress := ev_Address event\<rparr>)))
       (findManyEventsByIdentifier tx transactionEventESDTLocalBurn)"

definition extractEventsESDTLocalMint :: "ApiTransactionResult \<Rightarrow> go_error + eventESDT list" where
  "extractEventsESDTLocalMint tx =
     traverse (\<lambda>event.
       let numTopics = length (ev_Topics event) in
       if numTopics \<noteq> numTopicsOfEventESDTLocalMint
       then Inl (badNumberOfTopics ''ESDTLocalMint event'' numTopics)
       else bind_err (newEventESDTFromBasicTopics (ev_Topics event)) (\<lambda>typedEvent.
         Inr (typedEvent\<lparr>otherAddress := ev_Address event\<rparr>)))
       (findManyEventsByIdentifier tx transactionEventESDTLocalMint)"

definition extractEventsESDTWipe ::
  "'w NetworkProvider \<Rightarrow> ApiTransactionResult \<Rightarrow> go_error + eventESDT list" where
  "extractEventsESDTWipe P tx =
     traverse (\<lambda>event.
       let numTopics = length (ev_Topics event) in
       if numTopics \<noteq> numTopicsOfEventESDTWipe
       then Inl (badNumberOfTopics ''ESDTWipe event'' numTopics)
       else bind_err (newEventESDTFromBasicTopics (ev_Topics event)) (\<lambda>typedEvent.
         Inr (typedEvent\<lparr>otherAddress := np_ConvertPubKeyToAddress P (ev_Topics event ! 3)\<rparr>)))
       (findManyEventsByIdentifier tx transactionEventESDTWipe)"

definition extractEventsESDTNFTCreate :: "ApiTransactionResult \<Rightarrow> go_error + eventESDT list" where
  "extractEventsESDTNFTCreate tx =
     traverse (\<lambda>event.
       let numTopics = length (ev_Topics event) in
       if numTopics \<noteq> numTopicsOfEventESDTNFTCreate
       then Inl (badNumberOfTopics (transactionEventESDTNFTCreate @ '' event'') numTopics)
       else bind_err (newEventESDTFromBasicTopics (ev_Topics event)) (\<lambda>typedEvent.
         Inr (typedEvent\<lparr>otherAddress := ev_Address event\<rparr>)))
       (findManyEventsByIdentifier tx transactionEventESDTNFTCreate)"

definition extractEventsESDTNFTBurn :: "ApiTransactionResult \<Rightarrow> go_error + eventESDT list" where
  "extractEventsESDTNFTBurn tx =
     traverse (\<lambda>event.
       let numTopics = length (ev_Topics event) in
       if numTopics \<noteq> numTopicsOfEventESDTNFTBurn
       then Inl (badNumberOfTopics (transactionEventESDTNFTBurn @ '' event'') numTopics)
       else bind_err (newEventESDTFromBasicTopics (ev_Topics event)) (\<lambda>typedEvent.
         Inr (typedEvent\<lparr>otherAddress := ev_Address event\<rparr>)))
       (findManyEventsByIdentifier tx transactionEventESDTNFTBurn)"

definition extractEventsESDTNFTAddQuantity :: "ApiTransactionResult \<Rightarrow> go_error + eventESDT list" where
  "extractEventsESDTNFTAddQuantity tx =
     traverse (\<lambda>event.
       let numTopics = length (ev_Topics event) in
       if numTopics \<noteq> numTopicsOfEventESDTNFTAddQuantity
       then Inl (badNumberOfTopics (transactionEventESDTNFTAddQuantity @ '' event'') numTopics)
       else bind_err (newEventESDTFromBasicTopics (ev_Topics event)) (\<lambda>typedEvent.
         Inr (typedEvent\<lparr>otherAddress := ev_Address event\<rparr>)))
       (findManyEventsByIdentifier tx transactionEventESDTNFTAddQuantity)"

definition extractEventsClaimDeveloperRewards ::
  "'w NetworkProvider \<Rightarrow> ApiTransactionResult \<Rightarrow> go_error + eventClaimDeveloperRewards list" where
  "extractEventsClaimDeveloperRewards P tx =
     traverse (\<lambda>event.
       let numTopics = length (ev_Topics event) in
       if numTopics \<noteq> numTopicsOfEventClaimDeveloperRewards
       then Inl (badNumberOfTopics (transactionEventClaimDeveloperRewards @ '' event'') numTopics)
       else Inr \<lparr>cdr_value = int_to_dec (big_SetBytes (ev_Topics event ! 0)),
                 cdr_receiverAddress = np_ConvertPubKeyToAddress P (ev_Topics event ! 1)\<rparr>)
       (findManyEventsByIdentifier tx transactionEventClaimDeveloperRewards)"

lemmas extractor_defs =
  extractEventsESDTLocalBurn_def extractEventsESDTLocalMint_def extractEventsESDTWipe_def
  extractEventsESDTNFTCreate_def extractEventsESDTNFTBurn_def extractEventsESDTNFTAddQuantity_def

section \<open>The contract of an extractor\<close>

text \<open>
  Every extractor looks up the events of one identifier, refuses the transaction when one of
  them has a bad number of topics, and otherwise returns one typed event per raw event, in
  their order. What a client needs is proved once for this contract.
\<close>

locale event_extractor =
  fixes extractor :: "ApiTransactionResult \<Rightarrow> go_error + 't list" and ident :: string
    and topics_ok :: "nat \<Rightarrow> bool" and typed_of :: "Event \<Rightarrow> 't \<Rightarrow> bool"
  assumes extract_succeeds_iff:
      "(\<exists>ts. extractor tx = Inr ts) \<longleftrightarrow>
         (\<forall>ev \<in> set (findManyEventsByIdentifier tx ident). topics_ok (length (ev_Topics ev)))"
    and extract_typed:
      "extractor tx = Inr ts \<Longrightarrow> list_all2 typed_of (findManyEventsByIdentifier tx ident) ts"
begin

lemma extract_fails_iff:
  "(\<exists>e. extractor tx = Inl e) \<longleftrightarrow>
     (\<exists>ev \<in> set (findManyEventsByIdentifier tx ident). \<not> topics_ok (length (ev_Topics ev)))"
  using extract_succeeds_iff [of tx] by (cases "extractor tx") auto

lemma extract_length:
  "extractor tx = Inr ts \<Longrightarrow> length ts = length (findManyEventsByIdentifier tx ident)"
  using extract_typed list_all2_lengthD by fastforce

lemma extract_none: "findManyEventsByIdentifier tx ident = [] \<Longrightarrow> extractor tx = Inr []"
  using extract_succeeds_iff [of tx] extract_typed [of tx] by auto

lemma extract_member:
  "extractor tx = Inr ts \<Longrightarrow> t \<in> set ts \<Longrightarrow>
     \<exists>ev \<in> set (findManyEventsByIdentifier tx ident). typed_of ev t"
  by (metis extract_typed in_set_conv_nth list_all2_conv_all_nth)

end

lemma findManyEventsByIdentifier_set:
  "set (findManyEventsByIdentifier tx ident) = {ev \<in> set (logEvents tx). ev_Identifier ev = ident}"
  by (auto simp: findManyEventsByIdentifier_def hasEvents_def logEvents_def split: option.splits)

lemma findManyEventsByIdentifier_filter:
  "findManyEventsByIdentifier tx ident = filter (\<lambda>ev. ev_Identifier ev = ident) (logEvents tx)"
  by (auto simp: findManyEventsByIdentifier_def hasEvents_def logEvents_def split: option.splits)

lemma hasAnySignalError_iff:
  "hasAnySignalError tx \<longleftrightarrow> (\<exists>ev \<in> set (logEvents tx). ev_Identifier ev = transactionEventSignalError)"
  by (auto simp: hasAnySignalError_def hasEvents_def logEvents_def list_ex_iff split: option.splits)

lemma newEventESDT_Inr:
  "newEventESDTFromBasicTopics topics = Inr t \<longleftrightarrow>
     3 \<le> length topics \<and>
     t = \<lparr>senderAddress = [], receiverAddress = [], otherAddress = [], esdt_identifier = topics ! 0,
          nonceAsBytes = topics ! 1, esdt_value = int_to_dec (big_SetBytes (topics ! 2))\<rparr>"
  by (auto simp: newEventESDTFromBasicTopics_def)

text \<open>What a typed ESDT event says of the raw one: the token, its nonce, the value, an address.\<close>

definition esdt_typed_of :: "(Event \<Rightarrow> string) \<Rightarrow> Event \<Rightarrow> eventESDT \<Rightarrow> bool" where
  "esdt_typed_of addr ev t =
     (esdt_identifier t = ev_Topics ev ! 0 \<and> nonceAsBytes t = ev_Topics ev ! 1 \<and>
      esdt_value t = int_to_dec (big_SetBytes (ev_Topics ev ! 2)) \<and> otherAddress t = addr ev)"

text \<open>The six extractors with one address per event share this shape of loop body.\<close>

lemma esdt_loop_body:
  fixes n :: nat and addr :: "Event \<Rightarrow> string" and err :: "nat \<Rightarrow> go_error"
  assumes "3 \<le> n"
  defines "body \<equiv> \<lambda>event. let numTopics = length (ev_Topics event) in
       if numTopics \<noteq> n then Inl (err numTopics)
       else bind_err (newEventESDTFromBasicTopics (ev_Topics event)) (\<lambda>typedEvent.
         Inr (typedEvent\<lparr>otherAddress := addr event\<rparr>))"
  shows "(\<exists>ts. traverse body evs = Inr ts) \<longleftrightarrow> (\<forall>ev \<in> set evs. length (ev_Topics ev) = n)"
    and "traverse body evs = Inr ts \<Longrightarrow> list_all2 (esdt_typed_of addr) evs ts"
proof -
  show "(\<exists>ts. traverse body evs = Inr ts) \<longleftrightarrow> (\<forall>ev \<in> set evs. length (ev_Topics ev) = n)"
    unfolding traverse_succeeds_iff body_def
    using assms(1) by (auto simp: Let_def newEventESDT_Inr split: if_splits)
  assume "traverse body evs = Inr ts"
  then show "list_all2 (esdt_typed_of addr) evs ts"
    unfolding traverse_Inr_iff
    by (rule list_all2_mono) (auto simp: body_def Let_def newEventESDT_Inr esdt_typed_of_def split: if_splits)
qed

text \<open>The extractors without a decoding step only check the number of topics.\<close>

lemma guarded_loop_body:
  fixes bad :: "Event \<Rightarrow> bool" and err :: "Event \<Rightarrow> go_error"
  shows "(\<exists>ts. traverse (\<lambda>ev. if bad ev then Inl (err ev) else Inr (f ev)) evs = Inr ts) \<longleftrightarrow>
      (\<forall>ev \<in> set evs. \<not> bad ev)"
    and "traverse (\<lambda>ev. if bad ev then Inl (err ev) else Inr (f ev)) evs = Inr ts \<Longrightarrow>
      list_all2 (\<lambda>ev t. t = f ev) evs ts"
proof -
  show "(\<exists>ts. traverse (\<lambda>ev. if bad ev then Inl (err ev) else Inr (f ev)) evs = Inr ts) \<longleftrightarrow>
      (\<forall>ev \<in> set evs. \<not> bad ev)"
    unfolding traverse_succeeds_iff by auto
  assume "traverse (\<lambda>ev. if bad ev then Inl (err ev) else Inr (f ev)) evs = Inr ts"
  then show "list_all2 (\<lambda>ev t. t = f ev) evs ts"
    unfolding traverse_Inr_iff by (rule list_all2_mono) (auto split: if_splits)
qed

interpretation localBurn: event_extractor extractEventsESDTLocalBurn transactionEventESDTLocalBurn
  "\<lambda>n. n = 3" "esdt_typed_of ev_Address"
  unfolding extractEventsESDTLocalBurn_def numTopics_defs
  by unfold_locales (rule esdt_loop_body(1), simp, erule esdt_loop_body(2) [rotated], simp)

interpretation localMint: event_extractor extractEventsESDTLocalMint transactionEventESDTLocalMint
  "\<lambda>n. n = 3" "esdt_typed_of ev_Address"
  unfolding extractEventsESDTLocalMint_def numTopics_defs
  by unfold_locales (rule esdt_loop_body(1), simp, erule esdt_loop_body(2) [rotated], simp)

interpretation wipe: event_extractor "extractEventsESDTWipe P" transactionEventESDTWipe
  "\<lambda>n. n = 4" "esdt_typed_of (\<lambda>ev. np_ConvertPubKeyToAddress P (ev_Topics ev ! 3))" for P
  unfolding extractEventsESDTWipe_def numTopics_defs
  by unfold_locales (rule esdt_loop_body(1), simp, erule esdt_loop_body(2) [rotated], simp)

interpretation nftCreate: event_extractor extractEventsESDTNFTCreate transactionEventESDTNFTCreate
  "\<lambda>n. n = 4" "esdt_typed_of ev_Address"
  unfolding extractEventsESDTNFTCreate_def numTopics_defs
  by unfold_locales (rule esdt_loop_body(1), simp, erule esdt_loop_body(2) [rotated], simp)

interpretation nftBurn: event_extractor extractEventsESDTNFTBurn transactionEventESDTNFTBurn
  "\<lambda>n. n = 3" "esdt_typed_of ev_Address"
  unfolding extractEventsESDTNFTBurn_def numTopics_defs
  by unfold_locales (rule esdt_loop_body(1), simp, erule esdt_loop_body(2) [rotated], simp)

interpretation nftAddQuantity: event_extractor extractEventsESDTNFTAddQuantity
  transactionEventESDTNFTAddQuantity "\<lambda>n. n = 3" "esdt_typed_of ev_Address"
  unfolding extractEventsESDTNFTAddQuantity_def numTopics_defs
  by unfold_locales (rule esdt_loop_body(1), simp, erule esdt_loop_body(2) [rotated], simp)

interpretation scDeploy: event_extractor "extractEventSCDeploy P" transactionEventSCDeploy
  "\<lambda>n. 2 \<le> n" "\<lambda>ev t. contractAddress t = ev_Address ev \<and>
     deployerAddress t = np_ConvertPubKeyToAddress P (ev_Topics ev ! 1)" for P
  unfolding extractEventSCDeploy_def numTopics_defs Let_def
  by unfold_locales
    (simp only: guarded_loop_body(1) not_less, drule guarded_loop_body(2), auto elim: list_all2_mono)

interpretation claimRewards: event_extractor "extractEventsClaimDeveloperRewards P"
  transactionEventClaimDeveloperRewards "\<lambda>n. n = 2"
  "\<lambda>ev t. cdr_value t = int_to_dec (big_SetBytes (ev_Topics ev ! 0)) \<and>
     cdr_receiverAddress t = np_ConvertPubKeyToAddress P (ev_Topics ev ! 1)" for P
  unfolding extractEventsClaimDeveloperRewards_def numTopics_defs Let_def
  by unfold_locales
    (simp only: guarded_loop_body(1) not_not, drule guarded_loop_body(2), auto elim: list_all2_mono)

section \<open>Transfers\<close>

text \<open>
  A multi-transfer event lists, for each transfer, three topics (token, nonce, value), and then
  one topic for the common receiver. \<open>transfer_topics\<close> is that layout.
\<close>

definition transfer_topics :: "(bytes \<times> bytes \<times> bytes) list \<Rightarrow> bytes \<Rightarrow> bytes list" where
  "transfer_topics transfers receiver =
     concat (map (\<lambda>(token, nonce, v). [token, nonce, v]) transfers) @ [receiver]"

definition transfer_event :: "string \<Rightarrow> string \<Rightarrow> bytes \<times> bytes \<times> bytes \<Rightarrow> eventESDT" where
  "transfer_event sender receiver transfer =
     (case transfer of (token, nonce, v) \<Rightarrow>
        \<lparr>senderAddress = sender, receiverAddress = receiver, otherAddress = [], esdt_identifier = token,
         nonceAsBytes = nonce, esdt_value = int_to_dec (big_SetBytes v)\<rparr>)"

lemma length_transfer_topics [simp]: "length (transfer_topics ts r) = 3 * length ts + 1"
  by (induction ts) (auto simp: transfer_topics_def)

lemma transfer_topics_slice:
  "i < length ts \<Longrightarrow> take 3 (drop (i * 3) (transfer_topics ts r)) = (case ts ! i of (a, b, c) \<Rightarrow> [a, b, c])"
proof (induction ts arbitrary: i)
  case Nil
  then show ?case by simp
next
  case (Cons t ts)
  obtain a b c where t: "t = (a, b, c)" by (cases t)
  show ?case
  proof (cases i)
    case 0
    then show ?thesis by (simp add: transfer_topics_def t)
  next
    case (Suc j)
    have "drop (i * 3) (transfer_topics (t # ts) r) = drop (j * 3) (transfer_topics ts r)"
      by (simp add: Suc t transfer_topics_def eval_nat_numeral)
    then show ?thesis using Cons Suc by simp
  qed
qed

lemma multiTransfersOfEvent_transfers:
  assumes "ev_Topics ev = transfer_topics ts r"
  shows "multiTransfersOfEvent P ev =
    Inr (map (transfer_event (ev_Address ev) (np_ConvertPubKeyToAddress P r)) ts)"
proof -
  have "transfer_topics ts r ! (3 * length ts) = r"
    by (metis Suc_eq_plus1 diff_Suc_1 last_conv_nth last_snoc length_transfer_topics
        append_is_Nil_conv list.distinct(1) transfer_topics_def)
  then have *: "multiTransfersOfEvent P ev = traverse (\<lambda>i.
      bind_err (newEventESDTFromBasicTopics (take 3 (drop (i * 3) (transfer_topics ts r))))
        (\<lambda>t. Inr (t\<lparr>receiverAddress := np_ConvertPubKeyToAddress P r, senderAddress := ev_Address ev\<rparr>)))
      [0..<length ts]"
    by (simp add: multiTransfersOfEvent_def assms numTopics_defs Let_def)
  also have "\<dots> = Inr (map (\<lambda>i. transfer_event (ev_Address ev) (np_ConvertPubKeyToAddress P r) (ts ! i)) [0..<length ts])"
    by (rule traverse_all_Inr)
      (auto simp: transfer_topics_slice newEventESDTFromBasicTopics_def transfer_event_def split: prod.splits)
  also have "map (\<lambda>i. transfer_event (ev_Address ev) (np_ConvertPubKeyToAddress P r) (ts ! i)) [0..<length ts]
      = map (transfer_event (ev_Address ev) (np_ConvertPubKeyToAddress P r)) ts"
    by (rule nth_equalityI) simp_all
  finally show ?thesis .
qed

lemma three_topics_layout:
  assumes "length topics = 3 * n + 1"
  shows "\<exists>ts r. topics = transfer_topics ts r"
  using assms
proof (induction n arbitrary: topics)
  case 0
  then obtain r where "topics = [r]" by (cases topics) auto
  then show ?case by (intro exI [of _ "[]"] exI [of _ r]) (simp add: transfer_topics_def)
next
  case (Suc n)
  then obtain a b c rest where t: "topics = a # b # c # rest" "length rest = 3 * n + 1"
    by (auto simp: length_Suc_conv eval_nat_numeral)
  then obtain ts r where "rest = transfer_topics ts r" using Suc.IH by blast
  with t show ?case
    by (intro exI [of _ "(a, b, c) # ts"] exI [of _ r]) (simp add: transfer_topics_def)
qed

lemma multiTransfersOfEvent_succeeds_iff:
  "(\<exists>evs. multiTransfersOfEvent P ev = Inr evs) \<longleftrightarrow> length (ev_Topics ev) mod 3 = 1"
proof (cases "length (ev_Topics ev) mod 3 = 1")
  case True
  then have "length (ev_Topics ev) = 3 * (length (ev_Topics ev) div 3) + 1" by presburger
  then obtain ts r where "ev_Topics ev = transfer_topics ts r" using three_topics_layout by blast
  then show ?thesis using True by (simp add: multiTransfersOfEvent_transfers)
next
  case False
  then have "length (ev_Topics ev) = 0 \<or> (length (ev_Topics ev) - 1) mod 3 \<noteq> 0" by presburger
  then have "multiTransfersOfEvent P ev = Inl (badNumberOfTopics ''MultiESDTNFTTransfer event'' (length (ev_Topics ev)))"
    by (simp add: multiTransfersOfEvent_def numTopics_defs Let_def)
  then show ?thesis using False by simp
qed

lemma singleTransferOfEvent_succeeds_iff:
  "(\<exists>t. singleTransferOfEvent P ev = Inr t) \<longleftrightarrow> length (ev_Topics ev) = 4"
  by (auto simp: singleTransferOfEvent_def numTopics_defs newEventESDTFromBasicTopics_def Let_def)

text \<open>Values of typed events are canonical decimal numbers.\<close>

lemma big_SetBytes_nonneg [simp]: "0 \<le> big_SetBytes bs"
  by (simp add: big_SetBytes_def)

lemma decided_value:
  "decideEffectiveEventTransferValueOnlyAfterSirius P ev = Inr (Some t) \<Longrightarrow>
     tv_value t = int_to_dec (big_SetBytes (ev_Topics ev ! 0))"
  by (auto simp: decideEffectiveEventTransferValueOnlyAfterSirius_def Let_def split: if_splits)

lemma extractEventTransferValueOnly_member:
  assumes "extractEventTransferValueOnly P tx = Inr ts" "t \<in> set ts"
  shows "\<exists>ev \<in> set (findManyEventsByIdentifier tx transactionEventTransferValueOnly).
           decideEffectiveEventTransferValueOnlyAfterSirius P ev = Inr (Some t)"
  using assms
  by (auto simp: extractEventTransferValueOnly_def split: if_splits dest!: traverse_set)

lemma transfers_value:
  assumes "extractEventsESDTOrESDTNFTTransfers P tx = Inr ts" "t \<in> set ts"
  shows "\<exists>bs. esdt_value t = int_to_dec (big_SetBytes bs)"
proof -
  have single: "singleTransferOfEvent P ev = Inr t' \<Longrightarrow> \<exists>bs. esdt_value t' = int_to_dec (big_SetBytes bs)" for ev t'
    by (auto simp: singleTransferOfEvent_def newEventESDT_Inr Let_def split: if_splits; blast)
  have multi: "multiTransfersOfEvent P ev = Inr ts' \<Longrightarrow> t' \<in> set ts' \<Longrightarrow>
      \<exists>bs. esdt_value t' = int_to_dec (big_SetBytes bs)" for ev ts' t'
    by (auto simp: multiTransfersOfEvent_def newEventESDT_Inr Let_def split: if_splits dest!: traverse_set; blast)
  from assms(1) obtain singles multis where
      ts: "ts = singles @ concat multis"
    and s: "traverse (singleTransferOfEvent P) (findManyEventsByIdentifier tx transactionEventESDTTransfer @
          findManyEventsByIdentifier tx transactionEventESDTNFTTransfer) = Inr singles"
    and m: "traverse (multiTransfersOfEvent P)
          (findManyEventsByIdentifier tx transactionEventMultiESDTNFTTransfer) = Inr multis"
    by (auto simp: extractEventsESDTOrESDTNFTTransfers_def Let_def)
  from assms(2) ts consider "t \<in> set singles" | ts' where "ts' \<in> set multis" "t \<in> set ts'" by auto
  then show ?thesis
  proof cases
    case 1
    then show ?thesis using traverse_set [OF s] single by blast
  next
    case 2
    then show ?thesis using traverse_set [OF m] multi by blast
  qed
qed

end
