(* ===== verification/Features.thy ===== *)
theory Features
  imports Events
begin

text \<open>
  Classification of transactions: relayed transactions (\<open>relayedTransactions.go\<close>, and
  \<open>provider/transactions.go\<close> for version 3), the features detector
  (\<open>transactionsFeaturesDetector.go\<close>), the filters over the transactions of a block
  (\<open>transactionFilters.go\<close>) and the metadata of a transaction (\<open>transactionMetadata.go\<close>).
\<close>

section \<open>Code outside the repository\<close>

text \<open>
  \<open>lib_IsSmartContractAddress\<close> is \<open>core.IsSmartContractAddress\<close> of mx-chain-core-go;
  \<open>lib_UnmarshalInnerTx\<close> decodes the JSON text of the inner transaction of a relayed one.
  \<open>lib_MarshalTx\<close> and \<open>lib_UnmarshalTx\<close> write and read the JSON text of the transaction struct
  of mx-chain-proxy-go. \<open>lib_uint64_overflow\<close> is what the platform makes of a floating-point
  number that does not fit \<open>uint64\<close>. All are parameters of the model.
\<close>

record innerTransactionOfRelayedV1 =
  it_Value :: int
  it_ReceiverPubKey :: bytes
  it_SenderPubKey :: bytes

record Library =
  lib_IsSmartContractAddress :: "bytes \<Rightarrow> bool"
  lib_UnmarshalInnerTx :: "bytes \<Rightarrow> go_error + innerTransactionOfRelayedV1"
  lib_MarshalTx :: "PreparedTransaction \<Rightarrow> go_error + string"
  lib_UnmarshalTx :: "string \<Rightarrow> go_error + PreparedTransaction"
  lib_uint64_overflow :: "nat \<Rightarrow> u64"

section \<open>Constants (constants.go, and the transaction types of mx-chain-core-go)\<close>

definition TxTypeNormal :: string where "TxTypeNormal = ''normal''"
definition TxTypeUnsigned :: string where "TxTypeUnsigned = ''unsigned''"
definition TxTypeReward :: string where "TxTypeReward = ''reward''"
definition TxTypeInvalid :: string where "TxTypeInvalid = ''invalid''"

lemmas tx_type_defs = TxTypeNormal_def TxTypeUnsigned_def TxTypeReward_def TxTypeInvalid_def

definition transactionProcessingTypeRelayedV1 :: string where
  "transactionProcessingTypeRelayedV1 = ''RelayedTx''"
definition transactionProcessingTypeBuiltInFunctionCall :: string where
  "transactionProcessingTypeBuiltInFunctionCall = ''BuiltInFunctionCall''"
definition transactionProcessingTypeMoveBalance :: string where
  "transactionProcessingTypeMoveBalance = ''MoveBalance''"
definition transactionProcessingTypeContractInvoking :: string where
  "transactionProcessingTypeContractInvoking = ''SCInvoking''"
definition transactionProcessingTypeContractDeployment :: string where
  "transactionProcessingTypeContractDeployment = ''SCDeployment''"
definition amountZero :: string where "amountZero = ''0''"
definition builtInFunctionClaimDeveloperRewards :: string where
  "builtInFunctionClaimDeveloperRewards = ''ClaimDeveloperRewards''"
definition builtInFunctionESDTTransfer :: string where "builtInFunctionESDTTransfer = ''ESDTTransfer''"
definition refundGasMessage :: string where "refundGasMessage = ''refundedGas''"
definition emptyHash :: string where "emptyHash = replicate 64 (CHR ''0'')"
definition nodeVersionForOfflineRosetta :: string where "nodeVersionForOfflineRosetta = ''N / A''"
definition systemContractDeployAddress :: string where
  "systemContractDeployAddress = ''erd1qqqqqqqqqqqqqqqqqqqqqqqqqqqqqqqqqqqqqqqqqqqqqqqqqqqq6gq4hu''"
definition nativeAsESDTIdentifier :: string where "nativeAsESDTIdentifier = ''EGLD-000000''"

section \<open>Relayed transactions\<close>

definition isRelayedV1Transaction :: "ApiTransactionResult \<Rightarrow> bool" where
  "isRelayedV1Transaction tx =
     (tx_Type tx = TxTypeNormal \<and>
      tx_ProcessingTypeOnSource tx = transactionProcessingTypeRelayedV1 \<and>
      tx_ProcessingTypeOnDestination tx = transactionProcessingTypeRelayedV1)"

definition parseInnerTxOfRelayedV1 ::
  "Library \<Rightarrow> ApiTransactionResult \<Rightarrow> go_error + innerTransactionOfRelayedV1" where
  "parseInnerTxOfRelayedV1 L tx =
     (let subparts = split_on argumentsSeparator (tx_Data tx) in
      if length subparts \<noteq> 2 then Inl errCannotParseRelayedV1
      else bind_err (hex_decode (subparts ! 1)) (\<lambda>innerTxPayloadDecoded.
             lib_UnmarshalInnerTx L innerTxPayloadDecoded))"

definition IsRelayedTxV3 :: "ApiTransactionResult \<Rightarrow> bool" where
  "IsRelayedTxV3 tx =
     (let hasRelayer = length (tx_RelayerAddress tx) > 0 \<and>
                       length (tx_RelayerAddress tx) = length (tx_Sender tx) in
      if \<not> hasRelayer then False
      else
        let hasRelayerSignature = length (tx_RelayerSignature tx) > 0 \<and>
                                  length (tx_RelayerSignature tx) = length (tx_Signature tx) in
        if \<not> hasRelayerSignature then False else True)"

section \<open>The features detector\<close>

definition doesContractResultHoldRewardsOfClaimDeveloperRewards ::
  "ApiTransactionResult \<Rightarrow> ApiTransactionResult list \<Rightarrow> bool" where
  "doesContractResultHoldRewardsOfClaimDeveloperRewards contractResult allTransactionsInBlock =
     (let hasData = length (tx_Data contractResult) > 0;
          hasNonZeroNonce = tx_Nonce contractResult > 0
      in if hasData \<or> hasNonZeroNonce then False
         else list_ex (\<lambda>tx.
                tx_ProcessingTypeOnSource tx = transactionProcessingTypeBuiltInFunctionCall \<and>
                tx_ProcessingTypeOnDestination tx = transactionProcessingTypeBuiltInFunctionCall \<and>
                tx_Operation tx = builtInFunctionClaimDeveloperRewards \<and>
                tx_Hash tx = tx_OriginalTransactionHash contractResult) allTransactionsInBlock)"

definition isInvalidTransactionOfTypeMoveBalanceThatOnlyConsumesDataMovementGas ::
  "ApiTransactionResult \<Rightarrow> bool" where
  "isInvalidTransactionOfTypeMoveBalanceThatOnlyConsumesDataMovementGas tx =
     (let isInvalid = (tx_Type tx = TxTypeInvalid);
          isMoveBalance = (tx_ProcessingTypeOnSource tx = transactionProcessingTypeMoveBalance \<and>
                           tx_ProcessingTypeOnDestination tx = transactionProcessingTypeMoveBalance)
      in if \<not> isInvalid \<or> \<not> isMoveBalance then False
         else hasSignalErrorOfSendingValueToNonPayableContract tx \<or>
              hasSignalErrorOfMetaTransactionIsInvalid tx)"

definition isRelayedV1TransactionCompletelyIntrashardWithSignalError ::
  "'w NetworkProvider \<Rightarrow> ApiTransactionResult \<Rightarrow> innerTransactionOfRelayedV1 \<Rightarrow> bool" where
  "isRelayedV1TransactionCompletelyIntrashardWithSignalError P tx innerTx =
     (let innerTxSenderShard = np_ComputeShardIdOfPubKey P (it_SenderPubKey innerTx);
          innerTxReceiverShard = np_ComputeShardIdOfPubKey P (it_ReceiverPubKey innerTx);
          isCompletelyIntrashard = tx_SourceShard tx = tx_DestinationShard tx \<and>
            innerTxSenderShard = innerTxReceiverShard \<and> innerTxSenderShard = tx_SourceShard tx
      in if \<not> isCompletelyIntrashard then False else hasAnySignalError tx)"

definition isContractDeploymentWithSignalError :: "ApiTransactionResult \<Rightarrow> bool" where
  "isContractDeploymentWithSignalError tx =
     (tx_ProcessingTypeOnSource tx = transactionProcessingTypeContractDeployment \<and>
      tx_ProcessingTypeOnDestination tx = transactionProcessingTypeContractDeployment \<and>
      hasAnySignalError tx)"

definition isContractCallWithSignalError :: "ApiTransactionResult \<Rightarrow> bool" where
  "isContractCallWithSignalError tx =
     (tx_ProcessingTypeOnSource tx = transactionProcessingTypeContractInvoking \<and>
      tx_ProcessingTypeOnDestination tx = transactionProcessingTypeContractInvoking \<and>
      hasAnySignalError tx)"

definition isIntrashard :: "ApiTransactionResult \<Rightarrow> bool" where
  "isIntrashard tx = (tx_SourceShard tx = tx_DestinationShard tx)"

definition isContractDeploymentWithSignalErrorOrIntrashardContractCallWithSignalError ::
  "ApiTransactionResult \<Rightarrow> bool" where
  "isContractDeploymentWithSignalErrorOrIntrashardContractCallWithSignalError tx =
     (isContractDeploymentWithSignalError tx \<or> (isIntrashard tx \<and> isContractCallWithSignalError tx))"

definition isSmartContractResultIneffectiveRefund ::
  "Library \<Rightarrow> 'w NetworkProvider \<Rightarrow> ApiTransactionResult \<Rightarrow> bool" where
  "isSmartContractResultIneffectiveRefund L P scr =
     (tx_IsRefund scr \<and> tx_Sender scr = tx_Receiver scr \<and>
      isContractAddress (lib_IsSmartContractAddress L) P (tx_Sender scr))"

section \<open>Filters over the transactions of a block\<close>

definition hashesOfInvalidTxs :: "ApiTransactionResult list \<Rightarrow> string set" where
  "hashesOfInvalidTxs txs = set (map tx_Hash (filter (\<lambda>tx. tx_Type tx = TxTypeInvalid) txs))"

definition filterOutIntrashardContractResultsWhoseOriginalTransactionIsInInvalidMiniblock ::
  "ApiTransactionResult list \<Rightarrow> ApiTransactionResult list" where
  "filterOutIntrashardContractResultsWhoseOriginalTransactionIsInInvalidMiniblock txs =
     (let invalidTxs = hashesOfInvalidTxs txs in
      filter (\<lambda>tx. \<not> (tx_Type tx = TxTypeUnsigned \<and> tx_OriginalTransactionHash tx \<in> invalidTxs)) txs)"

definition filterOutIntrashardRelayedTransactionAlreadyHeldInInvalidMiniblock ::
  "ApiTransactionResult list \<Rightarrow> ApiTransactionResult list" where
  "filterOutIntrashardRelayedTransactionAlreadyHeldInInvalidMiniblock txs =
     (let invalidTxs = hashesOfInvalidTxs txs in
      filter (\<lambda>tx. \<not> (isRelayedV1Transaction tx \<and> tx_Hash tx \<in> invalidTxs)) txs)"

section \<open>Metadata of a transaction\<close>

definition extractTransactionMetadata :: "ApiTransactionResult \<Rightarrow> objectsMap" where
  "extractTransactionMetadata tx =
     (let m = [''timestamp'' \<mapsto> OInt (tx_Timestamp tx),
               ''value'' \<mapsto> OString (tx_Value tx),
               ''nonce'' \<mapsto> OUint64 (tx_Nonce tx),
               ''typeOnSource'' \<mapsto> OString (tx_ProcessingTypeOnSource tx),
               ''typeOnDestination'' \<mapsto> OString (tx_ProcessingTypeOnDestination tx),
               ''epoch'' \<mapsto> OUint32 (tx_Epoch tx),
               ''sender'' \<mapsto> OString (tx_Sender tx),
               ''receiver'' \<mapsto> OString (tx_Receiver tx),
               ''sourceShard'' \<mapsto> OUint32 (tx_SourceShard tx),
               ''destinationShard'' \<mapsto> OUint32 (tx_DestinationShard tx),
               ''miniblock'' \<mapsto> OString (tx_MiniBlockHash tx),
               ''miniblockType'' \<mapsto> OString (tx_MiniBlockType tx)];
          m = (if length (tx_RelayerAddress tx) > 0
               then m(''relayer'' \<mapsto> OString (tx_RelayerAddress tx)) else m);
          m = (if length (tx_OriginalSender tx) > 0
               then m(''originalSender'' \<mapsto> OString (tx_OriginalSender tx)) else m);
          m = (if length (tx_SenderUsername tx) > 0
               then m(''senderUsername'' \<mapsto> OString (tx_SenderUsername tx)) else m);
          m = (if length (tx_ReceiverUsername tx) > 0
               then m(''receiverUsername'' \<mapsto> OString (tx_ReceiverUsername tx)) else m);
          m = (if length (tx_OriginalTransactionHash tx) > 0
               then m(''originalTransaction'' \<mapsto> OString (tx_OriginalTransactionHash tx)) else m);
          m = (if length (tx_PreviousTransactionHash tx) > 0
               then m(''previousTransaction'' \<mapsto> OString (tx_PreviousTransactionHash tx)) else m);
          m = (if length (tx_Data tx) > 0 then m(''data'' \<mapsto> OBytes (tx_Data tx)) else m);
          m = (if tx_GasPrice tx > 0 then m(''gasPrice'' \<mapsto> OUint64 (tx_GasPrice tx)) else m);
          m = (if tx_GasLimit tx > 0 then m(''gasLimit'' \<mapsto> OUint64 (tx_GasLimit tx)) else m)
      in m)"

section \<open>Facts\<close>

lemma tx_types_distinct [simp]:
  "TxTypeNormal \<noteq> TxTypeUnsigned" "TxTypeNormal \<noteq> TxTypeReward" "TxTypeNormal \<noteq> TxTypeInvalid"
  "TxTypeUnsigned \<noteq> TxTypeNormal" "TxTypeReward \<noteq> TxTypeNormal" "TxTypeInvalid \<noteq> TxTypeNormal"
  "TxTypeUnsigned \<noteq> TxTypeReward" "TxTypeReward \<noteq> TxTypeUnsigned" "TxTypeUnsigned \<noteq> TxTypeInvalid"
  "TxTypeInvalid \<noteq> TxTypeUnsigned" "TxTypeReward \<noteq> TxTypeInvalid" "TxTypeInvalid \<noteq> TxTypeReward"
  by (simp_all add: tx_type_defs)

lemma not_relayed_if_not_normal: "tx_Type tx \<noteq> TxTypeNormal \<Longrightarrow> \<not> isRelayedV1Transaction tx"
  by (simp add: isRelayedV1Transaction_def)

lemma hashesOfInvalidTxs_mset: "mset xs = mset ys \<Longrightarrow> hashesOfInvalidTxs xs = hashesOfInvalidTxs ys"
  by (auto simp: hashesOfInvalidTxs_def dest: mset_eq_setD)

lemma filter1_mset:
  assumes "mset xs = mset ys"
  shows "mset (filterOutIntrashardContractResultsWhoseOriginalTransactionIsInInvalidMiniblock xs) =
         mset (filterOutIntrashardContractResultsWhoseOriginalTransactionIsInInvalidMiniblock ys)"
  using assms hashesOfInvalidTxs_mset [OF assms]
  by (simp add: filterOutIntrashardContractResultsWhoseOriginalTransactionIsInInvalidMiniblock_def Let_def)

lemma filter2_mset:
  assumes "mset xs = mset ys"
  shows "mset (filterOutIntrashardRelayedTransactionAlreadyHeldInInvalidMiniblock xs) =
         mset (filterOutIntrashardRelayedTransactionAlreadyHeldInInvalidMiniblock ys)"
  using assms hashesOfInvalidTxs_mset [OF assms]
  by (simp add: filterOutIntrashardRelayedTransactionAlreadyHeldInInvalidMiniblock_def Let_def)

text \<open>The first filter drops no invalid transaction, so both filters test the same hashes.\<close>

lemma hashesOfInvalidTxs_filter1:
  "hashesOfInvalidTxs (filterOutIntrashardContractResultsWhoseOriginalTransactionIsInInvalidMiniblock txs) =
   hashesOfInvalidTxs txs"
  by (auto simp: hashesOfInvalidTxs_def Let_def
      filterOutIntrashardContractResultsWhoseOriginalTransactionIsInInvalidMiniblock_def)

lemma hashesOfInvalidTxs_filter2:
  "hashesOfInvalidTxs (filterOutIntrashardRelayedTransactionAlreadyHeldInInvalidMiniblock txs) =
   hashesOfInvalidTxs txs"
  by (auto simp: hashesOfInvalidTxs_def Let_def isRelayedV1Transaction_def
      filterOutIntrashardRelayedTransactionAlreadyHeldInInvalidMiniblock_def)

lemma doesContractResultHoldRewards_mset:
  "mset xs = mset ys \<Longrightarrow> doesContractResultHoldRewardsOfClaimDeveloperRewards r xs =
     doesContractResultHoldRewardsOfClaimDeveloperRewards r ys"
  by (auto simp: doesContractResultHoldRewardsOfClaimDeveloperRewards_def list_ex_iff Let_def
      dest: mset_eq_setD)

end
