(* ===== verification/Utf8.thy ===== *)
theory Utf8
  imports GoStd
begin

text \<open>
  Texts in UTF-8 (\<open>unicode/utf8\<close>) and what \<open>encoding/json\<close> does to a byte string that is not one:
  every byte at which no rune begins is written as the replacement character U+FFFD.
\<close>

section \<open>Runes in UTF-8\<close>

abbreviation byte_code :: "char \<Rightarrow> nat" where "byte_code c \<equiv> of_char c"

definition continues :: "nat \<Rightarrow> nat \<Rightarrow> string \<Rightarrow> bool" where
  "continues lo hi s = (case s of [] \<Rightarrow> False | c # _ \<Rightarrow> lo \<le> byte_code c \<and> byte_code c \<le> hi)"

text \<open>The size of a rune by its first byte, and the range in which its second byte must be.\<close>

definition lead :: "nat \<Rightarrow> nat \<times> nat \<times> nat" where
  "lead n =
     (if n < 0x80 then (1, 0, 0)
      else if 0xC2 \<le> n \<and> n \<le> 0xDF then (2, 0x80, 0xBF)
      else if n = 0xE0 then (3, 0xA0, 0xBF)
      else if n = 0xED then (3, 0x80, 0x9F)
      else if 0xE1 \<le> n \<and> n \<le> 0xEF then (3, 0x80, 0xBF)
      else if n = 0xF0 then (4, 0x90, 0xBF)
      else if 0xF1 \<le> n \<and> n \<le> 0xF3 then (4, 0x80, 0xBF)
      else if n = 0xF4 then (4, 0x80, 0x8F)
      else (0, 0, 0))"

text \<open>The number of bytes of the rune at the head of a text; 0 if the bytes are not valid there.\<close>

definition rune_size :: "char \<Rightarrow> string \<Rightarrow> nat" where
  "rune_size c s =
     (case lead (byte_code c) of
        (k, lo, hi) \<Rightarrow>
          if k \<le> 1 then k
          else if continues lo hi s \<and> list_all (\<lambda>i. continues 0x80 0xBF (drop i s)) [1..<k - 1] then k
          else 0)"

definition encode_rune :: "nat \<Rightarrow> string" where
  "encode_rune r =
     (if r < 0x80 then [char_of r]
      else if r < 0x800 then [char_of (0xC0 + r div 64), char_of (0x80 + r mod 64)]
      else if r < 0x10000 then
        [char_of (0xE0 + r div 4096), char_of (0x80 + r div 64 mod 64), char_of (0x80 + r mod 64)]
      else
        [char_of (0xF0 + r div 262144), char_of (0x80 + r div 4096 mod 64),
         char_of (0x80 + r div 64 mod 64), char_of (0x80 + r mod 64)])"

definition replacementChar :: nat where "replacementChar = 0xFFFD"

section \<open>Valid texts and their coercion\<close>

text \<open>The text that a string has become after it was written as JSON and read back.\<close>

fun coerce_utf8 :: "string \<Rightarrow> string" where
  "coerce_utf8 [] = []"
| "coerce_utf8 (c # s) =
     (if rune_size c s = 0 then encode_rune replacementChar @ coerce_utf8 s
      else c # take (rune_size c s - 1) s @ coerce_utf8 (drop (rune_size c s - 1) s))"

fun valid_utf8 :: "string \<Rightarrow> bool" where
  "valid_utf8 [] = True"
| "valid_utf8 (c # s) = (rune_size c s \<noteq> 0 \<and> valid_utf8 (drop (rune_size c s - 1) s))"

declare coerce_utf8.simps(2) [simp del] valid_utf8.simps(2) [simp del]

lemma coerce_valid [simp]: "valid_utf8 s \<Longrightarrow> coerce_utf8 s = s"
  by (induction s rule: valid_utf8.induct) (simp_all add: valid_utf8.simps(2) coerce_utf8.simps(2))

text \<open>ASCII texts are valid: names of fields, numbers, hexadecimal and base-64 text.\<close>

lemma rune_size_ascii: "byte_code c < 128 \<Longrightarrow> rune_size c s = 1"
  by (simp add: rune_size_def lead_def)

lemma ascii_valid: "list_all (\<lambda>c. byte_code c < 128) s \<Longrightarrow> valid_utf8 s"
  by (induction s) (simp_all add: valid_utf8.simps(2) rune_size_ascii)

lemma valid_utf8_ascii_Cons [simp]: "byte_code c < 128 \<Longrightarrow> valid_utf8 (c # s) = valid_utf8 s"
  by (simp add: valid_utf8.simps(2) rune_size_ascii)

text \<open>The bytes of a rune say where it ends, whatever follows.\<close>

lemma continues_nth: "continues lo hi (drop i s) \<longleftrightarrow> i < length s \<and> lo \<le> byte_code (s ! i) \<and> byte_code (s ! i) \<le> hi"
  by (cases "i < length s") (simp_all add: continues_def Cons_nth_drop_Suc [symmetric] split: list.split)

lemma rune_bytes:
  assumes "rune_size c s \<noteq> 0"
  obtains lo hi where "lead (byte_code c) = (rune_size c s, lo, hi)" "rune_size c s - 1 \<le> length s"
    "\<And>i. i < rune_size c s - 1 \<Longrightarrow> continues (if i = 0 then lo else 0x80) (if i = 0 then hi else 0xBF) (drop i s)"
proof -
  obtain k lo hi where l: "lead (byte_code c) = (k, lo, hi)" by (metis prod.exhaust)
  have k: "rune_size c s = k" using assms l by (auto simp: rune_size_def split: if_splits)
  have bytes: "continues (if i = 0 then lo else 0x80) (if i = 0 then hi else 0xBF) (drop i s)" if "i < k - 1" for i
    using assms l that by (auto simp: rune_size_def list_all_iff split: if_splits)
  have "k - 1 \<le> length s"
  proof (cases "k \<le> 1")
    case False
    with bytes [of "k - 2"] have "k - 2 < length s" by (simp add: continues_nth)
    then show ?thesis by simp
  qed simp
  with l k bytes that show thesis by metis
qed

lemma rune_size_prefix:
  assumes "rune_size c s \<noteq> 0"
  shows "rune_size c (take (rune_size c s - 1) s @ t) = rune_size c s"
proof -
  define k where "k = rune_size c s"
  obtain lo hi where l: "lead (byte_code c) = (k, lo, hi)" and len: "k - 1 \<le> length s"
    and bytes: "\<And>i. i < k - 1 \<Longrightarrow> continues (if i = 0 then lo else 0x80) (if i = 0 then hi else 0xBF) (drop i s)"
    unfolding k_def using rune_bytes [OF assms] by metis
  have kept: "continues (if i = 0 then lo else 0x80) (if i = 0 then hi else 0xBF) (drop i (take (k - 1) s @ t))"
    if "i < k - 1" for i
    using bytes [OF that] that len by (simp only: continues_nth) (simp add: nth_append)
  have "continues lo hi (take (k - 1) s @ t)" if "1 < k" using kept [of 0] that by simp
  moreover have "list_all (\<lambda>i. continues 0x80 0xBF (drop i (take (k - 1) s @ t))) [1..<k - 1]"
    unfolding list_all_iff
  proof
    fix i assume "i \<in> set [1..<k - 1]"
    then show "continues 0x80 0xBF (drop i (take (k - 1) s @ t))" using kept [of i] by (simp split: if_splits)
  qed
  ultimately have "rune_size c (take (k - 1) s @ t) = k" unfolding rune_size_def l by simp
  then show ?thesis by (simp add: k_def)
qed

lemma valid_utf8_rune:
  assumes "rune_size c s \<noteq> 0"
  shows "valid_utf8 (c # take (rune_size c s - 1) s @ t) = valid_utf8 t"
proof -
  have "rune_size c s - 1 \<le> length s" using rune_bytes [OF assms] by metis
  with assms rune_size_prefix [OF assms] show ?thesis by (simp add: valid_utf8.simps(2))
qed

lemma replacement_valid: "valid_utf8 (encode_rune replacementChar @ t) = valid_utf8 t"
  by (simp add: encode_rune_def replacementChar_def valid_utf8.simps(2) rune_size_def lead_def continues_def upt_rec)

lemma valid_coerce [simp]: "valid_utf8 (coerce_utf8 s)"
proof (induction s rule: coerce_utf8.induct)
  case (2 c s)
  show ?case
  proof (cases "rune_size c s = 0")
    case True
    then show ?thesis using 2 by (simp add: coerce_utf8.simps(2) replacement_valid)
  next
    case False
    then show ?thesis
      using 2 valid_utf8_rune [OF False, of "coerce_utf8 (drop (rune_size c s - 1) s)"]
      by (simp add: coerce_utf8.simps(2))
  qed
qed simp

text \<open>A byte that begins no rune.\<close>

lemma coerce_ff: "coerce_utf8 [CHR 0xFF] = [CHR 0xEF, CHR 0xBF, CHR 0xBD]"
  by (simp add: coerce_utf8.simps(2) rune_size_def lead_def encode_rune_def replacementChar_def)
    (simp add: char_of_def bit_0)

end
