(* ===== verification/Json.thy ===== *)
theory Json
  imports Features Utf8
begin

text \<open>
  What the construction endpoints use of \<open>encoding/json\<close> and \<open>encoding/base64\<close>: objects as Go
  holds them after decoding (\<open>map[string]interface{}\<close>), where every number is a \<open>float64\<close>; the
  text of such numbers; the texts in UTF-8 that strings become when they are written; the decoding
  of an object into a struct (\<open>common.go\<close>,
  \<open>toObjectsMap\<close> and \<open>fromObjectsMap\<close>).
\<close>

section \<open>Integral numbers as float64\<close>

fun log2 :: "nat \<Rightarrow> nat" where
  "log2 n = (if n < 2 then 0 else Suc (log2 (n div 2)))"

declare log2.simps [simp del]

text \<open>
  The nearest number with a mantissa of 53 bits, ties to even: the \<open>float64\<close> nearest to a
  natural number (all numbers here are far below the largest finite one).
\<close>

definition round53 :: "nat \<Rightarrow> nat" where
  "round53 n =
     (let l = log2 n in
      if l \<le> 52 then n
      else
        let u = 2 ^ (l - 52); q = n div u; r = n mod u
        in if 2 * r < u \<or> (2 * r = u \<and> even q) then q * u else (q + 1) * u)"

text \<open>
  \<open>strconv.FormatFloat(f, 'f', -1, 64)\<close> of an integral number: the shortest digits, filled up with
  zeros, that read back as the same number. All bounds are scaled by \<open>2 ^ 54\<close>. \<open>shortestFrom\<close>
  looks for a multiple of the powers of ten in its list, in turn.
\<close>

definition upper_bound :: "nat \<Rightarrow> nat" where
  "upper_bound f = f * 2 ^ 54 + 2 ^ (log2 f + 1)"

definition lower_bound :: "nat \<Rightarrow> nat" where
  "lower_bound f = f * 2 ^ 54 - (if f = 2 ^ log2 f then 2 ^ log2 f else 2 ^ (log2 f + 1))"

definition even_mantissa :: "nat \<Rightarrow> bool" where
  "even_mantissa f = even (f * 2 ^ 52 div 2 ^ log2 f)"

definition within :: "bool \<Rightarrow> nat \<Rightarrow> nat \<Rightarrow> bool" where
  "within inclusive a b = (if inclusive then a \<le> b else a < b)"

fun shortestFrom :: "nat list \<Rightarrow> nat \<Rightarrow> nat" where
  "shortestFrom [] f = f"
| "shortestFrom (j # js) f =
     (let unit = 10 ^ j;
          down = f div unit * unit;
          up = down + unit;
          inclusive = even_mantissa f;
          okdown = within inclusive (lower_bound f) (down * 2 ^ 54);
          okup = within inclusive (up * 2 ^ 54) (upper_bound f)
      in if okdown \<and> okup then
           (if 2 * (f - down) < unit \<or> (2 * (f - down) = unit \<and> even (f div unit)) then down else up)
         else if okdown then down
         else if okup then up
         else shortestFrom js f)"

declare shortestFrom.simps [simp del]

definition shortest_digits :: "nat \<Rightarrow> nat" where
  "shortest_digits f = shortestFrom [21, 20, 19, 18, 17, 16, 15, 14, 13, 12, 11, 10, 9, 8, 7, 6, 5, 4, 3, 2, 1, 0] f"

section \<open>Values\<close>

text \<open>
  Numbers are finite: \<open>JNumber i\<close> an integral one, \<open>JNegativeZero\<close> the number -0, \<open>JFraction\<close> any
  other. An object has distinct keys; Go writes them in the order of their bytes.
\<close>

datatype json =
    JNull
  | JBool bool
  | JNumber int
  | JNegativeZero
  | JFraction bool float64
  | JString string
  | JArray "json list"
  | JObject "(string \<times> json) list"

type_synonym json_object = "(string \<times> json) list"

text \<open>A number as \<open>uint64\<close> and as \<open>int\<close>: from \<open>1e21\<close> on it is printed with an exponent.\<close>

definition json_uint64 :: "json \<Rightarrow> go_error + u64" where
  "json_uint64 v =
     (case v of
        JNumber i \<Rightarrow>
          if i < 0 \<or> i \<ge> 10 ^ 21 then Inl (JsonTypeError ''uint64'')
          else if shortest_digits (nat i) < 2 ^ 64 then Inr (of_nat (shortest_digits (nat i)))
          else Inl (JsonTypeError ''uint64'')
      | _ \<Rightarrow> Inl (JsonTypeError ''uint64''))"

definition json_int :: "json \<Rightarrow> go_error + int" where
  "json_int v =
     (case v of
        JNumber i \<Rightarrow>
          if \<bar>i\<bar> \<ge> 10 ^ 21 then Inl (JsonTypeError ''int'')
          else
            let d = int (shortest_digits (nat \<bar>i\<bar>)); d = (if i < 0 then - d else d)
            in if - (2 ^ 63) \<le> d \<and> d < 2 ^ 63 then Inr d else Inl (JsonTypeError ''int'')
      | JNegativeZero \<Rightarrow> Inr 0
      | _ \<Rightarrow> Inl (JsonTypeError ''int''))"

definition json_byte :: "json \<Rightarrow> go_error + char" where
  "json_byte v =
     (case v of
        JNull \<Rightarrow> Inr (char_of (0 :: nat))
      | JNumber i \<Rightarrow> if 0 \<le> i \<and> i < 256 then Inr (char_of (nat i)) else Inl (JsonTypeError ''uint8'')
      | _ \<Rightarrow> Inl (JsonTypeError ''uint8''))"

definition json_string :: "json \<Rightarrow> go_error + string" where
  "json_string v = (case v of JString s \<Rightarrow> Inr s | _ \<Rightarrow> Inl (JsonTypeError ''string''))"

section \<open>Base 64\<close>

definition b64_char :: "nat \<Rightarrow> char" where
  "b64_char d = ''ABCDEFGHIJKLMNOPQRSTUVWXYZabcdefghijklmnopqrstuvwxyz0123456789+/'' ! d"

definition b64_value :: "char \<Rightarrow> nat option" where
  "b64_value c = (let n = of_char c :: nat in
     if 65 \<le> n \<and> n \<le> 90 then Some (n - 65)
     else if 97 \<le> n \<and> n \<le> 122 then Some (n - 71)
     else if 48 \<le> n \<and> n \<le> 57 then Some (n + 4)
     else if n = 43 then Some 62
     else if n = 47 then Some 63
     else None)"

fun b64_encode :: "bytes \<Rightarrow> string" where
  "b64_encode [] = []"
| "b64_encode [x] =
     (let a = of_char x in [b64_char (a div 4), b64_char (a mod 4 * 16), CHR ''='', CHR ''=''])"
| "b64_encode [x, y] =
     (let a = of_char x; b = of_char y
      in [b64_char (a div 4), b64_char (a mod 4 * 16 + b div 16), b64_char (b mod 16 * 4), CHR ''=''])"
| "b64_encode (x # y # z # rest) =
     (let a = of_char x; b = of_char y; c = of_char z
      in b64_char (a div 4) # b64_char (a mod 4 * 16 + b div 16) #
         b64_char (b mod 16 * 4 + c div 64) # b64_char (c mod 64) # b64_encode rest)"

text \<open>
  The decoder skips line breaks, wants padding, and ignores the bits that padding leaves over.
  \<open>b64_quads\<close> works on the text without line breaks; \<open>None\<close> is corrupt input.
\<close>

definition b64_group :: "nat option \<Rightarrow> nat option \<Rightarrow> nat option \<Rightarrow> nat option \<Rightarrow> bytes option" where
  "b64_group a b c d =
     (case (a, b, c, d) of
        (Some a, Some b, Some c, Some d) \<Rightarrow>
          Some [char_of (a * 4 + b div 16), char_of (b mod 16 * 16 + c div 4), char_of (c mod 4 * 64 + d)]
      | _ \<Rightarrow> None)"

fun b64_quads :: "string \<Rightarrow> bytes option" where
  "b64_quads [] = Some []"
| "b64_quads (p # q # r # s # rest) =
     (if rest = [] \<and> s = CHR ''='' \<and> r = CHR ''=''
      then map_option (take 1) (b64_group (b64_value p) (b64_value q) (Some 0) (Some 0))
      else if rest = [] \<and> s = CHR ''=''
      then map_option (take 2) (b64_group (b64_value p) (b64_value q) (b64_value r) (Some 0))
      else Option.bind (b64_group (b64_value p) (b64_value q) (b64_value r) (b64_value s))
             (\<lambda>bs. map_option (append bs) (b64_quads rest)))"
| "b64_quads _ = None"

definition b64_decode :: "string \<Rightarrow> go_error + bytes" where
  "b64_decode s =
     (case b64_quads (filter (\<lambda>c. c \<noteq> CHR 0x0A \<and> c \<noteq> CHR 0x0D) s) of
        None \<Rightarrow> Inl (Base64Corrupt s)
      | Some bs \<Rightarrow> Inr bs)"

text \<open>A \<open>[]byte\<close> field: base-64 text, or an array of small numbers.\<close>

definition json_bytes :: "json \<Rightarrow> go_error + bytes" where
  "json_bytes v =
     (case v of
        JString s \<Rightarrow> b64_decode s
      | JArray vs \<Rightarrow> traverse json_byte vs
      | _ \<Rightarrow> Inl (JsonTypeError ''[]uint8''))"

section \<open>Objects and structs (common.go)\<close>

text \<open>The order in which the keys of a map are written.\<close>

fun bytes_le :: "string \<Rightarrow> string \<Rightarrow> bool" where
  "bytes_le [] t = True"
| "bytes_le (c # s) [] = False"
| "bytes_le (c # s) (d # t) =
     ((of_char c :: nat) < of_char d \<or> (c = d \<and> bytes_le s t))"

fun insert_entry :: "string \<times> json \<Rightarrow> json_object \<Rightarrow> json_object" where
  "insert_entry e [] = [e]"
| "insert_entry e (e1 # es) = (if bytes_le (fst e) (fst e1) then e # e1 # es else e1 # insert_entry e es)"

definition marshal_order :: "json_object \<Rightarrow> json_object" where
  "marshal_order obj = foldr insert_entry obj []"

text \<open>
  Keys are compared without case; the two letters outside ASCII that fold to ASCII letters are
  the long s and the Kelvin sign.
\<close>

fun fold_name :: "string \<Rightarrow> string" where
  "fold_name [] = []"
| "fold_name (c # s) =
     (let n = of_char c :: nat in
      if 65 \<le> n \<and> n \<le> 90 then char_of (n + 32) # fold_name s
      else if c = CHR 0xC5 \<and> take 1 s = [CHR 0xBF] then CHR ''s'' # fold_name (drop 1 s)
      else if c = CHR 0xE2 \<and> take 2 s = [CHR 0x84, CHR 0xAA] then CHR ''k'' # fold_name (drop 2 s)
      else c # fold_name s)"

type_synonym 's struct_fields = "(string \<times> (json \<Rightarrow> 's \<Rightarrow> go_error + 's)) list"

definition find_field :: "'s struct_fields \<Rightarrow> string \<Rightarrow> (json \<Rightarrow> 's \<Rightarrow> go_error + 's) option" where
  "find_field flds key =
     (case map_of flds key of
        Some f \<Rightarrow> Some f
      | None \<Rightarrow> map_of (map (\<lambda>(name, f). (fold_name name, f)) flds) (fold_name key))"

fun decode_entries :: "'s struct_fields \<Rightarrow> json_object \<Rightarrow> 's \<Rightarrow> go_error + 's" where
  "decode_entries flds [] s = Inr s"
| "decode_entries flds ((key, v) # rest) s =
     (case find_field flds key of
        None \<Rightarrow> decode_entries flds rest s
      | Some f \<Rightarrow> bind_err (f v s) (decode_entries flds rest))"

text \<open>\<open>null\<close> leaves a field of a plain type alone, and makes a slice nil.\<close>

definition string_field :: "(string \<Rightarrow> 's \<Rightarrow> 's) \<Rightarrow> json \<Rightarrow> 's \<Rightarrow> go_error + 's" where
  "string_field upd v s = (if v = JNull then Inr s else bind_err (json_string v) (\<lambda>x. Inr (upd x s)))"

definition uint64_field :: "(u64 \<Rightarrow> 's \<Rightarrow> 's) \<Rightarrow> json \<Rightarrow> 's \<Rightarrow> go_error + 's" where
  "uint64_field upd v s = (if v = JNull then Inr s else bind_err (json_uint64 v) (\<lambda>x. Inr (upd x s)))"

definition int_field :: "(int \<Rightarrow> 's \<Rightarrow> 's) \<Rightarrow> json \<Rightarrow> 's \<Rightarrow> go_error + 's" where
  "int_field upd v s = (if v = JNull then Inr s else bind_err (json_int v) (\<lambda>x. Inr (upd x s)))"

definition bytes_field :: "(bytes \<Rightarrow> 's \<Rightarrow> 's) \<Rightarrow> json \<Rightarrow> 's \<Rightarrow> go_error + 's" where
  "bytes_field upd v s =
     (if v = JNull then Inr (upd [] s) else bind_err (json_bytes v) (\<lambda>x. Inr (upd x s)))"

lemmas field_defs = string_field_def uint64_field_def int_field_def bytes_field_def

text \<open>Strings, keys too, are written in UTF-8 on their way into the text that the struct is read from.\<close>

fun coerce_json :: "json \<Rightarrow> json" where
  "coerce_json (JString s) = JString (coerce_utf8 s)"
| "coerce_json (JArray vs) = JArray (map coerce_json vs)"
| "coerce_json (JObject entries) = JObject (map (\<lambda>(key, v). (coerce_utf8 key, coerce_json v)) entries)"
| "coerce_json v = v"

definition coerce_entries :: "json_object \<Rightarrow> json_object" where
  "coerce_entries = map (\<lambda>(key, v). (coerce_utf8 key, coerce_json v))"

definition fromObjectsMap :: "'s struct_fields \<Rightarrow> 's \<Rightarrow> json_object \<Rightarrow> go_error + 's" where
  "fromObjectsMap flds zero obj = decode_entries flds (coerce_entries (marshal_order obj)) zero"

text \<open>
  The values of a struct's struct_fields in the map that \<open>toObjectsMap\<close> makes. An empty slice is
  \<open>null\<close> (one that is empty and not nil would be an empty text: it decodes the same).
\<close>

definition json_of_string :: "string \<Rightarrow> json" where
  "json_of_string s = JString (coerce_utf8 s)"

definition json_of_uint64 :: "u64 \<Rightarrow> json" where
  "json_of_uint64 n = JNumber (int (round53 (unat n)))"

definition json_of_int :: "int \<Rightarrow> json" where
  "json_of_int i = JNumber (if i < 0 then - int (round53 (nat (- i))) else int (round53 (nat i)))"

definition json_of_bytes :: "bytes \<Rightarrow> json" where
  "json_of_bytes bs = (if bs = [] then JNull else JString (b64_encode bs))"

section \<open>Facts\<close>

lemma log2_bounds: "0 < n \<Longrightarrow> 2 ^ log2 n \<le> n \<and> n < 2 ^ (log2 n + 1)"
proof (induction n rule: log2.induct)
  case (1 n)
  show ?case
  proof (cases "n < 2")
    case True
    with 1 show ?thesis by (simp add: log2.simps)
  next
    case False
    then have "2 ^ log2 (n div 2) \<le> n div 2 \<and> n div 2 < 2 ^ (log2 (n div 2) + 1)" using 1 by simp
    moreover have "log2 n = Suc (log2 (n div 2))" using False by (simp add: log2.simps [of n])
    moreover have "2 * (n div 2) \<le> n" "n < 2 * (n div 2) + 2" by presburger+
    ultimately show ?thesis by (simp only: power_Suc power_add power_one_right) linarith
  qed
qed

lemma log2_less: "n < 2 ^ (k + 1) \<Longrightarrow> log2 n \<le> k"
proof (cases "n = 0")
  case True
  then show ?thesis by (simp add: log2.simps)
next
  case False
  assume "n < 2 ^ (k + 1)"
  with log2_bounds [of n] False have "(2::nat) ^ log2 n < 2 ^ (k + 1)" by linarith
  then have "log2 n < k + 1" by (rule power_less_imp_less_exp [rotated]) simp
  then show ?thesis by simp
qed

lemma round53_exact: "n < 2 ^ 53 \<Longrightarrow> round53 n = n"
  using log2_less [of n 52] by (simp add: round53_def Let_def)

lemma half_gap_small: "f < 2 ^ 53 \<Longrightarrow> (2::nat) ^ (log2 f + 1) < 2 ^ 54"
proof -
  assume "f < 2 ^ 53"
  then have "log2 f + 1 \<le> 53" using log2_less [of f 52] by simp
  then show ?thesis by (intro power_strict_increasing) simp_all
qed

lemma shortestFrom_exact:
  assumes "f < 2 ^ 53"
  shows "shortestFrom js f = f"
proof -
  have gap: "(2::nat) ^ (log2 f + 1) < 2 ^ 54" using half_gap_small [OF assms] .
  have noup: "\<not> within i (m * 2 ^ 54) (upper_bound f)" if "f < m" for i m
  proof -
    from that have "(f + 1) * 2 ^ 54 \<le> m * 2 ^ 54" by (intro mult_right_mono) simp_all
    with gap have "upper_bound f < m * 2 ^ 54" by (simp add: upper_bound_def)
    then show ?thesis by (simp add: within_def)
  qed
  have down: "m = f" if "within i (lower_bound f) (m * 2 ^ 54)" "m \<le> f" for i m
  proof (rule ccontr)
    assume "m \<noteq> f"
    with that(2) have "(m + 1) * 2 ^ 54 \<le> f * 2 ^ 54" by (intro mult_right_mono) simp_all
    moreover have "f * 2 ^ 54 < lower_bound f + 2 ^ 54"
      using gap by (auto simp: lower_bound_def)
    ultimately have "m * 2 ^ 54 < lower_bound f" by simp
    with that(1) show False by (simp add: within_def split: if_splits)
  qed
  have above: "f < f div 10 ^ j * 10 ^ j + 10 ^ j" for j
    using mod_less_divisor [of "10 ^ j" f] div_mult_mod_eq [of f "10 ^ j"] zero_less_power [of "10 :: nat" j] by linarith
  show ?thesis
  proof (induction js)
    case Nil
    then show ?case by (simp add: shortestFrom.simps)
  next
    case (Cons j js)
    show ?case using noup [OF above] down [of _ "f div 10 ^ j * 10 ^ j"] Cons
      by (auto simp: Let_def shortestFrom.simps)
  qed
qed

lemma json_uint64_of_uint64:
  assumes "unat n < 2 ^ 53"
  shows "json_uint64 (json_of_uint64 n) = Inr n"
proof -
  from assms have "int (unat n) < int (2 ^ 53)" by (simp only: of_nat_less_iff)
  then have "uint n < 2 ^ 53" by simp
  then have "\<not> 10 ^ 21 \<le> uint n" by simp
  with assms show ?thesis
    by (simp add: json_uint64_def json_of_uint64_def round53_exact shortest_digits_def shortestFrom_exact)
qed

lemma json_int_of_int: "0 \<le> i \<Longrightarrow> i < 2 ^ 53 \<Longrightarrow> json_int (json_of_int i) = Inr i"
proof -
  assume i: "0 \<le> i" "i < 2 ^ 53"
  then have "nat i < 2 ^ 53" by simp
  with i show ?thesis
    by (simp add: json_int_def json_of_int_def round53_exact shortest_digits_def shortestFrom_exact)
qed

lemma less_64_cases: "d < 64 \<Longrightarrow> d \<in> set [0..<64]" for d :: nat
  by simp

lemma b64_value_char [simp]: "d < 64 \<Longrightarrow> b64_value (b64_char d) = Some d"
proof -
  have "list_all (\<lambda>d. b64_value (b64_char d) = Some d) [0..<64]"
    by (simp add: upt_rec b64_char_def b64_value_def)
  then show "d < 64 \<Longrightarrow> ?thesis" by (simp add: list_all_iff)
qed

lemma b64_char_plain:
  "d < 64 \<Longrightarrow> b64_char d \<noteq> CHR ''='' \<and> b64_char d \<noteq> CHR 0x0A \<and> b64_char d \<noteq> CHR 0x0D"
proof -
  have "b64_value (CHR ''='') = None" "b64_value CHR 0x0A = None" "b64_value CHR 0x0D = None"
    by (simp_all add: b64_value_def)
  then show "d < 64 \<Longrightarrow> ?thesis" by (metis b64_value_char option.distinct(1))
qed

lemma byte_digits [simp]:
  fixes a b :: nat
  shows "a < 256 \<Longrightarrow> a div 4 < 64" "a mod 64 < 64" "a mod 4 * 16 < 64" "b mod 16 * 4 < 64"
    "b < 256 \<Longrightarrow> a mod 4 * 16 + b div 16 < 64" "a < 256 \<Longrightarrow> b mod 16 * 4 + a div 64 < 64"
proof -
  have "a mod 4 < 4" "b mod 16 < 16" by simp_all
  moreover have "b < 256 \<Longrightarrow> b div 16 < 16" "a < 256 \<Longrightarrow> a div 64 < 4" by (simp_all add: less_mult_imp_div_less)
  ultimately show "a mod 4 * 16 < 64" "b mod 16 * 4 < 64" "b < 256 \<Longrightarrow> a mod 4 * 16 + b div 16 < 64"
    "a < 256 \<Longrightarrow> b mod 16 * 4 + a div 64 < 64" by linarith+
qed (simp_all add: less_mult_imp_div_less)

lemma byte_join:
  fixes a b c :: nat
  assumes "b < 256" "c < 256"
  shows "a div 4 * 4 + (a mod 4 * 16 + b div 16) div 16 = a"
    "(a mod 4 * 16 + b div 16) mod 16 * 16 + (b mod 16 * 4 + c div 64) div 4 = b"
    "(b mod 16 * 4 + c div 64) mod 4 * 64 + c mod 64 = c"
    "a div 4 * 4 + (a mod 4 * 16) div 16 = a"
    "(a mod 4 * 16 + b div 16) mod 16 * 16 + (b mod 16 * 4) div 4 = b"
proof -
  have join: "(x * n + y) div n = x" "(x * n + y) mod n = y" if "y < n" for x y n :: nat
    using that by simp_all
  have y: "b div 16 < 16" "c div 64 < 4" using assms by (simp_all add: less_mult_imp_div_less)
  note j = join [OF y(1), of "a mod 4"] join [OF y(2), of "b mod 16"]
  show "a div 4 * 4 + (a mod 4 * 16 + b div 16) div 16 = a"
    "(a mod 4 * 16 + b div 16) mod 16 * 16 + (b mod 16 * 4 + c div 64) div 4 = b"
    "(b mod 16 * 4 + c div 64) mod 4 * 64 + c mod 64 = c"
    "a div 4 * 4 + (a mod 4 * 16) div 16 = a"
    "(a mod 4 * 16 + b div 16) mod 16 * 16 + (b mod 16 * 4) div 4 = b"
    by (simp_all only: j div_mult_mod_eq nonzero_mult_div_cancel_right zero_neq_numeral not_False_eq_True)
qed

lemma byte_high [simp]: "(of_char z :: nat) div 64 div 4 = 0" "(of_char z :: nat) div 64 mod 4 = of_char z div 64"
  using byte_digits(1) [OF of_char_less_256 [of z]]
  by (simp_all add: div_mult2_eq [symmetric] less_mult_imp_div_less)

lemma b64_filter: "filter (\<lambda>c. c \<noteq> CHR 0x0A \<and> c \<noteq> CHR 0x0D) (b64_encode bs) = b64_encode bs"
  by (induction bs rule: b64_encode.induct) (simp_all add: Let_def b64_char_plain)

lemma b64_quads_encode: "b64_quads (b64_encode bs) = Some bs"
  by (induction bs rule: b64_encode.induct)
    (simp_all add: Let_def b64_char_plain b64_group_def byte_join)

interpretation base64: codec b64_encode b64_decode
  by unfold_locales (simp add: b64_decode_def b64_filter b64_quads_encode)

lemma json_bytes_of_bytes: "bs \<noteq> [] \<Longrightarrow> json_bytes (json_of_bytes bs) = Inr bs"
  by (simp add: json_bytes_def json_of_bytes_def base64.dec_enc)

lemma bytes_field_of_bytes [simp]: "bytes_field upd (json_of_bytes bs) s = Inr (upd bs s)"
  by (cases "bs = []") (simp_all add: bytes_field_def json_bytes_of_bytes, simp_all add: json_of_bytes_def)

lemma uint64_field_of_uint64 [simp]:
  "unat n < 2 ^ 53 \<Longrightarrow> uint64_field upd (json_of_uint64 n) s = Inr (upd n s)"
  by (simp add: uint64_field_def json_uint64_of_uint64) (simp add: json_of_uint64_def)

lemma int_field_of_int [simp]:
  "0 \<le> i \<Longrightarrow> i < 2 ^ 53 \<Longrightarrow> int_field upd (json_of_int i) s = Inr (upd i s)"
  by (simp add: int_field_def json_int_of_int) (simp add: json_of_int_def)

lemma string_field_of_string [simp]: "string_field upd (json_of_string x) s = Inr (upd (coerce_utf8 x) s)"
  by (simp add: string_field_def json_string_def json_of_string_def)

text \<open>What a struct was written as is valid UTF-8 already: the second coercion does nothing.\<close>

lemma b64_char_ascii: "d < 64 \<Longrightarrow> byte_code (b64_char d) < 128"
proof -
  have "list_all (\<lambda>d. byte_code (b64_char d) < 128) [0..<64]"
    by (simp add: upt_rec b64_char_def)
  then show "d < 64 \<Longrightarrow> ?thesis" by (simp add: list_all_iff)
qed

lemma b64_ascii: "list_all (\<lambda>c. byte_code c < 128) (b64_encode bs)"
  by (induction bs rule: b64_encode.induct) (simp_all add: Let_def b64_char_ascii)

lemma coerced_values [simp]:
  "coerce_json (json_of_string s) = json_of_string s"
  "coerce_json (json_of_uint64 n) = json_of_uint64 n"
  "coerce_json (json_of_int i) = json_of_int i"
  "coerce_json (json_of_bytes bs) = json_of_bytes bs"
  by (simp_all add: json_of_string_def json_of_uint64_def json_of_int_def json_of_bytes_def
      ascii_valid [OF b64_ascii])

end
