(* ===== verification/Construction.thy ===== *)
theory Construction
  imports Json
begin

text \<open>
  The construction endpoints (\<open>constructionService.go\<close>, \<open>constructionServiceFee.go\<close>,
  \<open>constructionOptions.go\<close>, \<open>constructionMetadata.go\<close>, \<open>constructionPreprocessMetadata.go\<close> in
  \<open>server/services\<close>): from an intent to options, to metadata, to an unsigned transaction, and
  back to the operations of a transaction. The JSON text of a transaction is written and read by
  the library \<open>L\<close>.
\<close>

section \<open>Requests\<close>

text \<open>Optional parts of a request are pointers; the code reads them without a test for nil.\<close>

record RequestAmount =
  ra_Value :: string
  ra_Currency :: "Currency option"

record RequestOperation =
  rq_Account :: "string option"
  rq_Amount :: "RequestAmount option"

definition accountAddress :: "RequestOperation \<Rightarrow> failure + string" where
  "accountAddress operation =
     (case rq_Account operation of None \<Rightarrow> Inl nilPointer | Some address \<Rightarrow> Inr address)"

definition amountValue :: "RequestOperation \<Rightarrow> failure + string" where
  "amountValue operation =
     (case rq_Amount operation of None \<Rightarrow> Inl nilPointer | Some amount \<Rightarrow> Inr (ra_Value amount))"

definition amountCurrencySymbol :: "RequestOperation \<Rightarrow> failure + string" where
  "amountCurrencySymbol operation =
     (case rq_Amount operation of
        None \<Rightarrow> Inl nilPointer
      | Some amount \<Rightarrow>
          (case ra_Currency amount of None \<Rightarrow> Inl nilPointer | Some currency \<Rightarrow> Inr (Symbol currency)))"

definition quoted :: "string \<Rightarrow> string" where
  "quoted s = CHR 0x27 # s @ [CHR 0x27]"

section \<open>Preprocess metadata and options\<close>

record constructionPreprocessMetadata =
  pm_Sender :: string
  pm_Receiver :: string
  pm_Amount :: string
  pm_CurrencySymbol :: string
  pm_GasLimit :: u64
  pm_GasPrice :: u64
  pm_Data :: bytes

definition noPreprocessMetadata :: constructionPreprocessMetadata where
  "noPreprocessMetadata =
     \<lparr>pm_Sender = [], pm_Receiver = [], pm_Amount = [], pm_CurrencySymbol = [],
      pm_GasLimit = 0, pm_GasPrice = 0, pm_Data = []\<rparr>"

definition preprocessMetadataFields :: "constructionPreprocessMetadata struct_fields" where
  "preprocessMetadataFields =
     [(''sender'', string_field (\<lambda>x s. s\<lparr>pm_Sender := x\<rparr>)),
      (''receiver'', string_field (\<lambda>x s. s\<lparr>pm_Receiver := x\<rparr>)),
      (''amount'', string_field (\<lambda>x s. s\<lparr>pm_Amount := x\<rparr>)),
      (''currencySymbol'', string_field (\<lambda>x s. s\<lparr>pm_CurrencySymbol := x\<rparr>)),
      (''gasLimit'', uint64_field (\<lambda>x s. s\<lparr>pm_GasLimit := x\<rparr>)),
      (''gasPrice'', uint64_field (\<lambda>x s. s\<lparr>pm_GasPrice := x\<rparr>)),
      (''data'', bytes_field (\<lambda>x s. s\<lparr>pm_Data := x\<rparr>))]"

definition newConstructionPreprocessMetadata :: "json_object \<Rightarrow> go_error + constructionPreprocessMetadata" where
  "newConstructionPreprocessMetadata obj = fromObjectsMap preprocessMetadataFields noPreprocessMetadata obj"

record constructionOptions =
  co_Sender :: string
  co_Receiver :: string
  co_Amount :: string
  co_CurrencySymbol :: string
  co_GasLimit :: u64
  co_GasPrice :: u64
  co_Data :: bytes

definition noOptions :: constructionOptions where
  "noOptions = \<lparr>co_Sender = [], co_Receiver = [], co_Amount = [], co_CurrencySymbol = [],
                co_GasLimit = 0, co_GasPrice = 0, co_Data = []\<rparr>"

definition optionsFields :: "constructionOptions struct_fields" where
  "optionsFields =
     [(''sender'', string_field (\<lambda>x s. s\<lparr>co_Sender := x\<rparr>)),
      (''receiver'', string_field (\<lambda>x s. s\<lparr>co_Receiver := x\<rparr>)),
      (''amount'', string_field (\<lambda>x s. s\<lparr>co_Amount := x\<rparr>)),
      (''currencySymbol'', string_field (\<lambda>x s. s\<lparr>co_CurrencySymbol := x\<rparr>)),
      (''gasLimit'', uint64_field (\<lambda>x s. s\<lparr>co_GasLimit := x\<rparr>)),
      (''gasPrice'', uint64_field (\<lambda>x s. s\<lparr>co_GasPrice := x\<rparr>)),
      (''data'', bytes_field (\<lambda>x s. s\<lparr>co_Data := x\<rparr>))]"

definition newConstructionOptions :: "json_object \<Rightarrow> go_error + constructionOptions" where
  "newConstructionOptions obj = fromObjectsMap optionsFields noOptions obj"

definition optionsToObjectsMap :: "constructionOptions \<Rightarrow> json_object" where
  "optionsToObjectsMap options =
     [(''sender'', json_of_string (co_Sender options)),
      (''receiver'', json_of_string (co_Receiver options)),
      (''amount'', json_of_string (co_Amount options)),
      (''currencySymbol'', json_of_string (co_CurrencySymbol options)),
      (''gasLimit'', json_of_uint64 (co_GasLimit options)),
      (''gasPrice'', json_of_uint64 (co_GasPrice options)),
      (''data'', json_of_bytes (co_Data options))]"

definition coalesceGasLimit :: "constructionOptions \<Rightarrow> u64 \<Rightarrow> u64" where
  "coalesceGasLimit options estimatedGasLimit =
     (if co_GasLimit options = 0 then estimatedGasLimit else co_GasLimit options)"

definition coalesceGasPrice :: "constructionOptions \<Rightarrow> u64 \<Rightarrow> u64" where
  "coalesceGasPrice options minGasPrice =
     (if co_GasPrice options = 0 then minGasPrice else co_GasPrice options)"

definition validateOptions :: "constructionOptions \<Rightarrow> string \<Rightarrow> go_error + unit" where
  "validateOptions options nativeCurrencySymbol =
     (if length (co_Sender options) = 0 then Inl (ErrorsNew (''missing option: '' @ quoted ''sender''))
      else if length (co_Receiver options) = 0 then Inl (ErrorsNew (''missing option: '' @ quoted ''receiver''))
      else if isZeroAmount (co_Amount options) then Inl (ErrorsNew (''missing option: '' @ quoted ''amount''))
      else if length (co_CurrencySymbol options) = 0
      then Inl (ErrorsNew (''missing option: '' @ quoted ''currencySymbol''))
      else if length (co_Data options) > 0 \<and> co_CurrencySymbol options \<noteq> nativeCurrencySymbol
      then Inl (ErrorsNew (''for custom currencies, option '' @ quoted ''data'' @ '' must be empty''))
      else Inr ())"

section \<open>/construction/preprocess\<close>

text \<open>
  A value given in the metadata wins; otherwise it is read from the operation at the index, if
  there are enough operations.
\<close>

definition orFallback ::
  "string \<Rightarrow> RequestOperation list \<Rightarrow> nat \<Rightarrow> string \<Rightarrow> (RequestOperation \<Rightarrow> failure + string) \<Rightarrow> failure + string" where
  "orFallback given operations i what read =
     (if length given > 0 then Inr given
      else if length operations < i + 1
      then Inl (failWith newErrFactory ErrConstruction (ErrorsNew (''cannot prepare '' @ what)))
      else read (operations ! i))"

definition ConstructionPreprocess ::
  "'w NetworkProvider \<Rightarrow> json_object \<Rightarrow> RequestOperation list \<Rightarrow> failure + json_object" where
  "ConstructionPreprocess P metadata operations =
     bind_err (orFail newErrFactory ErrConstruction (newConstructionPreprocessMetadata metadata)) (\<lambda>requestMetadata.
     bind_err (orFallback (pm_Sender requestMetadata) operations 0 ''sender'' accountAddress) (\<lambda>sender.
     bind_err (orFallback (pm_Receiver requestMetadata) operations 1 ''receiver'' accountAddress) (\<lambda>receiver.
     bind_err (orFallback (pm_Amount requestMetadata) operations 0 ''amount''
                 (\<lambda>operation. bind_err (amountValue operation) (\<lambda>v. Inr (getMagnitudeOfAmount v)))) (\<lambda>amount.
     bind_err (orFallback (pm_CurrencySymbol requestMetadata) operations 0 ''currency'' amountCurrencySymbol) (\<lambda>symbol.
       let responseOptions =
             \<lparr>co_Sender = sender, co_Receiver = receiver, co_Amount = amount, co_CurrencySymbol = symbol,
              co_GasLimit = (if pm_GasLimit requestMetadata > 0 then pm_GasLimit requestMetadata else 0),
              co_GasPrice = (if pm_GasPrice requestMetadata > 0 then pm_GasPrice requestMetadata else 0),
              co_Data = (if length (pm_Data requestMetadata) > 0 then pm_Data requestMetadata else [])\<rparr>
       in bind_err (orFail newErrFactory ErrConstruction
                      (validateOptions responseOptions (getNativeCurrencySymbol P)))
            (\<lambda>_. Inr (optionsToObjectsMap responseOptions)))))))"

section \<open>Fees (constructionServiceFee.go)\<close>

text \<open>
  \<open>uint64(float64(gasPrice) * gasPriceModifier)\<close>: two roundings to 53 bits, then towards zero.
\<close>

definition float_trunc :: "float64 \<Rightarrow> nat" where
  "float_trunc x =
     (if exponent x \<ge> 0 then mantissa x * 2 ^ nat (exponent x) else mantissa x div 2 ^ nat (- exponent x))"

definition executionGasPriceOf :: "Library \<Rightarrow> u64 \<Rightarrow> float64 \<Rightarrow> u64" where
  "executionGasPriceOf L gasPrice gasPriceModifier =
     (let product = \<lparr>mantissa = round53 (round53 (unat gasPrice) * mantissa gasPriceModifier),
                     exponent = exponent gasPriceModifier\<rparr>;
          truncated = float_trunc product
      in if truncated < 2 ^ 64 then of_nat truncated else lib_uint64_overflow L truncated)"

definition computeFee :: "Library \<Rightarrow> u64 \<Rightarrow> u64 \<Rightarrow> u64 \<Rightarrow> float64 \<Rightarrow> int" where
  "computeFee L movementGasLimit executionGasLimit gasPrice gasPriceModifier =
     (let movementFee = multiplyUint64 movementGasLimit gasPrice;
          executionGasPrice = executionGasPriceOf L gasPrice gasPriceModifier;
          executionFee = multiplyUint64 executionGasLimit executionGasPrice
      in addBigInt movementFee executionFee)"

definition movementGasLimitOf :: "NetworkConfig \<Rightarrow> bytes \<Rightarrow> u64" where
  "movementGasLimitOf networkConfig computedData =
     nc_MinGasLimit networkConfig + nc_GasPerDataByte networkConfig * of_nat (length computedData)"

definition computeFeeComponents ::
  "Library \<Rightarrow> 'w NetworkProvider \<Rightarrow> constructionOptions \<Rightarrow> bytes \<Rightarrow> failure + int \<times> u64 \<times> u64" where
  "computeFeeComponents L P options computedData =
     (let networkConfig = np_GetNetworkConfig P;
          minGasPrice = nc_MinGasPrice networkConfig;
          isForNativeCurrency = isNativeCurrencySymbol P (co_CurrencySymbol options);
          movementGasLimit = movementGasLimitOf networkConfig computedData;
          executionGasLimit = (if \<not> isForNativeCurrency then nc_GasLimitCustomTransfer networkConfig else 0);
          estimatedGasLimit = movementGasLimit + executionGasLimit;
          gasLimit = coalesceGasLimit options estimatedGasLimit;
          gasPrice = coalesceGasPrice options minGasPrice
      in if gasLimit < estimatedGasLimit then Inl (Refused (newErr newErrFactory ErrInsufficientGasLimit))
         else if gasPrice < minGasPrice then Inl (Refused (newErr newErrFactory ErrGasPriceTooLow))
         else Inr (computeFee L movementGasLimit executionGasLimit gasPrice (nc_GasPriceModifier networkConfig),
                   gasLimit, gasPrice))"

section \<open>/construction/metadata\<close>

record constructionMetadata =
  cm_Sender :: string
  cm_Receiver :: string
  cm_Nonce :: u64
  cm_Amount :: string
  cm_CurrencySymbol :: string
  cm_GasLimit :: u64
  cm_GasPrice :: u64
  cm_Data :: bytes
  cm_ChainID :: string
  cm_Version :: int

definition noMetadata :: constructionMetadata where
  "noMetadata = \<lparr>cm_Sender = [], cm_Receiver = [], cm_Nonce = 0, cm_Amount = [], cm_CurrencySymbol = [],
                 cm_GasLimit = 0, cm_GasPrice = 0, cm_Data = [], cm_ChainID = [], cm_Version = 0\<rparr>"

definition metadataFields :: "constructionMetadata struct_fields" where
  "metadataFields =
     [(''sender'', string_field (\<lambda>x s. s\<lparr>cm_Sender := x\<rparr>)),
      (''receiver'', string_field (\<lambda>x s. s\<lparr>cm_Receiver := x\<rparr>)),
      (''nonce'', uint64_field (\<lambda>x s. s\<lparr>cm_Nonce := x\<rparr>)),
      (''amount'', string_field (\<lambda>x s. s\<lparr>cm_Amount := x\<rparr>)),
      (''currencySymbol'', string_field (\<lambda>x s. s\<lparr>cm_CurrencySymbol := x\<rparr>)),
      (''gasLimit'', uint64_field (\<lambda>x s. s\<lparr>cm_GasLimit := x\<rparr>)),
      (''gasPrice'', uint64_field (\<lambda>x s. s\<lparr>cm_GasPrice := x\<rparr>)),
      (''data'', bytes_field (\<lambda>x s. s\<lparr>cm_Data := x\<rparr>)),
      (''chainID'', string_field (\<lambda>x s. s\<lparr>cm_ChainID := x\<rparr>)),
      (''version'', int_field (\<lambda>x s. s\<lparr>cm_Version := x\<rparr>))]"

definition newConstructionMetadata :: "json_object \<Rightarrow> go_error + constructionMetadata" where
  "newConstructionMetadata obj = fromObjectsMap metadataFields noMetadata obj"

definition metadataToObjectsMap :: "constructionMetadata \<Rightarrow> json_object" where
  "metadataToObjectsMap metadata =
     [(''sender'', json_of_string (cm_Sender metadata)),
      (''receiver'', json_of_string (cm_Receiver metadata)),
      (''nonce'', json_of_uint64 (cm_Nonce metadata)),
      (''amount'', json_of_string (cm_Amount metadata)),
      (''currencySymbol'', json_of_string (cm_CurrencySymbol metadata)),
      (''gasLimit'', json_of_uint64 (cm_GasLimit metadata)),
      (''gasPrice'', json_of_uint64 (cm_GasPrice metadata)),
      (''data'', json_of_bytes (cm_Data metadata)),
      (''chainID'', json_of_string (cm_ChainID metadata)),
      (''version'', json_of_int (cm_Version metadata))]"

definition validateMetadata :: "constructionMetadata \<Rightarrow> go_error + unit" where
  "validateMetadata metadata =
     (if length (cm_Sender metadata) = 0 then Inl (ErrorsNew (''missing metadata: '' @ quoted ''sender''))
      else if length (cm_Receiver metadata) = 0 then Inl (ErrorsNew (''missing metadata: '' @ quoted ''receiver''))
      else if cm_GasLimit metadata = 0 then Inl (ErrorsNew (''missing metadata: '' @ quoted ''gasLimit''))
      else if cm_GasPrice metadata = 0 then Inl (ErrorsNew (''missing metadata: '' @ quoted ''gasPrice''))
      else if cm_Version metadata \<noteq> 1
      then Inl (Errorf [Txt (''bad metadata: unexpected '' @ quoted ''version'' @ '' ''),
                        Txt (int_to_dec (cm_Version metadata))])
      else if length (cm_ChainID metadata) = 0 then Inl (ErrorsNew (''missing metadata: '' @ quoted ''chainID''))
      else Inr ())"

definition toTransaction :: "constructionMetadata \<Rightarrow> go_error + PreparedTransaction" where
  "toTransaction metadata =
     bind_err (validateMetadata metadata) (\<lambda>_.
       Inr \<lparr>pt_Nonce = cm_Nonce metadata, pt_Value = cm_Amount metadata,
            pt_Receiver = cm_Receiver metadata, pt_Sender = cm_Sender metadata,
            pt_GasPrice = cm_GasPrice metadata, pt_GasLimit = cm_GasLimit metadata,
            pt_Data = cm_Data metadata, pt_Signature = [], pt_ChainID = cm_ChainID metadata,
            pt_Version = word_of_int (cm_Version metadata)\<rparr>)"

definition toTransactionJson :: "Library \<Rightarrow> constructionMetadata \<Rightarrow> go_error + string" where
  "toTransactionJson L metadata = bind_err (toTransaction metadata) (lib_MarshalTx L)"

definition transactionVersion :: int where "transactionVersion = 1"

definition computeDataForCustomCurrencyTransfer :: "string \<Rightarrow> string \<Rightarrow> bytes" where
  "computeDataForCustomCurrencyTransfer tokenIdentifier amount =
     builtInFunctionESDTTransfer @ ''@'' @ stringToHex tokenIdentifier @ ''@'' @ amountToHex amount"

text \<open>The body of \<open>ConstructionMetadata\<close> after the account has been fetched.\<close>

definition metadataOfAccount ::
  "Library \<Rightarrow> 'w NetworkProvider \<Rightarrow> constructionOptions \<Rightarrow> AccountOnBlock \<Rightarrow> failure + json_object \<times> Amount list" where
  "metadataOfAccount L P requestOptions account =
     (let isNative = isNativeCurrencySymbol P (co_CurrencySymbol requestOptions);
          amount = (if isNative then co_Amount requestOptions else amountZero);
          txData = (if isNative then co_Data requestOptions
                    else computeDataForCustomCurrencyTransfer (co_CurrencySymbol requestOptions)
                           (co_Amount requestOptions))
      in bind_err (computeFeeComponents L P requestOptions txData) (\<lambda>(fee, gasLimit, gasPrice).
           Inr (metadataToObjectsMap
                  \<lparr>cm_Sender = co_Sender requestOptions, cm_Receiver = co_Receiver requestOptions,
                   cm_Nonce = ac_Nonce (aob_Account account), cm_Amount = amount,
                   cm_CurrencySymbol = co_CurrencySymbol requestOptions,
                   cm_GasLimit = gasLimit, cm_GasPrice = gasPrice, cm_Data = txData,
                   cm_ChainID = nc_NetworkID (np_GetNetworkConfig P), cm_Version = transactionVersion\<rparr>,
                [valueToNativeAmount P (int_to_dec fee)])))"

definition ConstructionMetadata ::
  "Library \<Rightarrow> 'w NetworkProvider \<Rightarrow> json_object \<Rightarrow> 'w \<Rightarrow> (failure + json_object \<times> Amount list) \<times> 'w" where
  "ConstructionMetadata L P options w =
     (if np_IsOffline P then (Inl (Refused (newErr newErrFactory ErrOfflineMode)), w)
      else case orFail newErrFactory ErrConstruction (newConstructionOptions options) of
             Inl failure \<Rightarrow> (Inl failure, w)
           | Inr requestOptions \<Rightarrow>
               (case np_GetAccount P (co_Sender requestOptions) w of
                  (account, w') \<Rightarrow>
                    (bind_err (orFail newErrFactory ErrUnableToGetAccount account)
                       (metadataOfAccount L P requestOptions), w')))"

section \<open>/construction/payloads and /construction/parse\<close>

record SigningPayload =
  sp_Address :: string
  sp_SignatureType :: string
  sp_Bytes :: bytes

definition ConstructionPayloads ::
  "Library \<Rightarrow> json_object \<Rightarrow> failure + string \<times> SigningPayload list" where
  "ConstructionPayloads L requestMetadata =
     bind_err (orFail newErrFactory ErrConstruction (newConstructionMetadata requestMetadata)) (\<lambda>metadata.
     bind_err (orFail newErrFactory ErrConstruction (toTransactionJson L metadata)) (\<lambda>txJson.
       Inr (txJson, [\<lparr>sp_Address = cm_Sender metadata, sp_SignatureType = ''ed25519'', sp_Bytes = txJson\<rparr>])))"

definition isCustomCurrencyTransfer :: "string \<Rightarrow> bool" where
  "isCustomCurrencyTransfer txData = has_prefix txData builtInFunctionESDTTransfer"

definition parseCustomCurrencyTransfer :: "string \<Rightarrow> go_error + string \<times> string" where
  "parseCustomCurrencyTransfer txData =
     (let parts = split_on (CHR ''@'') txData in
      if length parts \<noteq> 3 then Inl (ErrorsNew ''cannot parse data of custom currency transfer'')
      else case hex_decode (parts ! 1) of
             Inl err \<Rightarrow> Inl (ErrorsNew ''cannot decode custom token identifier'')
           | Inr tokenIdentifierBytes \<Rightarrow>
               (case hexToAmount (parts ! 2) of
                  Inl err \<Rightarrow> Inl (ErrorsNew ''cannot decode custom token amount'')
                | Inr amount \<Rightarrow> Inr (tokenIdentifierBytes, amount)))"

definition createOperationsFromPreparedTx ::
  "'w NetworkProvider \<Rightarrow> PreparedTransaction \<Rightarrow> go_error + Operation list" where
  "createOperationsFromPreparedTx P tx =
     bind_err
       (if isCustomCurrencyTransfer (pt_Data tx) then
          bind_err (parseCustomCurrencyTransfer (pt_Data tx)) (\<lambda>(tokenIdentifier, amount).
            Inr [newOperation opCustomTransfer (pt_Sender tx)
                   (valueToCustomAmount P (CHR ''-'' # amount) tokenIdentifier),
                 newOperation opCustomTransfer (pt_Receiver tx)
                   (valueToCustomAmount P amount tokenIdentifier)])
        else
          Inr [newOperation opTransfer (pt_Sender tx) (valueToNativeAmount P (CHR ''-'' # pt_Value tx)),
               newOperation opTransfer (pt_Receiver tx) (valueToNativeAmount P (pt_Value tx))])
       (\<lambda>operations. Inr (indexOperations operations))"

definition getTxFromRequest :: "Library \<Rightarrow> string \<Rightarrow> go_error + PreparedTransaction" where
  "getTxFromRequest L txString = lib_UnmarshalTx L txString"

definition ConstructionParse ::
  "Library \<Rightarrow> 'w NetworkProvider \<Rightarrow> string \<Rightarrow> bool \<Rightarrow> failure + Operation list \<times> string list" where
  "ConstructionParse L P transaction isSigned =
     bind_err (orFail newErrFactory ErrMalformedValue (getTxFromRequest L transaction)) (\<lambda>tx.
       let signers = (if isSigned then [pt_Sender tx] else [])
       in bind_err (orFail newErrFactory ErrConstruction (createOperationsFromPreparedTx P tx))
            (\<lambda>operations. Inr (operations, signers)))"

section \<open>/construction/combine, derive, hash and submit\<close>

definition ConstructionCombine :: "Library \<Rightarrow> string \<Rightarrow> bytes list \<Rightarrow> failure + string" where
  "ConstructionCombine L unsignedTransaction signatures =
     bind_err (orFail newErrFactory ErrMalformedValue (getTxFromRequest L unsignedTransaction)) (\<lambda>tx.
       if length signatures \<noteq> 1 then Inl (Refused (newErr newErrFactory ErrInvalidInputParam))
       else orFail newErrFactory ErrMalformedValue
              (lib_MarshalTx L (tx\<lparr>pt_Signature := hex_encode (signatures ! 0)\<rparr>)))"

definition Edwards25519 :: string where "Edwards25519 = ''edwards25519''"

definition ConstructionDerive :: "'w NetworkProvider \<Rightarrow> string \<Rightarrow> bytes \<Rightarrow> failure + string" where
  "ConstructionDerive P curveType pubKey =
     (if curveType \<noteq> Edwards25519 then Inl (Refused (newErr newErrFactory ErrUnsupportedCurveType))
      else Inr (np_ConvertPubKeyToAddress P pubKey))"

definition ConstructionHash :: "Library \<Rightarrow> 'w NetworkProvider \<Rightarrow> string \<Rightarrow> failure + string" where
  "ConstructionHash L P signedTransaction =
     bind_err (orFail newErrFactory ErrMalformedValue (getTxFromRequest L signedTransaction)) (\<lambda>tx.
       orFail newErrFactory ErrMalformedValue (np_ComputeTransactionHash P tx))"

definition ConstructionSubmit ::
  "Library \<Rightarrow> 'w NetworkProvider \<Rightarrow> string \<Rightarrow> 'w \<Rightarrow> (failure + string) \<times> 'w" where
  "ConstructionSubmit L P signedTransaction w =
     (if np_IsOffline P then (Inl (Refused (newErr newErrFactory ErrOfflineMode)), w)
      else case orFail newErrFactory ErrMalformedValue (getTxFromRequest L signedTransaction) of
             Inl failure \<Rightarrow> (Inl failure, w)
           | Inr tx \<Rightarrow>
               (case np_SendTransaction P tx w of
                  (txHash, w') \<Rightarrow> (orFail newErrFactory ErrUnableToSubmitTransaction txHash, w')))"

end
