(* ===== verification/Transformer.thy ===== *)
theory Transformer
  imports Features
begin

text \<open>
  The transactions transformer (\<open>server/services/transactionsTransformer.go\<close>): it recovers the
  balance-changing operations of a block from its transactions, their events and the receipts.
  \<open>L\<close> and \<open>P\<close> are the code outside the repository and the network provider that the
  struct holds. Composite literals append operations without index and status; those are
  filled in at the end.
\<close>

section \<open>Recovering the operations of one transaction\<close>

definition areClaimDeveloperRewardsEventsEnabled :: "'w NetworkProvider \<Rightarrow> u32 \<Rightarrow> bool" where
  "areClaimDeveloperRewardsEventsEnabled P epoch = np_IsReleaseSpicaActive P epoch"

definition decideFeePayer :: "ApiTransactionResult \<Rightarrow> string" where
  "decideFeePayer tx = (if IsRelayedTxV3 tx then tx_RelayerAddress tx else tx_Sender tx)"

definition unsignedTxToRosettaTx ::
  "Library \<Rightarrow> 'w NetworkProvider \<Rightarrow> ApiTransactionResult \<Rightarrow> ApiTransactionResult list \<Rightarrow> Transaction" where
  "unsignedTxToRosettaTx L P scr txsInBlock =
     (if isSmartContractResultIneffectiveRefund L P scr then
        \<lparr>rt_Hash = tx_Hash scr, rt_Operations = [], rt_Metadata = None\<rparr>
      else if tx_IsRefund scr then
        \<lparr>rt_Hash = tx_Hash scr,
         rt_Operations = [newOperation opFeeRefundAsScResult (tx_Receiver scr) (valueToNativeAmount P (tx_Value scr))],
         rt_Metadata = None\<rparr>
      else if \<not> areClaimDeveloperRewardsEventsEnabled P (tx_Epoch scr) \<and>
              doesContractResultHoldRewardsOfClaimDeveloperRewards scr txsInBlock then
        \<lparr>rt_Hash = tx_Hash scr,
         rt_Operations = [newOperation opDeveloperRewardsAsScResult (tx_Receiver scr) (valueToNativeAmount P (tx_Value scr))],
         rt_Metadata = None\<rparr>
      else
        \<lparr>rt_Hash = tx_Hash scr,
         rt_Operations =
           [newOperation opScResult (tx_Sender scr) (valueToNativeAmount P (CHR ''-'' # tx_Value scr)),
            newOperation opScResult (tx_Receiver scr) (valueToNativeAmount P (tx_Value scr))],
         rt_Metadata = Some (extractTransactionMetadata scr)\<rparr>)"

definition rewardTxToRosettaTx :: "'w NetworkProvider \<Rightarrow> ApiTransactionResult \<Rightarrow> Transaction" where
  "rewardTxToRosettaTx P tx =
     \<lparr>rt_Hash = tx_Hash tx,
      rt_Operations = [newOperation opReward (tx_Receiver tx) (valueToNativeAmount P (tx_Value tx))],
      rt_Metadata = None\<rparr>"

definition extractInnerTxOperationsIfBeforeSiriusRelayedCompletelyIntrashardWithSignalError ::
  "Library \<Rightarrow> 'w NetworkProvider \<Rightarrow> ApiTransactionResult \<Rightarrow> go_error + Operation list" where
  "extractInnerTxOperationsIfBeforeSiriusRelayedCompletelyIntrashardWithSignalError L P tx =
     (if np_IsReleaseSiriusActive P (tx_Epoch tx) then Inr []
      else if \<not> isRelayedV1Transaction tx then Inr []
      else bind_err (parseInnerTxOfRelayedV1 L tx) (\<lambda>innerTx.
        if isZeroBigIntOrNil (Some (it_Value innerTx)) then Inr []
        else if \<not> isRelayedV1TransactionCompletelyIntrashardWithSignalError P tx innerTx then Inr []
        else
          let senderAddress = np_ConvertPubKeyToAddress P (it_SenderPubKey innerTx);
              receiverAddress = np_ConvertPubKeyToAddress P (it_ReceiverPubKey innerTx)
          in Inr [newOperation opTransfer senderAddress
                    (valueToNativeAmount P (CHR ''-'' # int_to_dec (it_Value innerTx))),
                  newOperation opTransfer receiverAddress
                    (valueToNativeAmount P (int_to_dec (it_Value innerTx)))]))"

definition normalTxToRosetta ::
  "Library \<Rightarrow> 'w NetworkProvider \<Rightarrow> ApiTransactionResult \<Rightarrow> go_error + Transaction" where
  "normalTxToRosetta L P tx =
     (let transfersValue = isNonZeroAmount (tx_Value tx);
          transfersValue =
            (if np_IsReleaseSiriusActive P (tx_Epoch tx)
             then transfersValue \<and>
                  \<not> isContractDeploymentWithSignalErrorOrIntrashardContractCallWithSignalError tx
             else transfersValue);
          operations =
            (if transfersValue
             then [newOperation opTransfer (tx_Sender tx) (valueToNativeAmount P (CHR ''-'' # tx_Value tx)),
                   newOperation opTransfer (tx_Receiver tx) (valueToNativeAmount P (tx_Value tx))]
             else []);
          feePayer = decideFeePayer tx;
          operations = operations @
            [newOperation opFee feePayer (valueToNativeAmount P (CHR ''-'' # tx_InitiallyPaidFee tx))]
      in bind_err (extractInnerTxOperationsIfBeforeSiriusRelayedCompletelyIntrashardWithSignalError L P tx)
           (\<lambda>innerTxOperations.
              Inr \<lparr>rt_Hash = tx_Hash tx, rt_Operations = operations @ innerTxOperations,
                   rt_Metadata = Some (extractTransactionMetadata tx)\<rparr>))"

text \<open>\<open>receipt.Value.String()\<close>: a nil \<open>*big.Int\<close> prints as \<open><nil>\<close>.\<close>

definition bigIntPtrString :: "int option \<Rightarrow> string" where
  "bigIntPtrString v = (case v of None \<Rightarrow> ''<nil>'' | Some i \<Rightarrow> int_to_dec i)"

definition refundReceiptToRosettaTx :: "'w NetworkProvider \<Rightarrow> ApiReceipt \<Rightarrow> go_error + Transaction" where
  "refundReceiptToRosettaTx P receipt =
     bind_err (np_ComputeReceiptHash P receipt) (\<lambda>receiptHash.
       Inr \<lparr>rt_Hash = receiptHash,
            rt_Operations = [newOperation opFeeRefund (rc_SndAddr receipt)
                               (valueToNativeAmount P (bigIntPtrString (rc_Value receipt)))],
            rt_Metadata = None\<rparr>)"

definition invalidTxToRosettaTx :: "'w NetworkProvider \<Rightarrow> ApiTransactionResult \<Rightarrow> Transaction" where
  "invalidTxToRosettaTx P tx =
     (let fee = (if isInvalidTransactionOfTypeMoveBalanceThatOnlyConsumesDataMovementGas tx
                 then int_to_dec (np_ComputeTransactionFeeForMoveBalance P tx)
                 else tx_InitiallyPaidFee tx);
          feePayer = decideFeePayer tx
      in \<lparr>rt_Hash = tx_Hash tx,
          rt_Operations =
            [(newOperation opTransfer (tx_Sender tx) (valueToNativeAmount P (CHR ''-'' # tx_Value tx)))
               \<lparr>op_Status := Some opStatusFailure\<rparr>,
             (newOperation opTransfer (tx_Receiver tx) (valueToNativeAmount P (tx_Value tx)))
               \<lparr>op_Status := Some opStatusFailure\<rparr>,
             newOperation opFeeOfInvalidTx feePayer (valueToNativeAmount P (CHR ''-'' # fee))],
          rt_Metadata = Some (extractTransactionMetadata tx)\<rparr>)"

definition mempoolMoveBalanceTxToRosettaTx :: "'w NetworkProvider \<Rightarrow> ApiTransactionResult \<Rightarrow> Transaction" where
  "mempoolMoveBalanceTxToRosettaTx P tx =
     (let hasValue = isNonZeroAmount (tx_Value tx);
          operations =
            (if hasValue
             then [newOperation opTransfer (tx_Sender tx) (valueToNativeAmount P (CHR ''-'' # tx_Value tx)),
                   newOperation opTransfer (tx_Receiver tx) (valueToNativeAmount P (tx_Value tx))]
             else [])
      in \<lparr>rt_Hash = tx_Hash tx, rt_Operations = indexOperations operations,
          rt_Metadata = Some (extractTransactionMetadata tx)\<rparr>)"

section \<open>Operations recovered from events\<close>

definition extractOperationsFromEventESDT :: "'w NetworkProvider \<Rightarrow> eventESDT \<Rightarrow> Operation list" where
  "extractOperationsFromEventESDT P event =
     (if esdt_identifier event = nativeAsESDTIdentifier then
        [newOperation opTransfer (senderAddress event)
           (valueToNativeAmount P (CHR ''-'' # esdt_value event)),
         newOperation opTransfer (receiverAddress event) (valueToNativeAmount P (esdt_value event))]
      else if np_HasCustomCurrency P (esdt_identifier event) then
        [newOperation opCustomTransfer (senderAddress event)
           (valueToCustomAmount P (CHR ''-'' # esdt_value event) (getExtendedIdentifier event)),
         newOperation opCustomTransfer (receiverAddress event)
           (valueToCustomAmount P (esdt_value event) (getExtendedIdentifier event))]
      else [])"

definition operationsOfSCDeploy :: "'w NetworkProvider \<Rightarrow> ApiTransactionResult \<Rightarrow> eventSCDeploy \<Rightarrow> Operation list" where
  "operationsOfSCDeploy P tx event =
     (if tx_Receiver tx = systemContractDeployAddress then
        [newOperation opTransfer (tx_Receiver tx) (valueToNativeAmount P (CHR ''-'' # tx_Value tx)),
         newOperation opTransfer (contractAddress event) (valueToNativeAmount P (tx_Value tx))]
      else [])"

definition operationsOfTransferValueOnly :: "'w NetworkProvider \<Rightarrow> eventTransferValueOnly \<Rightarrow> Operation list" where
  "operationsOfTransferValueOnly P event =
     [newOperation opTransfer (tv_sender event) (valueToNativeAmount P (CHR ''-'' # tv_value event)),
      newOperation opTransfer (tv_receiver event) (valueToNativeAmount P (tv_value event))]"

text \<open>
  The loop bodies for local burns, wipes and NFT burns (\<open>operationsOfOutflow\<close>, with the sign)
  and for local mints, NFT creations and added quantities (\<open>operationsOfInflow\<close>) are the same
  code, once per kind of event.
\<close>

definition operationsOfOutflow :: "'w NetworkProvider \<Rightarrow> eventESDT \<Rightarrow> Operation list" where
  "operationsOfOutflow P event =
     (if \<not> np_HasCustomCurrency P (esdt_identifier event) then []
      else [newOperation opCustomTransfer (otherAddress event)
              (valueToCustomAmount P (CHR ''-'' # esdt_value event) (getExtendedIdentifier event))])"

definition operationsOfInflow :: "'w NetworkProvider \<Rightarrow> eventESDT \<Rightarrow> Operation list" where
  "operationsOfInflow P event =
     (if \<not> np_HasCustomCurrency P (esdt_identifier event) then []
      else [newOperation opCustomTransfer (otherAddress event)
              (valueToCustomAmount P (esdt_value event) (getExtendedIdentifier event))])"

definition operationsOfClaimDeveloperRewards ::
  "'w NetworkProvider \<Rightarrow> eventClaimDeveloperRewards \<Rightarrow> Operation list" where
  "operationsOfClaimDeveloperRewards P event =
     [newOperation opDeveloperRewards (cdr_receiverAddress event) (valueToNativeAmount P (cdr_value event))]"

definition addOperationsGivenTransactionEvents ::
  "'w NetworkProvider \<Rightarrow> ApiTransactionResult \<Rightarrow> Transaction \<Rightarrow> go_error + Transaction" where
  "addOperationsGivenTransactionEvents P tx rosettaTx =
     (if hasAnySignalError tx then Inr rosettaTx
      else
       bind_err (extractEventSCDeploy P tx) (\<lambda>eventsSCDeploy.
       bind_err (extractEventTransferValueOnly P tx) (\<lambda>eventsTransferValueOnly.
       bind_err (extractEventsESDTOrESDTNFTTransfers P tx) (\<lambda>eventsESDTTransfer.
       bind_err (extractEventsESDTLocalBurn tx) (\<lambda>eventsESDTLocalBurn.
       bind_err (extractEventsESDTLocalMint tx) (\<lambda>eventsESDTLocalMint.
       bind_err (extractEventsESDTWipe P tx) (\<lambda>eventsESDTWipe.
       bind_err (extractEventsESDTNFTCreate tx) (\<lambda>eventsESDTNFTCreate.
       bind_err (extractEventsESDTNFTBurn tx) (\<lambda>eventsESDTNFTBurn.
       bind_err (extractEventsESDTNFTAddQuantity tx) (\<lambda>eventsESDTNFTAddQuantity.
       bind_err (extractEventsClaimDeveloperRewards P tx) (\<lambda>eventsClaimDeveloperRewards.
         Inr (rosettaTx\<lparr>rt_Operations := rt_Operations rosettaTx
           @ concat (map (operationsOfSCDeploy P tx) eventsSCDeploy)
           @ concat (map (operationsOfTransferValueOnly P) eventsTransferValueOnly)
           @ concat (map (extractOperationsFromEventESDT P) eventsESDTTransfer)
           @ concat (map (operationsOfOutflow P) eventsESDTLocalBurn)
           @ concat (map (operationsOfInflow P) eventsESDTLocalMint)
           @ concat (map (operationsOfOutflow P) eventsESDTWipe)
           @ concat (map (operationsOfInflow P) eventsESDTNFTCreate)
           @ concat (map (operationsOfOutflow P) eventsESDTNFTBurn)
           @ concat (map (operationsOfInflow P) eventsESDTNFTAddQuantity)
           @ (if areClaimDeveloperRewardsEventsEnabled P (tx_Epoch tx)
              then concat (map (operationsOfClaimDeveloperRewards P) eventsClaimDeveloperRewards)
              else [])\<rparr>))))))))))))"

section \<open>One transaction, one block\<close>

definition unknownTransactionType :: "string \<Rightarrow> go_error" where
  "unknownTransactionType ty = Errorf [Txt ''unknown transaction type: '', Txt ty]"

definition txToRosettaTx ::
  "Library \<Rightarrow> 'w NetworkProvider \<Rightarrow> ApiTransactionResult \<Rightarrow> ApiTransactionResult list \<Rightarrow> go_error + Transaction" where
  "txToRosettaTx L P tx txsInBlock =
     bind_err
       (if tx_Type tx = TxTypeNormal then normalTxToRosetta L P tx
        else if tx_Type tx = TxTypeReward then Inr (rewardTxToRosettaTx P tx)
        else if tx_Type tx = TxTypeUnsigned then Inr (unsignedTxToRosettaTx L P tx txsInBlock)
        else if tx_Type tx = TxTypeInvalid then Inr (invalidTxToRosettaTx P tx)
        else Inl (unknownTransactionType (tx_Type tx)))
       (\<lambda>rosettaTx. addOperationsGivenTransactionEvents P tx rosettaTx)"

definition txsOfBlock :: "Block \<Rightarrow> ApiTransactionResult list" where
  "txsOfBlock block =
     concat (map (\<lambda>miniblock. map (\<lambda>tx. tx\<lparr>tx_BlockNonce := bk_Nonce block\<rparr>) (mb_Transactions miniblock))
       (bk_MiniBlocks block))"

definition receiptsOfBlock :: "Block \<Rightarrow> ApiReceipt list" where
  "receiptsOfBlock block = concat (map mb_Receipts (bk_MiniBlocks block))"

definition finishRosettaTx :: "'w NetworkProvider \<Rightarrow> Transaction \<Rightarrow> go_error + Transaction" where
  "finishRosettaTx P rosettaTx =
     bind_err (filterOperationsByAddress (rt_Operations rosettaTx) (np_IsAddressObserved P))
       (\<lambda>filteredOperations.
          Inr (rosettaTx\<lparr>rt_Operations :=
                 applyDefaultStatusOnOperations (filterOutOperationsWithZeroAmount filteredOperations)\<rparr>))"

definition filterTxsOfBlock :: "ApiTransactionResult list \<Rightarrow> ApiTransactionResult list" where
  "filterTxsOfBlock txs =
     filterOutIntrashardRelayedTransactionAlreadyHeldInInvalidMiniblock
       (filterOutIntrashardContractResultsWhoseOriginalTransactionIsInInvalidMiniblock txs)"

text \<open>The part of \<open>transformBlockTxs\<close> after its first loop, on the gathered transactions and receipts.\<close>

definition transformGathered ::
  "Library \<Rightarrow> 'w NetworkProvider \<Rightarrow> ApiTransactionResult list \<Rightarrow> ApiReceipt list \<Rightarrow>
     go_error + Transaction list" where
  "transformGathered L P gatheredTxs gatheredReceipts =
     (let txs = filterTxsOfBlock gatheredTxs;
          receipts = filter (\<lambda>receipt. rc_Data receipt = refundGasMessage) gatheredReceipts
      in bind_err (traverse (\<lambda>tx. txToRosettaTx L P tx txs) txs) (\<lambda>ofTxs.
         bind_err (traverse (refundReceiptToRosettaTx P) receipts) (\<lambda>ofReceipts.
         bind_err (traverse (finishRosettaTx P) (ofTxs @ ofReceipts)) (\<lambda>rosettaTxs.
           Inr (filterOutRosettaTransactionsWithNoOperations rosettaTxs)))))"

definition transformBlockTxs ::
  "Library \<Rightarrow> 'w NetworkProvider \<Rightarrow> Block \<Rightarrow> go_error + Transaction list" where
  "transformBlockTxs L P block = transformGathered L P (txsOfBlock block) (receiptsOfBlock block)"

lemmas transformBlockTxs_unfold = transformBlockTxs_def [unfolded transformGathered_def]

end
