(* ===== verification/Services.thy ===== *)
theory Services
  imports Construction Transformer
begin

text \<open>
  The services behind the data endpoints, all in \<open>server/services\<close>: blocks
  (\<open>blockService.go\<close>), accounts (\<open>accountService.go\<close>), the network (\<open>networkService.go\<close>),
  the mempool (\<open>mempoolService.go\<close>) and the substitute used in offline mode
  (\<open>offline_services.go\<close>). The block service keeps the genesis block once it has been built;
  here it is a state that a call takes and returns. How concurrent calls share it is in
  GenesisCache. Stop watches and logging have no effect on an answer and are left out.
\<close>

section \<open>Blocks\<close>

record BlockResponse =
  br_BlockIdentifier :: BlockIdentifier
  br_ParentBlockIdentifier :: BlockIdentifier
  br_Timestamp :: int
  br_Transactions :: "Transaction list"
  br_Metadata :: "objectsMap option"

definition createGenesisOperations ::
  "'w NetworkProvider \<Rightarrow> GenesisBalance list \<Rightarrow> go_error + Operation list" where
  "createGenesisOperations P balances =
     (let operations = map (\<lambda>balance. newOperation opGenesisBalanceMovement (gb_Address balance)
                                        (valueToNativeAmount P (gb_Balance balance))) balances
      in bind_err (filterOperationsByAddress operations (np_IsAddressObserved P)) (\<lambda>operations.
           Inr (applyDefaultStatusOnOperations operations)))"

definition genesisResponse :: "'w NetworkProvider \<Rightarrow> Operation list \<Rightarrow> BlockResponse" where
  "genesisResponse P operations =
     \<lparr>br_BlockIdentifier = getGenesisBlockIdentifier P,
      br_ParentBlockIdentifier = getGenesisBlockIdentifier P,
      br_Timestamp = timestampInMilliseconds (np_GetGenesisTimestamp P),
      br_Transactions = [\<lparr>rt_Hash = emptyHash, rt_Operations = operations, rt_Metadata = None\<rparr>],
      br_Metadata = None\<rparr>"

definition doGetGenesisBlock :: "'w NetworkProvider \<Rightarrow> 'w \<Rightarrow> (failure + BlockResponse) \<times> 'w" where
  "doGetGenesisBlock P w =
     (case np_GetGenesisBalances P w of
        (genesisBalances, w') \<Rightarrow>
          (bind_err (orFail newErrFactory ErrUnableToGetGenesisBlock genesisBalances) (\<lambda>balances.
           bind_err (orFail newErrFactory ErrUnableToGetGenesisBlock (createGenesisOperations P balances))
             (\<lambda>operations. Inr (genesisResponse P operations))), w'))"

type_synonym 'w block_state = "BlockResponse option \<times> 'w"

definition getGenesisBlock ::
  "'w NetworkProvider \<Rightarrow> 'w block_state \<Rightarrow> (failure + BlockResponse) \<times> 'w block_state" where
  "getGenesisBlock P s =
     (case fst s of
        Some block \<Rightarrow> (Inr block, s)
      | None \<Rightarrow>
          (case doGetGenesisBlock P (snd s) of
             (Inl failure, w) \<Rightarrow> (Inl failure, (None, w))
           | (Inr fetchedBlock, w) \<Rightarrow> (Inr fetchedBlock, (Some fetchedBlock, w))))"

definition convertToRosettaBlock ::
  "Library \<Rightarrow> 'w NetworkProvider \<Rightarrow> Block \<Rightarrow> go_error + BlockResponse" where
  "convertToRosettaBlock L P block =
     (let parentBlockIdentifier =
            (if bk_Nonce block = 1 then getGenesisBlockIdentifier P
             else \<lparr>bi_Index = int64_of_uint64 (bk_Nonce block - 1), bi_Hash = bk_PrevBlockHash block\<rparr>)
      in bind_err (transformBlockTxs L P block) (\<lambda>transactions.
           Inr \<lparr>br_BlockIdentifier = blockToIdentifier block,
                br_ParentBlockIdentifier = parentBlockIdentifier,
                br_Timestamp = timestampInMilliseconds (bk_Timestamp block),
                br_Transactions = transactions,
                br_Metadata = Some [''shard'' \<mapsto> OUint32 (bk_Shard block),
                                    ''epoch'' \<mapsto> OUint32 (bk_Epoch block),
                                    ''round'' \<mapsto> OUint64 (bk_Round block),
                                    ''status'' \<mapsto> OString (bk_Status block)]\<rparr>))"

definition convertFetched ::
  "Library \<Rightarrow> 'w NetworkProvider \<Rightarrow> (go_error + Block) \<times> 'w \<Rightarrow> (failure + BlockResponse) \<times> 'w" where
  "convertFetched L P fetched =
     (bind_err (orFail newErrFactory ErrUnableToGetBlock (fst fetched)) (\<lambda>block.
        orFail newErrFactory ErrUnableToGetBlock (convertToRosettaBlock L P block)), snd fetched)"

definition getBlockByNonce ::
  "Library \<Rightarrow> 'w NetworkProvider \<Rightarrow> int \<Rightarrow> 'w \<Rightarrow> (failure + BlockResponse) \<times> 'w" where
  "getBlockByNonce L P nonce w = convertFetched L P (np_GetBlockByNonce P (uint64_of_int64 nonce) w)"

definition getBlockByHash ::
  "Library \<Rightarrow> 'w NetworkProvider \<Rightarrow> string \<Rightarrow> 'w \<Rightarrow> (failure + BlockResponse) \<times> 'w" where
  "getBlockByHash L P h w = convertFetched L P (np_GetBlockByHash P h w)"

definition doGetBlock ::
  "Library \<Rightarrow> 'w NetworkProvider \<Rightarrow> PartialBlockIdentifier \<Rightarrow> 'w block_state \<Rightarrow>
     (failure + BlockResponse) \<times> 'w block_state" where
  "doGetBlock L P identifier s =
     (let genesisBlockIdentifier = getGenesisBlockIdentifier P;
          hasGenesisIndex = (pbi_Index identifier = Some (bi_Index genesisBlockIdentifier));
          hasGenesisHash = (pbi_Hash identifier = Some (bi_Hash genesisBlockIdentifier));
          isGenesis = (hasGenesisIndex \<or> hasGenesisHash)
      in if isGenesis then getGenesisBlock P s
         else
           case pbi_Index identifier of
             Some index \<Rightarrow> (case getBlockByNonce L P index (snd s) of (r, w) \<Rightarrow> (r, (fst s, w)))
           | None \<Rightarrow>
               (case pbi_Hash identifier of
                  Some h \<Rightarrow> (case getBlockByHash L P h (snd s) of (r, w) \<Rightarrow> (r, (fst s, w)))
                | None \<Rightarrow> (Inl (Refused (newErr newErrFactory ErrMustQueryByIndexOrByHash)), s)))"

definition BlockTransaction :: "failure + BlockResponse" where
  "BlockTransaction = Inl (Refused (newErr newErrFactory ErrNotImplemented))"

section \<open>Accounts\<close>

record AccountBalanceResponse =
  abr_BlockIdentifier :: BlockIdentifier
  abr_Balances :: "Amount list"
  abr_Metadata :: objectsMap

definition doGetAccountBalance ::
  "'w NetworkProvider \<Rightarrow> PartialBlockIdentifier option \<Rightarrow> string \<Rightarrow> Currency list \<Rightarrow> 'w \<Rightarrow>
     (failure + AccountBalanceResponse) \<times> 'w" where
  "doGetAccountBalance P identifier address currencies w =
     (case orFail newErrFactory ErrUnableToGetAccount (blockIdentifierToAccountQueryOptions identifier) of
        Inl failure \<Rightarrow> (Inl failure, w)
      | Inr options \<Rightarrow>
          if address = [] then (Inl (Refused (newErr newErrFactory ErrInvalidAccountAddress)), w)
          else if length currencies > 1 then (Inl (Refused (newErr newErrFactory ErrNotImplemented)), w)
          else
            let currencySymbol =
                  (if length currencies = 0 then Symbol (np_GetNativeCurrency P)
                   else Symbol (currencies ! 0))
            in case np_GetAccountBalance P address currencySymbol options w of
                 (balance, w') \<Rightarrow>
                   (bind_err (orFail newErrFactory ErrUnableToGetAccount balance) (\<lambda>accountBalanceOnBlock.
                      Inr \<lparr>abr_BlockIdentifier =
                             accountBlockCoordinatesToIdentifier (abb_BlockCoordinates accountBalanceOnBlock),
                           abr_Balances = [valueToAmount P (abb_Balance accountBalanceOnBlock) currencySymbol],
                           abr_Metadata =
                             (if ou_HasValue (abb_Nonce accountBalanceOnBlock)
                              then [''nonce'' \<mapsto> OUint64 (ou_Value (abb_Nonce accountBalanceOnBlock))]
                              else Map.empty)\<rparr>), w'))"

definition AccountCoins :: "failure + AccountBalanceResponse" where
  "AccountCoins = Inl (Refused (newErr newErrFactory ErrNotImplemented))"

section \<open>The network\<close>

record NetworkStatusResponse =
  nsr_CurrentBlockIdentifier :: BlockIdentifier
  nsr_CurrentBlockTimestamp :: int
  nsr_GenesisBlockIdentifier :: BlockIdentifier
  nsr_OldestBlockIdentifier :: BlockIdentifier
  nsr_Synced :: bool
  nsr_PeerID :: string
  nsr_PeerMetadata :: objectsMap

record NetworkOptionsResponse =
  nor_RosettaVersion :: string
  nor_MiddlewareVersion :: string
  nor_NodeVersion :: string
  nor_OperationStatuses :: "(string \<times> bool) list"
  nor_OperationTypes :: "string list"
  nor_Errors :: "RosettaError list"
  nor_HistoricalBalanceLookup :: bool

definition RosettaVersion :: string where "RosettaVersion = ''v1.4.12''"
definition RosettaMiddlewareVersion :: string where "RosettaMiddlewareVersion = ''v0.6.1''"

definition NetworkList :: "'w NetworkProvider \<Rightarrow> (string \<times> string) list" where
  "NetworkList P = [(np_GetBlockchainName P, nc_NetworkName (np_GetNetworkConfig P))]"

definition NetworkStatus :: "'w NetworkProvider \<Rightarrow> 'w \<Rightarrow> (failure + NetworkStatusResponse) \<times> 'w" where
  "NetworkStatus P w =
     (if np_IsOffline P then (Inl (Refused (newErr newErrFactory ErrOfflineMode)), w)
      else case np_GetNodeStatus P w of
             (status, w') \<Rightarrow>
               (bind_err (orFail newErrFactory ErrUnableToGetNodeStatus status) (\<lambda>nodeStatus.
                  Inr \<lparr>nsr_CurrentBlockIdentifier = blockSummaryToIdentifier (ans_LatestBlock nodeStatus),
                       nsr_CurrentBlockTimestamp =
                         timestampInMilliseconds (bs_Timestamp (ans_LatestBlock nodeStatus)),
                       nsr_GenesisBlockIdentifier = getGenesisBlockIdentifier P,
                       nsr_OldestBlockIdentifier =
                         blockSummaryToIdentifier (ans_OldestBlockWithHistoricalState nodeStatus),
                       nsr_Synced = ans_Synced nodeStatus,
                       nsr_PeerID = ans_ObserverPublicKey nodeStatus,
                       nsr_PeerMetadata =
                         [''version'' \<mapsto> OString (ans_Version nodeStatus),
                          ''connections'' \<mapsto> OCounts (ans_ConnectedPeersCounts nodeStatus)]\<rparr>), w'))"

definition getNodeVersion :: "'w NetworkProvider \<Rightarrow> 'w \<Rightarrow> (failure + string) \<times> 'w" where
  "getNodeVersion P w =
     (if np_IsOffline P then (Inr nodeVersionForOfflineRosetta, w)
      else case np_GetNodeStatus P w of
             (status, w') \<Rightarrow>
               (bind_err (orFail newErrFactory ErrUnableToGetNodeStatus status)
                  (\<lambda>nodeStatus. Inr (ans_Version nodeStatus)), w'))"

definition NetworkOptions :: "'w NetworkProvider \<Rightarrow> 'w \<Rightarrow> (failure + NetworkOptionsResponse) \<times> 'w" where
  "NetworkOptions P w =
     (case getNodeVersion P w of
        (nodeVersion, w') \<Rightarrow>
          (bind_err nodeVersion (\<lambda>nodeVersion.
             Inr \<lparr>nor_RosettaVersion = RosettaVersion, nor_MiddlewareVersion = RosettaMiddlewareVersion,
                  nor_NodeVersion = nodeVersion, nor_OperationStatuses = supportedOperationStatuses,
                  nor_OperationTypes = SupportedOperationTypes,
                  nor_Errors = getPossibleErrors newErrFactory,
                  nor_HistoricalBalanceLookup = True\<rparr>), w'))"

section \<open>The mempool\<close>

definition Mempool :: "failure + string list" where
  "Mempool = Inl (Refused (newErr newErrFactory ErrNotImplemented))"

definition MempoolTransaction :: "'w NetworkProvider \<Rightarrow> string \<Rightarrow> 'w \<Rightarrow> (failure + Transaction) \<times> 'w" where
  "MempoolTransaction P h w =
     (case np_GetMempoolTransactionByHash P h w of
        (found, w') \<Rightarrow>
          (bind_err (orFail newErrFactory ErrCannotParsePoolTransaction found) (\<lambda>tx.
             case tx of
               None \<Rightarrow> Inl (Refused (newErr newErrFactory ErrTransactionIsNotInPool))
             | Some tx \<Rightarrow> Inr (mempoolMoveBalanceTxToRosettaTx P tx)), w'))"

section \<open>Offline mode\<close>

text \<open>
  The struct holds a pointer to an error factory; the constructor leaves it nil. Every endpoint
  has the same body: it reads through the pointer.
\<close>

record offlineService =
  os_errFactory :: "errFactory option"

definition NewOfflineService :: offlineService where
  "NewOfflineService = \<lparr>os_errFactory = None\<rparr>"

definition offlineEndpoint :: "offlineService \<Rightarrow> failure" where
  "offlineEndpoint service =
     (case os_errFactory service of
        None \<Rightarrow> nilPointer
      | Some factory \<Rightarrow> Refused (newErr factory ErrOfflineMode))"

end
