(* ===== verification/Currencies.thy ===== *)
theory Currencies
  imports Resources
begin

text \<open>
  The currencies provider (\<open>server/provider/currenciesProvider.go\<close>): the native currency and
  the configured custom ones, with the lookup table built by the constructor. It provides the
  contract \<open>currency_registry\<close>.
\<close>

record currenciesProvider =
  nativeCurrency :: Currency
  customCurrenciesSymbols :: "string list"
  customCurrencies :: "Currency list"
  customCurrenciesBySymbol :: "string \<rightharpoonup> Currency"

definition nativeCurrencyNumDecimals :: int where
  "nativeCurrencyNumDecimals = 18"

definition errInvalidCustomCurrencySymbol :: go_error where
  "errInvalidCustomCurrencySymbol = ErrorsNew ''invalid custom currency symbol''"

definition newInvalidCustomCurrency :: "nat \<Rightarrow> go_error" where
  "newInvalidCustomCurrency index =
     Errorf [Err errInvalidCustomCurrencySymbol, Txt '', index = '', Txt (nat_to_dec index)]"

text \<open>The loop of the constructor, with its index and the two tables it fills.\<close>

fun registerCurrencies ::
  "nat \<Rightarrow> Currency list \<Rightarrow> (string \<rightharpoonup> Currency) \<Rightarrow> string list \<Rightarrow> go_error + (string \<rightharpoonup> Currency) \<times> string list" where
  "registerCurrencies index [] bySymbol symbols = Inr (bySymbol, symbols)"
| "registerCurrencies index (customCurrency # rest) bySymbol symbols =
     (let symbol = Symbol customCurrency in
      if length symbol = 0 then Inl (newInvalidCustomCurrency index)
      else registerCurrencies (Suc index) rest (bySymbol(symbol \<mapsto> customCurrency)) (symbols @ [symbol]))"

definition newCurrenciesProvider :: "string \<Rightarrow> Currency list \<Rightarrow> go_error + currenciesProvider" where
  "newCurrenciesProvider nativeCurrencySymbol currencies =
     bind_err (registerCurrencies 0 currencies Map.empty []) (\<lambda>(bySymbol, symbols).
       Inr \<lparr>nativeCurrency = \<lparr>Symbol = nativeCurrencySymbol, Decimals = nativeCurrencyNumDecimals\<rparr>,
            customCurrenciesSymbols = symbols, customCurrencies = currencies,
            customCurrenciesBySymbol = bySymbol\<rparr>)"

definition GetNativeCurrency :: "currenciesProvider \<Rightarrow> Currency" where
  "GetNativeCurrency provider = nativeCurrency provider"

definition GetCustomCurrencies :: "currenciesProvider \<Rightarrow> Currency list" where
  "GetCustomCurrencies provider = customCurrencies provider"

definition GetCustomCurrenciesSymbols :: "currenciesProvider \<Rightarrow> string list" where
  "GetCustomCurrenciesSymbols provider = customCurrenciesSymbols provider"

definition GetCustomCurrencyBySymbol :: "currenciesProvider \<Rightarrow> string \<Rightarrow> Currency option" where
  "GetCustomCurrencyBySymbol provider symbol = customCurrenciesBySymbol provider symbol"

definition HasCustomCurrency :: "currenciesProvider \<Rightarrow> string \<Rightarrow> bool" where
  "HasCustomCurrency provider symbol = (customCurrenciesBySymbol provider symbol \<noteq> None)"

section \<open>What the constructor builds\<close>

lemma registerCurrencies_Inr:
  "registerCurrencies i cs m ss = Inr (m', ss') \<Longrightarrow>
     m' = m ++ map_of (rev (map (\<lambda>c. (Symbol c, c)) cs)) \<and> ss' = ss @ map Symbol cs \<and>
     (\<forall>c \<in> set cs. Symbol c \<noteq> [])"
proof (induction cs arbitrary: i m ss)
  case Nil
  then show ?case by simp
next
  case (Cons c cs)
  have "m ++ map_of (rev (map (\<lambda>c. (Symbol c, c)) (c # cs))) =
      m(Symbol c \<mapsto> c) ++ map_of (rev (map (\<lambda>c. (Symbol c, c)) cs))"
    by (simp add: map_add_assoc del: fun_upd_apply)
  with Cons.IH [of "Suc i" "m(Symbol c \<mapsto> c)" "ss @ [Symbol c]"] Cons.prems show ?case
    by (auto simp: Let_def simp del: fun_upd_apply split: if_splits)
qed

lemma registerCurrencies_fails_iff:
  "(\<exists>e. registerCurrencies i cs m ss = Inl e) \<longleftrightarrow> (\<exists>c \<in> set cs. Symbol c = [])"
  by (induction cs arbitrary: i m ss) (auto simp: Let_def)

text \<open>The struct that the constructor returns for currencies that all have a symbol.\<close>

definition currenciesOf :: "string \<Rightarrow> Currency list \<Rightarrow> currenciesProvider" where
  "currenciesOf nativeCurrencySymbol currencies =
     \<lparr>nativeCurrency = \<lparr>Symbol = nativeCurrencySymbol, Decimals = nativeCurrencyNumDecimals\<rparr>,
      customCurrenciesSymbols = map Symbol currencies, customCurrencies = currencies,
      customCurrenciesBySymbol = map_of (rev (map (\<lambda>c. (Symbol c, c)) currencies))\<rparr>"

lemma currenciesOf_native: "nativeCurrency (currenciesOf native cs) = \<lparr>Symbol = native, Decimals = 18\<rparr>"
  by (simp add: currenciesOf_def nativeCurrencyNumDecimals_def)

lemma newCurrenciesProvider_Inr:
  "newCurrenciesProvider native cs = Inr cp \<longleftrightarrow> (\<forall>c \<in> set cs. Symbol c \<noteq> []) \<and> cp = currenciesOf native cs"
proof (cases "registerCurrencies 0 cs Map.empty []")
  case (Inl e)
  then have "\<exists>c \<in> set cs. Symbol c = []" using registerCurrencies_fails_iff by blast
  with Inl show ?thesis by (auto simp: newCurrenciesProvider_def)
next
  case (Inr r)
  obtain m' ss' where r: "r = (m', ss')" by (cases r)
  from registerCurrencies_Inr [OF Inr [unfolded r]] Inr r show ?thesis
    by (auto simp: newCurrenciesProvider_def currenciesOf_def)
qed

lemma lookup_currenciesOf:
  "GetCustomCurrencyBySymbol (currenciesOf native cs) s = Some c \<Longrightarrow> Symbol c = s \<and> c \<in> set cs"
  by (auto simp: GetCustomCurrencyBySymbol_def currenciesOf_def dest!: map_of_SomeD)

lemma has_currenciesOf: "HasCustomCurrency (currenciesOf native cs) s \<longleftrightarrow> s \<in> Symbol ` set cs"
  by (auto simp: HasCustomCurrency_def currenciesOf_def map_of_eq_None_iff image_image)

interpretation registry: currency_registry "GetCustomCurrencyBySymbol (currenciesOf native cs)"
  "HasCustomCurrency (currenciesOf native cs)" for native cs
proof
  fix s c
  show "HasCustomCurrency (currenciesOf native cs) s \<longleftrightarrow>
      (\<exists>c. GetCustomCurrencyBySymbol (currenciesOf native cs) s = Some c)"
    by (auto simp: HasCustomCurrency_def GetCustomCurrencyBySymbol_def)
  show "GetCustomCurrencyBySymbol (currenciesOf native cs) s = Some c \<Longrightarrow> Symbol c = s"
    using lookup_currenciesOf by blast
qed

end
