(* ===== verification/Scheduled.thy ===== *)
theory Scheduled
  imports Resources "HOL-Library.AList"
begin

text \<open>
  Scheduled miniblocks (\<open>server/provider/scheduledMiniblocks.go\<close>): a transaction may be listed
  in one block and take effect in another. The component replaces the miniblocks of a block by
  the transactions whose effects are visible in it. The recursion over contract results may
  not return when their links form a cycle, so it is a partial function: \<open>None\<close> is a call that
  never returns. The map \<open>effectiveTxsByHash\<close> is an association list; Go enumerates it in an
  unspecified order, which is the parameter \<open>enum\<close>.
\<close>

section \<open>Definitions\<close>

definition ScheduledProcessingType :: string where
  "ScheduledProcessingType = ''Scheduled''"

definition miniblockTypeArtificial :: string where
  "miniblockTypeArtificial = ''Artificial''"

definition gatherScheduledTransactions :: "Block \<Rightarrow> ApiTransactionResult list" where
  "gatherScheduledTransactions block =
     concat (map mb_Transactions
       (filter (\<lambda>miniblock. mb_ProcessingType miniblock = ScheduledProcessingType) (bk_MiniBlocks block)))"

definition gatherAllTransactions :: "Block \<Rightarrow> ApiTransactionResult list" where
  "gatherAllTransactions block = concat (map mb_Transactions (bk_MiniBlocks block))"

definition gatherAllReceipts :: "Block \<Rightarrow> ApiReceipt list" where
  "gatherAllReceipts block = concat (map mb_Receipts (bk_MiniBlocks block))"

text \<open>
  \<open>descendants self direct siblings\<close> is the loop over the remaining direct results of a
  transaction, with the recursive call on each result of this shard.
\<close>

partial_function (option) descendants ::
  "u32 \<Rightarrow> (string \<Rightarrow> ApiTransactionResult list) \<Rightarrow> ApiTransactionResult list \<Rightarrow> ApiTransactionResult list option" where
  "descendants selfShard directContractResultsByHash siblings =
     (case siblings of
        [] \<Rightarrow> Some []
      | directContractResult # rest \<Rightarrow>
          if tx_SourceShard directContractResult \<noteq> selfShard
          then descendants selfShard directContractResultsByHash rest
          else Option.bind
            (descendants selfShard directContractResultsByHash
               (directContractResultsByHash (tx_Hash directContractResult)))
            (\<lambda>part. Option.bind (descendants selfShard directContractResultsByHash rest)
              (\<lambda>others. Some (directContractResult # part @ others))))"

definition findImmediatelyExecutingContractResultsOfTransaction ::
  "u32 \<Rightarrow> ApiTransactionResult \<Rightarrow> (string \<Rightarrow> ApiTransactionResult list) \<Rightarrow> ApiTransactionResult list option" where
  "findImmediatelyExecutingContractResultsOfTransaction selfShard tx directContractResultsByHash =
     descendants selfShard directContractResultsByHash (directContractResultsByHash (tx_Hash tx))"

text \<open>The look-up by the hash of the previous transaction, appended to in order.\<close>

definition directResults :: "ApiTransactionResult list \<Rightarrow> string \<Rightarrow> ApiTransactionResult list" where
  "directResults maybeContractResults =
     fold (\<lambda>item m. m(tx_PreviousTransactionHash item := m (tx_PreviousTransactionHash item) @ [item]))
       maybeContractResults (\<lambda>_. [])"

fun concat_options :: "'a list option list \<Rightarrow> 'a list option" where
  "concat_options [] = Some []"
| "concat_options (x # xs) =
     Option.bind x (\<lambda>part. Option.bind (concat_options xs) (\<lambda>others. Some (part @ others)))"

definition findImmediatelyExecutingContractResults ::
  "u32 \<Rightarrow> ApiTransactionResult list \<Rightarrow> ApiTransactionResult list \<Rightarrow> ApiTransactionResult list option" where
  "findImmediatelyExecutingContractResults selfShard transactions maybeContractResults =
     (let directContractResultsByHash = directResults maybeContractResults in
      concat_options (map (\<lambda>tx.
        findImmediatelyExecutingContractResultsOfTransaction selfShard tx directContractResultsByHash) transactions))"

type_synonym txs_by_hash = "(string \<times> ApiTransactionResult) list"

definition put_tx :: "ApiTransactionResult \<Rightarrow> txs_by_hash \<Rightarrow> txs_by_hash" where
  "put_tx tx m = AList.update (tx_Hash tx) tx m"

definition delete_tx :: "ApiTransactionResult \<Rightarrow> txs_by_hash \<Rightarrow> txs_by_hash" where
  "delete_tx tx m = AList.delete (tx_Hash tx) m"

text \<open>The map that terms (a) to (d) of the comment in the source build.\<close>

definition effectiveTxsByHash ::
  "Block \<Rightarrow> Block \<Rightarrow> ApiTransactionResult list \<Rightarrow> ApiTransactionResult list \<Rightarrow> txs_by_hash" where
  "effectiveTxsByHash previousBlock currentBlock previouslyExecutedResults currentlyExecutedResults =
     (let m = fold put_tx (gatherAllTransactions currentBlock) [];
          m = (if length (gatherScheduledTransactions previousBlock) > 0
               then fold delete_tx previouslyExecutedResults
                      (fold delete_tx (gatherAllTransactions previousBlock) m)
               else m)
      in if length (gatherScheduledTransactions currentBlock) > 0
         then fold put_tx currentlyExecutedResults m else m)"

definition gatherEffectiveTransactions ::
  "(txs_by_hash \<Rightarrow> txs_by_hash) \<Rightarrow> u32 \<Rightarrow> Block \<Rightarrow> Block \<Rightarrow> Block \<Rightarrow> ApiTransactionResult list option" where
  "gatherEffectiveTransactions enum selfShard previousBlock currentBlock nextBlock =
     (let txsInCurrentBlock = gatherAllTransactions currentBlock;
          scheduledTxsInPreviousBlock = gatherScheduledTransactions previousBlock;
          scheduledTxsInCurrentBlock = gatherScheduledTransactions currentBlock
      in if length scheduledTxsInPreviousBlock = 0 \<and> length scheduledTxsInCurrentBlock = 0
         then Some txsInCurrentBlock
         else
          Option.bind (if length scheduledTxsInPreviousBlock > 0
             then findImmediatelyExecutingContractResults selfShard scheduledTxsInPreviousBlock txsInCurrentBlock
             else Some []) (\<lambda>previouslyExecutedResults.
          Option.bind (if length scheduledTxsInCurrentBlock > 0
             then findImmediatelyExecutingContractResults selfShard scheduledTxsInCurrentBlock
                    (gatherAllTransactions nextBlock)
             else Some []) (\<lambda>currentlyExecutedResults.
          Some (map snd (enum (effectiveTxsByHash previousBlock currentBlock
                  previouslyExecutedResults currentlyExecutedResults))))))"

definition artificialMiniblock :: "ApiTransactionResult list \<Rightarrow> ApiReceipt list \<Rightarrow> MiniBlock" where
  "artificialMiniblock txs receipts =
     \<lparr>mb_Type = miniblockTypeArtificial, mb_Hash = [], mb_ProcessingType = [], mb_ConstructionState = [],
      mb_SourceShard = 0, mb_DestinationShard = 0, mb_Transactions = txs, mb_Receipts = receipts\<rparr>"

definition doSimplifyBlockWithScheduledTransactions ::
  "(txs_by_hash \<Rightarrow> txs_by_hash) \<Rightarrow> Block \<Rightarrow> Block \<Rightarrow> Block \<Rightarrow> Block option" where
  "doSimplifyBlockWithScheduledTransactions enum previousBlock block nextBlock =
     Option.bind (gatherEffectiveTransactions enum (bk_Shard block) previousBlock block nextBlock) (\<lambda>txs.
       let receipts = gatherAllReceipts block
       in Some (block\<lparr>bk_MiniBlocks := [artificialMiniblock txs [], artificialMiniblock [] receipts]\<rparr>))"

section \<open>The recursion over contract results\<close>

text \<open>
  \<open>executes_under self direct h r\<close>: \<open>r\<close> is reached from the hash \<open>h\<close> through direct results
  that all come from the shard \<open>self\<close>. This is what the recursion enumerates.
\<close>

inductive executes_under ::
  "u32 \<Rightarrow> (string \<Rightarrow> ApiTransactionResult list) \<Rightarrow> string \<Rightarrow> ApiTransactionResult \<Rightarrow> bool"
  for self direct where
  step: "r \<in> set (direct h) \<Longrightarrow> tx_SourceShard r = self \<Longrightarrow> executes_under self direct h r"
| further: "s \<in> set (direct h) \<Longrightarrow> tx_SourceShard s = self \<Longrightarrow>
    executes_under self direct (tx_Hash s) r \<Longrightarrow> executes_under self direct h r"

inductive_simps executes_under_iff: "executes_under self direct h r"

definition reached_from ::
  "u32 \<Rightarrow> (string \<Rightarrow> ApiTransactionResult list) \<Rightarrow> ApiTransactionResult list \<Rightarrow> ApiTransactionResult set" where
  "reached_from self direct siblings =
     {r. \<exists>s \<in> set siblings. tx_SourceShard s = self \<and> (r = s \<or> executes_under self direct (tx_Hash s) r)}"

lemma reached_from_Nil [simp]: "reached_from self direct [] = {}"
  by (simp add: reached_from_def)

lemma reached_from_Cons: "reached_from self direct (s # rest) =
    (if tx_SourceShard s = self then insert s {r. executes_under self direct (tx_Hash s) r} else {})
      \<union> reached_from self direct rest"
  by (auto simp: reached_from_def)

lemma reached_from_direct: "reached_from self direct (direct h) = {r. executes_under self direct h r}"
  by (auto simp: reached_from_def intro: executes_under.intros elim: executes_under.cases)

lemma descendants_sound_complete:
  assumes ret: "descendants self direct siblings = Some rs"
  shows "set rs = reached_from self direct siblings"
proof (rule descendants.raw_induct
    [where P = "\<lambda>sh d sib r. set r = reached_from sh d sib", OF _ ret])
  fix f sh d sib r
  assume IH: "\<And>sh d sib r. f sh d sib = Some r \<Longrightarrow> set r = reached_from sh d sib"
    and eq: "(case sib of [] \<Rightarrow> Some []
       | s # rest \<Rightarrow> if tx_SourceShard s \<noteq> sh then f sh d rest
           else Option.bind (f sh d (d (tx_Hash s)))
             (\<lambda>part. Option.bind (f sh d rest) (\<lambda>others. Some (s # part @ others)))) = Some r"
  show "set r = reached_from sh d sib"
  proof (cases sib)
    case Nil
    with eq show ?thesis by simp
  next
    case (Cons s rest)
    show ?thesis
    proof (cases "tx_SourceShard s = sh")
      case False
      then show ?thesis using eq Cons IH by (simp add: reached_from_Cons)
    next
      case True
      with eq Cons obtain part others where
        "f sh d (d (tx_Hash s)) = Some part" "f sh d rest = Some others" "r = s # part @ others"
        by (auto simp: bind_eq_Some_conv)
      with True Cons IH reached_from_direct show ?thesis by (auto simp: reached_from_Cons)
    qed
  qed
qed

text \<open>
  The recursion returns when no chain of results leads back to itself (the results of a
  transaction form a DAG): a rank that decreases along every link.
\<close>

definition acyclic_results :: "(string \<Rightarrow> ApiTransactionResult list) \<Rightarrow> bool" where
  "acyclic_results direct =
     (\<exists>rank :: string \<Rightarrow> nat. \<forall>h. \<forall>r \<in> set (direct h). rank (tx_Hash r) < rank h)"

lemma descendants_returns:
  assumes "\<forall>h. \<forall>r \<in> set (direct h). (rank :: string \<Rightarrow> nat) (tx_Hash r) < rank h"
  shows "\<forall>s \<in> set siblings. rank (tx_Hash s) < n \<Longrightarrow> \<exists>rs. descendants self direct siblings = Some rs"
proof (induction n arbitrary: siblings rule: less_induct)
  case (less n)
  from less.prems show ?case
  proof (induction siblings)
    case Nil
    show ?case by (simp add: descendants.simps)
  next
    case (Cons s rest)
    then obtain others where others: "descendants self direct rest = Some others" by auto
    have "\<exists>part. descendants self direct (direct (tx_Hash s)) = Some part"
      using less.IH [of "rank (tx_Hash s)" "direct (tx_Hash s)"] Cons.prems assms by simp
    then obtain part where "descendants self direct (direct (tx_Hash s)) = Some part" by blast
    with others show ?case by (simp add: descendants.simps [of self direct "s # rest"])
  qed
qed

lemma acyclic_returns:
  assumes "acyclic_results direct"
  shows "\<exists>rs. descendants self direct siblings = Some rs"
proof -
  from assms obtain rank :: "string \<Rightarrow> nat" where
    rank: "\<forall>h. \<forall>r \<in> set (direct h). rank (tx_Hash r) < rank h"
    by (auto simp: acyclic_results_def)
  define n where "n = Suc (sum_list (map (\<lambda>s. rank (tx_Hash s)) siblings))"
  have "\<forall>s \<in> set siblings. rank (tx_Hash s) < n"
    unfolding n_def by (auto simp: less_Suc_eq_le intro!: member_le_sum_list)
  with descendants_returns [OF rank] show ?thesis by blast
qed

text \<open>A result that is its own direct result makes the recursion run forever.\<close>

lemma self_result_diverges:
  assumes "s \<in> set siblings" "tx_SourceShard s = self" "s \<in> set (direct (tx_Hash s))"
  shows "descendants self direct siblings = None"
proof (rule ccontr)
  assume "descendants self direct siblings \<noteq> None"
  then obtain rs where ret: "descendants self direct siblings = Some rs" by auto
  have "\<not> (\<exists>s \<in> set siblings. tx_SourceShard s = self \<and> s \<in> set (direct (tx_Hash s)))"
  proof (rule descendants.raw_induct
      [where P = "\<lambda>sh d sib r. \<not> (\<exists>s \<in> set sib. tx_SourceShard s = sh \<and> s \<in> set (d (tx_Hash s)))", OF _ ret])
    fix f sh d sib r
    assume IH: "\<And>sh d sib r. f sh d sib = Some r \<Longrightarrow>
          \<not> (\<exists>s \<in> set sib. tx_SourceShard s = sh \<and> s \<in> set (d (tx_Hash s)))"
      and eq: "(case sib of [] \<Rightarrow> Some []
         | s # rest \<Rightarrow> if tx_SourceShard s \<noteq> sh then f sh d rest
             else Option.bind (f sh d (d (tx_Hash s)))
               (\<lambda>part. Option.bind (f sh d rest) (\<lambda>others. Some (s # part @ others)))) = Some r"
    show "\<not> (\<exists>s \<in> set sib. tx_SourceShard s = sh \<and> s \<in> set (d (tx_Hash s)))"
      using eq by (cases sib) (auto simp: bind_eq_Some_conv split: if_splits dest: IH)
  qed
  with assms show False by blast
qed

lemma directResults_filter:
  "directResults items h = filter (\<lambda>item. tx_PreviousTransactionHash item = h) items"
proof -
  have "fold (\<lambda>item m. m(tx_PreviousTransactionHash item := m (tx_PreviousTransactionHash item) @ [item])) items m h
      = m h @ filter (\<lambda>item. tx_PreviousTransactionHash item = h) items" for m
    by (induction items arbitrary: m) auto
  then show ?thesis by (simp add: directResults_def)
qed

lemma concat_options_map_set:
  "concat_options (map f xs) = Some ys \<Longrightarrow> (\<And>x zs. f x = Some zs \<Longrightarrow> set zs = S x) \<Longrightarrow>
     set ys = (\<Union>x \<in> set xs. S x)"
  by (induction xs arbitrary: ys) (auto simp: bind_eq_Some_conv)

lemma concat_options_map_returns:
  "(\<And>x. \<exists>zs. f x = Some zs) \<Longrightarrow> \<exists>ys. concat_options (map f xs) = Some ys"
proof (induction xs)
  case Nil
  then show ?case by simp
next
  case (Cons x xs)
  obtain zs where "f x = Some zs" using Cons.prems by blast
  moreover obtain ys where "concat_options (map f xs) = Some ys" using Cons by blast
  ultimately show ?case by simp
qed

lemma findImmediately_set:
  assumes "findImmediatelyExecutingContractResults self txs items = Some rs"
  shows "set rs = (\<Union>tx \<in> set txs. {r. executes_under self (directResults items) (tx_Hash tx) r})"
  using assms
  unfolding findImmediatelyExecutingContractResults_def Let_def
    findImmediatelyExecutingContractResultsOfTransaction_def
  by (rule concat_options_map_set) (simp add: descendants_sound_complete reached_from_direct)

lemma findImmediately_returns:
  assumes "acyclic_results (directResults items)"
  shows "\<exists>rs. findImmediatelyExecutingContractResults self txs items = Some rs"
  unfolding findImmediatelyExecutingContractResults_def Let_def
    findImmediatelyExecutingContractResultsOfTransaction_def
  by (rule concat_options_map_returns) (rule acyclic_returns [OF assms])

section \<open>The effective transactions of a block\<close>

text \<open>\<open>by_hash txs h\<close> is the last transaction of \<open>txs\<close> with hash \<open>h\<close>.\<close>

definition by_hash :: "ApiTransactionResult list \<Rightarrow> string \<rightharpoonup> ApiTransactionResult" where
  "by_hash txs = map_of (rev (map (\<lambda>t. (tx_Hash t, t)) txs))"

lemma by_hash_Some: "by_hash txs h = Some t \<Longrightarrow> t \<in> set txs \<and> tx_Hash t = h"
  by (auto simp: by_hash_def dest!: map_of_SomeD)

lemma by_hash_None: "by_hash txs h = None \<longleftrightarrow> h \<notin> tx_Hash ` set txs"
  by (simp add: by_hash_def map_of_eq_None_iff image_image)

lemma map_of_fold_put: "map_of (fold put_tx txs m) = map_of m ++ by_hash txs"
proof (induction txs arbitrary: m)
  case Nil
  then show ?case by (simp add: by_hash_def)
next
  case (Cons t txs)
  have "map_of (put_tx t m) = (map_of m)(tx_Hash t \<mapsto> t)"
    by (simp add: put_tx_def update_conv')
  with Cons show ?case
    by (simp add: by_hash_def map_add_assoc del: fun_upd_apply)
qed

lemma map_of_fold_delete:
  "map_of (fold delete_tx txs m) = (map_of m) |` (- (tx_Hash ` set txs))"
proof (induction txs arbitrary: m)
  case Nil
  then show ?case by (simp add: restrict_map_def)
next
  case (Cons t txs)
  have "map_of (delete_tx t m) = (map_of m)(tx_Hash t := None)"
    by (simp add: delete_tx_def delete_conv')
  with Cons show ?case
    by (auto simp: restrict_map_def fun_eq_iff)
qed

lemma distinct_fold_put: "distinct (map fst m) \<Longrightarrow> distinct (map fst (fold put_tx txs m))"
  by (induction txs arbitrary: m) (auto simp: put_tx_def distinct_update)

lemma distinct_fold_delete: "distinct (map fst m) \<Longrightarrow> distinct (map fst (fold delete_tx txs m))"
  by (induction txs arbitrary: m) (auto simp: delete_tx_def distinct_delete)

text \<open>
  What the component promises: terms (a) to (d) of the comment in the source, read per hash.
  \<open>before\<close> and \<open>now\<close> are the results executed under the scheduled transactions of the previous
  and of the current block.
\<close>

definition effective_tx ::
  "Block \<Rightarrow> Block \<Rightarrow> ApiTransactionResult list \<Rightarrow> ApiTransactionResult list \<Rightarrow> string \<rightharpoonup> ApiTransactionResult" where
  "effective_tx previousBlock currentBlock before now h =
     (case by_hash now h of
        Some t \<Rightarrow> Some t
      | None \<Rightarrow>
          if gatherScheduledTransactions previousBlock \<noteq> [] \<and>
             h \<in> tx_Hash ` (set (gatherAllTransactions previousBlock) \<union> set before)
          then None else by_hash (gatherAllTransactions currentBlock) h)"

lemma gatherEffective_map:
  assumes perm: "\<And>m. mset (enum m) = mset m"
    and nontrivial: "gatherScheduledTransactions prev \<noteq> [] \<or> gatherScheduledTransactions cur \<noteq> []"
    and ret: "gatherEffectiveTransactions enum self prev cur next = Some txs"
  shows "\<exists>before now.
    (if gatherScheduledTransactions prev = [] then before = []
     else findImmediatelyExecutingContractResults self (gatherScheduledTransactions prev)
            (gatherAllTransactions cur) = Some before) \<and>
    (if gatherScheduledTransactions cur = [] then now = []
     else findImmediatelyExecutingContractResults self (gatherScheduledTransactions cur)
            (gatherAllTransactions next) = Some now) \<and>
    (\<forall>t. t \<in> set txs \<longleftrightarrow> effective_tx prev cur before now (tx_Hash t) = Some t) \<and>
    distinct (map tx_Hash txs)"
proof -
  define sp where "sp = gatherScheduledTransactions prev"
  define sc where "sc = gatherScheduledTransactions cur"
  have "\<exists>before. (if length sp > 0 then findImmediatelyExecutingContractResults self sp (gatherAllTransactions cur) else Some []) = Some before \<and>
     (\<exists>now. (if length sc > 0 then findImmediatelyExecutingContractResults self sc (gatherAllTransactions next) else Some []) = Some now \<and>
       map snd (enum (effectiveTxsByHash prev cur before now)) = txs)"
    using ret nontrivial
    unfolding gatherEffectiveTransactions_def Let_def sp_def [symmetric] sc_def [symmetric]
      bind_eq_Some_conv
    by (simp only: length_0_conv option.inject simp_thms if_not_P de_Morgan_conj not_False_eq_True bind_eq_Some_conv if_False)
  then obtain before now where
      b: "(if length sp > 0 then findImmediatelyExecutingContractResults self sp (gatherAllTransactions cur) else Some []) = Some before"
    and n: "(if length sc > 0 then findImmediatelyExecutingContractResults self sc (gatherAllTransactions next) else Some []) = Some now"
    and txs: "txs = map snd (enum (effectiveTxsByHash prev cur before now))"
    by blast
  define m3 where "m3 = effectiveTxsByHash prev cur before now"
  have d: "distinct (map fst m3)"
    unfolding m3_def effectiveTxsByHash_def Let_def
    by (simp add: distinct_fold_put distinct_fold_delete)
  have now_Nil: "sc = [] \<Longrightarrow> now = []" using n by simp
  have eff: "map_of m3 h = effective_tx prev cur before now h" for h
    using now_Nil unfolding m3_def effectiveTxsByHash_def Let_def effective_tx_def sp_def [symmetric] sc_def [symmetric]
    by (auto simp: map_of_fold_put map_of_fold_delete map_add_def restrict_map_def by_hash_def
        split: option.splits)
  have key: "map_of m3 h = Some x \<Longrightarrow> tx_Hash x = h" for h x
    unfolding eff effective_tx_def by (auto dest: by_hash_Some split: option.splits if_splits)
  have set_enum: "set (enum m3) = set m3" using perm mset_eq_setD by blast
  have hash_of: "(h, x) \<in> set m3 \<Longrightarrow> tx_Hash x = h" for h x
    using d key by simp
  have mem: "x \<in> set txs \<longleftrightarrow> map_of m3 (tx_Hash x) = Some x" for x
  proof -
    have "x \<in> set txs \<longleftrightarrow> (\<exists>h. (h, x) \<in> set m3)"
      unfolding txs m3_def [symmetric] by (force simp: set_enum)
    then show ?thesis using d key by auto
  qed
  have "map tx_Hash txs = map fst (enum m3)"
    unfolding txs m3_def [symmetric] using hash_of by (auto simp: set_enum)
  moreover have "distinct (map fst (enum m3))"
  proof -
    have "mset (map fst (enum m3)) = mset (map fst m3)" by (simp add: perm)
    then show ?thesis using d by (metis mset_eq_imp_distinct_iff)
  qed
  ultimately have "distinct (map tx_Hash txs)" by simp
  with b n mem eff show ?thesis
    unfolding sp_def sc_def by (intro exI [of _ before] exI [of _ now]) (auto split: if_splits)
qed

end
