(* ===== verification/Urls.thy ===== *)
theory Urls
  imports Resources
begin

text \<open>
  The paths of the observer's API (\<open>server/provider/urls.go\<close>), with the escaping of
  \<open>net/url\<close>, and token identifiers (\<open>server/provider/tokenIdentifierParts.go\<close>).
\<close>

section \<open>Escaping (net/url)\<close>

definition upper_hex_digit :: "nat \<Rightarrow> char" where
  "upper_hex_digit d = ''0123456789ABCDEF'' ! d"

definition percent :: "char \<Rightarrow> string" where
  "percent c = [CHR ''%'', upper_hex_digit (of_char c div 16), upper_hex_digit (of_char c mod 16)]"

definition is_alnum :: "char \<Rightarrow> bool" where
  "is_alnum c = (let n = of_char c :: nat in
     48 \<le> n \<and> n \<le> 57 \<or> 65 \<le> n \<and> n \<le> 90 \<or> 97 \<le> n \<and> n \<le> 122)"

definition is_unreserved :: "char \<Rightarrow> bool" where
  "is_unreserved c = (is_alnum c \<or> c \<in> set ''-_.~'')"

definition url_escape_path :: "string \<Rightarrow> string" where
  "url_escape_path s =
     concat (map (\<lambda>c. if is_unreserved c \<or> c \<in> set ''$&+,/:;=@'' then [c] else percent c) s)"

definition url_escape_query :: "string \<Rightarrow> string" where
  "url_escape_query s =
     concat (map (\<lambda>c. if is_unreserved c then [c] else if c = CHR '' '' then ''+'' else percent c) s)"

section \<open>Paths\<close>

definition buildUrlWithQueryParameter :: "string \<Rightarrow> string \<Rightarrow> string \<Rightarrow> string" where
  "buildUrlWithQueryParameter path key val =
     url_escape_path path @ ''?'' @ url_escape_query key @ ''='' @ url_escape_query val"

definition urlPathGetNodeStatus :: string where "urlPathGetNodeStatus = ''/node/status''"
definition urlPathGetGenesisBalances :: string where "urlPathGetGenesisBalances = ''/network/genesis-balances''"
definition urlParameterAccountQueryOptionsOnFinalBlock :: string where
  "urlParameterAccountQueryOptionsOnFinalBlock = ''onFinalBlock''"
definition urlParameterAccountQueryOptionsBlockNonce :: string where
  "urlParameterAccountQueryOptionsBlockNonce = ''blockNonce''"
definition urlParameterAccountQueryOptionsBlockHash :: string where
  "urlParameterAccountQueryOptionsBlockHash = ''blockHash''"

definition buildUrlWithAccountQueryOptions :: "string \<Rightarrow> AccountQueryOptions \<Rightarrow> string" where
  "buildUrlWithAccountQueryOptions path options =
     (if OnFinalBlock options
      then buildUrlWithQueryParameter path urlParameterAccountQueryOptionsOnFinalBlock ''true''
      else if ou_HasValue (aq_BlockNonce options)
      then buildUrlWithQueryParameter path urlParameterAccountQueryOptionsBlockNonce
             (nat_to_dec (unat (ou_Value (aq_BlockNonce options))))
      else if length (aq_BlockHash options) > 0
      then buildUrlWithQueryParameter path urlParameterAccountQueryOptionsBlockHash
             (hex_encode (aq_BlockHash options))
      else path)"

definition buildUrlGetEpochStartInfo :: "u32 \<Rightarrow> string" where
  "buildUrlGetEpochStartInfo epoch = ''/node/epoch-start/'' @ nat_to_dec (unat epoch)"

definition buildUrlGetAccount :: "string \<Rightarrow> string" where
  "buildUrlGetAccount address =
     buildUrlWithAccountQueryOptions (''/address/'' @ address) NewAccountQueryOptionsOnFinalBlock"

definition buildUrlGetAccountNativeBalance :: "string \<Rightarrow> AccountQueryOptions \<Rightarrow> string" where
  "buildUrlGetAccountNativeBalance address options =
     buildUrlWithAccountQueryOptions (''/address/'' @ address) options"

definition buildUrlGetAccountFungibleTokenBalance :: "string \<Rightarrow> string \<Rightarrow> AccountQueryOptions \<Rightarrow> string" where
  "buildUrlGetAccountFungibleTokenBalance address tokenIdentifier options =
     buildUrlWithAccountQueryOptions (''/address/'' @ address @ ''/esdt/'' @ tokenIdentifier) options"

definition buildUrlGetAccountNonFungibleTokenBalance ::
  "string \<Rightarrow> string \<Rightarrow> u64 \<Rightarrow> AccountQueryOptions \<Rightarrow> string" where
  "buildUrlGetAccountNonFungibleTokenBalance address tokenIdentifier nonce options =
     buildUrlWithAccountQueryOptions
       (''/address/'' @ address @ ''/nft/'' @ tokenIdentifier @ ''/nonce/'' @ nat_to_dec (unat nonce)) options"

section \<open>Token identifiers\<close>

record tokenIdentifierParts =
  tip_ticker :: string
  tip_randomSequence :: string
  tip_tickerWithRandomSequence :: string
  tip_nonce :: u64

definition errCannotParseTokenIdentifier :: go_error where
  "errCannotParseTokenIdentifier = ErrorsNew ''cannot parse token identifier''"

text \<open>\<open>%v\<close> of a nil error prints \<open><nil>\<close>.\<close>

definition newErrCannotParseTokenIdentifier :: "string \<Rightarrow> go_error option \<Rightarrow> go_error" where
  "newErrCannotParseTokenIdentifier tokenIdentifier innerError =
     Errorf [Err errCannotParseTokenIdentifier, Txt '': '',
             (case innerError of None \<Rightarrow> Txt ''<nil>'' | Some e \<Rightarrow> Err e),
             Txt '', tokenIdentifier = '', Txt tokenIdentifier]"

definition parseTokenIdentifierIntoParts :: "string \<Rightarrow> go_error + tokenIdentifierParts" where
  "parseTokenIdentifierIntoParts tokenIdentifier =
     (let parts = split_on (CHR ''-'') tokenIdentifier in
      if length parts = 2 then
        Inr \<lparr>tip_ticker = parts ! 0, tip_randomSequence = parts ! 1,
             tip_tickerWithRandomSequence = tokenIdentifier, tip_nonce = 0\<rparr>
      else if length parts = 3 then
        (case parse_uint64 from_hex_char 16 (parts ! 2) of
           Inl err \<Rightarrow> Inl (newErrCannotParseTokenIdentifier tokenIdentifier (Some err))
         | Inr nonce \<Rightarrow>
             Inr \<lparr>tip_ticker = parts ! 0, tip_randomSequence = parts ! 1,
                  tip_tickerWithRandomSequence = parts ! 0 @ ''-'' @ parts ! 1, tip_nonce = nonce\<rparr>)
      else Inl (newErrCannotParseTokenIdentifier tokenIdentifier None))"

definition decideCustomTokenBalanceUrl :: "string \<Rightarrow> string \<Rightarrow> AccountQueryOptions \<Rightarrow> go_error + string" where
  "decideCustomTokenBalanceUrl address tokenIdentifier options =
     bind_err (parseTokenIdentifierIntoParts tokenIdentifier) (\<lambda>parts.
       let isFungible = (tip_nonce parts = 0) in
       if isFungible then Inr (buildUrlGetAccountFungibleTokenBalance address tokenIdentifier options)
       else Inr (buildUrlGetAccountNonFungibleTokenBalance address (tip_tickerWithRandomSequence parts)
                   (tip_nonce parts) options))"

section \<open>Facts\<close>

lemma url_escape_path_plain:
  "\<forall>c \<in> set s. is_unreserved c \<or> c = CHR ''/'' \<Longrightarrow> url_escape_path s = s"
  by (induction s) (auto simp: url_escape_path_def)

lemma url_escape_query_plain: "\<forall>c \<in> set s. is_unreserved c \<Longrightarrow> url_escape_query s = s"
  by (induction s) (auto simp: url_escape_query_def)

lemma is_digit_unreserved: "is_digit c \<Longrightarrow> is_unreserved c"
  by (auto simp: is_digit_def from_dec_char_def is_unreserved_def is_alnum_def Let_def split: if_splits)

lemma hex_digit_unreserved: "d < 16 \<Longrightarrow> is_unreserved (hex_digit d)"
  by (drule less_16_cases) (auto simp: hex_digit_def hextable_def is_unreserved_def is_alnum_def)

lemma hex_encode_unreserved: "c \<in> set (hex_encode bs) \<Longrightarrow> is_unreserved c"
  by (induction bs) (auto simp: hex_digit_unreserved)

text \<open>Reading the hexadecimal text of bytes as a number gives their big-endian value.\<close>

lemma hex_encode_snoc: "hex_encode (bs @ [c]) = hex_encode bs @ [hex_digit (of_char c div 16), hex_digit (of_char c mod 16)]"
  by (simp add: hex_encode_def)

lemma hex_char_some: "c \<in> set (hex_encode bs) \<Longrightarrow> \<exists>d. from_hex_char c = Some d"
  by (induction bs) auto

lemma of_digits_hex_encode:
  "of_digits 16 (map (\<lambda>c. the (from_hex_char c)) (hex_encode bs)) = of_digits 256 (map of_char bs)"
proof (induction bs rule: rev_induct)
  case Nil
  then show ?case by simp
next
  case (snoc c bs)
  have two: "of_digits 16 (xs @ [a, b]) = (of_digits 16 xs * 16 + a) * 16 + b" for xs a b
    by (simp add: of_digits_def)
  show ?case
    by (simp add: hex_encode_snoc two snoc)
qed

lemma parse_uint64_hex_encode:
  assumes "bs \<noteq> []" "length bs \<le> 8"
  shows "parse_uint64 from_hex_char 16 (hex_encode bs) = Inr (of_nat (of_digits 256 (map of_char bs)))"
proof -
  have "hex_encode bs \<noteq> []" using assms(1) by (cases bs) simp_all
  moreover have "\<not> (\<exists>c \<in> set (hex_encode bs). from_hex_char c = None)"
    by (auto dest: hex_char_some)
  moreover have "of_digits 256 (map of_char bs) < 2 ^ 64"
  proof -
    have "of_digits 256 (map of_char bs) < 256 ^ length (map of_char bs :: nat list)"
      by (rule of_digits_bound) auto
    also have "\<dots> \<le> 256 ^ 8" using assms(2) by (intro power_increasing) simp_all
    finally show ?thesis by simp
  qed
  ultimately show ?thesis
    by (simp add: parse_uint64_def parse_digits_def of_digits_hex_encode)
qed

lemma no_dash_in_hex: "CHR ''-'' \<notin> set (hex_encode bs)"
proof
  assume "CHR ''-'' \<in> set (hex_encode bs)"
  then obtain d where "from_hex_char (CHR ''-'') = Some d" by (auto dest: hex_char_some)
  then show False by (simp add: from_hex_char_def)
qed

text \<open>An identifier with a ticker and a random sequence, extended by the nonce of a token.\<close>

lemma parse_extended_identifier:
  assumes "CHR ''-'' \<notin> set ticker" "CHR ''-'' \<notin> set random" "bs \<noteq> []" "length bs \<le> 8"
  shows "parseTokenIdentifierIntoParts (ticker @ ''-'' @ random @ ''-'' @ hex_encode bs) =
    Inr \<lparr>tip_ticker = ticker, tip_randomSequence = random,
         tip_tickerWithRandomSequence = ticker @ ''-'' @ random,
         tip_nonce = of_nat (of_digits 256 (map of_char bs))\<rparr>"
  using assms
  by (simp add: parseTokenIdentifierIntoParts_def split_on_append_sep split_on_no_sep no_dash_in_hex
      parse_uint64_hex_encode)

lemma parse_fungible_identifier:
  assumes "CHR ''-'' \<notin> set ticker" "CHR ''-'' \<notin> set random"
  shows "parseTokenIdentifierIntoParts (ticker @ ''-'' @ random) =
    Inr \<lparr>tip_ticker = ticker, tip_randomSequence = random,
         tip_tickerWithRandomSequence = ticker @ ''-'' @ random, tip_nonce = 0\<rparr>"
  using assms
  by (simp add: parseTokenIdentifierIntoParts_def split_on_append_sep split_on_no_sep)

end
