(* ===== verification/JsonText.thy ===== *)
theory JsonText
  imports Json
begin

text \<open>
  What the configuration of the custom currencies and the errors of the observer use of
  \<open>encoding/json\<close>: the text of a value, and its decoding into a list of currencies or into the two
  texts of an error. A text is cut into tokens; the tokens are read
  with a stack of open arrays and objects, as Go's scanner does. Numbers keep their literal. (Go
  refuses texts that nest deeper than 10000; this bound is not modelled.)
\<close>

section \<open>Tokens\<close>

datatype token =
    TkLBrace | TkRBrace | TkLBracket | TkRBracket | TkComma | TkColon
  | TkString string
  | TkNumber string
  | TkTrue | TkFalse | TkNull

definition is_space :: "char \<Rightarrow> bool" where
  "is_space c = (c = CHR '' '' \<or> c = CHR 0x09 \<or> c = CHR 0x0A \<or> c = CHR 0x0D)"

definition escaped :: "char \<Rightarrow> char option" where
  "escaped e =
     (if e = CHR 0x22 then Some (CHR 0x22) else if e = CHR 0x5C then Some (CHR 0x5C)
      else if e = CHR ''/'' then Some (CHR ''/'') else if e = CHR ''b'' then Some (CHR 0x08)
      else if e = CHR ''f'' then Some (CHR 0x0C) else if e = CHR ''n'' then Some (CHR 0x0A)
      else if e = CHR ''r'' then Some (CHR 0x0D) else if e = CHR ''t'' then Some (CHR 0x09)
      else None)"

definition hex4 :: "string \<Rightarrow> nat option" where
  "hex4 s = (if length s < 4 then None else parse_digits from_hex_char 16 (take 4 s))"

text \<open>
  The rune after \<open>\u\<close> and the number of bytes read: a high and a low surrogate in two escapes give
  one rune, a lone one gives the replacement character.
\<close>

definition unicode_escape :: "string \<Rightarrow> (string \<times> nat) option" where
  "unicode_escape s =
     Option.bind (hex4 s) (\<lambda>r.
       if r < 0xD800 \<or> 0xE000 \<le> r then Some (encode_rune r, 4)
       else
         case (if take 2 (drop 4 s) = [CHR 0x5C, CHR ''u''] then hex4 (drop 6 s) else None) of
           Some r1 \<Rightarrow>
             if r < 0xDC00 \<and> 0xDC00 \<le> r1 \<and> r1 < 0xE000
             then Some (encode_rune (0x10000 + (r - 0xD800) * 0x400 + (r1 - 0xDC00)), 10)
             else Some (encode_rune replacementChar, 4)
         | None \<Rightarrow> Some (encode_rune replacementChar, 4))"

definition prepend :: "'a list \<Rightarrow> ('a list \<times> 'b) option \<Rightarrow> ('a list \<times> 'b) option" where
  "prepend xs r = map_option (\<lambda>(ys, rest). (xs @ ys, rest)) r"

text \<open>The content of a string, behind its opening quote, and the text behind its closing one.\<close>

fun scan_string :: "string \<Rightarrow> (string \<times> string) option" where
  "scan_string [] = None"
| "scan_string (c # s) =
     (if c = CHR 0x22 then Some ([], s)
      else if c = CHR 0x5C then
        (if s = [] then None
         else if hd s = CHR ''u'' then
           (case unicode_escape (tl s) of
              None \<Rightarrow> None
            | Some (bytes, k) \<Rightarrow> prepend bytes (scan_string (drop (Suc k) s)))
         else case escaped (hd s) of
                None \<Rightarrow> None
              | Some x \<Rightarrow> prepend [x] (scan_string (tl s)))
      else if byte_code c < 32 then None
      else if rune_size c s = 0 then prepend (encode_rune replacementChar) (scan_string s)
      else prepend (c # take (rune_size c s - 1) s) (scan_string (drop (rune_size c s - 1) s)))"

declare scan_string.simps [simp del]

text \<open>A number: an optional sign, digits without a leading zero, a fraction, an exponent.\<close>

definition scan_digits :: "string \<Rightarrow> string \<times> string" where
  "scan_digits s = (takeWhile is_digit s, dropWhile is_digit s)"

definition scan_fraction :: "string \<Rightarrow> (string \<times> string) option" where
  "scan_fraction s =
     (case s of
        [] \<Rightarrow> Some ([], s)
      | c # rest \<Rightarrow>
          if c \<noteq> CHR ''.'' then Some ([], s)
          else (case scan_digits rest of (ds, rest) \<Rightarrow> if ds = [] then None else Some (c # ds, rest)))"

definition scan_exponent :: "string \<Rightarrow> (string \<times> string) option" where
  "scan_exponent s =
     (case s of
        [] \<Rightarrow> Some ([], s)
      | c # rest \<Rightarrow>
          if c \<noteq> CHR ''e'' \<and> c \<noteq> CHR ''E'' then Some ([], s)
          else
            let sign = takeWhile (\<lambda>c. c = CHR ''+'' \<or> c = CHR ''-'') (take 1 rest);
                (ds, rest) = scan_digits (drop (length sign) rest)
            in if ds = [] then None else Some (c # sign @ ds, rest))"

definition scan_number :: "string \<Rightarrow> (string \<times> string) option" where
  "scan_number s =
     (let sign = takeWhile (\<lambda>c. c = CHR ''-'') (take 1 s); s = drop (length sign) s;
          (ds, rest) = (if take 1 s = ''0'' then (''0'', drop 1 s) else scan_digits s)
      in if ds = [] then None
         else Option.bind (scan_fraction rest) (\<lambda>(fraction, rest).
              map_option (\<lambda>(exponent, rest). (sign @ ds @ fraction @ exponent, rest))
                (scan_exponent rest)))"

definition punctuation :: "char \<Rightarrow> token option" where
  "punctuation c =
     (if c = CHR ''{'' then Some TkLBrace else if c = CHR ''}'' then Some TkRBrace
      else if c = CHR ''['' then Some TkLBracket else if c = CHR '']'' then Some TkRBracket
      else if c = CHR '','' then Some TkComma else if c = CHR '':'' then Some TkColon
      else None)"

definition keyword :: "string \<Rightarrow> (token \<times> nat) option" where
  "keyword s =
     (if take 4 s = ''true'' then Some (TkTrue, 4)
      else if take 5 s = ''false'' then Some (TkFalse, 5)
      else if take 4 s = ''null'' then Some (TkNull, 4)
      else None)"

text \<open>One token and the text behind it.\<close>

definition scan_token :: "char \<Rightarrow> string \<Rightarrow> (token \<times> string) option" where
  "scan_token c s =
     (case punctuation c of
        Some t \<Rightarrow> Some (t, s)
      | None \<Rightarrow>
          if c = CHR 0x22 then map_option (\<lambda>(content, rest). (TkString content, rest)) (scan_string s)
          else if c = CHR ''-'' \<or> is_digit c then
            map_option (\<lambda>(literal, rest). (TkNumber literal, rest)) (scan_number (c # s))
          else map_option (\<lambda>(t, k). (t, drop (k - 1) s)) (keyword (c # s)))"

lemma prepend_Some: "prepend xs r = Some (ys, rest) \<longleftrightarrow> (\<exists>zs. r = Some (zs, rest) \<and> ys = xs @ zs)"
  by (auto simp: prepend_def)

lemma scan_string_shorter: "scan_string s = Some (content, rest) \<Longrightarrow> length rest < length s"
proof (induction s arbitrary: content rest rule: scan_string.induct)
  case (2 c s)
  then show ?case
    by (subst (asm) scan_string.simps)
      (fastforce simp: prepend_Some split: if_splits option.splits prod.splits)
qed (simp add: scan_string.simps)

lemma scan_digits_shorter: "scan_digits s = (ds, rest) \<Longrightarrow> length rest + length ds = length s"
  by (auto simp: scan_digits_def) (metis add.commute length_append takeWhile_dropWhile_id)

lemma scan_number_shorter: "scan_number s = Some (literal, rest) \<Longrightarrow> length rest < length s"
proof -
  have fraction: "length rest \<le> length s" if "scan_fraction s = Some (f, rest)" for s f rest
    using that by (auto simp: scan_fraction_def split: list.splits if_splits prod.splits dest!: scan_digits_shorter)
  have exponent: "length rest \<le> length s" if "scan_exponent s = Some (e, rest)" for s e rest
    using that
    by (auto simp: scan_exponent_def Let_def split: list.splits if_splits prod.splits dest!: scan_digits_shorter)
  define sign where "sign = takeWhile (\<lambda>c. c = CHR ''-'') (take 1 s)"
  define t where "t = drop (length sign) s"
  obtain ds r0 where digits: "(if take 1 t = ''0'' then (''0'', drop 1 t) else scan_digits t) = (ds, r0)"
    by (metis prod.exhaust)
  then have "length r0 + length ds = length t"
    by (cases t) (auto dest: scan_digits_shorter split: if_splits)
  moreover assume "scan_number s = Some (literal, rest)"
  then obtain f r1 e where "ds \<noteq> []" "scan_fraction r0 = Some (f, r1)" "scan_exponent r1 = Some (e, rest)"
    unfolding scan_number_def Let_def sign_def [symmetric] t_def [symmetric] digits prod.case
    by (auto simp: bind_eq_Some_conv split: if_splits)
  ultimately show ?thesis
    using fraction [of r0 f r1] exponent [of r1 e rest] by (cases ds) (auto simp: t_def)
qed

lemma scan_token_shorter: "scan_token c s = Some (t, rest) \<Longrightarrow> length rest < Suc (length s)"
  by (auto simp: scan_token_def keyword_def split: option.splits if_splits
      dest!: scan_string_shorter scan_number_shorter)

function tokens :: "string \<Rightarrow> token list option" where
  "tokens [] = Some []"
| "tokens (c # s) =
     (if is_space c then tokens s
      else case scan_token c s of
             None \<Rightarrow> None
           | Some (t, rest) \<Rightarrow> map_option (Cons t) (tokens rest))"
  by pat_completeness auto
termination
  by (relation "measure length") (auto dest: scan_token_shorter)

declare tokens.simps(2) [simp del]

section \<open>Values\<close>

datatype json_value =
    TNull
  | TBool bool
  | TNumber string
  | TString string
  | TArray "json_value list"
  | TObject "(string \<times> json_value) list"

text \<open>
  What is open while the tokens are read, innermost first, with the values read so far in reverse:
  an array that has just been opened, one in which a value is due (after a comma), one after a
  value; the same for an object, with the key whose value is due.
\<close>

datatype frame =
    ArrayStart
  | ArrayValue "json_value list"
  | ArrayNext "json_value list"
  | ObjectStart
  | ObjectKey "(string \<times> json_value) list"
  | ObjectColon "(string \<times> json_value) list" string
  | ObjectValue "(string \<times> json_value) list" string
  | ObjectNext "(string \<times> json_value) list"

text \<open>The state of the reader: the open frames, and the value once it is complete.\<close>

datatype reader = Reading "frame list" | Complete json_value

definition deliver :: "json_value \<Rightarrow> frame list \<Rightarrow> reader option" where
  "deliver v stack =
     (case stack of
        [] \<Rightarrow> Some (Complete v)
      | ArrayStart # rest \<Rightarrow> Some (Reading (ArrayNext [v] # rest))
      | ArrayValue vs # rest \<Rightarrow> Some (Reading (ArrayNext (v # vs) # rest))
      | ObjectValue es key # rest \<Rightarrow> Some (Reading (ObjectNext ((key, v) # es) # rest))
      | _ \<Rightarrow> None)"

definition literal_value :: "token \<Rightarrow> json_value option" where
  "literal_value t =
     (case t of
        TkString s \<Rightarrow> Some (TString s)
      | TkNumber s \<Rightarrow> Some (TNumber s)
      | TkTrue \<Rightarrow> Some (TBool True)
      | TkFalse \<Rightarrow> Some (TBool False)
      | TkNull \<Rightarrow> Some TNull
      | _ \<Rightarrow> None)"

definition value_due :: "frame list \<Rightarrow> bool" where
  "value_due stack =
     (case stack of
        [] \<Rightarrow> True
      | ArrayStart # _ \<Rightarrow> True
      | ArrayValue _ # _ \<Rightarrow> True
      | ObjectValue _ _ # _ \<Rightarrow> True
      | _ \<Rightarrow> False)"

definition read_token :: "token \<Rightarrow> frame list \<Rightarrow> reader option" where
  "read_token t stack =
     (if value_due stack \<and> t = TkLBracket then Some (Reading (ArrayStart # stack))
      else if value_due stack \<and> t = TkLBrace then Some (Reading (ObjectStart # stack))
      else if value_due stack \<and> literal_value t \<noteq> None then deliver (the (literal_value t)) stack
      else
        case (stack, t) of
          (ArrayStart # rest, TkRBracket) \<Rightarrow> deliver (TArray []) rest
        | (ArrayNext vs # rest, TkComma) \<Rightarrow> Some (Reading (ArrayValue vs # rest))
        | (ArrayNext vs # rest, TkRBracket) \<Rightarrow> deliver (TArray (rev vs)) rest
        | (ObjectStart # rest, TkRBrace) \<Rightarrow> deliver (TObject []) rest
        | (ObjectStart # rest, TkString key) \<Rightarrow> Some (Reading (ObjectColon [] key # rest))
        | (ObjectKey es # rest, TkString key) \<Rightarrow> Some (Reading (ObjectColon es key # rest))
        | (ObjectColon es key # rest, TkColon) \<Rightarrow> Some (Reading (ObjectValue es key # rest))
        | (ObjectNext es # rest, TkComma) \<Rightarrow> Some (Reading (ObjectKey es # rest))
        | (ObjectNext es # rest, TkRBrace) \<Rightarrow> deliver (TObject (rev es)) rest
        | _ \<Rightarrow> None)"

fun read_tokens :: "token list \<Rightarrow> reader \<Rightarrow> json_value option" where
  "read_tokens [] (Complete v) = Some v"
| "read_tokens [] (Reading _) = None"
| "read_tokens (t # ts) (Complete v) = None"
| "read_tokens (t # ts) (Reading stack) = Option.bind (read_token t stack) (read_tokens ts)"

definition parse_json :: "string \<Rightarrow> json_value option" where
  "parse_json text1 = Option.bind (tokens text1) (\<lambda>ts. read_tokens ts (Reading []))"

section \<open>Currencies\<close>

text \<open>\<open>strconv.ParseInt\<close> of a literal into an \<open>int32\<close>.\<close>

definition literal_int32 :: "string \<Rightarrow> go_error + int" where
  "literal_int32 literal =
     (case big_SetString literal of
        Some i \<Rightarrow> if - (2 ^ 31) \<le> i \<and> i < 2 ^ 31 then Inr i else Inl (JsonTypeError ''int32'')
      | None \<Rightarrow> Inl (JsonTypeError ''int32''))"

text \<open>
  One entry of an object, read into a currency: keys are matched with the case folded if not
  exactly, other keys are skipped, and \<open>null\<close> leaves the field alone.
\<close>

definition currency_entry :: "string \<times> json_value \<Rightarrow> Currency \<Rightarrow> go_error + Currency" where
  "currency_entry entry c =
     (case entry of
        (key, v) \<Rightarrow>
          if v = TNull then Inr c
          else if fold_name key = ''symbol'' then
            (case v of TString s \<Rightarrow> Inr (c\<lparr>Symbol := s\<rparr>) | _ \<Rightarrow> Inl (JsonTypeError ''string''))
          else if fold_name key = ''decimals'' then
            (case v of
               TNumber literal \<Rightarrow> bind_err (literal_int32 literal) (\<lambda>i. Inr (c\<lparr>Decimals := i\<rparr>))
             | _ \<Rightarrow> Inl (JsonTypeError ''int32''))
          else Inr c)"

text \<open>The entries of an object, read one after the other into a struct.\<close>

fun struct_entries ::
  "(string \<times> json_value \<Rightarrow> 'a \<Rightarrow> go_error + 'a) \<Rightarrow> (string \<times> json_value) list \<Rightarrow> 'a \<Rightarrow> go_error + 'a" where
  "struct_entries f [] c = Inr c"
| "struct_entries f (e # es) c = bind_err (f e c) (struct_entries f es)"

definition zeroCurrency :: Currency where "zeroCurrency = \<lparr>Symbol = [], Decimals = 0\<rparr>"

definition currency_of_json :: "json_value \<Rightarrow> go_error + Currency" where
  "currency_of_json v =
     (case v of
        TNull \<Rightarrow> Inr zeroCurrency
      | TObject entries \<Rightarrow> struct_entries currency_entry entries zeroCurrency
      | _ \<Rightarrow> Inl (JsonTypeError ''Currency''))"

definition unmarshalCurrencies :: "string \<Rightarrow> go_error + Currency list" where
  "unmarshalCurrencies fileContent =
     (case parse_json fileContent of
        None \<Rightarrow> Inl (JsonTypeError ''syntax'')
      | Some TNull \<Rightarrow> Inr []
      | Some (TArray vs) \<Rightarrow> traverse currency_of_json vs
      | Some _ \<Rightarrow> Inl (JsonTypeError ''[]Currency''))"

section \<open>Errors of the observer (provider/errors.go)\<close>

record structuredApiError =
  sae_Error :: string
  sae_Code :: string

definition api_error_entry :: "string \<times> json_value \<Rightarrow> structuredApiError \<Rightarrow> go_error + structuredApiError" where
  "api_error_entry entry e =
     (case entry of
        (key, v) \<Rightarrow>
          if v = TNull then Inr e
          else if fold_name key = ''error'' then
            (case v of TString s \<Rightarrow> Inr (e\<lparr>sae_Error := s\<rparr>) | _ \<Rightarrow> Inl (JsonTypeError ''string''))
          else if fold_name key = ''code'' then
            (case v of TString s \<Rightarrow> Inr (e\<lparr>sae_Code := s\<rparr>) | _ \<Rightarrow> Inl (JsonTypeError ''string''))
          else Inr e)"

definition zeroApiError :: structuredApiError where "zeroApiError = \<lparr>sae_Error = [], sae_Code = []\<rparr>"

definition unmarshalApiError :: "string \<Rightarrow> go_error + structuredApiError" where
  "unmarshalApiError text1 =
     (case parse_json text1 of
        None \<Rightarrow> Inl (JsonTypeError ''syntax'')
      | Some TNull \<Rightarrow> Inr zeroApiError
      | Some (TObject entries) \<Rightarrow> struct_entries api_error_entry entries zeroApiError
      | Some _ \<Rightarrow> Inl (JsonTypeError ''structuredApiError''))"

end
