(* ===== verification/Provider.thy ===== *)
theory Provider
  imports Currencies Scheduled Urls JsonText
begin

text \<open>
  The network provider (\<open>networkProvider.go\<close>, \<open>nodeStatus.go\<close>, \<open>accounts.go\<close>, \<open>requests.go\<close>,
  \<open>errors.go\<close> and \<open>converters.go\<close> in \<open>server/provider\<close>). The observer facade, the LRU cache, the
  hashing and the bech32 converter are code outside the repository: the fields of
  \<open>Externals\<close>. The observer answers from a world \<open>'w\<close>, the cache has a state \<open>'c\<close>; methods
  pass both along. At the end the methods are collected into the interface record.
\<close>

section \<open>Code outside the repository\<close>

record BlockQueryOptions =
  WithTransactions :: bool
  WithLogs :: bool

record Receipt =
  r_TxHash :: bytes
  r_SndAddr :: bytes
  r_Value :: "int option"
  r_Data :: bytes

text \<open>
  \<open>CallGetRestEndPoint\<close> fills in a response of the type it is given; there is one field for each
  type the source uses. \<open>ext_ErrorText\<close> is \<open>err.Error()\<close> of the errors that they return. \<open>ext_enum\<close> is the order in which a run enumerates a Go map.
\<close>

record ('c, 'w) Externals =
  of_GetAccount :: "string \<Rightarrow> string \<Rightarrow> 'w \<Rightarrow> (go_error + AccountOnBlock ApiResponse) \<times> 'w"
  of_GetESDTBalance :: "string \<Rightarrow> string \<Rightarrow> 'w \<Rightarrow> (go_error + AccountESDTBalance ApiResponse) \<times> 'w"
  of_GetNodeStatus :: "string \<Rightarrow> string \<Rightarrow> 'w \<Rightarrow> (go_error + NodeStatus ApiResponse) \<times> 'w"
  of_GetEpochStart :: "string \<Rightarrow> string \<Rightarrow> 'w \<Rightarrow> (go_error + EpochStart ApiResponse) \<times> 'w"
  of_GetGenesisBalances :: "string \<Rightarrow> string \<Rightarrow> 'w \<Rightarrow> (go_error + GenesisBalance list ApiResponse) \<times> 'w"
  of_ComputeShardId :: "bytes \<Rightarrow> u32"
  of_SendTransaction :: "PreparedTransaction \<Rightarrow> 'w \<Rightarrow> (go_error + string) \<times> 'w"
  of_ComputeTransactionHash :: "PreparedTransaction \<Rightarrow> go_error + string"
  of_GetTransactionByHashAndSenderAddress :: "string \<Rightarrow> string \<Rightarrow> bool \<Rightarrow> 'w \<Rightarrow> (go_error + ApiTransactionResult) \<times> 'w"
  of_GetBlockByHash :: "u32 \<Rightarrow> string \<Rightarrow> BlockQueryOptions \<Rightarrow> 'w \<Rightarrow> (go_error + Block ApiResponse) \<times> 'w"
  of_GetBlockByNonce :: "u32 \<Rightarrow> u64 \<Rightarrow> BlockQueryOptions \<Rightarrow> 'w \<Rightarrow> (go_error + Block ApiResponse) \<times> 'w"
  cache_New :: "nat \<Rightarrow> go_error + 'c"
  cache_Get :: "bytes \<Rightarrow> 'c \<Rightarrow> Block option \<times> 'c"
  cache_Put :: "bytes \<Rightarrow> Block \<Rightarrow> 'c \<Rightarrow> 'c"
  ext_Encode :: "bytes \<Rightarrow> go_error + string"
  ext_Decode :: "string \<Rightarrow> go_error + bytes"
  ext_CalculateHash :: "Receipt \<Rightarrow> go_error + bytes"
  ext_SafeMul :: "u64 \<Rightarrow> u64 \<Rightarrow> nat"
  ext_ErrorText :: "go_error \<Rightarrow> string"
  ext_enum :: "txs_by_hash \<Rightarrow> txs_by_hash"
  ext_Library :: Library

section \<open>Errors (errors.go)\<close>

definition errIsOffline :: go_error where "errIsOffline = ErrorsNew ''server is in offline mode''"
definition errCannotGetBlock :: go_error where "errCannotGetBlock = ErrorsNew ''cannot get block''"
definition errCannotGetAccount :: go_error where "errCannotGetAccount = ErrorsNew ''cannot get account''"
definition errCannotGetTransaction :: go_error where
  "errCannotGetTransaction = ErrorsNew ''cannot get transaction''"
definition errCannotGetLatestBlockNonce :: go_error where
  "errCannotGetLatestBlockNonce =
     ErrorsNew (''cannot get latest block nonce, maybe the node didn'' @ [CHR 0x27] @ ''t start syncing'')"

definition newErrCannotGetBlockByNonce :: "u64 \<Rightarrow> go_error \<Rightarrow> go_error" where
  "newErrCannotGetBlockByNonce nonce innerError =
     Errorf [Err errCannotGetBlock, Txt '': '', Err innerError, Txt '', nonce = '', Txt (nat_to_dec (unat nonce))]"

definition newErrCannotGetBlockByHash :: "string \<Rightarrow> go_error \<Rightarrow> go_error" where
  "newErrCannotGetBlockByHash h innerError =
     Errorf [Err errCannotGetBlock, Txt '': '', Err innerError, Txt '', hash = '', Txt h]"

definition newErrCannotGetAccount :: "string \<Rightarrow> go_error \<Rightarrow> go_error" where
  "newErrCannotGetAccount address innerError =
     Errorf [Err errCannotGetAccount, Txt '': '', Err innerError, Txt '', address = '', Txt address]"

definition newErrCannotGetTransaction :: "string \<Rightarrow> go_error \<Rightarrow> go_error" where
  "newErrCannotGetTransaction h innerError =
     Errorf [Err errCannotGetTransaction, Txt '': '', Err innerError, Txt '', address = '', Txt h]"

definition convertStructuredApiErrToFlatErr :: "('c, 'w) Externals \<Rightarrow> go_error \<Rightarrow> go_error" where
  "convertStructuredApiErrToFlatErr E apiErr =
     (case unmarshalApiError (ext_ErrorText E apiErr) of
        Inl err \<Rightarrow> apiErr
      | Inr structuredApiErr \<Rightarrow> ErrorsNew (sae_Error structuredApiErr @ '': '' @ sae_Code structuredApiErr))"

section \<open>The struct and its constructor\<close>

record ArgsNewNetworkProvider =
  a_IsOffline :: bool
  a_ObservedActualShard :: u32
  a_ObservedProjectedShard :: u32
  a_ObservedProjectedShardIsSet :: bool
  a_ObserverUrl :: string
  a_BlockchainName :: string
  a_NetworkID :: string
  a_NetworkName :: string
  a_GasPerDataByte :: u64
  a_GasPriceModifier :: float64
  a_GasLimitCustomTransfer :: u64
  a_MinGasPrice :: u64
  a_MinGasLimit :: u64
  a_ExtraGasLimitGuardedTx :: u64
  a_ExtraGasLimitRelayedTxV3 :: u64
  a_NativeCurrencySymbol :: string
  a_CustomCurrencies :: "Currency list"
  a_GenesisBlockHash :: string
  a_GenesisTimestamp :: int
  a_FirstHistoricalEpoch :: u32
  a_NumHistoricalEpochs :: u32
  a_ShouldHandleContracts :: bool
  a_ActivationEpochSirius :: u32
  a_ActivationEpochSpica :: u32

record networkProvider =
  p_currencies :: currenciesProvider
  p_isOffline :: bool
  p_observedActualShard :: u32
  p_observedProjectedShard :: u32
  p_observedProjectedShardIsSet :: bool
  p_observerUrl :: string
  p_genesisBlockHash :: string
  p_genesisTimestamp :: int
  p_firstHistoricalEpoch :: u32
  p_numHistoricalEpochs :: u32
  p_shouldHandleContracts :: bool
  p_activationEpochSirius :: u32
  p_activationEpochSpica :: u32
  p_networkConfig :: NetworkConfig

definition genesisBlockNonce :: u64 where "genesisBlockNonce = 0"
definition blocksCacheCapacity :: nat where "blocksCacheCapacity = 1024"

definition providerOfArgs :: "currenciesProvider \<Rightarrow> ArgsNewNetworkProvider \<Rightarrow> networkProvider" where
  "providerOfArgs currencies args =
     \<lparr>p_currencies = currencies,
      p_isOffline = a_IsOffline args,
      p_observedActualShard = a_ObservedActualShard args,
      p_observedProjectedShard = a_ObservedProjectedShard args,
      p_observedProjectedShardIsSet = a_ObservedProjectedShardIsSet args,
      p_observerUrl = a_ObserverUrl args,
      p_genesisBlockHash = a_GenesisBlockHash args,
      p_genesisTimestamp = a_GenesisTimestamp args,
      p_firstHistoricalEpoch = a_FirstHistoricalEpoch args,
      p_numHistoricalEpochs = a_NumHistoricalEpochs args,
      p_shouldHandleContracts = a_ShouldHandleContracts args,
      p_activationEpochSirius = a_ActivationEpochSirius args,
      p_activationEpochSpica = a_ActivationEpochSpica args,
      p_networkConfig =
        \<lparr>nc_BlockchainName = a_BlockchainName args, nc_NetworkID = a_NetworkID args,
         nc_NetworkName = a_NetworkName args, nc_MinGasPrice = a_MinGasPrice args,
         nc_MinGasLimit = a_MinGasLimit args, nc_GasPerDataByte = a_GasPerDataByte args,
         nc_GasPriceModifier = a_GasPriceModifier args,
         nc_GasLimitCustomTransfer = a_GasLimitCustomTransfer args,
         nc_ExtraGasLimitGuardedTx = a_ExtraGasLimitGuardedTx args,
         nc_ExtraGasLimitRelayedTxV3 = a_ExtraGasLimitRelayedTxV3 args\<rparr>\<rparr>"

definition NewNetworkProvider ::
  "('c, 'w) Externals \<Rightarrow> ArgsNewNetworkProvider \<Rightarrow> go_error + networkProvider \<times> 'c" where
  "NewNetworkProvider E args =
     bind_err (cache_New E blocksCacheCapacity) (\<lambda>cache.
     bind_err (newCurrenciesProvider (a_NativeCurrencySymbol args) (a_CustomCurrencies args)) (\<lambda>currencies.
       Inr (providerOfArgs currencies args, cache)))"

definition GetGenesisBlockSummary :: "networkProvider \<Rightarrow> BlockSummary" where
  "GetGenesisBlockSummary p =
     \<lparr>bs_Nonce = genesisBlockNonce, bs_Hash = p_genesisBlockHash p, bs_PreviousBlockHash = [],
      bs_Timestamp = p_genesisTimestamp p\<rparr>"

section \<open>Requests (requests.go)\<close>

text \<open>A step of a method: a result and the next state of the cache and of the world.\<close>

type_synonym ('c, 'w, 'a) step = "'c \<times> 'w \<Rightarrow> (go_error + 'a) \<times> ('c \<times> 'w)"

definition bind_step :: "('c, 'w, 'a) step \<Rightarrow> ('a \<Rightarrow> ('c, 'w, 'b) step) \<Rightarrow> ('c, 'w, 'b) step" where
  "bind_step m f s = (case m s of (Inl e, s') \<Rightarrow> (Inl e, s') | (Inr x, s') \<Rightarrow> f x s')"

definition ask :: "('w \<Rightarrow> (go_error + 'a) \<times> 'w) \<Rightarrow> ('c, 'w, 'a) step" where
  "ask request s = (case request (snd s) of (r, w) \<Rightarrow> (r, (fst s, w)))"

definition getResourceWithErrConversion ::
  "('c, 'w) Externals \<Rightarrow> ('w \<Rightarrow> (go_error + 'd ApiResponse) \<times> 'w) \<Rightarrow> ('c, 'w, 'd) step" where
  "getResourceWithErrConversion E request s =
     (case ask request s of
        (Inl err, s') \<Rightarrow> (Inl (convertStructuredApiErrToFlatErr E err), s')
      | (Inr response, s') \<Rightarrow>
          if GetErrorMessage response \<noteq> [] then (Inl (ErrorsNew (GetErrorMessage response)), s')
          else (Inr (ar_Data response), s'))"

definition getResource ::
  "('c, 'w) Externals \<Rightarrow> networkProvider \<Rightarrow> ('w \<Rightarrow> (go_error + 'd ApiResponse) \<times> 'w) \<Rightarrow> ('c, 'w, 'd) step" where
  "getResource E p request s =
     (if p_isOffline p then (Inl errIsOffline, s) else getResourceWithErrConversion E request s)"

definition map_error :: "(go_error \<Rightarrow> go_error) \<Rightarrow> ('c, 'w, 'a) step \<Rightarrow> ('c, 'w, 'a) step" where
  "map_error f m s = (case m s of (Inl e, s') \<Rightarrow> (Inl (f e), s') | (Inr x, s') \<Rightarrow> (Inr x, s'))"

definition GetGenesisBalances :: "('c, 'w) Externals \<Rightarrow> networkProvider \<Rightarrow> ('c, 'w, GenesisBalance list) step" where
  "GetGenesisBalances E p s =
     (if p_isOffline p then (Inl errIsOffline, s)
      else getResource E p (of_GetGenesisBalances E (p_observerUrl p) urlPathGetGenesisBalances) s)"

section \<open>Accounts (accounts.go)\<close>

definition GetAccount :: "('c, 'w) Externals \<Rightarrow> networkProvider \<Rightarrow> string \<Rightarrow> ('c, 'w, AccountOnBlock) step" where
  "GetAccount E p address =
     map_error (newErrCannotGetAccount address)
       (getResource E p (of_GetAccount E (p_observerUrl p) (buildUrlGetAccount address)))"

definition getNativeBalance ::
  "('c, 'w) Externals \<Rightarrow> networkProvider \<Rightarrow> string \<Rightarrow> AccountQueryOptions \<Rightarrow> ('c, 'w, AccountBalanceOnBlock) step" where
  "getNativeBalance E p address options =
     bind_step
       (map_error (newErrCannotGetAccount address)
          (getResource E p (of_GetAccount E (p_observerUrl p) (buildUrlGetAccountNativeBalance address options))))
       (\<lambda>data s. (Inr \<lparr>abb_Balance = ac_Balance (aob_Account data),
                       abb_Nonce = \<lparr>ou_Value = ac_Nonce (aob_Account data), ou_HasValue = True\<rparr>,
                       abb_BlockCoordinates = aob_BlockCoordinates data\<rparr>, s))"

definition getCustomTokenBalance ::
  "('c, 'w) Externals \<Rightarrow> networkProvider \<Rightarrow> string \<Rightarrow> string \<Rightarrow> AccountQueryOptions \<Rightarrow>
     ('c, 'w, AccountBalanceOnBlock) step" where
  "getCustomTokenBalance E p address tokenIdentifier options s =
     (case decideCustomTokenBalanceUrl address tokenIdentifier options of
        Inl err \<Rightarrow> (Inl err, s)
      | Inr url \<Rightarrow>
          bind_step
            (map_error (newErrCannotGetAccount address)
               (getResource E p (of_GetESDTBalance E (p_observerUrl p) url)))
            (\<lambda>data s. (Inr \<lparr>abb_Balance = td_Balance (esdt_TokenData data),
                            abb_Nonce = noOptionalUint64,
                            abb_BlockCoordinates = esdt_BlockCoordinates data\<rparr>, s)) s)"

definition GetAccountBalance ::
  "('c, 'w) Externals \<Rightarrow> networkProvider \<Rightarrow> string \<Rightarrow> string \<Rightarrow> AccountQueryOptions \<Rightarrow>
     ('c, 'w, AccountBalanceOnBlock) step" where
  "GetAccountBalance E p address tokenIdentifier options =
     (let isNativeBalance = (tokenIdentifier = Symbol (nativeCurrency (p_currencies p))) in
      if isNativeBalance then getNativeBalance E p address options
      else getCustomTokenBalance E p address tokenIdentifier options)"

section \<open>Node status (nodeStatus.go)\<close>

definition getPlainNodeStatus :: "('c, 'w) Externals \<Rightarrow> networkProvider \<Rightarrow> ('c, 'w, NodeStatus) step" where
  "getPlainNodeStatus E p s =
     (if p_isOffline p then (Inl errIsOffline, s)
      else getResource E p (of_GetNodeStatus E (p_observerUrl p) urlPathGetNodeStatus) s)"

definition nonceDelta :: u64 where "nonceDelta = 2"

definition getLatestNonceGivenHighestFinalNonce :: "u64 \<Rightarrow> go_error + u64" where
  "getLatestNonceGivenHighestFinalNonce highestFinalNonce =
     (if highestFinalNonce \<le> nonceDelta then Inl errCannotGetLatestBlockNonce
      else Inr (highestFinalNonce - nonceDelta))"

definition getLatestBlockNonce :: "('c, 'w) Externals \<Rightarrow> networkProvider \<Rightarrow> ('c, 'w, u64) step" where
  "getLatestBlockNonce E p =
     bind_step (getPlainNodeStatus E p)
       (\<lambda>nodeStatus s. (getLatestNonceGivenHighestFinalNonce (ns_HighestFinalNonce nodeStatus), s))"

text \<open>\<open>int(currentEpoch) - int(numHistoricalEpochs)\<close> of two 32-bit values fits in 64 bits.\<close>

definition getOldestEligibleEpoch :: "networkProvider \<Rightarrow> u32 \<Rightarrow> u32" where
  "getOldestEligibleEpoch p currentEpoch =
     (let oldestEpoch = uint currentEpoch - uint (p_numHistoricalEpochs p) in
      if oldestEpoch < uint (p_firstHistoricalEpoch p) then p_firstHistoricalEpoch p
      else word_of_int oldestEpoch)"

definition getEpochStartInfo :: "('c, 'w) Externals \<Rightarrow> networkProvider \<Rightarrow> u32 \<Rightarrow> ('c, 'w, EpochStart) step" where
  "getEpochStartInfo E p epoch s =
     (if p_isOffline p then (Inl errIsOffline, s)
      else getResource E p (of_GetEpochStart E (p_observerUrl p) (buildUrlGetEpochStartInfo epoch)) s)"

definition getOldestNonceWithHistoricalStateGivenNodeStatus ::
  "('c, 'w) Externals \<Rightarrow> networkProvider \<Rightarrow> NodeStatus \<Rightarrow> ('c, 'w, u64) step" where
  "getOldestNonceWithHistoricalStateGivenNodeStatus E p status =
     bind_step (getEpochStartInfo E p (getOldestEligibleEpoch p (ns_CurrentEpoch status)))
       (\<lambda>epochStartInfo s. (Inr (es_Nonce epochStartInfo), s))"

text \<open>\<open>response.Error\<close> is not looked at when only a summary is asked for.\<close>

definition getBlockSummaryByNonce :: "('c, 'w) Externals \<Rightarrow> networkProvider \<Rightarrow> u64 \<Rightarrow> ('c, 'w, BlockSummary) step" where
  "getBlockSummaryByNonce E p nonce s =
     (if p_isOffline p then (Inl errIsOffline, s)
      else
        let queryOptions = \<lparr>WithTransactions = False, WithLogs = False\<rparr> in
        case ask (of_GetBlockByNonce E (p_observedActualShard p) nonce queryOptions) s of
          (Inl err, s') \<Rightarrow> (Inl (newErrCannotGetBlockByNonce nonce err), s')
        | (Inr blockResponse, s') \<Rightarrow>
            (Inr \<lparr>bs_Nonce = bk_Nonce (ar_Data blockResponse), bs_Hash = bk_Hash (ar_Data blockResponse),
                  bs_PreviousBlockHash = bk_PrevBlockHash (ar_Data blockResponse),
                  bs_Timestamp = bk_Timestamp (ar_Data blockResponse)\<rparr>, s'))"

definition parsePeersCounts :: "string \<Rightarrow> (string \<rightharpoonup> int)" where
  "parsePeersCounts csv =
     (if length csv = 0 then Map.empty
      else fold (\<lambda>part peersCounts.
             let subparts = split_on (CHR '':'') part in
             if length subparts \<noteq> 2 then peersCounts
             else (case parse_int32 (subparts ! 1) of
                     Inl err \<Rightarrow> peersCounts
                   | Inr n \<Rightarrow> peersCounts(subparts ! 0 \<mapsto> n)))
             (split_on (CHR '','') csv) Map.empty)"

definition GetNodeStatus :: "('c, 'w) Externals \<Rightarrow> networkProvider \<Rightarrow> ('c, 'w, AggregatedNodeStatus) step" where
  "GetNodeStatus E p s =
     (if p_isOffline p then (Inl errIsOffline, s)
      else bind_step (getPlainNodeStatus E p) (\<lambda>plainNodeStatus.
           bind_step (\<lambda>s. (getLatestNonceGivenHighestFinalNonce (ns_HighestFinalNonce plainNodeStatus), s)) (\<lambda>latestNonce.
           bind_step (getBlockSummaryByNonce E p latestNonce) (\<lambda>latestBlockSummary.
           bind_step (getOldestNonceWithHistoricalStateGivenNodeStatus E p plainNodeStatus) (\<lambda>oldestNonce.
           bind_step (getBlockSummaryByNonce E p oldestNonce) (\<lambda>oldestBlock.
             \<lambda>s. (Inr \<lparr>ans_Version = ns_Version plainNodeStatus,
                       ans_ConnectedPeersCounts = parsePeersCounts (ns_ConnectedPeersCounts plainNodeStatus),
                       ans_ObserverPublicKey = ns_ObserverPublicKey plainNodeStatus,
                       ans_Synced = (ns_IsSyncing plainNodeStatus = 0),
                       ans_LatestBlock = latestBlockSummary,
                       ans_OldestBlockWithHistoricalState = oldestBlock\<rparr>, s)))))) s)"

end
