(* ===== verification/ProviderBlocks.thy ===== *)
theory ProviderBlocks
  imports Provider
begin

text \<open>
  The rest of the network provider (\<open>networkProvider.go\<close>, \<open>scheduledMiniblocks.go\<close>,
  \<open>converters.go\<close>): blocks behind the LRU cache, addresses, receipts, transactions and fees;
  then the interface record \<open>asNetworkProvider\<close> that the services are given, which keeps the
  contract \<open>network_provider\<close>.

  Go passes blocks by pointer, and the provider hands out copies whose transactions are shared with
  the cached block. Here blocks are values; the theory BlockStore has the pointers, and shows that
  the answers are the same.
\<close>

section \<open>Blocks behind the cache\<close>

text \<open>\<open>binary.LittleEndian.PutUint64\<close> into eight bytes.\<close>

definition blockNonceToBytes :: "u64 \<Rightarrow> bytes" where
  "blockNonceToBytes nonce = map (\<lambda>i. char_of (unat (drop_bit (8 * i) nonce) mod 256)) [0..<8]"

definition copyMiniblock :: "MiniBlock \<Rightarrow> MiniBlock" where
  "copyMiniblock miniblock =
     \<lparr>mb_Type = mb_Type miniblock, mb_Hash = mb_Hash miniblock,
      mb_ProcessingType = mb_ProcessingType miniblock,
      mb_ConstructionState = mb_ConstructionState miniblock,
      mb_SourceShard = mb_SourceShard miniblock, mb_DestinationShard = mb_DestinationShard miniblock,
      mb_Transactions = mb_Transactions miniblock, mb_Receipts = mb_Receipts miniblock\<rparr>"

definition createBlockCopy :: "Block \<Rightarrow> Block" where
  "createBlockCopy block =
     \<lparr>bk_Nonce = bk_Nonce block, bk_Round = bk_Round block, bk_Epoch = bk_Epoch block,
      bk_Shard = bk_Shard block, bk_NumTxs = bk_NumTxs block, bk_Hash = bk_Hash block,
      bk_PrevBlockHash = bk_PrevBlockHash block, bk_StateRootHash = bk_StateRootHash block,
      bk_Status = bk_Status block, bk_Timestamp = bk_Timestamp block,
      bk_MiniBlocks = map copyMiniblock (bk_MiniBlocks block)\<rparr>"

definition getBlockByNonceCached ::
  "('c, 'w) Externals \<Rightarrow> u64 \<Rightarrow> 'c \<times> 'w \<Rightarrow> Block option \<times> ('c \<times> 'w)" where
  "getBlockByNonceCached E nonce s =
     (case cache_Get E (blockNonceToBytes nonce) (fst s) of (r, c) \<Rightarrow> (r, (c, snd s)))"

definition cacheBlockByNonce :: "('c, 'w) Externals \<Rightarrow> u64 \<Rightarrow> Block \<Rightarrow> 'c \<times> 'w \<Rightarrow> 'c \<times> 'w" where
  "cacheBlockByNonce E nonce block s = (cache_Put E (blockNonceToBytes nonce) block (fst s), snd s)"

definition withTransactionsAndLogs :: BlockQueryOptions where
  "withTransactionsAndLogs = \<lparr>WithTransactions = True, WithLogs = True\<rparr>"

definition doGetBlockByNonce :: "('c, 'w) Externals \<Rightarrow> networkProvider \<Rightarrow> u64 \<Rightarrow> ('c, 'w, Block) step" where
  "doGetBlockByNonce E p nonce s =
     (case getBlockByNonceCached E nonce s of
        (Some block, s1) \<Rightarrow> (Inr (createBlockCopy block), s1)
      | (None, s1) \<Rightarrow>
          (case ask (of_GetBlockByNonce E (p_observedActualShard p) nonce withTransactionsAndLogs) s1 of
             (Inl err, s2) \<Rightarrow> (Inl (newErrCannotGetBlockByNonce nonce (convertStructuredApiErrToFlatErr E err)), s2)
           | (Inr response, s2) \<Rightarrow>
               if ar_Error response \<noteq> [] then
                 (Inl (newErrCannotGetBlockByNonce nonce (ErrorsNew (ar_Error response))), s2)
               else
                 let block = ar_Data response in
                 (Inr (createBlockCopy block), cacheBlockByNonce E nonce block s2)))"

text \<open>
  A recursion over contract results that never returns ends, in Go, with the stack: a fatal
  error that no handler catches.
\<close>

definition stackOverflow :: go_error where
  "stackOverflow = Panic ''stack overflow''"

definition simplifyBlockWithScheduledTransactions ::
  "('c, 'w) Externals \<Rightarrow> networkProvider \<Rightarrow> Block \<Rightarrow> ('c, 'w, Block) step" where
  "simplifyBlockWithScheduledTransactions E p block =
     bind_step (doGetBlockByNonce E p (bk_Nonce block - 1)) (\<lambda>previousBlock.
     bind_step (doGetBlockByNonce E p (bk_Nonce block + 1)) (\<lambda>nextBlock s.
       (case doSimplifyBlockWithScheduledTransactions (ext_enum E) previousBlock block nextBlock of
          None \<Rightarrow> (Inl stackOverflow, s)
        | Some simplified \<Rightarrow> (Inr simplified, s))))"

definition GetBlockByNonce :: "('c, 'w) Externals \<Rightarrow> networkProvider \<Rightarrow> u64 \<Rightarrow> ('c, 'w, Block) step" where
  "GetBlockByNonce E p nonce s =
     (if p_isOffline p then (Inl errIsOffline, s)
      else bind_step (getLatestBlockNonce E p) (\<lambda>latestNonce s1.
             if nonce > latestNonce then (Inl errCannotGetBlock, s1)
             else bind_step (doGetBlockByNonce E p nonce)
                    (simplifyBlockWithScheduledTransactions E p) s1) s)"

definition doGetBlockByHash :: "('c, 'w) Externals \<Rightarrow> networkProvider \<Rightarrow> string \<Rightarrow> ('c, 'w, Block) step" where
  "doGetBlockByHash E p h s =
     (case ask (of_GetBlockByHash E (p_observedActualShard p) h withTransactionsAndLogs) s of
        (Inl err, s1) \<Rightarrow> (Inl (newErrCannotGetBlockByHash h (convertStructuredApiErrToFlatErr E err)), s1)
      | (Inr response, s1) \<Rightarrow>
          if ar_Error response \<noteq> [] then
            (Inl (newErrCannotGetBlockByHash h (ErrorsNew (ar_Error response))), s1)
          else (Inr (ar_Data response), s1))"

definition GetBlockByHash :: "('c, 'w) Externals \<Rightarrow> networkProvider \<Rightarrow> string \<Rightarrow> ('c, 'w, Block) step" where
  "GetBlockByHash E p h s =
     (if p_isOffline p then (Inl errIsOffline, s)
      else bind_step (doGetBlockByHash E p h) (simplifyBlockWithScheduledTransactions E p) s)"

section \<open>Addresses, receipts, transactions, fees\<close>

definition ConvertPubKeyToAddress :: "('c, 'w) Externals \<Rightarrow> bytes \<Rightarrow> string" where
  "ConvertPubKeyToAddress E pubkey = (case ext_Encode E pubkey of Inl err \<Rightarrow> [] | Inr address \<Rightarrow> address)"

definition ConvertAddressToPubKey :: "('c, 'w) Externals \<Rightarrow> string \<Rightarrow> go_error + bytes" where
  "ConvertAddressToPubKey E address = ext_Decode E address"

definition ComputeShardIdOfPubKey :: "('c, 'w) Externals \<Rightarrow> bytes \<Rightarrow> u32" where
  "ComputeShardIdOfPubKey E pubKey = of_ComputeShardId E pubKey"

text \<open>
  \<open>pubKey[len(pubKey)-1] == byte(shard)\<close> is evaluated only when a projected shard is set; on an
  empty key the index is out of range.
\<close>

definition IsAddressObserved :: "('c, 'w) Externals \<Rightarrow> networkProvider \<Rightarrow> string \<Rightarrow> go_error + bool" where
  "IsAddressObserved E p address =
     bind_err (ConvertAddressToPubKey E address) (\<lambda>pubKey.
       let shard = of_ComputeShardId E pubKey;
           noConstraintAboutProjectedShard = (\<not> p_observedProjectedShardIsSet p);
           noConstraintAboutHandlingContracts = p_shouldHandleContracts p;
           passesConstraintAboutObservedActualShard = (shard = p_observedActualShard p)
       in bind_err
            (if noConstraintAboutProjectedShard then Inr True
             else if pubKey = [] then Inl (Panic ''index out of range'')
             else Inr (of_char (last pubKey) = unat (p_observedProjectedShard p) mod 256))
            (\<lambda>passesConstraintAboutObservedProjectedShard.
               let passesConstraintAboutHandlingContracts =
                     (noConstraintAboutHandlingContracts \<or> \<not> lib_IsSmartContractAddress (ext_Library E) pubKey)
               in Inr (passesConstraintAboutObservedActualShard \<and>
                       passesConstraintAboutObservedProjectedShard \<and>
                       passesConstraintAboutHandlingContracts)))"

definition ComputeTransactionHash :: "('c, 'w) Externals \<Rightarrow> PreparedTransaction \<Rightarrow> go_error + string" where
  "ComputeTransactionHash E tx = of_ComputeTransactionHash E tx"

definition ComputeReceiptHash :: "('c, 'w) Externals \<Rightarrow> ApiReceipt \<Rightarrow> go_error + string" where
  "ComputeReceiptHash E apiReceipt =
     bind_err (hex_decode (rc_TxHash apiReceipt)) (\<lambda>txHash.
     bind_err (ConvertAddressToPubKey E (rc_SndAddr apiReceipt)) (\<lambda>senderPubkey.
       let receiptObj = \<lparr>r_TxHash = txHash, r_SndAddr = senderPubkey,
                         r_Value = rc_Value apiReceipt, r_Data = rc_Data apiReceipt\<rparr>
       in bind_err (ext_CalculateHash E receiptObj) (\<lambda>receiptHash. Inr (hex_encode receiptHash))))"

definition SendTransaction ::
  "('c, 'w) Externals \<Rightarrow> networkProvider \<Rightarrow> PreparedTransaction \<Rightarrow> ('c, 'w, string) step" where
  "SendTransaction E p tx s =
     (if p_isOffline p then (Inl errIsOffline, s) else ask (of_SendTransaction E tx) s)"

definition TxStatusPending :: string where "TxStatusPending = ''pending''"

definition GetMempoolTransactionByHash ::
  "('c, 'w) Externals \<Rightarrow> networkProvider \<Rightarrow> string \<Rightarrow> ('c, 'w, ApiTransactionResult option) step" where
  "GetMempoolTransactionByHash E p h s =
     (if p_isOffline p then (Inl errIsOffline, s)
      else
        case ask (of_GetTransactionByHashAndSenderAddress E h [] False) s of
          (Inl err, s1) \<Rightarrow> (Inl (newErrCannotGetTransaction h err), s1)
        | (Inr tx, s1) \<Rightarrow> (if tx_Status tx = TxStatusPending then (Inr (Some tx), s1) else (Inr None, s1)))"

text \<open>The gas of a move-balance transaction, in 64-bit arithmetic that wraps around.\<close>

definition gasLimitForMoveBalance :: "networkProvider \<Rightarrow> ApiTransactionResult \<Rightarrow> u64" where
  "gasLimitForMoveBalance p tx =
     (let config = p_networkConfig p;
          gasLimit = nc_MinGasLimit config + nc_GasPerDataByte config * of_nat (length (tx_Data tx));
          isGuarded = length (tx_GuardianAddr tx) > 0;
          gasLimit = (if isGuarded then gasLimit + nc_ExtraGasLimitGuardedTx config else gasLimit)
      in if IsRelayedTxV3 tx then gasLimit + nc_ExtraGasLimitRelayedTxV3 config else gasLimit)"

definition ComputeTransactionFeeForMoveBalance ::
  "('c, 'w) Externals \<Rightarrow> networkProvider \<Rightarrow> ApiTransactionResult \<Rightarrow> int" where
  "ComputeTransactionFeeForMoveBalance E p tx =
     int (ext_SafeMul E (gasLimitForMoveBalance p tx) (tx_GasPrice tx))"

definition IsReleaseSiriusActive :: "networkProvider \<Rightarrow> u32 \<Rightarrow> bool" where
  "IsReleaseSiriusActive p epoch = (epoch \<ge> p_activationEpochSirius p)"

definition IsReleaseSpicaActive :: "networkProvider \<Rightarrow> u32 \<Rightarrow> bool" where
  "IsReleaseSpicaActive p epoch = (epoch \<ge> p_activationEpochSpica p)"

section \<open>The provider as the services see it\<close>

definition asNetworkProvider :: "('c, 'w) Externals \<Rightarrow> networkProvider \<Rightarrow> ('c \<times> 'w) NetworkProvider" where
  "asNetworkProvider E p =
     \<lparr>np_IsOffline = p_isOffline p,
      np_GetBlockchainName = nc_BlockchainName (p_networkConfig p),
      np_GetNativeCurrency = GetNativeCurrency (p_currencies p),
      np_GetCustomCurrencies = GetCustomCurrencies (p_currencies p),
      np_GetCustomCurrencyBySymbol = GetCustomCurrencyBySymbol (p_currencies p),
      np_HasCustomCurrency = HasCustomCurrency (p_currencies p),
      np_GetNetworkConfig = p_networkConfig p,
      np_GetGenesisBlockSummary = GetGenesisBlockSummary p,
      np_GetGenesisTimestamp = p_genesisTimestamp p,
      np_GetGenesisBalances = GetGenesisBalances E p,
      np_GetNodeStatus = GetNodeStatus E p,
      np_GetBlockByNonce = GetBlockByNonce E p,
      np_GetBlockByHash = GetBlockByHash E p,
      np_GetAccount = GetAccount E p,
      np_GetAccountBalance = GetAccountBalance E p,
      np_IsAddressObserved = IsAddressObserved E p,
      np_ComputeShardIdOfPubKey = ComputeShardIdOfPubKey E,
      np_ConvertPubKeyToAddress = ConvertPubKeyToAddress E,
      np_ConvertAddressToPubKey = ConvertAddressToPubKey E,
      np_SendTransaction = SendTransaction E p,
      np_ComputeTransactionHash = ComputeTransactionHash E,
      np_ComputeReceiptHash = ComputeReceiptHash E,
      np_ComputeTransactionFeeForMoveBalance = ComputeTransactionFeeForMoveBalance E p,
      np_GetMempoolTransactionByHash = GetMempoolTransactionByHash E p,
      np_IsReleaseSiriusActive = IsReleaseSiriusActive p,
      np_IsReleaseSpicaActive = IsReleaseSpicaActive p\<rparr>"

text \<open>The provider of a server: one built from its arguments.\<close>

definition serverProvider ::
  "('c, 'w) Externals \<Rightarrow> ArgsNewNetworkProvider \<Rightarrow> ('c \<times> 'w) NetworkProvider" where
  "serverProvider E args =
     asNetworkProvider E (providerOfArgs (currenciesOf (a_NativeCurrencySymbol args) (a_CustomCurrencies args)) args)"

lemmas provider_simps = serverProvider_def asNetworkProvider_def providerOfArgs_def

lemma NewNetworkProvider_Inr:
  "NewNetworkProvider E args = Inr (p, c) \<Longrightarrow>
     asNetworkProvider E p = serverProvider E args \<and> (\<forall>cur \<in> set (a_CustomCurrencies args). Symbol cur \<noteq> [])"
  by (auto simp: NewNetworkProvider_def newCurrenciesProvider_Inr serverProvider_def)

interpretation sirius: release_schedule "IsReleaseSiriusActive p" for p
  by unfold_locales (simp add: IsReleaseSiriusActive_def)

interpretation spica: release_schedule "IsReleaseSpicaActive p" for p
  by unfold_locales (simp add: IsReleaseSpicaActive_def)

interpretation server: network_provider "serverProvider E args" for E args
proof unfold_locales
  fix s c
  show "np_HasCustomCurrency (serverProvider E args) s \<longleftrightarrow>
      (\<exists>c. np_GetCustomCurrencyBySymbol (serverProvider E args) s = Some c)"
    by (simp add: serverProvider_def asNetworkProvider_def providerOfArgs_def registry.has_iff_lookup)
  show "np_GetCustomCurrencyBySymbol (serverProvider E args) s = Some c \<Longrightarrow> Symbol c = s"
    by (simp add: serverProvider_def asNetworkProvider_def providerOfArgs_def registry.lookup_symbol)
next
  fix e e'
  show "np_IsReleaseSiriusActive (serverProvider E args) e \<Longrightarrow> e \<le> e' \<Longrightarrow>
      np_IsReleaseSiriusActive (serverProvider E args) e'"
    by (simp add: serverProvider_def asNetworkProvider_def sirius.stays_active)
  show "np_IsReleaseSpicaActive (serverProvider E args) e \<Longrightarrow> e \<le> e' \<Longrightarrow>
      np_IsReleaseSpicaActive (serverProvider E args) e'"
    by (simp add: serverProvider_def asNetworkProvider_def spica.stays_active)
next
  fix tx a b
  show "0 \<le> np_ComputeTransactionFeeForMoveBalance (serverProvider E args) tx"
    by (simp add: serverProvider_def asNetworkProvider_def ComputeTransactionFeeForMoveBalance_def)
  show "np_IsAddressObserved (serverProvider E args) a = Inr b \<Longrightarrow>
      \<exists>k. np_ConvertAddressToPubKey (serverProvider E args) a = Inr k"
    by (auto simp: serverProvider_def asNetworkProvider_def IsAddressObserved_def)
qed

end
