(* ===== verification/ProviderFacts.thy ===== *)
theory ProviderFacts
  imports ProviderBlocks
begin

text \<open>
  What the network provider guarantees: nothing is asked of the observer in offline mode, the
  node status and the historical window are computed as documented, the cached blocks stay
  those of the chain, addresses are observed by the three constraints, fees are exact unless
  64 bits overflow.
\<close>

section \<open>Steps\<close>

lemma bind_step_Inr:
  "bind_step m f s = (Inr y, s'') \<longleftrightarrow> (\<exists>x s'. m s = (Inr x, s') \<and> f x s' = (Inr y, s''))"
  by (auto simp: bind_step_def split: prod.splits sum.splits)

lemma bind_step_fst:
  "(\<And>s. P (fst s) \<Longrightarrow> P (fst (snd (m s)))) \<Longrightarrow>
   (\<And>x s. P (fst s) \<Longrightarrow> P (fst (snd (f x s)))) \<Longrightarrow> P (fst s) \<Longrightarrow> P (fst (snd (bind_step m f s)))"
  by (simp add: bind_step_def split: prod.splits sum.splits) (metis fst_conv snd_conv)

lemma ask_keeps_cache: "ask request s = (r, s') \<Longrightarrow> fst s' = fst s"
  by (auto simp: ask_def split: prod.splits)

lemma getResource_keeps_cache: "getResource E p request s = (r, s') \<Longrightarrow> fst s' = fst s"
  by (auto simp: getResource_def getResourceWithErrConversion_def split: if_splits prod.splits sum.splits
      dest: ask_keeps_cache)

lemma getPlainNodeStatus_keeps_cache: "getPlainNodeStatus E p s = (r, s') \<Longrightarrow> fst s' = fst s"
  by (auto simp: getPlainNodeStatus_def split: if_splits dest: getResource_keeps_cache)

lemma getLatestBlockNonce_keeps_cache: "getLatestBlockNonce E p s = (r, s') \<Longrightarrow> fst s' = fst s"
  by (auto simp: getLatestBlockNonce_def bind_step_def split: prod.splits sum.splits
      dest: getPlainNodeStatus_keeps_cache)

section \<open>Offline mode\<close>

lemma map_error_state: "snd (map_error f m s) = snd (m s)"
  by (auto simp: map_error_def split: prod.splits sum.splits)

lemma map_error_fails: "m s = (Inl e, s') \<Longrightarrow> map_error f m s = (Inl (f e), s')"
  by (simp add: map_error_def)

lemma bind_step_fails: "m s = (Inl e, s') \<Longrightarrow> bind_step m f s = (Inl e, s')"
  by (simp add: bind_step_def)

lemma getResource_offline: "p_isOffline p \<Longrightarrow> getResource E p request s = (Inl errIsOffline, s)"
  by (simp add: getResource_def)

text \<open>Every method that talks to the observer is refused, and leaves the cache and the world alone.\<close>

lemma offline_steps:
  assumes "p_isOffline p"
  shows "GetGenesisBalances E p s = (Inl errIsOffline, s)"
    and "GetNodeStatus E p s = (Inl errIsOffline, s)"
    and "GetBlockByNonce E p n s = (Inl errIsOffline, s)"
    and "GetBlockByHash E p h s = (Inl errIsOffline, s)"
    and "SendTransaction E p tx s = (Inl errIsOffline, s)"
    and "GetMempoolTransactionByHash E p h s = (Inl errIsOffline, s)"
    and "GetAccount E p a s = (Inl (newErrCannotGetAccount a errIsOffline), s)"
  using assms
  by (simp_all add: GetGenesisBalances_def GetNodeStatus_def GetBlockByNonce_def GetBlockByHash_def
      SendTransaction_def GetMempoolTransactionByHash_def GetAccount_def map_error_def getResource_offline)

lemma offline_balance:
  assumes "p_isOffline p"
  shows "\<exists>e. GetAccountBalance E p a token opts s = (Inl e, s)"
  using assms
  by (auto simp: GetAccountBalance_def getNativeBalance_def getCustomTokenBalance_def bind_step_def
      map_error_def getResource_offline Let_def split: sum.splits)

section \<open>Node status\<close>

lemma latest_nonce_Inr:
  "getLatestNonceGivenHighestFinalNonce h = Inr n \<longleftrightarrow> 2 < unat h \<and> n = h - 2"
  by (auto simp: getLatestNonceGivenHighestFinalNonce_def nonceDelta_def word_less_nat_alt word_le_nat_alt)

lemma latest_nonce_unat:
  assumes "getLatestNonceGivenHighestFinalNonce h = Inr n"
  shows "unat n = unat h - 2"
proof -
  from assms have "2 \<le> h" "n = h - 2" by (auto simp: latest_nonce_Inr word_le_nat_alt)
  then show ?thesis by (simp add: unat_sub)
qed

lemma oldest_epoch:
  "uint (getOldestEligibleEpoch p cur) =
     max (uint (p_firstHistoricalEpoch p)) (uint cur - uint (p_numHistoricalEpochs p))"
proof (cases "uint cur - uint (p_numHistoricalEpochs p) < uint (p_firstHistoricalEpoch p)")
  case True
  then show ?thesis by (simp add: getOldestEligibleEpoch_def)
next
  case False
  moreover have "uint cur - uint (p_numHistoricalEpochs p) < 2 ^ 32"
  proof -
    have "uint cur - uint (p_numHistoricalEpochs p) \<le> uint cur" by simp
    also have "uint cur < 2 ^ LENGTH(32)" by (rule uint_bounded)
    finally show ?thesis by simp
  qed
  moreover have "0 \<le> uint cur - uint (p_numHistoricalEpochs p)"
    using False uint_ge_0 [of "p_firstHistoricalEpoch p"] by linarith
  ultimately show ?thesis
    by (simp add: getOldestEligibleEpoch_def uint_word_of_int Let_def del: of_int_diff)
qed

text \<open>What a successful \<open>GetNodeStatus\<close> reports, in terms of the answers it rests on.\<close>

lemma GetNodeStatus_Inr:
  assumes "GetNodeStatus E p s = (Inr st, s')"
  shows "\<exists>plain s1 latest s2 epoch s3 oldest s4.
    getPlainNodeStatus E p s = (Inr plain, s1) \<and> 2 < unat (ns_HighestFinalNonce plain) \<and>
    getBlockSummaryByNonce E p (ns_HighestFinalNonce plain - 2) s1 = (Inr latest, s2) \<and>
    getEpochStartInfo E p (getOldestEligibleEpoch p (ns_CurrentEpoch plain)) s2 = (Inr epoch, s3) \<and>
    getBlockSummaryByNonce E p (es_Nonce epoch) s3 = (Inr oldest, s4) \<and> s' = s4 \<and>
    ans_LatestBlock st = latest \<and> ans_OldestBlockWithHistoricalState st = oldest \<and>
    (ans_Synced st \<longleftrightarrow> ns_IsSyncing plain = 0)"
  using assms
  unfolding GetNodeStatus_def getOldestNonceWithHistoricalStateGivenNodeStatus_def
  by (cases "p_isOffline p")
    (fastforce simp: bind_step_Inr latest_nonce_Inr)+

section \<open>Keys of the cache\<close>

lemma byte_of_nonce:
  "i < 8 \<Longrightarrow> of_char (blockNonceToBytes n ! i) = unat (drop_bit (8 * i) n) mod (256 :: nat)"
  by (simp add: blockNonceToBytes_def of_char_of)

lemma blockNonceToBytes_inj: "blockNonceToBytes n = blockNonceToBytes m \<longleftrightarrow> n = m"
proof
  assume eq: "blockNonceToBytes n = blockNonceToBytes m"
  show "n = m"
  proof (rule bit_word_eqI)
    fix k :: nat
    assume k: "k < LENGTH(64)"
    have bits: "bit w k \<longleftrightarrow> bit (unat (drop_bit (8 * (k div 8)) w) mod 256 :: nat) (k mod 8)" for w :: u64
    proof -
      have "bit (unat (drop_bit (8 * (k div 8)) w) mod 256 :: nat) (k mod 8) \<longleftrightarrow>
          bit (take_bit 8 (unat (drop_bit (8 * (k div 8)) w)) :: nat) (k mod 8)"
        by (simp add: take_bit_eq_mod)
      also have "\<dots> \<longleftrightarrow> bit (drop_bit (8 * (k div 8)) w) (k mod 8)"
        by (simp add: bit_take_bit_iff bit_unsigned_iff)
      also have "\<dots> \<longleftrightarrow> bit w k"
        by (simp add: bit_drop_bit_eq)
      finally show ?thesis by simp
    qed
    have "k div 8 < 8" using k by simp
    then have "unat (drop_bit (8 * (k div 8)) n) mod (256::nat) = unat (drop_bit (8 * (k div 8)) m) mod 256"
      using byte_of_nonce [of "k div 8" n] byte_of_nonce [of "k div 8" m] eq by simp
    then show "bit n k \<longleftrightarrow> bit m k" using bits [of n] bits [of m] by simp
  qed
qed simp

lemma createBlockCopy_id [simp]: "createBlockCopy b = b"
proof -
  have "copyMiniblock = id" by (rule ext) (simp add: copyMiniblock_def)
  then show ?thesis by (simp add: createBlockCopy_def)
qed

section \<open>The cached blocks are those of the chain\<close>

text \<open>
  The documented behaviour of an LRU cache: a look-up misses or gives what was put last under
  the key; entries may be dropped at any time. And of an observer of a chain: whenever it
  answers, it answers with the block of the chain at that nonce.
\<close>

definition lawful_cache :: "('c, 'w) Externals \<Rightarrow> ('c \<Rightarrow> bytes \<rightharpoonup> Block) \<Rightarrow> bool" where
  "lawful_cache E contents =
     (\<forall>k c. (fst (cache_Get E k c) = None \<or> fst (cache_Get E k c) = contents c k) \<and>
       contents (snd (cache_Get E k c)) \<subseteq>\<^sub>m contents c \<and>
       (\<forall>b. contents (cache_Put E k b c) \<subseteq>\<^sub>m (contents c)(k \<mapsto> b)))"

definition serves_chain :: "('c, 'w) Externals \<Rightarrow> networkProvider \<Rightarrow> (u64 \<Rightarrow> Block) \<Rightarrow> bool" where
  "serves_chain E p chain =
     (\<forall>n w response w'.
        of_GetBlockByNonce E (p_observedActualShard p) n withTransactionsAndLogs w = (Inr response, w') \<longrightarrow>
        ar_Error response = [] \<longrightarrow> ar_Data response = chain n)"

definition coherent :: "('c \<Rightarrow> bytes \<rightharpoonup> Block) \<Rightarrow> (u64 \<Rightarrow> Block) \<Rightarrow> 'c \<Rightarrow> bool" where
  "coherent contents chain c = (\<forall>n b. contents c (blockNonceToBytes n) = Some b \<longrightarrow> b = chain n)"

lemma lawful_get:
  assumes "lawful_cache E contents" "cache_Get E k c = (r, c')"
  shows "(r = None \<or> r = contents c k) \<and> contents c' \<subseteq>\<^sub>m contents c"
  using assms unfolding lawful_cache_def by (metis fst_conv snd_conv)

lemma coherent_submap:
  "contents c' \<subseteq>\<^sub>m contents c \<Longrightarrow> coherent contents chain c \<Longrightarrow> coherent contents chain c'"
  unfolding coherent_def map_le_def by (metis domI)

lemma coherent_put:
  assumes "lawful_cache E contents" "coherent contents chain c"
  shows "coherent contents chain (cache_Put E (blockNonceToBytes n) (chain n) c)"
  unfolding coherent_def
proof (intro allI impI)
  fix m b
  assume m: "contents (cache_Put E (blockNonceToBytes n) (chain n) c) (blockNonceToBytes m) = Some b"
  have "contents (cache_Put E (blockNonceToBytes n) (chain n) c) \<subseteq>\<^sub>m (contents c)(blockNonceToBytes n \<mapsto> chain n)"
    using assms(1) by (simp add: lawful_cache_def)
  with m have "((contents c)(blockNonceToBytes n \<mapsto> chain n)) (blockNonceToBytes m) = Some b"
    unfolding map_le_def by (metis domI)
  then show "b = chain m"
    using assms(2) by (auto simp: coherent_def blockNonceToBytes_inj split: if_splits)
qed

lemma doGetBlockByNonce_chain:
  assumes "lawful_cache E contents" "serves_chain E p chain" "coherent contents chain (fst s)"
    and "doGetBlockByNonce E p n s = (r, s')"
  shows "coherent contents chain (fst s')" and "r = Inr b \<Longrightarrow> b = chain n"
proof -
  obtain cached c1 where get: "cache_Get E (blockNonceToBytes n) (fst s) = (cached, c1)"
    by (cases "cache_Get E (blockNonceToBytes n) (fst s)")
  note law = lawful_get [OF assms(1) get]
  then have hit: "cached = None \<or> cached = contents (fst s) (blockNonceToBytes n)" by simp
  from law assms(3) have c1: "coherent contents chain c1"
    by (simp add: coherent_submap [of contents c1 "fst s"])
  have "coherent contents chain (fst s') \<and> (\<forall>b. r = Inr b \<longrightarrow> b = chain n)"
  proof (cases cached)
    case (Some b)
    with hit assms(3) have "b = chain n" by (simp add: coherent_def)
    with Some c1 assms(4) get show ?thesis
      by (auto simp: doGetBlockByNonce_def getBlockByNonceCached_def)
  next
    case None
    obtain response w' where answer:
      "of_GetBlockByNonce E (p_observedActualShard p) n withTransactionsAndLogs (snd s) = (response, w')"
      by (cases "of_GetBlockByNonce E (p_observedActualShard p) n withTransactionsAndLogs (snd s)")
    show ?thesis
    proof (cases "\<exists>resp. response = Inr resp \<and> ar_Error resp = []")
      case True
      then obtain resp where resp: "response = Inr resp" "ar_Error resp = []" by blast
      with answer assms(2) have "ar_Data resp = chain n" unfolding serves_chain_def by blast
      with None c1 assms(1,4) get answer resp show ?thesis
        by (auto simp: doGetBlockByNonce_def getBlockByNonceCached_def ask_def cacheBlockByNonce_def
            coherent_put Let_def)
    next
      case False
      with None c1 assms(4) get answer show ?thesis
        by (auto simp: doGetBlockByNonce_def getBlockByNonceCached_def ask_def split: sum.splits if_splits)
    qed
  qed
  then show "coherent contents chain (fst s')" and "r = Inr b \<Longrightarrow> b = chain n" by blast+
qed

lemma simplify_chain:
  assumes "lawful_cache E contents" "serves_chain E p chain" "coherent contents chain (fst s)"
    and "simplifyBlockWithScheduledTransactions E p blk s = (r, s')"
  shows "coherent contents chain (fst s')"
    and "r = Inr b \<Longrightarrow> doSimplifyBlockWithScheduledTransactions (ext_enum E)
           (chain (bk_Nonce blk - 1)) blk (chain (bk_Nonce blk + 1)) = Some b"
proof -
  obtain r1 s1 where d1: "doGetBlockByNonce E p (bk_Nonce blk - 1) s = (r1, s1)"
    by (cases "doGetBlockByNonce E p (bk_Nonce blk - 1) s")
  note f1 = doGetBlockByNonce_chain [OF assms(1-3) d1]
  obtain r2 s2 where d2: "doGetBlockByNonce E p (bk_Nonce blk + 1) s1 = (r2, s2)"
    by (cases "doGetBlockByNonce E p (bk_Nonce blk + 1) s1")
  note f2 = doGetBlockByNonce_chain [OF assms(1,2) f1(1) d2]
  show "coherent contents chain (fst s')"
    using assms(4) d1 d2 f1(1) f2(1)
    by (auto simp: simplifyBlockWithScheduledTransactions_def bind_step_def split: sum.splits option.splits)
  assume "r = Inr b"
  with assms(4) d1 d2 obtain b1 b2 where "r1 = Inr b1" "r2 = Inr b2"
    "doSimplifyBlockWithScheduledTransactions (ext_enum E) b1 blk b2 = Some b"
    by (auto simp: simplifyBlockWithScheduledTransactions_def bind_step_def
        split: sum.splits option.splits)
  with f1(2) f2(2) show "doSimplifyBlockWithScheduledTransactions (ext_enum E)
      (chain (bk_Nonce blk - 1)) blk (chain (bk_Nonce blk + 1)) = Some b" by simp
qed

lemma GetBlockByNonce_coherent:
  assumes "lawful_cache E contents" "serves_chain E p chain" "coherent contents chain (fst s)"
    and step: "GetBlockByNonce E p n s = (r, s')"
  shows "coherent contents chain (fst s')"
proof -
  obtain r1 s1 where l: "getLatestBlockNonce E p s = (r1, s1)" by (cases "getLatestBlockNonce E p s")
  with assms(3) have c1: "coherent contents chain (fst s1)" by (simp add: getLatestBlockNonce_keeps_cache)
  obtain r2 s2 where d: "doGetBlockByNonce E p n s1 = (r2, s2)" by (cases "doGetBlockByNonce E p n s1")
  note c2 = doGetBlockByNonce_chain(1) [OF assms(1,2) c1 d]
  show ?thesis
    using step l c1 d c2 assms(3)
    by (auto simp: GetBlockByNonce_def bind_step_def split: if_splits sum.splits
        dest: simplify_chain(1) [OF assms(1,2) c2])
qed

lemma GetBlockByHash_coherent:
  assumes "lawful_cache E contents" "serves_chain E p chain" "coherent contents chain (fst s)"
    and step: "GetBlockByHash E p h s = (r, s')"
  shows "coherent contents chain (fst s')"
proof -
  obtain r1 s1 where d: "doGetBlockByHash E p h s = (r1, s1)" by (cases "doGetBlockByHash E p h s")
  then have "fst s1 = fst s"
    by (auto simp: doGetBlockByHash_def split: prod.splits sum.splits if_splits dest: ask_keeps_cache)
  with assms(3) have c1: "coherent contents chain (fst s1)" by simp
  show ?thesis
    using step d c1 assms(3)
    by (auto simp: GetBlockByHash_def bind_step_def split: if_splits sum.splits
        dest: simplify_chain(1) [OF assms(1,2) c1])
qed

lemma GetBlockByNonce_Inr:
  assumes "lawful_cache E contents" "serves_chain E p chain" "coherent contents chain (fst s)"
    and "bk_Nonce (chain n) = n" "GetBlockByNonce E p n s = (Inr b, s')"
  shows "doSimplifyBlockWithScheduledTransactions (ext_enum E) (chain (n - 1)) (chain n) (chain (n + 1)) = Some b"
proof -
  from assms(5) obtain latest s1 b1 s2 where
      l: "getLatestBlockNonce E p s = (Inr latest, s1)" and le: "n \<le> latest"
    and d: "doGetBlockByNonce E p n s1 = (Inr b1, s2)"
    and sim: "simplifyBlockWithScheduledTransactions E p b1 s2 = (Inr b, s')"
    by (auto simp: GetBlockByNonce_def bind_step_Inr split: if_splits)
  from l assms(3) have c1: "coherent contents chain (fst s1)" by (simp add: getLatestBlockNonce_keeps_cache)
  note f = doGetBlockByNonce_chain [OF assms(1,2) c1 d]
  from simplify_chain(2) [OF assms(1,2) f(1) sim] f(2) [of b1] assms(4)
  show "doSimplifyBlockWithScheduledTransactions (ext_enum E) (chain (n - 1)) (chain n) (chain (n + 1)) = Some b"
    by simp
qed

section \<open>Observed addresses\<close>

text \<open>The constraints of an observed address, on its public key.\<close>

definition observed_key :: "('c, 'w) Externals \<Rightarrow> networkProvider \<Rightarrow> bytes \<Rightarrow> bool" where
  "observed_key E p k =
     (of_ComputeShardId E k = p_observedActualShard p \<and>
      (p_observedProjectedShardIsSet p \<longrightarrow> of_char (last k) = unat (p_observedProjectedShard p) mod 256) \<and>
      (p_shouldHandleContracts p \<or> \<not> lib_IsSmartContractAddress (ext_Library E) k))"

lemma IsAddressObserved_decoded:
  assumes "ext_Decode E a = Inr k" "k \<noteq> []"
  shows "IsAddressObserved E p a = Inr (observed_key E p k)"
  using assms
  by (cases "p_observedProjectedShardIsSet p")
    (simp_all add: IsAddressObserved_def ConvertAddressToPubKey_def observed_key_def Let_def)

section \<open>Fees\<close>

definition gasForMoveBalance :: "networkProvider \<Rightarrow> ApiTransactionResult \<Rightarrow> nat" where
  "gasForMoveBalance p tx =
     (let config = p_networkConfig p in
      unat (nc_MinGasLimit config) + unat (nc_GasPerDataByte config) * length (tx_Data tx) +
      (if tx_GuardianAddr tx \<noteq> [] then unat (nc_ExtraGasLimitGuardedTx config) else 0) +
      (if IsRelayedTxV3 tx then unat (nc_ExtraGasLimitRelayedTxV3 config) else 0))"

lemma gasLimit_as_nat: "gasLimitForMoveBalance p tx = of_nat (gasForMoveBalance p tx)"
  by (simp add: gasLimitForMoveBalance_def gasForMoveBalance_def Let_def)

lemma gasLimit_exact:
  assumes "gasForMoveBalance p tx < 2 ^ 64"
  shows "unat (gasLimitForMoveBalance p tx) = gasForMoveBalance p tx"
  unfolding gasLimit_as_nat using assms by (simp add: unat_of_nat)

section \<open>Finality\<close>

lemma GetBlockByNonce_final:
  assumes "GetBlockByNonce E p n s = (Inr b, s')"
  shows "\<exists>status s1. getPlainNodeStatus E p s = (Inr status, s1) \<and>
           unat n + 2 \<le> unat (ns_HighestFinalNonce status)"
proof -
  from assms obtain latest s1 where
      l: "getLatestBlockNonce E p s = (Inr latest, s1)" and le: "n \<le> latest"
    by (auto simp: GetBlockByNonce_def bind_step_Inr split: if_splits)
  from l obtain status where st: "getPlainNodeStatus E p s = (Inr status, s1)"
    and ln: "getLatestNonceGivenHighestFinalNonce (ns_HighestFinalNonce status) = Inr latest"
    by (auto simp: getLatestBlockNonce_def bind_step_Inr)
  from ln have "2 < unat (ns_HighestFinalNonce status)" by (simp add: latest_nonce_Inr)
  with st le latest_nonce_unat [OF ln] show ?thesis by (fastforce simp: word_le_nat_alt)
qed

text \<open>An address is observed when its key is; text that is not an address is an error.\<close>

lemma observed_addresses:
  "(\<forall>k. ext_Decode E a = Inr k \<longrightarrow> k \<noteq> [] \<longrightarrow>
      IsAddressObserved E p a = Inr
        (of_ComputeShardId E k = p_observedActualShard p \<and>
         (p_observedProjectedShardIsSet p \<longrightarrow> of_char (last k) = unat (p_observedProjectedShard p) mod 256) \<and>
         (p_shouldHandleContracts p \<or> \<not> lib_IsSmartContractAddress (ext_Library E) k))) \<and>
   (\<forall>e. ext_Decode E a = Inl e \<longrightarrow> IsAddressObserved E p a = Inl e)"
  using IsAddressObserved_decoded [of E a _ p]
  by (auto simp: observed_key_def IsAddressObserved_def ConvertAddressToPubKey_def)

end
