(* ===== verification/Concurrency.thy ===== *)
theory Concurrency
  imports Services ProviderFacts
begin

text \<open>
  Block requests as the HTTP server runs them: concurrently. A request is a program of atomic
  steps on the state that the requests share: a look-up in the cache, an insertion into it (the
  LRU cache takes its own lock in each), a request to the observer. Between two steps of one
  request any number of steps of the others may run, and the observer may move on. The programs
  have the code of \<open>networkProvider.go\<close> and \<open>scheduledMiniblocks.go\<close>; run alone they are the
  definitions of ProviderBlocks and Services.
\<close>

section \<open>Programs of atomic steps\<close>

datatype ('s, 'a) program = Done 'a | Act "'s \<Rightarrow> ('s, 'a) program \<times> 's"

primrec andThen :: "('s, 'a) program \<Rightarrow> ('a \<Rightarrow> ('s, 'b) program) \<Rightarrow> ('s, 'b) program" where
  "andThen (Done x) f = f x"
| "andThen (Act m) f = Act (map_prod (\<lambda>p. andThen p f) id \<circ> m)"

definition atomic :: "('s \<Rightarrow> 'a \<times> 's) \<Rightarrow> ('s, 'a) program" where
  "atomic m = Act (map_prod Done id \<circ> m)"

text \<open>\<open>if err != nil { return nil, err }\<close> between two parts of a program.\<close>

definition andThenOk :: "('s, 'e + 'a) program \<Rightarrow> ('a \<Rightarrow> ('s, 'e + 'b) program) \<Rightarrow> ('s, 'e + 'b) program" where
  "andThenOk p f = andThen p (\<lambda>r. case r of Inl e \<Rightarrow> Done (Inl e) | Inr x \<Rightarrow> f x)"

text \<open>The run of a program with no one else around.\<close>

primrec alone :: "('s, 'a) program \<Rightarrow> 's \<Rightarrow> 'a \<times> 's" where
  "alone (Done x) s = (x, s)"
| "alone (Act m) s = (case (map_prod alone id \<circ> m) s of (rest, s') \<Rightarrow> rest s')"

lemma alone_andThen: "alone (andThen p f) s = (case alone p s of (x, s') \<Rightarrow> alone (f x) s')"
proof (induction p arbitrary: s)
  case (Act m)
  have "alone (andThen (fst (m s)) f) (snd (m s)) =
      (case alone (fst (m s)) (snd (m s)) of (x, s') \<Rightarrow> alone (f x) s')"
    by (rule Act.IH) (auto simp: fsts.simps intro: prod.exhaust_sel)
  then show ?case by (simp add: split_beta map_prod_def)
qed simp

lemma alone_atomic [simp]: "alone (atomic m) s = m s"
  by (simp add: atomic_def split_beta map_prod_def)

section \<open>The requests\<close>

definition latestBlockNonceSteps ::
  "('c, 'w) Externals \<Rightarrow> networkProvider \<Rightarrow> ('c \<times> 'w, go_error + u64) program" where
  "latestBlockNonceSteps E p = atomic (getLatestBlockNonce E p)"

definition doGetBlockByNonceSteps ::
  "('c, 'w) Externals \<Rightarrow> networkProvider \<Rightarrow> u64 \<Rightarrow> ('c \<times> 'w, go_error + Block) program" where
  "doGetBlockByNonceSteps E p nonce =
     andThen (atomic (getBlockByNonceCached E nonce)) (\<lambda>cached.
       case cached of
         Some block \<Rightarrow> Done (Inr (createBlockCopy block))
       | None \<Rightarrow>
           andThen (atomic (ask (of_GetBlockByNonce E (p_observedActualShard p) nonce withTransactionsAndLogs)))
             (\<lambda>answer.
               case answer of
                 Inl err \<Rightarrow> Done (Inl (newErrCannotGetBlockByNonce nonce (convertStructuredApiErrToFlatErr E err)))
               | Inr response \<Rightarrow>
                   if ar_Error response \<noteq> [] then
                     Done (Inl (newErrCannotGetBlockByNonce nonce (ErrorsNew (ar_Error response))))
                   else
                     let block = ar_Data response in
                     andThen (atomic (\<lambda>s. ((), cacheBlockByNonce E nonce block s)))
                       (\<lambda>_. Done (Inr (createBlockCopy block)))))"

definition simplifyBlockSteps ::
  "('c, 'w) Externals \<Rightarrow> networkProvider \<Rightarrow> Block \<Rightarrow> ('c \<times> 'w, go_error + Block) program" where
  "simplifyBlockSteps E p block =
     andThenOk (doGetBlockByNonceSteps E p (bk_Nonce block - 1)) (\<lambda>previousBlock.
     andThenOk (doGetBlockByNonceSteps E p (bk_Nonce block + 1)) (\<lambda>nextBlock.
       Done (case doSimplifyBlockWithScheduledTransactions (ext_enum E) previousBlock block nextBlock of
               None \<Rightarrow> Inl stackOverflow
             | Some simplified \<Rightarrow> Inr simplified)))"

definition GetBlockByNonceSteps ::
  "('c, 'w) Externals \<Rightarrow> networkProvider \<Rightarrow> u64 \<Rightarrow> ('c \<times> 'w, go_error + Block) program" where
  "GetBlockByNonceSteps E p nonce =
     (if p_isOffline p then Done (Inl errIsOffline)
      else andThenOk (latestBlockNonceSteps E p) (\<lambda>latestNonce.
             if nonce > latestNonce then Done (Inl errCannotGetBlock)
             else andThenOk (doGetBlockByNonceSteps E p nonce) (simplifyBlockSteps E p)))"

definition GetBlockByHashSteps ::
  "('c, 'w) Externals \<Rightarrow> networkProvider \<Rightarrow> string \<Rightarrow> ('c \<times> 'w, go_error + Block) program" where
  "GetBlockByHashSteps E p h =
     (if p_isOffline p then Done (Inl errIsOffline)
      else andThenOk (atomic (doGetBlockByHash E p h)) (simplifyBlockSteps E p))"

text \<open>
  The two ways a block other than the genesis block is asked for. Requests for the genesis block
  never come here: \<open>doGetBlock\<close> answers them from a field behind a mutex, which GenesisCache models.
\<close>

datatype block_query = ByNonce int | ByHash string

definition getBlock ::
  "Library \<Rightarrow> 'w NetworkProvider \<Rightarrow> block_query \<Rightarrow> 'w \<Rightarrow> (failure + BlockResponse) \<times> 'w" where
  "getBlock L P query s =
     (case query of ByNonce nonce \<Rightarrow> getBlockByNonce L P nonce s | ByHash h \<Rightarrow> getBlockByHash L P h s)"

definition getBlockSteps ::
  "Library \<Rightarrow> ('c, 'w) Externals \<Rightarrow> networkProvider \<Rightarrow> block_query \<Rightarrow>
     ('c \<times> 'w, failure + BlockResponse) program" where
  "getBlockSteps L E p query =
     andThen (case query of
                ByNonce nonce \<Rightarrow> GetBlockByNonceSteps E p (uint64_of_int64 nonce)
              | ByHash h \<Rightarrow> GetBlockByHashSteps E p h)
       (\<lambda>fetched. Done (bind_err (orFail newErrFactory ErrUnableToGetBlock fetched) (\<lambda>block.
          orFail newErrFactory ErrUnableToGetBlock (convertToRosettaBlock L (asNetworkProvider E p) block))))"

section \<open>Run alone, a request is the sequential definition\<close>

lemma alone_andThenOk:
  assumes "\<And>s. alone p s = m s" "\<And>x s. alone (f x) s = g x s"
  shows "alone (andThenOk p f) s = bind_step m g s"
  unfolding andThenOk_def alone_andThen bind_step_def
  by (auto simp: assms split: prod.splits sum.splits)

lemma doGetBlockByNonce_alone: "alone (doGetBlockByNonceSteps E p n) s = doGetBlockByNonce E p n s"
  by (auto simp: doGetBlockByNonceSteps_def doGetBlockByNonce_def alone_andThen Let_def
      split: prod.splits option.splits sum.splits)

lemma simplifyBlock_alone:
  "alone (simplifyBlockSteps E p b) s = simplifyBlockWithScheduledTransactions E p b s"
  unfolding simplifyBlockSteps_def simplifyBlockWithScheduledTransactions_def
  by (intro alone_andThenOk doGetBlockByNonce_alone) (simp split: option.split)

lemma GetBlockByNonce_alone: "alone (GetBlockByNonceSteps E p n) s = GetBlockByNonce E p n s"
proof (cases "p_isOffline p")
  case False
  have "alone (andThenOk (latestBlockNonceSteps E p) (\<lambda>latestNonce.
      if n > latestNonce then Done (Inl errCannotGetBlock)
      else andThenOk (doGetBlockByNonceSteps E p n) (simplifyBlockSteps E p))) s =
    bind_step (getLatestBlockNonce E p) (\<lambda>latestNonce s1.
      if n > latestNonce then (Inl errCannotGetBlock, s1)
      else bind_step (doGetBlockByNonce E p n) (simplifyBlockWithScheduledTransactions E p) s1) s"
    by (intro alone_andThenOk)
      (auto simp: latestBlockNonceSteps_def intro!: alone_andThenOk doGetBlockByNonce_alone simplifyBlock_alone)
  with False show ?thesis by (simp add: GetBlockByNonceSteps_def GetBlockByNonce_def)
qed (simp add: GetBlockByNonceSteps_def GetBlockByNonce_def)

lemma GetBlockByHash_alone: "alone (GetBlockByHashSteps E p h) s = GetBlockByHash E p h s"
proof (cases "p_isOffline p")
  case False
  have "alone (andThenOk (atomic (doGetBlockByHash E p h)) (simplifyBlockSteps E p)) s =
    bind_step (doGetBlockByHash E p h) (simplifyBlockWithScheduledTransactions E p) s"
    by (intro alone_andThenOk simplifyBlock_alone) simp
  with False show ?thesis by (simp add: GetBlockByHashSteps_def GetBlockByHash_def)
qed (simp add: GetBlockByHashSteps_def GetBlockByHash_def)

lemma getBlock_alone: "alone (getBlockSteps L E p query) s = getBlock L (asNetworkProvider E p) query s"
  by (auto simp: getBlockSteps_def getBlock_def alone_andThen GetBlockByNonce_alone GetBlockByHash_alone
      getBlockByNonce_def getBlockByHash_def convertFetched_def asNetworkProvider_def
      split: block_query.splits prod.splits)

section \<open>Interleavings\<close>

text \<open>
  \<open>interleaved outside trace c c'\<close>: from the pool \<open>c\<close> of requests and shared state, the requests
  listed in \<open>trace\<close> take one step each, in that order, to the pool \<open>c'\<close>; in between, the
  surroundings change the shared state as \<open>outside\<close> allows.
\<close>

inductive interleaved ::
  "('s \<Rightarrow> 's \<Rightarrow> bool) \<Rightarrow> nat list \<Rightarrow> ('s, 'a) program list \<times> 's \<Rightarrow> ('s, 'a) program list \<times> 's \<Rightarrow> bool"
  for outside where
  stop: "interleaved outside [] c c"
| turn: "i < length ps \<Longrightarrow> ps ! i = Act m \<Longrightarrow> m s = (p, s') \<Longrightarrow>
    interleaved outside trace (ps[i := p], s') c \<Longrightarrow> interleaved outside (i # trace) (ps, s) c"
| other: "outside s s' \<Longrightarrow> interleaved outside trace (ps, s') c \<Longrightarrow> interleaved outside trace (ps, s) c"

text \<open>What surrounds the block requests: the observer moves on, and so do requests that use no cache.\<close>

definition world_moves :: "'c \<times> 'w \<Rightarrow> 'c \<times> 'w \<Rightarrow> bool" where
  "world_moves s s' \<longleftrightarrow> fst s' = fst s"

text \<open>A schedule, run step by step.\<close>

fun takeTurns :: "nat list \<Rightarrow> ('s, 'a) program list \<times> 's \<Rightarrow> ('s, 'a) program list \<times> 's" where
  "takeTurns [] c = c"
| "takeTurns (i # schedule) (ps, s) =
     (case ps ! i of
        Act m \<Rightarrow> (case m s of (p, s') \<Rightarrow> takeTurns schedule (ps[i := p], s'))
      | Done x \<Rightarrow> takeTurns schedule (ps, s))"

lemma takeTurns_interleaved:
  "\<forall>i \<in> set schedule. i < length (fst c) \<Longrightarrow> \<exists>trace. interleaved outside trace c (takeTurns schedule c)"
proof (induction schedule c rule: takeTurns.induct)
  case (1 c)
  show ?case by (auto intro: interleaved.stop)
next
  case (2 i schedule ps s)
  show ?case
  proof (cases "ps ! i")
    case (Done x)
    with 2 show ?thesis by simp
  next
    case (Act m)
    obtain p s' where m: "m s = (p, s')" by (cases "m s")
    with Act 2 obtain trace where "interleaved outside trace (ps[i := p], s') (takeTurns schedule (ps[i := p], s'))"
      by force
    with Act m 2(3) have "interleaved outside (i # trace) (ps, s) (takeTurns (i # schedule) (ps, s))"
      by (simp add: interleaved.turn)
    then show ?thesis by blast
  qed
qed

text \<open>A request that no one disturbs is one of the interleavings.\<close>

lemma alone_interleaved:
  "alone p s = (r, s') \<Longrightarrow> i < length ps \<Longrightarrow> ps ! i = p \<Longrightarrow>
     \<exists>trace. interleaved outside trace (ps, s) (ps[i := Done r], s')"
proof (induction p arbitrary: s ps)
  case (Done x)
  then have "ps[i := Done r] = ps" "s' = s" by (auto simp: list_update_same_conv)
  then show ?case using interleaved.stop [of outside "(ps, s)"] by auto
next
  case (Act m)
  obtain q s1 where m: "m s = (q, s1)" by (cases "m s")
  with Act.prems(1) have "alone q s1 = (r, s')" by (simp add: split_beta)
  moreover have "q \<in> Basic_BNFs.fsts (m s)" by (simp add: m fsts.simps)
  ultimately obtain trace where "interleaved outside trace (ps[i := q], s1) (ps[i := q, i := Done r], s')"
    using Act.IH [of "m s" q s1 "ps[i := q]"] Act.prems(2) by auto
  with interleaved.turn [OF Act.prems(2,3) m] show ?case by force
qed

section \<open>What each step of a request guarantees\<close>

text \<open>
  \<open>safe I G p\<close>: every step of \<open>p\<close>, taken in a state where \<open>I\<close> holds, leaves \<open>I\<close> holding, and
  \<open>p\<close> ends only with results in \<open>G\<close>. Others may change the state between two steps, within \<open>I\<close>.
\<close>

primrec safe :: "('s \<Rightarrow> bool) \<Rightarrow> ('a \<Rightarrow> bool) \<Rightarrow> ('s, 'a) program \<Rightarrow> bool" where
  "safe I G (Done x) = G x"
| "safe I G (Act m) = (\<forall>s. I s \<longrightarrow> (case (map_prod (safe I G) id \<circ> m) s of (ok, s') \<Rightarrow> ok \<and> I s'))"

lemma safe_Act:
  "safe I G (Act m) \<longleftrightarrow> (\<forall>s. I s \<longrightarrow> safe I G (fst (m s)) \<and> I (snd (m s)))"
  by (simp add: split_beta)

declare safe.simps(2) [simp del] safe_Act [simp]

lemma safe_atomic: "(\<And>s. I s \<Longrightarrow> G (fst (m s)) \<and> I (snd (m s))) \<Longrightarrow> safe I G (atomic m)"
  by (simp add: atomic_def)

lemma safe_andThen:
  "safe I H p \<Longrightarrow> (\<And>x. H x \<Longrightarrow> safe I G (f x)) \<Longrightarrow> safe I G (andThen p f)"
proof (induction p)
  case (Act m)
  have "safe I G (andThen (fst (m s)) f)" if "I s" for s
    using that Act.prems by (intro Act.IH [of "m s" "fst (m s)"]) (auto simp: fsts.simps intro: prod.exhaust_sel)
  with Act.prems show ?case by simp
qed simp

lemma safe_andThenOk:
  "safe I (\<lambda>r. \<forall>x. r = Inr x \<longrightarrow> H x) p \<Longrightarrow> (\<And>x. H x \<Longrightarrow> safe I G (f x)) \<Longrightarrow> (\<And>e. G (Inl e)) \<Longrightarrow>
     safe I G (andThenOk p f)"
  unfolding andThenOk_def by (erule safe_andThen) (auto split: sum.split)

lemma interleaved_safe:
  assumes "interleaved outside trace c c'" "fst c = ps" "snd c = s"
    and "\<And>s s'. outside s s' \<Longrightarrow> I s \<Longrightarrow> I s'" "I s" "\<forall>i < length ps. safe I (G i) (ps ! i)"
  shows "length (fst c') = length ps \<and> I (snd c') \<and> (\<forall>i < length ps. safe I (G i) (fst c' ! i))"
  using assms
proof (induction arbitrary: ps s rule: interleaved.induct)
  case (stop c)
  then show ?case by simp
next
  case (turn i ps0 m s0 p s1 trace c)
  have "safe I (G i) (Act m)" "I s0" using turn by auto
  then have "safe I (G i) p" "I s1" using turn(3) by (metis safe_Act fst_conv snd_conv)+
  then have "\<forall>j < length (ps0[i := p]). safe I (G j) (ps0[i := p] ! j)"
    using turn by (auto simp: nth_list_update)
  with turn \<open>I s1\<close> show ?case by simp
next
  case (other s0 s1 trace ps0 c)
  then show ?case by simp
qed

section \<open>How many steps a request takes\<close>

primrec steps_within :: "('s, 'a) program \<Rightarrow> nat \<Rightarrow> bool" where
  "steps_within (Done x) = (\<lambda>n. True)"
| "steps_within (Act m) = (\<lambda>n. \<exists>k. n = Suc k \<and> (\<forall>s. fst ((map_prod steps_within id \<circ> m) s) k))"

lemma steps_within_Act:
  "steps_within (Act m) n \<longleftrightarrow> (\<exists>k. n = Suc k \<and> (\<forall>s. steps_within (fst (m s)) k))"
  by simp

declare steps_within.simps(2) [simp del] steps_within_Act [simp]

lemma steps_within_mono: "steps_within p k \<Longrightarrow> k \<le> n \<Longrightarrow> steps_within p n"
proof (induction p arbitrary: k n)
  case (Act m)
  then obtain k' where k': "k = Suc k'" by auto
  with Act.prems(2) obtain n' where k: "k = Suc k'" "n = Suc n'" "k' \<le> n'" by (cases n) auto
  have "steps_within (fst (m s)) n'" for s
    using Act.prems(1) k by (intro Act.IH [of "m s" "fst (m s)" k' n'])
      (auto simp: fsts.simps intro: prod.exhaust_sel)
  with k show ?case by simp
qed simp

lemma steps_within_atomic: "steps_within (atomic m) (Suc n)"
  by (simp add: atomic_def)

lemma steps_within_andThen:
  "steps_within p k \<Longrightarrow> (\<And>x. steps_within (f x) n) \<Longrightarrow> steps_within (andThen p f) (k + n)"
proof (induction p arbitrary: k)
  case (Done x)
  then show ?case by (simp add: steps_within_mono [of _ n])
next
  case (Act m)
  then obtain k' where k: "k = Suc k'" by auto
  have "steps_within (andThen (fst (m s)) f) (k' + n)" for s
    using Act.prems k by (intro Act.IH [of "m s" "fst (m s)"]) (auto simp: fsts.simps intro: prod.exhaust_sel)
  with k show ?case by simp
qed

lemma steps_within_andThenOk:
  "steps_within p k \<Longrightarrow> (\<And>x. steps_within (f x) n) \<Longrightarrow> steps_within (andThenOk p f) (k + n)"
  unfolding andThenOk_def by (rule steps_within_andThen) (auto split: sum.split)

text \<open>Each of its turns brings a request nearer to its end.\<close>

lemma interleaved_progress:
  assumes "interleaved outside trace c c'" "fst c = ps" "i < length ps" "steps_within (ps ! i) n"
  shows "count_list trace i \<le> n \<and> steps_within (fst c' ! i) (n - count_list trace i)"
  using assms
proof (induction arbitrary: ps n rule: interleaved.induct)
  case (turn j ps0 m s0 p s1 trace c)
  show ?case
  proof (cases "i = j")
    case True
    then obtain k where k: "n = Suc k" "steps_within p k" using turn by (metis fst_conv steps_within_Act)
    then have "steps_within ((ps0[j := p]) ! i) k" using turn True by simp
    from turn.IH [OF _ _ this] turn True k(1) show ?thesis by simp
  next
    case False
    then have "steps_within ((ps0[j := p]) ! i) n" using turn by simp
    from turn.IH [OF _ _ this] turn False show ?thesis by simp
  qed
qed simp_all

section \<open>Concurrent block requests\<close>

lemma doGetBlockByNonceSteps_within: "steps_within (doGetBlockByNonceSteps E p n) 3"
proof -
  have "steps_within (doGetBlockByNonceSteps E p n) (1 + (1 + 1))"
    unfolding doGetBlockByNonceSteps_def One_nat_def
    by (intro steps_within_andThen steps_within_atomic)
      (auto simp: Let_def atomic_def split: option.split sum.split intro!: steps_within_andThen)
  then show ?thesis by (simp add: eval_nat_numeral)
qed

lemma simplifyBlockSteps_within: "steps_within (simplifyBlockSteps E p b) 6"
proof -
  have "steps_within (simplifyBlockSteps E p b) (3 + (3 + 0))"
    unfolding simplifyBlockSteps_def
    by (intro steps_within_andThenOk doGetBlockByNonceSteps_within) simp
  then show ?thesis by simp
qed

lemma GetBlockByNonceSteps_within: "steps_within (GetBlockByNonceSteps E p n) 10"
proof -
  have "steps_within (andThenOk (latestBlockNonceSteps E p) (\<lambda>latestNonce.
      if n > latestNonce then Done (Inl errCannotGetBlock)
      else andThenOk (doGetBlockByNonceSteps E p n) (simplifyBlockSteps E p))) (1 + (3 + 6))"
    by (intro steps_within_andThenOk)
      (auto simp: latestBlockNonceSteps_def steps_within_atomic
        intro: steps_within_andThenOk [of _ 3 _ 6, simplified] doGetBlockByNonceSteps_within simplifyBlockSteps_within)
  then show ?thesis by (simp add: GetBlockByNonceSteps_def)
qed

lemma GetBlockByHashSteps_within: "steps_within (GetBlockByHashSteps E p h) 7"
proof -
  have "steps_within (andThenOk (atomic (doGetBlockByHash E p h)) (simplifyBlockSteps E p)) (1 + 6)"
    by (intro steps_within_andThenOk simplifyBlockSteps_within) (simp add: steps_within_atomic)
  then show ?thesis by (simp add: GetBlockByHashSteps_def)
qed

lemma getBlockSteps_within: "steps_within (getBlockSteps L E p query) 10"
proof -
  have "steps_within (case query of ByNonce nonce \<Rightarrow> GetBlockByNonceSteps E p (uint64_of_int64 nonce)
      | ByHash h \<Rightarrow> GetBlockByHashSteps E p h) 10"
    using GetBlockByNonceSteps_within steps_within_mono [OF GetBlockByHashSteps_within, of 10]
    by (cases query) auto
  from steps_within_andThen [OF this, where n = 0] show ?thesis
    unfolding getBlockSteps_def by (metis add_0_right steps_within.simps(1))
qed

text \<open>Each step leaves in the cache blocks of the chain only, and the results are of the chain.\<close>

lemma cached_lookup_safe:
  assumes law: "lawful_cache E contents"
  shows "safe (\<lambda>s. coherent contents chain (fst s)) (\<lambda>cached. \<forall>b. cached = Some b \<longrightarrow> b = chain n)
    (atomic (getBlockByNonceCached E n))"
proof (rule safe_atomic)
  fix s :: "'a \<times> 'b"
  assume coh: "coherent contents chain (fst s)"
  obtain r c where get: "cache_Get E (blockNonceToBytes n) (fst s) = (r, c)"
    by (cases "cache_Get E (blockNonceToBytes n) (fst s)")
  note law = lawful_get [OF law get]
  with coh have "r = Some b \<Longrightarrow> b = chain n" for b by (auto simp: coherent_def)
  moreover have "coherent contents chain c" using law coh by (simp add: coherent_submap [of contents c "fst s"])
  ultimately show "(\<forall>b. fst (getBlockByNonceCached E n s) = Some b \<longrightarrow> b = chain n) \<and>
      coherent contents chain (fst (snd (getBlockByNonceCached E n s)))"
    by (simp add: getBlockByNonceCached_def get)
qed

lemma doGetBlockByNonceSteps_safe:
  assumes "lawful_cache E contents" "serves_chain E p chain"
  shows "safe (\<lambda>s. coherent contents chain (fst s)) (\<lambda>r. \<forall>b. r = Inr b \<longrightarrow> b = chain n) (doGetBlockByNonceSteps E p n)"
  unfolding doGetBlockByNonceSteps_def
proof (rule safe_andThen)
  show "safe (\<lambda>s. coherent contents chain (fst s)) (\<lambda>cached. \<forall>b. cached = Some b \<longrightarrow> b = chain n)
      (atomic (getBlockByNonceCached E n))"
    by (rule cached_lookup_safe [OF assms(1)])
next
  fix cached
  assume hit: "\<forall>b. cached = Some b \<longrightarrow> b = chain n"
  have asked: "safe (\<lambda>s. coherent contents chain (fst s))
      (\<lambda>answer. \<forall>response. answer = Inr response \<longrightarrow> ar_Error response = [] \<longrightarrow> ar_Data response = chain n)
      (atomic (ask (of_GetBlockByNonce E (p_observedActualShard p) n withTransactionsAndLogs)))"
    by (rule safe_atomic)
      (use assms(2) in \<open>auto simp: ask_def serves_chain_def split: prod.splits\<close>)
  have put: "safe (\<lambda>s. coherent contents chain (fst s)) (\<lambda>_. True)
      (atomic (\<lambda>s. ((), cacheBlockByNonce E n (chain n) s)))"
    by (rule safe_atomic) (simp add: cacheBlockByNonce_def coherent_put [OF assms(1)])
  show "safe (\<lambda>s. coherent contents chain (fst s)) (\<lambda>r. \<forall>b. r = Inr b \<longrightarrow> b = chain n)
      (case cached of Some block \<Rightarrow> Done (Inr (createBlockCopy block))
       | None \<Rightarrow> andThen (atomic (ask (of_GetBlockByNonce E (p_observedActualShard p) n withTransactionsAndLogs)))
          (\<lambda>answer. case answer of
             Inl err \<Rightarrow> Done (Inl (newErrCannotGetBlockByNonce n (convertStructuredApiErrToFlatErr E err)))
           | Inr response \<Rightarrow>
               if ar_Error response \<noteq> []
               then Done (Inl (newErrCannotGetBlockByNonce n (ErrorsNew (ar_Error response))))
               else let block = ar_Data response in
                 andThen (atomic (\<lambda>s. ((), cacheBlockByNonce E n block s)))
                   (\<lambda>_. Done (Inr (createBlockCopy block)))))"
  proof (cases cached)
    case None
    show ?thesis
      unfolding None option.case
      by (rule safe_andThen [OF asked]) (auto simp: Let_def split: sum.split intro!: safe_andThen [OF put])
  qed (use hit in simp)
qed

lemma simplifyBlockSteps_safe:
  assumes "lawful_cache E contents" "serves_chain E p chain"
  shows "safe (\<lambda>s. coherent contents chain (fst s))
    (\<lambda>r. \<forall>b. r = Inr b \<longrightarrow> doSimplifyBlockWithScheduledTransactions (ext_enum E)
        (chain (bk_Nonce blk - 1)) blk (chain (bk_Nonce blk + 1)) = Some b) (simplifyBlockSteps E p blk)"
  unfolding simplifyBlockSteps_def
  by (rule safe_andThenOk [OF doGetBlockByNonceSteps_safe [OF assms]],
      rule safe_andThenOk [OF doGetBlockByNonceSteps_safe [OF assms]]) (auto split: option.splits)

lemma GetBlockByNonceSteps_safe:
  assumes "lawful_cache E contents" "serves_chain E p chain" "bk_Nonce (chain n) = n"
  shows "safe (\<lambda>s. coherent contents chain (fst s))
    (\<lambda>r. \<forall>b. r = Inr b \<longrightarrow> doSimplifyBlockWithScheduledTransactions (ext_enum E)
        (chain (n - 1)) (chain n) (chain (n + 1)) = Some b) (GetBlockByNonceSteps E p n)"
proof -
  have "safe (\<lambda>s. coherent contents chain (fst s)) (\<lambda>r. \<forall>x. r = Inr x \<longrightarrow> True) (latestBlockNonceSteps E p)"
    unfolding latestBlockNonceSteps_def
    by (rule safe_atomic) (metis getLatestBlockNonce_keeps_cache prod.collapse)
  moreover note simp = simplifyBlockSteps_safe [OF assms(1,2), of "chain n", unfolded assms(3)]
  ultimately show ?thesis
    unfolding GetBlockByNonceSteps_def
    by (auto intro!: safe_andThenOk [where H = "\<lambda>_. True"]
        safe_andThenOk [OF doGetBlockByNonceSteps_safe [OF assms(1,2)]])
qed

lemma GetBlockByHashSteps_safe:
  assumes "lawful_cache E contents" "serves_chain E p chain"
  shows "safe (\<lambda>s. coherent contents chain (fst s)) (\<lambda>_. True) (GetBlockByHashSteps E p h)"
proof -
  have cache: "fst (snd (doGetBlockByHash E p h s)) = fst s" for s
    by (auto simp: doGetBlockByHash_def ask_def split: prod.splits sum.splits)
  have "safe (\<lambda>s. coherent contents chain (fst s)) (\<lambda>_. True) (simplifyBlockSteps E p blk)" for blk
    unfolding simplifyBlockSteps_def
    by (rule safe_andThenOk [OF doGetBlockByNonceSteps_safe [OF assms]],
        rule safe_andThenOk [OF doGetBlockByNonceSteps_safe [OF assms]]) auto
  then show ?thesis
    unfolding GetBlockByHashSteps_def
    by (auto intro!: safe_andThenOk [where H = "\<lambda>_. True"] safe_atomic simp: cache)
qed

text \<open>What the answer to a query has to be.\<close>

definition of_the_chain ::
  "Library \<Rightarrow> ('c, 'w) Externals \<Rightarrow> networkProvider \<Rightarrow> (u64 \<Rightarrow> Block) \<Rightarrow> block_query \<Rightarrow>
     failure + BlockResponse \<Rightarrow> bool" where
  "of_the_chain L E p chain query r \<longleftrightarrow>
     (\<forall>nonce response. query = ByNonce nonce \<longrightarrow> r = Inr response \<longrightarrow>
        (let n = uint64_of_int64 nonce in
         \<exists>b. doSimplifyBlockWithScheduledTransactions (ext_enum E) (chain (n - 1)) (chain n) (chain (n + 1)) = Some b \<and>
           convertToRosettaBlock L (asNetworkProvider E p) b = Inr response))"

lemma getBlockSteps_safe:
  assumes "lawful_cache E contents" "serves_chain E p chain" "\<forall>n. bk_Nonce (chain n) = n"
  shows "safe (\<lambda>s. coherent contents chain (fst s)) (of_the_chain L E p chain query) (getBlockSteps L E p query)"
proof (cases query)
  case (ByNonce nonce)
  show ?thesis
    unfolding getBlockSteps_def ByNonce block_query.case
    by (rule safe_andThen [OF GetBlockByNonceSteps_safe [OF assms(1,2)]])
      (use assms(3) in \<open>auto simp: of_the_chain_def Let_def\<close>)
next
  case (ByHash h)
  show ?thesis
    unfolding getBlockSteps_def ByHash block_query.case
    by (rule safe_andThen [OF GetBlockByHashSteps_safe [OF assms(1,2)]])
      (auto simp: of_the_chain_def)
qed

lemma world_moves_keeps: "world_moves s s' \<Longrightarrow> coherent contents chain (fst s) \<Longrightarrow> coherent contents chain (fst s')"
  by (simp add: world_moves_def)

text \<open>Any interleaving: the cache stays coherent, and who has finished has an answer of the chain.\<close>

lemma interleaved_requests:
  assumes law: "lawful_cache E contents" "serves_chain E p chain" "\<forall>n. bk_Nonce (chain n) = n"
    and s: "coherent contents chain (fst s)"
    and run: "interleaved world_moves trace (map (getBlockSteps L E p) queries, s) (ps, s')"
  shows "length ps = length queries" "coherent contents chain (fst s')"
    "i < length queries \<Longrightarrow> ps ! i = Done r \<Longrightarrow> of_the_chain L E p chain (queries ! i) r"
proof -
  have "length ps = length queries \<and> coherent contents chain (fst s') \<and>
      (\<forall>i < length queries. safe (\<lambda>s. coherent contents chain (fst s)) (of_the_chain L E p chain (queries ! i)) (ps ! i))"
    using interleaved_safe [OF run, of "map (getBlockSteps L E p) queries" s
        "\<lambda>s. coherent contents chain (fst s)" "\<lambda>i. of_the_chain L E p chain (queries ! i)"]
    by (simp add: world_moves_keeps s getBlockSteps_safe [OF law])
  then show "length ps = length queries" "coherent contents chain (fst s')"
    "i < length queries \<Longrightarrow> ps ! i = Done r \<Longrightarrow> of_the_chain L E p chain (queries ! i) r"
    by (auto dest: spec [of _ i])
qed

text \<open>Whatever the surroundings do, a request is at its end after at most ten steps of its own.\<close>

lemma interleaved_length:
  "interleaved outside trace c c' \<Longrightarrow> length (fst c') = length (fst c)"
  by (induction rule: interleaved.induct) simp_all

lemma interleaved_ten_steps:
  assumes run: "interleaved outside trace (map (getBlockSteps L E p) queries, s) (ps, s')" and i: "i < length queries"
  shows "count_list trace i \<le> 10" "count_list trace i = 10 \<Longrightarrow> \<exists>r. ps ! i = Done r"
proof -
  have "steps_within (map (getBlockSteps L E p) queries ! i) 10" using i by (simp add: getBlockSteps_within)
  from interleaved_progress [OF run _ _ this, simplified, OF i]
  have "count_list trace i \<le> 10" "steps_within (ps ! i) (10 - count_list trace i)" by simp_all
  then show "count_list trace i \<le> 10" "count_list trace i = 10 \<Longrightarrow> \<exists>r. ps ! i = Done r"
    by (cases "ps ! i"; simp)+
qed

section \<open>With an observer that always answers\<close>

text \<open>
  An observer that has all the blocks of a chain and gives them whenever it is asked, and whose
  final height is above a nonce whenever its status is asked for.
\<close>

definition answers_always :: "('c, 'w) Externals \<Rightarrow> networkProvider \<Rightarrow> (u64 \<Rightarrow> Block) \<Rightarrow> u64 \<Rightarrow> bool" where
  "answers_always E p chain n \<longleftrightarrow>
     (\<forall>m w. \<exists>response w'. of_GetBlockByNonce E (p_observedActualShard p) m withTransactionsAndLogs w =
        (Inr response, w') \<and> ar_Error response = [] \<and> ar_Data response = chain m) \<and>
     (\<forall>s. \<exists>latest s'. getLatestBlockNonce E p s = (Inr latest, s') \<and> n \<le> latest)"

lemma answers_serves: "answers_always E p chain n \<Longrightarrow> serves_chain E p chain"
  unfolding answers_always_def serves_chain_def by (metis Pair_inject sum.inject(2))

lemma doGetBlockByNonceSteps_answers:
  assumes law: "lawful_cache E contents" and obs: "answers_always E p chain n"
  shows "safe (\<lambda>s. coherent contents chain (fst s)) (\<lambda>r. r = Inr (chain m)) (doGetBlockByNonceSteps E p m)"
  unfolding doGetBlockByNonceSteps_def
proof (rule safe_andThen)
  show "safe (\<lambda>s. coherent contents chain (fst s)) (\<lambda>cached. \<forall>b. cached = Some b \<longrightarrow> b = chain m)
      (atomic (getBlockByNonceCached E m))"
    by (rule cached_lookup_safe [OF law])
next
  fix cached
  assume hit: "\<forall>b. cached = Some b \<longrightarrow> b = chain m"
  have asked: "safe (\<lambda>s. coherent contents chain (fst s))
      (\<lambda>answer. \<exists>response. answer = Inr response \<and> ar_Error response = [] \<and> ar_Data response = chain m)
      (atomic (ask (of_GetBlockByNonce E (p_observedActualShard p) m withTransactionsAndLogs)))"
  proof (rule safe_atomic)
    fix s :: "'a \<times> 'b"
    assume coh: "coherent contents chain (fst s)"
    obtain response w' where "of_GetBlockByNonce E (p_observedActualShard p) m withTransactionsAndLogs (snd s) =
        (Inr response, w')" "ar_Error response = []" "ar_Data response = chain m"
      using obs unfolding answers_always_def by blast
    with coh show "(\<exists>response. fst (ask (of_GetBlockByNonce E (p_observedActualShard p) m withTransactionsAndLogs) s) =
          Inr response \<and> ar_Error response = [] \<and> ar_Data response = chain m) \<and>
        coherent contents chain (fst (snd (ask (of_GetBlockByNonce E (p_observedActualShard p) m withTransactionsAndLogs) s)))"
      by (simp add: ask_def)
  qed
  have put: "safe (\<lambda>s. coherent contents chain (fst s)) (\<lambda>_. True)
      (atomic (\<lambda>s. ((), cacheBlockByNonce E m (chain m) s)))"
    by (rule safe_atomic) (simp add: cacheBlockByNonce_def coherent_put [OF law])
  show "safe (\<lambda>s. coherent contents chain (fst s)) (\<lambda>r. r = Inr (chain m))
      (case cached of Some block \<Rightarrow> Done (Inr (createBlockCopy block))
       | None \<Rightarrow> andThen (atomic (ask (of_GetBlockByNonce E (p_observedActualShard p) m withTransactionsAndLogs)))
          (\<lambda>answer. case answer of
             Inl err \<Rightarrow> Done (Inl (newErrCannotGetBlockByNonce m (convertStructuredApiErrToFlatErr E err)))
           | Inr response \<Rightarrow>
               if ar_Error response \<noteq> []
               then Done (Inl (newErrCannotGetBlockByNonce m (ErrorsNew (ar_Error response))))
               else let block = ar_Data response in
                 andThen (atomic (\<lambda>s. ((), cacheBlockByNonce E m block s)))
                   (\<lambda>_. Done (Inr (createBlockCopy block)))))"
  proof (cases cached)
    case None
    show ?thesis
      unfolding None option.case
      by (rule safe_andThen [OF asked]) (auto simp: Let_def intro!: safe_andThen [OF put])
  qed (use hit in simp)
qed

lemma safe_andThenOk_value:
  "safe I (\<lambda>r. r = Inr x) p \<Longrightarrow> safe I G (f x) \<Longrightarrow> safe I G (andThenOk p f)"
  unfolding andThenOk_def by (erule safe_andThen) simp

lemma getBlockSteps_answers:
  assumes law: "lawful_cache E contents" and obs: "answers_always E p chain n" and nonce: "bk_Nonce (chain n) = n"
    and online: "\<not> p_isOffline p"
    and sim: "doSimplifyBlockWithScheduledTransactions (ext_enum E) (chain (n - 1)) (chain n) (chain (n + 1)) = Some b"
    and n: "n = uint64_of_int64 i"
  shows "safe (\<lambda>s. coherent contents chain (fst s))
    (\<lambda>r. r = orFail newErrFactory ErrUnableToGetBlock (convertToRosettaBlock L (asNetworkProvider E p) b))
    (getBlockSteps L E p (ByNonce i))"
proof -
  note got = doGetBlockByNonceSteps_answers [OF law obs]
  have simplified: "safe (\<lambda>s. coherent contents chain (fst s)) (\<lambda>r. r = Inr b) (simplifyBlockSteps E p (chain n))"
    unfolding simplifyBlockSteps_def nonce
    by (rule safe_andThenOk_value [OF got], rule safe_andThenOk_value [OF got]) (simp add: sim)
  have latest: "safe (\<lambda>s. coherent contents chain (fst s)) (\<lambda>r. \<exists>latest. r = Inr latest \<and> n \<le> latest)
      (latestBlockNonceSteps E p)"
    unfolding latestBlockNonceSteps_def
  proof (rule safe_atomic)
    fix s :: "'a \<times> 'b"
    assume coh: "coherent contents chain (fst s)"
    obtain latest s' where l: "getLatestBlockNonce E p s = (Inr latest, s')" "n \<le> latest"
      using obs unfolding answers_always_def by blast
    with coh getLatestBlockNonce_keeps_cache [OF l(1)]
    show "(\<exists>latest. fst (getLatestBlockNonce E p s) = Inr latest \<and> n \<le> latest) \<and>
        coherent contents chain (fst (snd (getLatestBlockNonce E p s)))" by simp
  qed
  have "safe (\<lambda>s. coherent contents chain (fst s)) (\<lambda>r. r = Inr b) (GetBlockByNonceSteps E p n)"
    unfolding GetBlockByNonceSteps_def andThenOk_def [of "latestBlockNonceSteps E p"]
    using online
    by (auto intro!: safe_andThen [OF latest] safe_andThenOk_value [OF got] simplified simp: linorder_not_less [symmetric])
  then show ?thesis
    unfolding getBlockSteps_def block_query.case n [symmetric]
    by (rule safe_andThen) (simp add: orFail_def)
qed

text \<open>Then the answer to a request by nonce does not depend on what runs beside it.\<close>

lemma interleaved_answers:
  assumes law: "lawful_cache E contents" and obs: "answers_always E p chain n" and nonce: "\<forall>m. bk_Nonce (chain m) = m"
    and online: "\<not> p_isOffline p" and coh: "coherent contents chain (fst s)"
    and sim: "doSimplifyBlockWithScheduledTransactions (ext_enum E) (chain (n - 1)) (chain n) (chain (n + 1)) = Some b"
    and run: "interleaved world_moves trace (map (getBlockSteps L E p) queries, s) (ps, s')"
    and i: "i < length queries" "queries ! i = ByNonce k" "n = uint64_of_int64 k" and r: "ps ! i = Done r"
  shows "r = orFail newErrFactory ErrUnableToGetBlock (convertToRosettaBlock L (asNetworkProvider E p) b)"
proof -
  let ?ok = "\<lambda>r. r = orFail newErrFactory ErrUnableToGetBlock (convertToRosettaBlock L (asNetworkProvider E p) b)"
  let ?G = "\<lambda>j r. if j = i then ?ok r else of_the_chain L E p chain (queries ! j) r"
  have "safe (\<lambda>s. coherent contents chain (fst s)) (?G j) (getBlockSteps L E p (queries ! j))" for j
    using getBlockSteps_answers [OF law obs _ online sim i(3), of L]
      getBlockSteps_safe [OF law answers_serves [OF obs] nonce, of L "queries ! j"] nonce i(2)
    by (cases "j = i") simp_all
  then have "safe (\<lambda>s. coherent contents chain (fst s)) (?G i) (ps ! i)"
    using interleaved_safe [OF run, of "map (getBlockSteps L E p) queries" s "\<lambda>s. coherent contents chain (fst s)" ?G]
      coh i(1) by (auto simp: world_moves_keeps dest: spec [of _ i])
  with r show ?thesis by simp
qed

end
