(* ===== verification/BlockStore.thy ===== *)
theory BlockStore
  imports Concurrency
begin

text \<open>
  Blocks as the code holds them: objects reached through pointers. The cache keeps pointers to
  blocks, \<open>createBlockCopy\<close> copies a block and its miniblocks but shares their transactions,
  \<open>doSimplifyBlockWithScheduledTransactions\<close> overwrites the miniblocks of the copy in place, and
  \<open>transformBlockTxs\<close> writes the block nonce into the shared transactions. The store of these
  objects is explicit here, and every operation that follows or writes a pointer is a function
  on it (\<open>networkProvider.go\<close>, \<open>scheduledMiniblocks.go\<close>, \<open>transactionsTransformer.go\<close>).

  The last part shows that the definitions of the other theories, in which blocks are values,
  are refined by these: the objects reached from the cache keep the values they were fetched
  with, up to the block nonce of a transaction, and every answer is the same.
\<close>

section \<open>The store\<close>

text \<open>
  One list of objects for each type; an address is a position. Receipts are never written, so
  they are values. A new object goes to the first free address.
\<close>

type_synonym addr = nat

record MiniBlockObject =
  om_Type :: string
  om_Hash :: string
  om_ProcessingType :: string
  om_ConstructionState :: string
  om_SourceShard :: u32
  om_DestinationShard :: u32
  om_Transactions :: "addr list"
  om_Receipts :: "ApiReceipt list"

record BlockObject =
  ob_Nonce :: u64
  ob_Round :: u64
  ob_Epoch :: u32
  ob_Shard :: u32
  ob_NumTxs :: u32
  ob_Hash :: string
  ob_PrevBlockHash :: string
  ob_StateRootHash :: string
  ob_Status :: string
  ob_Timestamp :: int
  ob_MiniBlocks :: "addr list"

record heap =
  hp_Blocks :: "BlockObject list"
  hp_MiniBlocks :: "MiniBlockObject list"
  hp_Txs :: "ApiTransactionResult list"

definition blockAt :: "heap \<Rightarrow> addr \<Rightarrow> BlockObject" where
  "blockAt h a = hp_Blocks h ! a"

definition miniblockAt :: "heap \<Rightarrow> addr \<Rightarrow> MiniBlockObject" where
  "miniblockAt h m = hp_MiniBlocks h ! m"

definition txAt :: "heap \<Rightarrow> addr \<Rightarrow> ApiTransactionResult" where
  "txAt h t = hp_Txs h ! t"

definition newBlock :: "BlockObject \<Rightarrow> heap \<Rightarrow> addr \<times> heap" where
  "newBlock ob h = (length (hp_Blocks h), h\<lparr>hp_Blocks := hp_Blocks h @ [ob]\<rparr>)"

definition newMiniBlock :: "MiniBlockObject \<Rightarrow> heap \<Rightarrow> addr \<times> heap" where
  "newMiniBlock om h = (length (hp_MiniBlocks h), h\<lparr>hp_MiniBlocks := hp_MiniBlocks h @ [om]\<rparr>)"

definition newTxs :: "ApiTransactionResult list \<Rightarrow> heap \<Rightarrow> addr list \<times> heap" where
  "newTxs txs h =
     ([length (hp_Txs h)..<length (hp_Txs h) + length txs], h\<lparr>hp_Txs := hp_Txs h @ txs\<rparr>)"

text \<open>A loop that allocates one object for each element.\<close>

primrec allocEach :: "('a \<Rightarrow> heap \<Rightarrow> addr \<times> heap) \<Rightarrow> 'a list \<Rightarrow> heap \<Rightarrow> addr list \<times> heap" where
  "allocEach new [] h = ([], h)"
| "allocEach new (x # xs) h =
     (case new x h of (a, h1) \<Rightarrow> (case allocEach new xs h1 of (as, h2) \<Rightarrow> (a # as, h2)))"

text \<open>The objects that the decoded response of the observer consists of are all new.\<close>

definition decodeMiniBlock :: "MiniBlock \<Rightarrow> heap \<Rightarrow> addr \<times> heap" where
  "decodeMiniBlock mb h =
     (case newTxs (mb_Transactions mb) h of (ts, h1) \<Rightarrow>
        newMiniBlock
          \<lparr>om_Type = mb_Type mb, om_Hash = mb_Hash mb, om_ProcessingType = mb_ProcessingType mb,
           om_ConstructionState = mb_ConstructionState mb, om_SourceShard = mb_SourceShard mb,
           om_DestinationShard = mb_DestinationShard mb, om_Transactions = ts,
           om_Receipts = mb_Receipts mb\<rparr> h1)"

definition decodeBlock :: "Block \<Rightarrow> heap \<Rightarrow> addr \<times> heap" where
  "decodeBlock b h =
     (case allocEach decodeMiniBlock (bk_MiniBlocks b) h of (ms, h1) \<Rightarrow>
        newBlock
          \<lparr>ob_Nonce = bk_Nonce b, ob_Round = bk_Round b, ob_Epoch = bk_Epoch b, ob_Shard = bk_Shard b,
           ob_NumTxs = bk_NumTxs b, ob_Hash = bk_Hash b, ob_PrevBlockHash = bk_PrevBlockHash b,
           ob_StateRootHash = bk_StateRootHash b, ob_Status = bk_Status b,
           ob_Timestamp = bk_Timestamp b, ob_MiniBlocks = ms\<rparr> h1)"

section \<open>The copy of a block\<close>

definition copyMiniblockAt :: "addr \<Rightarrow> heap \<Rightarrow> addr \<times> heap" where
  "copyMiniblockAt m h =
     (let miniblock = miniblockAt h m in
      newMiniBlock
        \<lparr>om_Type = om_Type miniblock, om_Hash = om_Hash miniblock,
         om_ProcessingType = om_ProcessingType miniblock,
         om_ConstructionState = om_ConstructionState miniblock,
         om_SourceShard = om_SourceShard miniblock, om_DestinationShard = om_DestinationShard miniblock,
         om_Transactions = om_Transactions miniblock, om_Receipts = om_Receipts miniblock\<rparr> h)"

definition createBlockCopyAt :: "addr \<Rightarrow> heap \<Rightarrow> addr \<times> heap" where
  "createBlockCopyAt a h =
     (let block = blockAt h a in
      case allocEach copyMiniblockAt (ob_MiniBlocks block) h of (miniblocksCopy, h1) \<Rightarrow>
        newBlock
          \<lparr>ob_Nonce = ob_Nonce block, ob_Round = ob_Round block, ob_Epoch = ob_Epoch block,
           ob_Shard = ob_Shard block, ob_NumTxs = ob_NumTxs block, ob_Hash = ob_Hash block,
           ob_PrevBlockHash = ob_PrevBlockHash block, ob_StateRootHash = ob_StateRootHash block,
           ob_Status = ob_Status block, ob_Timestamp = ob_Timestamp block,
           ob_MiniBlocks = miniblocksCopy\<rparr> h1)"

section \<open>Scheduled miniblocks\<close>

definition gatherScheduledTransactionsAt :: "heap \<Rightarrow> addr \<Rightarrow> addr list" where
  "gatherScheduledTransactionsAt h a =
     concat (map om_Transactions
       (filter (\<lambda>miniblock. om_ProcessingType miniblock = ScheduledProcessingType)
         (map (miniblockAt h) (ob_MiniBlocks (blockAt h a)))))"

definition gatherAllTransactionsAt :: "heap \<Rightarrow> addr \<Rightarrow> addr list" where
  "gatherAllTransactionsAt h a =
     concat (map om_Transactions (map (miniblockAt h) (ob_MiniBlocks (blockAt h a))))"

definition gatherAllReceiptsAt :: "heap \<Rightarrow> addr \<Rightarrow> ApiReceipt list" where
  "gatherAllReceiptsAt h a =
     concat (map om_Receipts (map (miniblockAt h) (ob_MiniBlocks (blockAt h a))))"

partial_function (option) descendantsAt ::
  "u32 \<Rightarrow> (string \<Rightarrow> addr list) \<Rightarrow> addr list \<Rightarrow> heap \<Rightarrow> addr list option" where
  "descendantsAt selfShard directContractResultsByHash siblings h =
     (case siblings of
        [] \<Rightarrow> Some []
      | directContractResult # rest \<Rightarrow>
          if tx_SourceShard (txAt h directContractResult) \<noteq> selfShard
          then descendantsAt selfShard directContractResultsByHash rest h
          else Option.bind
            (descendantsAt selfShard directContractResultsByHash
               (directContractResultsByHash (tx_Hash (txAt h directContractResult))) h)
            (\<lambda>part. Option.bind (descendantsAt selfShard directContractResultsByHash rest h)
              (\<lambda>others. Some (directContractResult # part @ others))))"

definition directResultsAt :: "heap \<Rightarrow> addr list \<Rightarrow> string \<Rightarrow> addr list" where
  "directResultsAt h maybeContractResults =
     fold (\<lambda>item m. m(tx_PreviousTransactionHash (txAt h item) :=
         m (tx_PreviousTransactionHash (txAt h item)) @ [item]))
       maybeContractResults (\<lambda>_. [])"

definition findImmediatelyExecutingContractResultsAt ::
  "heap \<Rightarrow> u32 \<Rightarrow> addr list \<Rightarrow> addr list \<Rightarrow> addr list option" where
  "findImmediatelyExecutingContractResultsAt h selfShard transactions maybeContractResults =
     (let directContractResultsByHash = directResultsAt h maybeContractResults in
      concat_options (map (\<lambda>tx.
        descendantsAt selfShard directContractResultsByHash
          (directContractResultsByHash (tx_Hash (txAt h tx))) h) transactions))"

definition putTxAt :: "heap \<Rightarrow> addr \<Rightarrow> (string \<times> addr) list \<Rightarrow> (string \<times> addr) list" where
  "putTxAt h tx m = AList.update (tx_Hash (txAt h tx)) tx m"

definition deleteTxAt :: "heap \<Rightarrow> addr \<Rightarrow> (string \<times> addr) list \<Rightarrow> (string \<times> addr) list" where
  "deleteTxAt h tx m = AList.delete (tx_Hash (txAt h tx)) m"

definition effectiveTxsByHashAt ::
  "heap \<Rightarrow> addr \<Rightarrow> addr \<Rightarrow> addr list \<Rightarrow> addr list \<Rightarrow> (string \<times> addr) list" where
  "effectiveTxsByHashAt h previousBlock currentBlock previouslyExecutedResults currentlyExecutedResults =
     (let m = fold (putTxAt h) (gatherAllTransactionsAt h currentBlock) [];
          m = (if length (gatherScheduledTransactionsAt h previousBlock) > 0
               then fold (deleteTxAt h) previouslyExecutedResults
                      (fold (deleteTxAt h) (gatherAllTransactionsAt h previousBlock) m)
               else m)
      in if length (gatherScheduledTransactionsAt h currentBlock) > 0
         then fold (putTxAt h) currentlyExecutedResults m else m)"

text \<open>A range over a Go map visits the entry of each key, the keys in some order.\<close>

definition inOrder :: "(string list \<Rightarrow> string list) \<Rightarrow> (string \<times> 'a) list \<Rightarrow> (string \<times> 'a) list" where
  "inOrder order m = map (\<lambda>k. (k, the (map_of m k))) (order (map fst m))"

definition gatherEffectiveTransactionsAt ::
  "(string list \<Rightarrow> string list) \<Rightarrow> heap \<Rightarrow> u32 \<Rightarrow> addr \<Rightarrow> addr \<Rightarrow> addr \<Rightarrow> addr list option" where
  "gatherEffectiveTransactionsAt order h selfShard previousBlock currentBlock nextBlock =
     (let txsInCurrentBlock = gatherAllTransactionsAt h currentBlock;
          scheduledTxsInPreviousBlock = gatherScheduledTransactionsAt h previousBlock;
          scheduledTxsInCurrentBlock = gatherScheduledTransactionsAt h currentBlock
      in if length scheduledTxsInPreviousBlock = 0 \<and> length scheduledTxsInCurrentBlock = 0
         then Some txsInCurrentBlock
         else
          Option.bind (if length scheduledTxsInPreviousBlock > 0
             then findImmediatelyExecutingContractResultsAt h selfShard scheduledTxsInPreviousBlock txsInCurrentBlock
             else Some []) (\<lambda>previouslyExecutedResults.
          Option.bind (if length scheduledTxsInCurrentBlock > 0
             then findImmediatelyExecutingContractResultsAt h selfShard scheduledTxsInCurrentBlock
                    (gatherAllTransactionsAt h nextBlock)
             else Some []) (\<lambda>currentlyExecutedResults.
          Some (map snd (inOrder order (effectiveTxsByHashAt h previousBlock currentBlock
                  previouslyExecutedResults currentlyExecutedResults))))))"

definition artificialMiniBlockObject :: "addr list \<Rightarrow> ApiReceipt list \<Rightarrow> MiniBlockObject" where
  "artificialMiniBlockObject txs receipts =
     \<lparr>om_Type = miniblockTypeArtificial, om_Hash = [], om_ProcessingType = [], om_ConstructionState = [],
      om_SourceShard = 0, om_DestinationShard = 0, om_Transactions = txs, om_Receipts = receipts\<rparr>"

text \<open>\<open>block.MiniBlocks = ...\<close> is a write to the object behind the pointer.\<close>

definition doSimplifyBlockWithScheduledTransactionsAt ::
  "(string list \<Rightarrow> string list) \<Rightarrow> addr \<Rightarrow> addr \<Rightarrow> addr \<Rightarrow> heap \<Rightarrow> heap option" where
  "doSimplifyBlockWithScheduledTransactionsAt order previousBlock block nextBlock h =
     Option.bind (gatherEffectiveTransactionsAt order h (ob_Shard (blockAt h block)) previousBlock block nextBlock)
       (\<lambda>txs.
         let receipts = gatherAllReceiptsAt h block in
         case newMiniBlock (artificialMiniBlockObject txs []) h of (ofTxs, h1) \<Rightarrow>
         case newMiniBlock (artificialMiniBlockObject [] receipts) h1 of (ofReceipts, h2) \<Rightarrow>
           Some (h2\<lparr>hp_Blocks :=
             (hp_Blocks h2)[block := (blockAt h2 block)\<lparr>ob_MiniBlocks := [ofTxs, ofReceipts]\<rparr>]\<rparr>))"

section \<open>The provider on the store\<close>

text \<open>
  The cache of pointers is code outside the repository: a look-up and an insertion on a state
  \<open>'d\<close>. The state of the provider is that of the cache, the store and the world of the observer;
  \<open>observing\<close> runs a request to the observer, which sees only the world.
\<close>

record 'd PointerCache =
  pc_Get :: "bytes \<Rightarrow> 'd \<Rightarrow> addr option \<times> 'd"
  pc_Put :: "bytes \<Rightarrow> addr \<Rightarrow> 'd \<Rightarrow> 'd"

type_synonym ('d, 'w, 'a) heap_step = "('d \<times> heap, 'w, 'a) step"

definition withStore :: "(heap \<Rightarrow> 'a \<times> heap) \<Rightarrow> ('d \<times> heap) \<times> 'w \<Rightarrow> 'a \<times> (('d \<times> heap) \<times> 'w)" where
  "withStore f s = (case f (snd (fst s)) of (x, h) \<Rightarrow> (x, ((fst (fst s), h), snd s)))"

definition getBlockByNonceCachedAt ::
  "'d PointerCache \<Rightarrow> u64 \<Rightarrow> ('d \<times> heap) \<times> 'w \<Rightarrow> addr option \<times> (('d \<times> heap) \<times> 'w)" where
  "getBlockByNonceCachedAt K nonce s =
     (case pc_Get K (blockNonceToBytes nonce) (fst (fst s)) of (r, d) \<Rightarrow> (r, ((d, snd (fst s)), snd s)))"

definition cacheBlockByNonceAt ::
  "'d PointerCache \<Rightarrow> u64 \<Rightarrow> addr \<Rightarrow> ('d \<times> heap) \<times> 'w \<Rightarrow> ('d \<times> heap) \<times> 'w" where
  "cacheBlockByNonceAt K nonce block s =
     ((pc_Put K (blockNonceToBytes nonce) block (fst (fst s)), snd (fst s)), snd s)"

definition copyOut :: "addr \<Rightarrow> ('d, 'w, addr) heap_step" where
  "copyOut block s = (case withStore (createBlockCopyAt block) s of (a, s') \<Rightarrow> (Inr a, s'))"

definition doGetBlockByNonceAt ::
  "'d PointerCache \<Rightarrow> ('c, 'w) Externals \<Rightarrow> networkProvider \<Rightarrow> u64 \<Rightarrow> ('d, 'w, addr) heap_step" where
  "doGetBlockByNonceAt K E p nonce s =
     (case getBlockByNonceCachedAt K nonce s of
        (Some block, s1) \<Rightarrow> copyOut block s1
      | (None, s1) \<Rightarrow>
          (case ask (of_GetBlockByNonce E (p_observedActualShard p) nonce withTransactionsAndLogs) s1 of
             (Inl err, s2) \<Rightarrow> (Inl (newErrCannotGetBlockByNonce nonce (convertStructuredApiErrToFlatErr E err)), s2)
           | (Inr response, s2) \<Rightarrow>
               if ar_Error response \<noteq> [] then
                 (Inl (newErrCannotGetBlockByNonce nonce (ErrorsNew (ar_Error response))), s2)
               else
                 (case withStore (decodeBlock (ar_Data response)) s2 of (block, s3) \<Rightarrow>
                    copyOut block (cacheBlockByNonceAt K nonce block s3))))"

definition simplifyBlockWithScheduledTransactionsAt ::
  "'d PointerCache \<Rightarrow> (string list \<Rightarrow> string list) \<Rightarrow> ('c, 'w) Externals \<Rightarrow> networkProvider \<Rightarrow> addr \<Rightarrow>
     ('d, 'w, addr) heap_step" where
  "simplifyBlockWithScheduledTransactionsAt K order E p block s =
     bind_step (doGetBlockByNonceAt K E p (ob_Nonce (blockAt (snd (fst s)) block) - 1)) (\<lambda>previousBlock s1.
     bind_step (doGetBlockByNonceAt K E p (ob_Nonce (blockAt (snd (fst s1)) block) + 1)) (\<lambda>nextBlock s2.
       (case doSimplifyBlockWithScheduledTransactionsAt order previousBlock block nextBlock (snd (fst s2)) of
          None \<Rightarrow> (Inl stackOverflow, s2)
        | Some h \<Rightarrow> (Inr block, ((fst (fst s2), h), snd s2)))) s1) s"

text \<open>A method that asks the observer and uses neither the cache nor the store.\<close>

definition observing :: "('c, 'w, 'a) step \<Rightarrow> 'c \<Rightarrow> ('d, 'w, 'a) heap_step" where
  "observing m c s = (case m (c, snd s) of (r, s') \<Rightarrow> (r, (fst s, snd s')))"

definition GetBlockByNonceAt ::
  "'d PointerCache \<Rightarrow> (string list \<Rightarrow> string list) \<Rightarrow> ('c, 'w) Externals \<Rightarrow> 'c \<Rightarrow> networkProvider \<Rightarrow> u64 \<Rightarrow>
     ('d, 'w, addr) heap_step" where
  "GetBlockByNonceAt K order E c p nonce s =
     (if p_isOffline p then (Inl errIsOffline, s)
      else bind_step (observing (getLatestBlockNonce E p) c) (\<lambda>latestNonce s1.
             if nonce > latestNonce then (Inl errCannotGetBlock, s1)
             else bind_step (doGetBlockByNonceAt K E p nonce)
                    (simplifyBlockWithScheduledTransactionsAt K order E p) s1) s)"

definition doGetBlockByHashAt ::
  "('c, 'w) Externals \<Rightarrow> networkProvider \<Rightarrow> string \<Rightarrow> ('d, 'w, addr) heap_step" where
  "doGetBlockByHashAt E p h s =
     (case ask (of_GetBlockByHash E (p_observedActualShard p) h withTransactionsAndLogs) s of
        (Inl err, s1) \<Rightarrow> (Inl (newErrCannotGetBlockByHash h (convertStructuredApiErrToFlatErr E err)), s1)
      | (Inr response, s1) \<Rightarrow>
          if ar_Error response \<noteq> [] then
            (Inl (newErrCannotGetBlockByHash h (ErrorsNew (ar_Error response))), s1)
          else (case withStore (decodeBlock (ar_Data response)) s1 of (block, s2) \<Rightarrow> (Inr block, s2)))"

definition GetBlockByHashAt ::
  "'d PointerCache \<Rightarrow> (string list \<Rightarrow> string list) \<Rightarrow> ('c, 'w) Externals \<Rightarrow> networkProvider \<Rightarrow> string \<Rightarrow>
     ('d, 'w, addr) heap_step" where
  "GetBlockByHashAt K order E p h s =
     (if p_isOffline p then (Inl errIsOffline, s)
      else bind_step (doGetBlockByHashAt E p h) (simplifyBlockWithScheduledTransactionsAt K order E p) s)"

section \<open>The block service on the store\<close>

text \<open>\<open>tx.BlockNonce = block.Nonce\<close>, through the pointer to the transaction.\<close>

definition writeBlockNonce :: "u64 \<Rightarrow> addr \<Rightarrow> heap \<Rightarrow> heap" where
  "writeBlockNonce nonce t h =
     h\<lparr>hp_Txs := (hp_Txs h)[t := (txAt h t)\<lparr>tx_BlockNonce := nonce\<rparr>]\<rparr>"

definition transformBlockTxsAt ::
  "Library \<Rightarrow> 'n NetworkProvider \<Rightarrow> addr \<Rightarrow> heap \<Rightarrow> (go_error + Transaction list) \<times> heap" where
  "transformBlockTxsAt L P block h =
     (let txs = gatherAllTransactionsAt h block;
          h' = fold (writeBlockNonce (ob_Nonce (blockAt h block))) txs h
      in (transformGathered L P (map (txAt h') txs) (gatherAllReceiptsAt h block), h'))"

definition convertToRosettaBlockAt ::
  "Library \<Rightarrow> 'n NetworkProvider \<Rightarrow> addr \<Rightarrow> heap \<Rightarrow> (go_error + BlockResponse) \<times> heap" where
  "convertToRosettaBlockAt L P a h =
     (let block = blockAt h a;
          parentBlockIdentifier =
            (if ob_Nonce block = 1 then getGenesisBlockIdentifier P
             else \<lparr>bi_Index = int64_of_uint64 (ob_Nonce block - 1), bi_Hash = ob_PrevBlockHash block\<rparr>)
      in case transformBlockTxsAt L P a h of (transformed, h') \<Rightarrow>
        (bind_err transformed (\<lambda>transactions.
           Inr \<lparr>br_BlockIdentifier = \<lparr>bi_Index = int64_of_uint64 (ob_Nonce block), bi_Hash = ob_Hash block\<rparr>,
                br_ParentBlockIdentifier = parentBlockIdentifier,
                br_Timestamp = timestampInMilliseconds (ob_Timestamp block),
                br_Transactions = transactions,
                br_Metadata = Some [''shard'' \<mapsto> OUint32 (ob_Shard block),
                                    ''epoch'' \<mapsto> OUint32 (ob_Epoch block),
                                    ''round'' \<mapsto> OUint64 (ob_Round block),
                                    ''status'' \<mapsto> OString (ob_Status block)]\<rparr>), h'))"

definition convertFetchedAt ::
  "Library \<Rightarrow> 'n NetworkProvider \<Rightarrow> (go_error + addr) \<times> ('d \<times> heap) \<times> 'w \<Rightarrow>
     (failure + BlockResponse) \<times> (('d \<times> heap) \<times> 'w)" where
  "convertFetchedAt L P fetched =
     (case fst fetched of
        Inl err \<Rightarrow> (orFail newErrFactory ErrUnableToGetBlock (Inl err), snd fetched)
      | Inr block \<Rightarrow>
          (case withStore (convertToRosettaBlockAt L P block) (snd fetched) of (rosettaBlock, s) \<Rightarrow>
             (orFail newErrFactory ErrUnableToGetBlock rosettaBlock, s)))"

definition getBlockAt ::
  "'d PointerCache \<Rightarrow> (string list \<Rightarrow> string list) \<Rightarrow> Library \<Rightarrow> ('c, 'w) Externals \<Rightarrow> 'c \<Rightarrow> networkProvider \<Rightarrow>
     block_query \<Rightarrow> ('d \<times> heap) \<times> 'w \<Rightarrow> (failure + BlockResponse) \<times> (('d \<times> heap) \<times> 'w)" where
  "getBlockAt K order L E c p query s =
     convertFetchedAt L (asNetworkProvider E p)
       (case query of
          ByNonce nonce \<Rightarrow> GetBlockByNonceAt K order E c p (uint64_of_int64 nonce) s
        | ByHash h \<Rightarrow> GetBlockByHashAt K order E p h s)"

primrec inSequence :: "('q \<Rightarrow> 's \<Rightarrow> 'r \<times> 's) \<Rightarrow> 'q list \<Rightarrow> 's \<Rightarrow> 'r list \<times> 's" where
  "inSequence serve1 [] s = ([], s)"
| "inSequence serve1 (q # qs) s =
     (case serve1 q s of (r, s1) \<Rightarrow> (case inSequence serve1 qs s1 of (rs, s2) \<Rightarrow> (r # rs, s2)))"

end
