(* ===== verification/BlockStoreFacts.thy ===== *)
theory BlockStoreFacts
  imports BlockStore
begin

text \<open>
  The store refines the values: \<open>stands_for h a b\<close> says that the objects reached from the address
  \<open>a\<close> are those of the block \<open>b\<close>, up to the block nonce of the transactions. Every operation on
  the store relates to the operation on values, and whatever the cache points to keeps standing
  for the block it was fetched as.
\<close>

section \<open>What an address stands for\<close>

definition up_to_nonce :: "ApiTransactionResult \<Rightarrow> ApiTransactionResult \<Rightarrow> bool" where
  "up_to_nonce tx' tx \<longleftrightarrow> (\<exists>n. tx' = tx\<lparr>tx_BlockNonce := n\<rparr>)"

lemma up_to_nonce_refl [simp]: "up_to_nonce tx tx"
proof -
  have "tx = tx\<lparr>tx_BlockNonce := tx_BlockNonce tx\<rparr>" by simp
  then show ?thesis unfolding up_to_nonce_def by blast
qed

lemma up_to_nonce_write [simp]: "up_to_nonce (tx\<lparr>tx_BlockNonce := n\<rparr>) tx"
  by (auto simp: up_to_nonce_def)

lemma up_to_nonce_trans [trans]: "up_to_nonce tx3 tx2 \<Longrightarrow> up_to_nonce tx2 tx1 \<Longrightarrow> up_to_nonce tx3 tx1"
  by (auto simp: up_to_nonce_def)

definition stands_for_tx :: "heap \<Rightarrow> addr \<Rightarrow> ApiTransactionResult \<Rightarrow> bool" where
  "stands_for_tx h t tx \<longleftrightarrow> t < length (hp_Txs h) \<and> up_to_nonce (txAt h t) tx"

definition stands_for_miniblock :: "heap \<Rightarrow> addr \<Rightarrow> MiniBlock \<Rightarrow> bool" where
  "stands_for_miniblock h m mb \<longleftrightarrow>
     m < length (hp_MiniBlocks h) \<and>
     (let om = miniblockAt h m in
      om_Type om = mb_Type mb \<and> om_Hash om = mb_Hash mb \<and> om_ProcessingType om = mb_ProcessingType mb \<and>
      om_ConstructionState om = mb_ConstructionState mb \<and> om_SourceShard om = mb_SourceShard mb \<and>
      om_DestinationShard om = mb_DestinationShard mb \<and>
      list_all2 (stands_for_tx h) (om_Transactions om) (mb_Transactions mb) \<and>
      om_Receipts om = mb_Receipts mb)"

definition stands_for :: "heap \<Rightarrow> addr \<Rightarrow> Block \<Rightarrow> bool" where
  "stands_for h a b \<longleftrightarrow>
     a < length (hp_Blocks h) \<and>
     (let ob = blockAt h a in
      ob_Nonce ob = bk_Nonce b \<and> ob_Round ob = bk_Round b \<and> ob_Epoch ob = bk_Epoch b \<and>
      ob_Shard ob = bk_Shard b \<and> ob_NumTxs ob = bk_NumTxs b \<and> ob_Hash ob = bk_Hash b \<and>
      ob_PrevBlockHash ob = bk_PrevBlockHash b \<and> ob_StateRootHash ob = bk_StateRootHash b \<and>
      ob_Status ob = bk_Status b \<and> ob_Timestamp ob = bk_Timestamp b \<and>
      list_all2 (stands_for_miniblock h) (ob_MiniBlocks ob) (bk_MiniBlocks b))"

lemmas stands_for_defs = stands_for_def stands_for_miniblock_def Let_def

lemma stands_for_tx_fields:
  assumes "stands_for_tx h t tx"
  shows "tx_Hash (txAt h t) = tx_Hash tx" "tx_SourceShard (txAt h t) = tx_SourceShard tx"
    "tx_PreviousTransactionHash (txAt h t) = tx_PreviousTransactionHash tx"
  using assms by (auto simp: stands_for_tx_def up_to_nonce_def)

text \<open>
  Objects are added, and the block nonce of a transaction may change; nothing else does.
\<close>

definition grows :: "heap \<Rightarrow> heap \<Rightarrow> bool" where
  "grows h h' \<longleftrightarrow>
     (\<exists>obs. hp_Blocks h' = hp_Blocks h @ obs) \<and> (\<exists>oms. hp_MiniBlocks h' = hp_MiniBlocks h @ oms) \<and>
     length (hp_Txs h) \<le> length (hp_Txs h') \<and>
     (\<forall>t < length (hp_Txs h). up_to_nonce (txAt h' t) (txAt h t))"

lemma grows_refl [simp]: "grows h h"
  by (simp add: grows_def)

lemma grows_trans [trans]: "grows h1 h2 \<Longrightarrow> grows h2 h3 \<Longrightarrow> grows h1 h3"
  unfolding grows_def
  by (elim conjE exE, intro conjI allI impI) (force, force, simp, meson less_le_trans up_to_nonce_trans)

lemma grows_lengths:
  "grows h h' \<Longrightarrow> length (hp_Blocks h) \<le> length (hp_Blocks h')"
  "grows h h' \<Longrightarrow> length (hp_MiniBlocks h) \<le> length (hp_MiniBlocks h')"
  by (auto simp: grows_def)

lemma grows_at:
  "grows h h' \<Longrightarrow> a < length (hp_Blocks h) \<Longrightarrow> blockAt h' a = blockAt h a"
  "grows h h' \<Longrightarrow> m < length (hp_MiniBlocks h) \<Longrightarrow> miniblockAt h' m = miniblockAt h m"
  by (auto simp: grows_def blockAt_def miniblockAt_def nth_append)

lemma stands_for_tx_grows: "stands_for_tx h t tx \<Longrightarrow> grows h h' \<Longrightarrow> stands_for_tx h' t tx"
  unfolding stands_for_tx_def grows_def by (auto intro: up_to_nonce_trans)

lemma stands_for_miniblock_grows:
  "stands_for_miniblock h m mb \<Longrightarrow> grows h h' \<Longrightarrow> stands_for_miniblock h' m mb"
  using grows_at(2) [of h h' m] grows_lengths(2) [of h h']
  by (auto simp: stands_for_miniblock_def Let_def intro: stands_for_tx_grows elim!: list_all2_mono)

lemma stands_for_grows: "stands_for h a b \<Longrightarrow> grows h h' \<Longrightarrow> stands_for h' a b"
  using grows_at(1) [of h h' a] grows_lengths(1) [of h h']
  by (auto simp: stands_for_def Let_def intro: stands_for_miniblock_grows elim!: list_all2_mono)

section \<open>New objects\<close>

lemma newBlock_grows: "grows h (snd (newBlock ob h))"
  by (auto simp: newBlock_def grows_def txAt_def)

lemma newMiniBlock_grows: "grows h (snd (newMiniBlock om h))"
  by (auto simp: newMiniBlock_def grows_def txAt_def)

lemma newTxs_grows: "grows h (snd (newTxs txs h))"
  by (auto simp: newTxs_def grows_def txAt_def nth_append)

lemma newTxs_stand_for: "list_all2 (stands_for_tx (snd (newTxs txs h))) (fst (newTxs txs h)) txs"
  by (auto simp: newTxs_def list_all2_conv_all_nth stands_for_tx_def txAt_def nth_append)

lemma newBlock_at [simp]:
  "fst (newBlock ob h) = length (hp_Blocks h)"
  "blockAt (snd (newBlock ob h)) (length (hp_Blocks h)) = ob"
  "length (hp_Blocks (snd (newBlock ob h))) = Suc (length (hp_Blocks h))"
  by (simp_all add: newBlock_def blockAt_def)

lemma newMiniBlock_at: "miniblockAt (snd (newMiniBlock om h)) (fst (newMiniBlock om h)) = om"
    "fst (newMiniBlock om h) < length (hp_MiniBlocks (snd (newMiniBlock om h)))"
  by (simp_all add: newMiniBlock_def miniblockAt_def)

text \<open>\<open>makes h Q f y\<close>: in every store grown from \<open>h\<close>, \<open>f\<close> allocates something that stands for \<open>y\<close>.\<close>

definition makes :: "heap \<Rightarrow> (heap \<Rightarrow> addr \<Rightarrow> 'b \<Rightarrow> bool) \<Rightarrow> (heap \<Rightarrow> addr \<times> heap) \<Rightarrow> 'b \<Rightarrow> bool" where
  "makes h Q f y \<longleftrightarrow> (\<forall>h'. grows h h' \<longrightarrow> grows h' (snd (f h')) \<and> Q (snd (f h')) (fst (f h')) y)"

lemma makes_grows: "makes h Q f y \<Longrightarrow> grows h h' \<Longrightarrow> makes h' Q f y"
  unfolding makes_def using grows_trans by blast

lemma makesD: "makes h Q f y \<Longrightarrow> grows h (snd (f h))" "makes h Q f y \<Longrightarrow> Q (snd (f h)) (fst (f h)) y"
  by (simp_all add: makes_def)

lemma allocEach_spec:
  assumes stable: "\<And>h1 h2 a y. Q h1 a y \<Longrightarrow> grows h1 h2 \<Longrightarrow> Q h2 a y"
    and "list_all2 (\<lambda>x y. makes h Q (new x) y) xs ys"
  shows "grows h (snd (allocEach new xs h))"
    and "list_all2 (Q (snd (allocEach new xs h))) (fst (allocEach new xs h)) ys"
proof -
  have "grows h (snd (allocEach new xs h)) \<and>
      list_all2 (Q (snd (allocEach new xs h))) (fst (allocEach new xs h)) ys"
    using assms(2)
  proof (induction xs arbitrary: h ys)
    case (Cons x xs)
    then obtain y ys' where ys: "ys = y # ys'" and x: "makes h Q (new x) y"
      and xs: "list_all2 (\<lambda>x y. makes h Q (new x) y) xs ys'" by (auto simp: list_all2_Cons1)
    note 1 = makesD [OF x]
    have "list_all2 (\<lambda>z y. makes (snd (new x h)) Q (new z) y) xs ys'"
      using xs by (rule list_all2_mono) (rule makes_grows [OF _ 1(1)])
    note IH = Cons.IH [OF this]
    have "Q (snd (allocEach new xs (snd (new x h)))) (fst (new x h)) y" using stable 1(2) IH by blast
    moreover have "grows h (snd (allocEach new xs (snd (new x h))))" using 1(1) IH by (blast intro: grows_trans)
    ultimately show ?case using ys IH by (simp add: split_beta)
  qed simp
  then show "grows h (snd (allocEach new xs h))"
    and "list_all2 (Q (snd (allocEach new xs h))) (fst (allocEach new xs h)) ys" by simp_all
qed

lemma decodeMiniBlock_spec:
  "grows h (snd (decodeMiniBlock mb h)) \<and>
   stands_for_miniblock (snd (decodeMiniBlock mb h)) (fst (decodeMiniBlock mb h)) mb"
proof -
  let ?n = "newTxs (mb_Transactions mb) h"
  have "list_all2 (stands_for_tx (snd (newMiniBlock om (snd ?n)))) (fst ?n) (mb_Transactions mb)" for om
    using newTxs_stand_for newMiniBlock_grows by (blast intro: list_all2_mono stands_for_tx_grows)
  moreover have "grows h (snd (newMiniBlock om (snd ?n)))" for om
    using newTxs_grows newMiniBlock_grows by (blast intro: grows_trans)
  ultimately show ?thesis
    by (simp add: decodeMiniBlock_def split_beta stands_for_miniblock_def newMiniBlock_at)
qed

lemma newBlock_stands_for:
  assumes "list_all2 (stands_for_miniblock h) ms (bk_MiniBlocks b)"
    and "ob_Nonce ob = bk_Nonce b" "ob_Round ob = bk_Round b" "ob_Epoch ob = bk_Epoch b"
    "ob_Shard ob = bk_Shard b" "ob_NumTxs ob = bk_NumTxs b" "ob_Hash ob = bk_Hash b"
    "ob_PrevBlockHash ob = bk_PrevBlockHash b" "ob_StateRootHash ob = bk_StateRootHash b"
    "ob_Status ob = bk_Status b" "ob_Timestamp ob = bk_Timestamp b" "ob_MiniBlocks ob = ms"
  shows "stands_for (snd (newBlock ob h)) (length (hp_Blocks h)) b"
proof -
  have "list_all2 (stands_for_miniblock (snd (newBlock ob h))) ms (bk_MiniBlocks b)"
    using assms(1) newBlock_grows by (blast intro: list_all2_mono stands_for_miniblock_grows)
  with assms show ?thesis by (simp add: stands_for_def Let_def)
qed

lemma decodeBlock_spec:
  "grows h (snd (decodeBlock b h)) \<and> stands_for (snd (decodeBlock b h)) (fst (decodeBlock b h)) b \<and>
   length (hp_Blocks h) \<le> fst (decodeBlock b h)"
proof -
  have "list_all2 (\<lambda>x y. makes h stands_for_miniblock (decodeMiniBlock x) y) (bk_MiniBlocks b) (bk_MiniBlocks b)"
    using decodeMiniBlock_spec by (auto simp: makes_def intro!: list_all2_refl)
  note 1 = allocEach_spec [OF stands_for_miniblock_grows this]
  show ?thesis
    using grows_trans [OF 1(1) newBlock_grows] grows_lengths(1) [OF 1(1)]
    by (auto simp: decodeBlock_def split_beta intro!: newBlock_stands_for 1(2))
qed

lemma copyMiniblockAt_spec:
  assumes "stands_for_miniblock h m mb"
  shows "grows h (snd (copyMiniblockAt m h)) \<and>
    stands_for_miniblock (snd (copyMiniblockAt m h)) (fst (copyMiniblockAt m h)) mb"
proof -
  have "list_all2 (stands_for_tx (snd (newMiniBlock om h))) (om_Transactions (miniblockAt h m)) (mb_Transactions mb)" for om
    using assms newMiniBlock_grows
    by (auto simp: stands_for_miniblock_def Let_def intro: list_all2_mono stands_for_tx_grows)
  with assms newMiniBlock_grows show ?thesis
    by (simp add: copyMiniblockAt_def Let_def stands_for_miniblock_def newMiniBlock_at)
qed

text \<open>The copy stands for the same block, at an address of its own.\<close>

lemma createBlockCopyAt_spec:
  assumes "stands_for h a b"
  shows "grows h (snd (createBlockCopyAt a h)) \<and>
    stands_for (snd (createBlockCopyAt a h)) (fst (createBlockCopyAt a h)) b \<and>
    length (hp_Blocks h) \<le> fst (createBlockCopyAt a h)"
proof -
  have "list_all2 (\<lambda>x y. makes h stands_for_miniblock (copyMiniblockAt x) y)
      (ob_MiniBlocks (blockAt h a)) (bk_MiniBlocks b)"
  proof (rule list_all2_mono)
    show "list_all2 (stands_for_miniblock h) (ob_MiniBlocks (blockAt h a)) (bk_MiniBlocks b)"
      using assms by (simp add: stands_for_def Let_def)
    show "makes h stands_for_miniblock (copyMiniblockAt m) mb" if "stands_for_miniblock h m mb" for m mb
      unfolding makes_def
      using copyMiniblockAt_spec [OF stands_for_miniblock_grows [OF that]] by blast
  qed
  note 1 = allocEach_spec [OF stands_for_miniblock_grows this]
  show ?thesis
    using grows_trans [OF 1(1) newBlock_grows] grows_lengths(1) [OF 1(1)] assms
    by (auto simp: createBlockCopyAt_def Let_def split_beta stands_for_def [of h]
        intro!: newBlock_stands_for 1(2))
qed

section \<open>Gathering transactions\<close>

abbreviation stand_for_txs :: "heap \<Rightarrow> addr list \<Rightarrow> ApiTransactionResult list \<Rightarrow> bool" where
  "stand_for_txs h \<equiv> list_all2 (stands_for_tx h)"

lemma concat_related: "list_all2 (list_all2 A) xss yss \<Longrightarrow> list_all2 A (concat xss) (concat yss)"
  using concat_transfer unfolding rel_fun_def by blast

lemma miniblocks_related:
  assumes "list_all2 (stands_for_miniblock h) ms mbs"
  shows "stand_for_txs h (concat (map om_Transactions (map (miniblockAt h) ms))) (concat (map mb_Transactions mbs))"
    and "concat (map om_Receipts (map (miniblockAt h) ms)) = concat (map mb_Receipts mbs)"
    and "stand_for_txs h
      (concat (map om_Transactions
         (filter (\<lambda>om. om_ProcessingType om = ScheduledProcessingType) (map (miniblockAt h) ms))))
      (concat (map mb_Transactions (filter (\<lambda>mb. mb_ProcessingType mb = ScheduledProcessingType) mbs)))"
  using assms
  by (induction ms mbs rule: list_all2_induct)
    (auto simp: stands_for_miniblock_def Let_def intro: list_all2_appendI)

lemma gathered_related:
  assumes "stands_for h a b"
  shows "stand_for_txs h (gatherAllTransactionsAt h a) (gatherAllTransactions b)"
    and "stand_for_txs h (gatherScheduledTransactionsAt h a) (gatherScheduledTransactions b)"
    and "gatherAllReceiptsAt h a = gatherAllReceipts b"
proof -
  have "list_all2 (stands_for_miniblock h) (ob_MiniBlocks (blockAt h a)) (bk_MiniBlocks b)"
    using assms by (simp add: stands_for_def Let_def)
  from miniblocks_related [OF this]
  show "stand_for_txs h (gatherAllTransactionsAt h a) (gatherAllTransactions b)"
    and "stand_for_txs h (gatherScheduledTransactionsAt h a) (gatherScheduledTransactions b)"
    and "gatherAllReceiptsAt h a = gatherAllReceipts b"
    by (simp_all add: gatherAllTransactionsAt_def gatherAllTransactions_def gatherScheduledTransactionsAt_def
        gatherScheduledTransactions_def gatherAllReceiptsAt_def gatherAllReceipts_def)
qed

section \<open>The recursion over contract results\<close>

lemma descendantsAt_returns:
  assumes ret: "descendantsAt self direct sibs h = Some rs"
    and "stand_for_txs h sibs sibs'" "\<And>k. stand_for_txs h (direct k) (direct' k)"
  shows "\<exists>rs'. descendants self direct' sibs' = Some rs' \<and> stand_for_txs h rs rs'"
proof -
  let ?P = "\<lambda>self direct sibs h rs. \<forall>sibs'. stand_for_txs h sibs sibs' \<longrightarrow>
      (\<forall>k. stand_for_txs h (direct k) (direct' k)) \<longrightarrow>
      (\<exists>rs'. descendants self direct' sibs' = Some rs' \<and> stand_for_txs h rs rs')"
  have "?P self direct sibs h rs"
  proof (rule descendantsAt.raw_induct [of ?P, OF _ ret])
    fix f self direct sibs h rs
    assume IH: "\<And>self direct sibs h rs. f self direct sibs h = Some rs \<Longrightarrow> ?P self direct sibs h rs"
      and eq: "(case sibs of [] \<Rightarrow> Some []
         | s # rest \<Rightarrow> if tx_SourceShard (txAt h s) \<noteq> self then f self direct rest h
             else Option.bind (f self direct (direct (tx_Hash (txAt h s))) h)
               (\<lambda>part. Option.bind (f self direct rest h) (\<lambda>others. Some (s # part @ others)))) = Some rs"
    show "?P self direct sibs h rs"
    proof (intro allI impI)
      fix sibs'
      assume rel: "stand_for_txs h sibs sibs'" and dir: "\<forall>k. stand_for_txs h (direct k) (direct' k)"
      show "\<exists>rs'. descendants self direct' sibs' = Some rs' \<and> stand_for_txs h rs rs'"
      proof (cases sibs)
        case Nil
        with eq rel show ?thesis by (simp add: descendants.simps)
      next
        case (Cons s rest)
        then obtain s' rest' where s': "sibs' = s' # rest'" "stands_for_tx h s s'" "stand_for_txs h rest rest'"
          using rel by (auto simp: list_all2_Cons1)
        note fields = stands_for_tx_fields [OF s'(2)]
        show ?thesis
        proof (cases "tx_SourceShard s' = self")
          case False
          with eq Cons fields have "f self direct rest h = Some rs" by simp
          from IH [OF this] s'(3) dir False show ?thesis
            by (simp add: descendants.simps [of self direct' "s' # rest'"] s'(1))
        next
          case True
          with eq Cons fields obtain part others where
            p: "f self direct (direct (tx_Hash s')) h = Some part" and
            o: "f self direct rest h = Some others" and rs: "rs = s # part @ others"
            by (auto simp: bind_eq_Some_conv)
          obtain part' where "descendants self direct' (direct' (tx_Hash s')) = Some part'"
            "stand_for_txs h part part'" using IH [OF p] dir by blast
          moreover obtain others' where "descendants self direct' rest' = Some others'"
            "stand_for_txs h others others'" using IH [OF o] dir s'(3) by blast
          ultimately show ?thesis using True rs s'(2)
            by (simp add: descendants.simps [of self direct' "s' # rest'"] s'(1) list_all2_appendI)
        qed
      qed
    qed
  qed
  with assms show ?thesis by blast
qed

lemma descendants_returnsAt:
  assumes ret: "descendants self direct' sibs' = Some rs'"
    and "stand_for_txs h sibs sibs'" "\<And>k. stand_for_txs h (direct k) (direct' k)"
  shows "\<exists>rs. descendantsAt self direct sibs h = Some rs"
proof -
  let ?P = "\<lambda>self direct' sibs' rs'. \<forall>sibs. stand_for_txs h sibs sibs' \<longrightarrow>
      (\<forall>k. stand_for_txs h (direct k) (direct' k)) \<longrightarrow>
      (\<exists>rs. descendantsAt self direct sibs h = Some rs)"
  have "?P self direct' sibs' rs'"
  proof (rule descendants.raw_induct [of ?P, OF _ ret])
    fix f self direct' sibs' rs'
    assume IH: "\<And>self direct' sibs' rs'. f self direct' sibs' = Some rs' \<Longrightarrow> ?P self direct' sibs' rs'"
      and eq: "(case sibs' of [] \<Rightarrow> Some []
         | s # rest \<Rightarrow> if tx_SourceShard s \<noteq> self then f self direct' rest
             else Option.bind (f self direct' (direct' (tx_Hash s)))
               (\<lambda>part. Option.bind (f self direct' rest) (\<lambda>others. Some (s # part @ others)))) = Some rs'"
    show "?P self direct' sibs' rs'"
    proof (intro allI impI)
      fix sibs
      assume rel: "stand_for_txs h sibs sibs'" and dir: "\<forall>k. stand_for_txs h (direct k) (direct' k)"
      show "\<exists>rs. descendantsAt self direct sibs h = Some rs"
      proof (cases sibs')
        case Nil
        with eq rel show ?thesis by (simp add: descendantsAt.simps)
      next
        case (Cons s' rest')
        then obtain s rest where s: "sibs = s # rest" "stands_for_tx h s s'" "stand_for_txs h rest rest'"
          using rel by (auto simp: list_all2_Cons2)
        note fields = stands_for_tx_fields [OF s(2)]
        show ?thesis
        proof (cases "tx_SourceShard s' = self")
          case False
          with eq Cons have "f self direct' rest' = Some rs'" by simp
          from IH [OF this] s(3) dir False fields show ?thesis
            by (simp add: descendantsAt.simps [of self direct "s # rest"] s(1))
        next
          case True
          with eq Cons obtain part' others' where
            p: "f self direct' (direct' (tx_Hash s')) = Some part'" and
            o: "f self direct' rest' = Some others'"
            by (auto simp: bind_eq_Some_conv)
          obtain part where "descendantsAt self direct (direct (tx_Hash s')) h = Some part"
            using IH [OF p] dir by blast
          moreover obtain others where "descendantsAt self direct rest h = Some others"
            using IH [OF o] dir s(3) by blast
          ultimately show ?thesis using True fields
            by (simp add: descendantsAt.simps [of self direct "s # rest"] s(1))
        qed
      qed
    qed
  qed
  with assms show ?thesis by blast
qed

lemma descendantsAt_related:
  assumes "stand_for_txs h sibs sibs'" "\<And>k. stand_for_txs h (direct k) (direct' k)"
  shows "rel_option (stand_for_txs h) (descendantsAt self direct sibs h) (descendants self direct' sibs')"
  using descendantsAt_returns [of self direct sibs h _ sibs' direct']
    descendants_returnsAt [of self direct' sibs' _ h sibs direct] assms
  by (cases "descendantsAt self direct sibs h"; cases "descendants self direct' sibs'") fastforce+

lemma directResultsAt_related:
  assumes "stand_for_txs h items items'"
  shows "stand_for_txs h (directResultsAt h items k) (directResults items' k)"
proof -
  have "(\<forall>k. stand_for_txs h (m k) (m' k)) \<Longrightarrow>
      \<forall>k. stand_for_txs h
        (fold (\<lambda>item m. m(tx_PreviousTransactionHash (txAt h item) :=
            m (tx_PreviousTransactionHash (txAt h item)) @ [item])) items m k)
        (fold (\<lambda>item m. m(tx_PreviousTransactionHash item :=
            m (tx_PreviousTransactionHash item) @ [item])) items' m' k)" for m m'
    using assms
  proof (induction items items' arbitrary: m m' rule: list_all2_induct)
    case (Cons t items tx items')
    then have "\<forall>k. stand_for_txs h
        ((m(tx_PreviousTransactionHash tx := m (tx_PreviousTransactionHash tx) @ [t])) k)
        ((m'(tx_PreviousTransactionHash tx := m' (tx_PreviousTransactionHash tx) @ [tx])) k)"
      by (auto intro: list_all2_appendI)
    from Cons.IH [OF this] show ?case
      unfolding fold_Cons o_apply stands_for_tx_fields(3) [OF Cons(1)] .
  qed simp
  then show ?thesis by (simp add: directResultsAt_def directResults_def)
qed

lemma rel_option_bind:
  "rel_option A x x' \<Longrightarrow> (\<And>y y'. A y y' \<Longrightarrow> rel_option B (f y) (f' y')) \<Longrightarrow>
     rel_option B (Option.bind x f) (Option.bind x' f')"
  by (cases x; cases x') auto

lemma concat_options_related:
  "list_all2 (rel_option (list_all2 A)) xs ys \<Longrightarrow> rel_option (list_all2 A) (concat_options xs) (concat_options ys)"
  by (induction xs ys rule: list_all2_induct)
    (auto intro!: rel_option_bind list_all2_appendI)

lemma findImmediatelyExecutingContractResultsAt_related:
  assumes "stand_for_txs h txs txs'" "stand_for_txs h items items'"
  shows "rel_option (stand_for_txs h) (findImmediatelyExecutingContractResultsAt h self txs items)
    (findImmediatelyExecutingContractResults self txs' items')"
  unfolding findImmediatelyExecutingContractResultsAt_def findImmediatelyExecutingContractResults_def
    findImmediatelyExecutingContractResultsOfTransaction_def Let_def
proof (rule concat_options_related, unfold list_all2_map1 list_all2_map2, rule list_all2_mono [OF assms(1)])
  fix t tx
  assume "stands_for_tx h t tx"
  then show "rel_option (stand_for_txs h)
      (descendantsAt self (directResultsAt h items) (directResultsAt h items (tx_Hash (txAt h t))) h)
      (descendants self (directResults items') (directResults items' (tx_Hash tx)))"
    unfolding stands_for_tx_fields(1) [OF \<open>stands_for_tx h t tx\<close>]
    by (intro descendantsAt_related directResultsAt_related assms(2))
qed

section \<open>The effective transactions\<close>

abbreviation same_entries :: "heap \<Rightarrow> (string \<times> addr) list \<Rightarrow> txs_by_hash \<Rightarrow> bool" where
  "same_entries h \<equiv> list_all2 (rel_prod (=) (stands_for_tx h))"

lemma putTxAt_related:
  assumes "stands_for_tx h t tx" "same_entries h m m'"
  shows "same_entries h (putTxAt h t m) (put_tx tx m')"
  using assms(2)
  by (induction m m' rule: list_all2_induct)
    (use assms(1) in \<open>auto simp: putTxAt_def put_tx_def stands_for_tx_fields(1) [OF assms(1)]\<close>)

lemma deleteTxAt_related:
  assumes "stands_for_tx h t tx" "same_entries h m m'"
  shows "same_entries h (deleteTxAt h t m) (delete_tx tx m')"
  using assms(2)
  by (induction m m' rule: list_all2_induct)
    (auto simp: deleteTxAt_def delete_tx_def AList.delete_eq stands_for_tx_fields(1) [OF assms(1)])

lemma fold_related:
  assumes "\<And>x y m m'. A x y \<Longrightarrow> B m m' \<Longrightarrow> B (f x m) (g y m')" "list_all2 A xs ys" "B m m'"
  shows "B (fold f xs m) (fold g ys m')"
  using assms(2,3) by (induction xs ys arbitrary: m m' rule: list_all2_induct) (auto intro: assms(1))

lemma fold_put_related:
  "stand_for_txs h ts txs \<Longrightarrow> same_entries h m m' \<Longrightarrow> same_entries h (fold (putTxAt h) ts m) (fold put_tx txs m')"
  by (rule fold_related [where A = "stands_for_tx h" and B = "same_entries h"]) (auto intro: putTxAt_related)

lemma fold_delete_related:
  "stand_for_txs h ts txs \<Longrightarrow> same_entries h m m' \<Longrightarrow> same_entries h (fold (deleteTxAt h) ts m) (fold delete_tx txs m')"
  by (rule fold_related [where A = "stands_for_tx h" and B = "same_entries h"]) (auto intro: deleteTxAt_related)

lemma same_length: "stand_for_txs h ts txs \<Longrightarrow> length ts = length txs"
  by (rule list_all2_lengthD)

lemma effectiveTxsByHashAt_related:
  assumes "stands_for h a1 b1" "stands_for h a b"
    and "stand_for_txs h prev prev'" "stand_for_txs h cur cur'"
  shows "same_entries h (effectiveTxsByHashAt h a1 a prev cur) (effectiveTxsByHash b1 b prev' cur')"
proof -
  note p = gathered_related [OF assms(1)] and c = gathered_related [OF assms(2)]
  note all = fold_put_related [OF c(1), of "[]" "[]", simplified]
  show ?thesis
    unfolding effectiveTxsByHashAt_def effectiveTxsByHash_def Let_def
      same_length [OF p(2)] same_length [OF c(2)]
    by (cases "gatherScheduledTransactions b1 = []"; cases "gatherScheduledTransactions b = []")
      (simp_all add: all fold_put_related assms fold_delete_related p(1))
qed

lemma effectiveTxsByHash_distinct: "distinct (map fst (effectiveTxsByHash b1 b prev cur))"
proof -
  have put: "distinct (map fst m) \<Longrightarrow> distinct (map fst (fold put_tx txs m))" for txs m
    by (induction txs arbitrary: m) (auto simp: put_tx_def distinct_update)
  have del: "distinct (map fst m) \<Longrightarrow> distinct (map fst (fold delete_tx txs m))" for txs m
    by (induction txs arbitrary: m) (auto simp: delete_tx_def distinct_delete)
  show ?thesis by (simp add: effectiveTxsByHash_def Let_def put del)
qed

lemma inOrder_related:
  assumes "same_entries h m m'" "distinct (map fst m')" "\<And>ks. set (order ks) = set ks"
  shows "same_entries h (inOrder order m) (inOrder order m')"
proof -
  have keys: "map fst m = map fst m'"
    using assms(1) by (induction m m' rule: list_all2_induct) (auto simp: rel_prod_sel)
  have look: "rel_option (stands_for_tx h) (map_of m k) (map_of m' k)" for k
    using assms(1) by (induction m m' rule: list_all2_induct) (auto simp: rel_prod_sel)
  have "stands_for_tx h (the (map_of m k)) (the (map_of m' k))" if "k \<in> set (order (map fst m'))" for k
  proof -
    from that assms(3) have "k \<in> fst ` set m'" by simp
    then obtain v where "map_of m' k = Some v" by (metis map_of_eq_None_iff not_Some_eq)
    with look [of k] show ?thesis by (cases "map_of m k") auto
  qed
  then show ?thesis
    by (simp add: inOrder_def keys list_all2_map1 list_all2_map2 list.rel_refl_strong)
qed

text \<open>The order in which a map is visited is a permutation of its keys.\<close>

definition enumerates :: "(txs_by_hash \<Rightarrow> txs_by_hash) \<Rightarrow> (string list \<Rightarrow> string list) \<Rightarrow> bool" where
  "enumerates enum order \<longleftrightarrow>
     (\<forall>ks. set (order ks) = set ks) \<and> (\<forall>m. distinct (map fst m) \<longrightarrow> enum m = inOrder order m)"

lemma gatherEffectiveTransactionsAt_related:
  assumes "stands_for h a1 b1" "stands_for h a b" "stands_for h a2 b2" "enumerates enum order"
  shows "rel_option (stand_for_txs h) (gatherEffectiveTransactionsAt order h self a1 a a2)
    (gatherEffectiveTransactions enum self b1 b b2)"
proof -
  note p = gathered_related [OF assms(1)] and c = gathered_related [OF assms(2)]
    and n = gathered_related [OF assms(3)]
  have effective: "stand_for_txs h (map snd (inOrder order (effectiveTxsByHashAt h a1 a prev cur)))
      (map snd (enum (effectiveTxsByHash b1 b prev' cur')))"
    if "stand_for_txs h prev prev'" "stand_for_txs h cur cur'" for prev prev' cur cur'
  proof -
    have "same_entries h (inOrder order (effectiveTxsByHashAt h a1 a prev cur))
        (enum (effectiveTxsByHash b1 b prev' cur'))"
      using assms(4) effectiveTxsByHashAt_related [OF assms(1,2) that] effectiveTxsByHash_distinct
      by (simp add: enumerates_def inOrder_related)
    then show ?thesis
      by (simp add: list_all2_map1 list_all2_map2) (erule list_all2_mono, auto simp: rel_prod_sel)
  qed
  show ?thesis
    unfolding gatherEffectiveTransactionsAt_def gatherEffectiveTransactions_def Let_def
      same_length [OF p(2)] same_length [OF c(2)]
    by (auto intro!: rel_option_bind findImmediatelyExecutingContractResultsAt_related effective
        intro: p c n)
qed

section \<open>The block is overwritten in place\<close>

lemma same_objects:
  "stands_for_tx (h\<lparr>hp_Blocks := obs\<rparr>) = stands_for_tx h"
  "miniblockAt (h\<lparr>hp_Blocks := obs\<rparr>) = miniblockAt h"
  "stands_for_miniblock (h\<lparr>hp_Blocks := obs\<rparr>) = stands_for_miniblock h"
proof -
  show tx: "stands_for_tx (h\<lparr>hp_Blocks := obs\<rparr>) = stands_for_tx h"
    by (intro ext) (simp add: stands_for_tx_def txAt_def)
  show mb: "miniblockAt (h\<lparr>hp_Blocks := obs\<rparr>) = miniblockAt h"
    by (intro ext) (simp add: miniblockAt_def)
  show "stands_for_miniblock (h\<lparr>hp_Blocks := obs\<rparr>) = stands_for_miniblock h"
    by (intro ext) (simp add: stands_for_miniblock_def tx mb)
qed

lemma write_block_stands_for:
  "stands_for h a b \<Longrightarrow> a \<noteq> x \<Longrightarrow> stands_for (h\<lparr>hp_Blocks := (hp_Blocks h)[x := ob]\<rparr>) a b"
  by (simp add: stands_for_def blockAt_def same_objects Let_def)

text \<open>
  The overwritten copy stands for the simplified block; everything else that stood for a block
  still does.
\<close>

lemma doSimplifyAt_related:
  assumes "stands_for h a1 b1" "stands_for h a b" "stands_for h a2 b2" "enumerates enum order"
  shows "rel_option (\<lambda>h' b'. stands_for h' a b' \<and> (\<forall>x y. x \<noteq> a \<longrightarrow> stands_for h x y \<longrightarrow> stands_for h' x y) \<and>
      length (hp_Blocks h) \<le> length (hp_Blocks h'))
    (doSimplifyBlockWithScheduledTransactionsAt order a1 a a2 h)
    (doSimplifyBlockWithScheduledTransactions enum b1 b b2)"
proof -
  have shard: "ob_Shard (blockAt h a) = bk_Shard b" using assms(2) by (simp add: stands_for_def Let_def)
  show ?thesis
    unfolding doSimplifyBlockWithScheduledTransactionsAt_def doSimplifyBlockWithScheduledTransactions_def shard
  proof (rule rel_option_bind [OF gatherEffectiveTransactionsAt_related [OF assms]])
    fix txs txs'
    assume txs: "stand_for_txs h txs txs'"
    define h1 where "h1 = snd (newMiniBlock (artificialMiniBlockObject txs []) h)"
    define m1 where "m1 = fst (newMiniBlock (artificialMiniBlockObject txs []) h)"
    define r where "r = artificialMiniBlockObject [] (gatherAllReceiptsAt h a)"
    define h2 where "h2 = snd (newMiniBlock r h1)"
    define m2 where "m2 = fst (newMiniBlock r h1)"
    have grow: "grows h h1" "grows h1 h2" "grows h h2"
      unfolding h1_def h2_def by (blast intro: newMiniBlock_grows grows_trans)+
    have "stands_for_miniblock h1 m1 (artificialMiniblock txs' [])"
      using txs grow(1)
      by (auto simp: h1_def m1_def stands_for_miniblock_def newMiniBlock_at artificialMiniBlockObject_def
          artificialMiniblock_def intro: list_all2_mono stands_for_tx_grows)
    then have 1: "stands_for_miniblock h2 m1 (artificialMiniblock txs' [])"
      using grow(2) by (rule stands_for_miniblock_grows)
    have 2: "stands_for_miniblock h2 m2 (artificialMiniblock [] (gatherAllReceipts b))"
      by (simp add: h2_def m2_def r_def stands_for_miniblock_def newMiniBlock_at artificialMiniBlockObject_def
          artificialMiniblock_def gathered_related(3) [OF assms(2)])
    let ?h = "h2\<lparr>hp_Blocks := (hp_Blocks h2)[a := (blockAt h2 a)\<lparr>ob_MiniBlocks := [m1, m2]\<rparr>]\<rparr>"
    have a2: "stands_for h2 a b" using assms(2) grow(3) by (rule stands_for_grows)
    have "stands_for ?h a (b\<lparr>bk_MiniBlocks := [artificialMiniblock txs' [], artificialMiniblock [] (gatherAllReceipts b)]\<rparr>)"
      using a2 1 2 by (simp add: stands_for_def same_objects Let_def blockAt_def)
    moreover have "stands_for ?h x y" if "x \<noteq> a" "stands_for h x y" for x y
      using stands_for_grows [OF that(2) grow(3)] that(1) by (rule write_block_stands_for)
    moreover have "length (hp_Blocks h) \<le> length (hp_Blocks ?h)" using grows_lengths(1) [OF grow(3)] by simp
    ultimately show "rel_option (\<lambda>h' b'. stands_for h' a b' \<and>
          (\<forall>x y. x \<noteq> a \<longrightarrow> stands_for h x y \<longrightarrow> stands_for h' x y) \<and>
          length (hp_Blocks h) \<le> length (hp_Blocks h'))
        (let receipts = gatherAllReceiptsAt h a in
         case newMiniBlock (artificialMiniBlockObject txs []) h of (ofTxs, h1) \<Rightarrow>
         case newMiniBlock (artificialMiniBlockObject [] receipts) h1 of (ofReceipts, h2) \<Rightarrow>
           Some (h2\<lparr>hp_Blocks := (hp_Blocks h2)[a := (blockAt h2 a)\<lparr>ob_MiniBlocks := [ofTxs, ofReceipts]\<rparr>]\<rparr>))
        (let receipts = gatherAllReceipts b
         in Some (b\<lparr>bk_MiniBlocks := [artificialMiniblock txs' [], artificialMiniblock [] receipts]\<rparr>))"
      by (simp add: Let_def split_beta h1_def [symmetric] m1_def [symmetric] r_def [symmetric]
          h2_def [symmetric] m2_def [symmetric])
  qed
qed

section \<open>The provider\<close>

text \<open>
  A cache is parametric in what it holds: \<open>alike R d c\<close> says that the cache \<open>d\<close> of pointers and
  the cache \<open>c\<close> of blocks hold entries related by \<open>R\<close> under the same keys. Look-ups and
  insertions keep that, for every relation: the LRU cache neither inspects nor changes its entries.
\<close>

definition parametric_cache ::
  "'d PointerCache \<Rightarrow> ('c, 'w) Externals \<Rightarrow> ((addr \<Rightarrow> Block \<Rightarrow> bool) \<Rightarrow> 'd \<Rightarrow> 'c \<Rightarrow> bool) \<Rightarrow> bool" where
  "parametric_cache K E alike \<longleftrightarrow>
     (\<forall>R R' d c. alike R d c \<longrightarrow> (\<forall>a b. R a b \<longrightarrow> R' a b) \<longrightarrow> alike R' d c) \<and>
     (\<forall>R d c k. alike R d c \<longrightarrow>
        rel_option R (fst (pc_Get K k d)) (fst (cache_Get E k c)) \<and>
        alike R (snd (pc_Get K k d)) (snd (cache_Get E k c))) \<and>
     (\<forall>R d c k a b. alike R d c \<longrightarrow> R a b \<longrightarrow> alike R (pc_Put K k a d) (cache_Put E k b c))"

lemma alike_mono:
  "parametric_cache K E alike \<Longrightarrow> alike R d c \<Longrightarrow> (\<And>a b. R a b \<Longrightarrow> R' a b) \<Longrightarrow> alike R' d c"
  unfolding parametric_cache_def by blast

lemma alike_get:
  assumes "parametric_cache K E alike" "alike R d c"
  shows "rel_option R (fst (pc_Get K k d)) (fst (cache_Get E k c))"
    "alike R (snd (pc_Get K k d)) (snd (cache_Get E k c))"
  using assms unfolding parametric_cache_def by blast+

lemma alike_put:
  "parametric_cache K E alike \<Longrightarrow> alike R d c \<Longrightarrow> R a b \<Longrightarrow> alike R (pc_Put K k a d) (cache_Put E k b c)"
  unfolding parametric_cache_def by blast

abbreviation storeOf :: "('d \<times> heap) \<times> 'w \<Rightarrow> heap" where
  "storeOf s \<equiv> snd (fst s)"

text \<open>
  The simulation: the world is the same, and the cache holds pointers out of a set \<open>S\<close> of
  addresses that each stand for the block the other cache holds. No one else writes to the
  addresses of \<open>S\<close>.
\<close>

definition simulates ::
  "((addr \<Rightarrow> Block \<Rightarrow> bool) \<Rightarrow> 'd \<Rightarrow> 'c \<Rightarrow> bool) \<Rightarrow> addr set \<Rightarrow> ('d \<times> heap) \<times> 'w \<Rightarrow> 'c \<times> 'w \<Rightarrow> bool" where
  "simulates alike S s s' \<longleftrightarrow>
     snd s = snd s' \<and> (\<forall>a \<in> S. a < length (hp_Blocks (storeOf s))) \<and>
     alike (\<lambda>a b. a \<in> S \<and> stands_for (storeOf s) a b) (fst (fst s)) (fst s')"

definition published_later :: "addr set \<Rightarrow> heap \<Rightarrow> addr set \<Rightarrow> heap \<Rightarrow> bool" where
  "published_later S h S' h' \<longleftrightarrow>
     S \<subseteq> S' \<and> (\<forall>a \<in> S'. a \<in> S \<or> length (hp_Blocks h) \<le> a) \<and> grows h h'"

lemma published_later_refl [simp]: "published_later S h S h"
  by (simp add: published_later_def)

lemma published_later_trans:
  "published_later S1 h1 S2 h2 \<Longrightarrow> published_later S2 h2 S3 h3 \<Longrightarrow> published_later S1 h1 S3 h3"
  unfolding published_later_def using grows_trans grows_lengths(1) by (meson order_trans subset_trans)

lemma simulates_grows:
  assumes "parametric_cache K E alike" "simulates alike S ((d, h), w) s'" "grows h h'"
  shows "simulates alike S ((d, h'), w) s'"
proof -
  have "alike (\<lambda>a b. a \<in> S \<and> stands_for h' a b) d (fst s')"
  proof (rule alike_mono [OF assms(1)])
    show "alike (\<lambda>a b. a \<in> S \<and> stands_for h a b) d (fst s')" using assms(2) by (simp add: simulates_def)
  qed (use assms(3) stands_for_grows in blast)
  with assms grows_lengths(1) show ?thesis by (fastforce simp: simulates_def)
qed

text \<open>How an operation that hands out a private block relates to the operation on values.\<close>

definition hands_out ::
  "((addr \<Rightarrow> Block \<Rightarrow> bool) \<Rightarrow> 'd \<Rightarrow> 'c \<Rightarrow> bool) \<Rightarrow> addr set \<Rightarrow> heap \<Rightarrow>
     (go_error + addr) \<times> (('d \<times> heap) \<times> 'w) \<Rightarrow> (go_error + Block) \<times> ('c \<times> 'w) \<Rightarrow> bool" where
  "hands_out alike S h out out' \<longleftrightarrow>
     (\<exists>S'. simulates alike S' (snd out) (snd out') \<and> published_later S h S' (storeOf (snd out)) \<and>
       rel_sum (=) (\<lambda>a b. stands_for (storeOf (snd out)) a b \<and> length (hp_Blocks h) \<le> a \<and> a \<notin> S')
         (fst out) (fst out'))"

lemma copyOut_hands_out:
  assumes "parametric_cache K E alike" "simulates alike S ((d, h), w) s'" "stands_for h a b"
  shows "hands_out alike S h (copyOut a ((d, h), w)) (Inr (createBlockCopy b), s')"
proof -
  note copy = createBlockCopyAt_spec [OF assms(3)]
  let ?h = "snd (createBlockCopyAt a h)"
  have "fst (createBlockCopyAt a h) \<notin> S" using copy assms(2) by (auto simp: simulates_def)
  with copy simulates_grows [OF assms(1,2), of ?h] show ?thesis
    by (auto simp: hands_out_def copyOut_def withStore_def published_later_def split_beta intro!: exI [of _ S])
qed

lemma hands_out_earlier:
  "published_later S0 h0 S h \<Longrightarrow> hands_out alike S h out out' \<Longrightarrow> hands_out alike S0 h0 out out'"
  unfolding hands_out_def
  by (elim exE conjE, intro exI conjI, assumption, erule (1) published_later_trans)
    (erule sum.rel_mono_strong, simp, use grows_lengths(1) in \<open>fastforce simp: published_later_def\<close>)

lemma doGetBlockByNonceAt_hands_out:
  assumes K: "parametric_cache K E alike" and sim: "simulates alike S s s'"
  shows "hands_out alike S (storeOf s) (doGetBlockByNonceAt K E p n s) (doGetBlockByNonce E p n s')"
proof -
  obtain d h w where s: "s = ((d, h), w)" by (metis prod.collapse)
  obtain c where s': "s' = (c, w)" using sim by (cases s') (simp add: simulates_def s)
  let ?k = "blockNonceToBytes n" and ?R = "\<lambda>a b. a \<in> S \<and> stands_for h a b"
  obtain r1 d1 where get: "pc_Get K ?k d = (r1, d1)" by (cases "pc_Get K ?k d")
  obtain r1' c1 where get': "cache_Get E ?k c = (r1', c1)" by (cases "cache_Get E ?k c")
  have "alike ?R d c" using sim by (simp add: simulates_def s s')
  from alike_get [OF K this, of ?k] have hit: "rel_option ?R r1 r1'" and c1: "alike ?R d1 c1"
    by (simp_all add: get get')
  have sim1: "simulates alike S ((d1, h), w) (c1, w)" for w
    using sim c1 by (simp add: simulates_def s)
  show ?thesis
  proof (cases r1')
    case (Some b)
    with hit obtain a where "r1 = Some a" "stands_for h a b" by (auto simp: option_rel_Some2)
    with copyOut_hands_out [OF K sim1] Some show ?thesis
      by (simp add: doGetBlockByNonceAt_def doGetBlockByNonce_def getBlockByNonceCachedAt_def
          getBlockByNonceCached_def s s' get get')
  next
    case None
    with hit have None': "r1 = None" by simp
    obtain answer w2 where answer:
      "of_GetBlockByNonce E (p_observedActualShard p) n withTransactionsAndLogs w = (answer, w2)"
      by (cases "of_GetBlockByNonce E (p_observedActualShard p) n withTransactionsAndLogs w")
    note unfolded = doGetBlockByNonceAt_def doGetBlockByNonce_def getBlockByNonceCachedAt_def
      getBlockByNonceCached_def ask_def s s' get get' None None' answer
    show ?thesis
    proof (cases "\<exists>response. answer = Inr response \<and> ar_Error response = []")
      case False
      then show ?thesis using sim1
        by (auto simp: unfolded hands_out_def Let_def split: sum.splits intro!: exI [of _ S])
    next
      case True
      then obtain response where response: "answer = Inr response" "ar_Error response = []" by blast
      let ?b = "ar_Data response"
      let ?a = "fst (decodeBlock ?b h)" and ?h = "snd (decodeBlock ?b h)"
      note dec = decodeBlock_spec [of h ?b]
      have "alike (\<lambda>a b. a \<in> insert ?a S \<and> stands_for ?h a b) d1 c1"
        by (rule alike_mono [OF K c1]) (use dec stands_for_grows in blast)
      then have put: "alike (\<lambda>a b. a \<in> insert ?a S \<and> stands_for ?h a b) (pc_Put K ?k ?a d1) (cache_Put E ?k ?b c1)"
        by (rule alike_put [OF K]) (use dec in simp)
      have "?a < length (hp_Blocks ?h)" using dec by (simp add: stands_for_def)
      with put sim grows_lengths(1) [of h ?h] dec
      have sim2: "simulates alike (insert ?a S) ((pc_Put K ?k ?a d1, ?h), w2) (cache_Put E ?k ?b c1, w2)"
        by (fastforce simp: simulates_def s)
      have later: "published_later S h (insert ?a S) ?h" using dec by (auto simp: published_later_def)
      from hands_out_earlier [OF later copyOut_hands_out [OF K sim2]] dec response show ?thesis
        by (simp add: unfolded Let_def withStore_def cacheBlockByNonceAt_def cacheBlockByNonce_def split_beta)
    qed
  qed
qed

text \<open>How a block that a method returns relates to the value.\<close>

definition returns_alike ::
  "((addr \<Rightarrow> Block \<Rightarrow> bool) \<Rightarrow> 'd \<Rightarrow> 'c \<Rightarrow> bool) \<Rightarrow> (go_error + addr) \<times> (('d \<times> heap) \<times> 'w) \<Rightarrow>
     (go_error + Block) \<times> ('c \<times> 'w) \<Rightarrow> bool" where
  "returns_alike alike out out' \<longleftrightarrow>
     (\<exists>S. simulates alike S (snd out) (snd out')) \<and> rel_sum (=) (stands_for (storeOf (snd out))) (fst out) (fst out')"

lemma returns_alike_Inl: "simulates alike S s s' \<Longrightarrow> returns_alike alike (Inl e, s) (Inl e, s')"
  by (auto simp: returns_alike_def)

lemma bind_hands_out:
  assumes out: "hands_out alike S h (m s) (m' s')"
    and cont: "\<And>a b s1 s1' S1. simulates alike S1 s1 s1' \<Longrightarrow> published_later S h S1 (storeOf s1) \<Longrightarrow>
        stands_for (storeOf s1) a b \<Longrightarrow> a \<notin> S1 \<Longrightarrow> returns_alike alike (f a s1) (f' b s1')"
  shows "returns_alike alike (bind_step m f s) (bind_step m' f' s')"
proof -
  obtain r t where m: "m s = (r, t)" by (cases "m s")
  obtain r' t' where m': "m' s' = (r', t')" by (cases "m' s'")
  from out [unfolded m m'] obtain S1 where S1: "simulates alike S1 t t'" "published_later S h S1 (storeOf t)"
    and r: "rel_sum (=) (\<lambda>a b. stands_for (storeOf t) a b \<and> length (hp_Blocks h) \<le> a \<and> a \<notin> S1) r r'"
    by (auto simp: hands_out_def)
  from r show ?thesis
    by (cases rule: rel_sum.cases) (use S1 m m' cont in \<open>auto simp: bind_step_def intro: returns_alike_Inl\<close>)
qed

lemma simplifyAt_returns_alike:
  assumes K: "parametric_cache K E alike" and enum: "enumerates (ext_enum E) order"
    and sim: "simulates alike S s s'" and a: "stands_for (storeOf s) a b" "a \<notin> S"
  shows "returns_alike alike (simplifyBlockWithScheduledTransactionsAt K order E p a s)
    (simplifyBlockWithScheduledTransactions E p b s')"
proof -
  have nonce: "ob_Nonce (blockAt (storeOf s) a) = bk_Nonce b" using a(1) by (simp add: stands_for_def Let_def)
  have a_len: "a < length (hp_Blocks (storeOf s))" using a(1) by (simp add: stands_for_def)
  show ?thesis
    unfolding simplifyBlockWithScheduledTransactionsAt_def simplifyBlockWithScheduledTransactions_def nonce
  proof (rule bind_hands_out, rule doGetBlockByNonceAt_hands_out [OF K sim], goal_cases)
    case (1 a1 b1 s1 s1' S1)
    have a1: "stands_for (storeOf s1) a b" using a(1) 1(2) by (auto simp: published_later_def intro: stands_for_grows)
    then have nonce1: "ob_Nonce (blockAt (storeOf s1) a) = bk_Nonce b" by (simp add: stands_for_def Let_def)
    have out1: "a \<notin> S1" using a(2) a_len 1(2) by (auto simp: published_later_def)
    have len1: "a < length (hp_Blocks (storeOf s1))" using a1 by (simp add: stands_for_def)
    show ?case
      unfolding nonce1
    proof (rule bind_hands_out, rule doGetBlockByNonceAt_hands_out [OF K 1(1)], goal_cases)
      case (1 a2 b2 s2 s2' S2)
      have grow: "grows (storeOf s1) (storeOf s2)" using 1(2) by (simp add: published_later_def)
      have out2: "a \<notin> S2" using out1 len1 1(2) by (auto simp: published_later_def)
      have "rel_option (\<lambda>h' b'. stands_for h' a b' \<and>
            (\<forall>x y. x \<noteq> a \<longrightarrow> stands_for (storeOf s2) x y \<longrightarrow> stands_for h' x y) \<and>
            length (hp_Blocks (storeOf s2)) \<le> length (hp_Blocks h'))
          (doSimplifyBlockWithScheduledTransactionsAt order a1 a a2 (storeOf s2))
          (doSimplifyBlockWithScheduledTransactions (ext_enum E) b1 b b2)"
        using \<open>stands_for (storeOf s1) a1 b1\<close> a1 grow 1(3) enum
        by (intro doSimplifyAt_related) (auto intro: stands_for_grows)
      then show ?case
      proof (cases rule: option.rel_cases)
        case None
        then show ?thesis using 1(1) by (auto intro: returns_alike_Inl)
      next
        case (Some h' b')
        from Some(3) have keep: "stands_for h' x y" if "x \<noteq> a" "stands_for (storeOf s2) x y" for x y
          using that by blast
        have "alike (\<lambda>x y. x \<in> S2 \<and> stands_for h' x y) (fst (fst s2)) (fst s2')"
        proof (rule alike_mono [OF K])
          show "alike (\<lambda>x y. x \<in> S2 \<and> stands_for (storeOf s2) x y) (fst (fst s2)) (fst s2')"
            using 1(1) by (simp add: simulates_def)
        qed (use keep out2 in metis)
        then have "simulates alike S2 ((fst (fst s2), h'), snd s2) s2'"
          using 1(1) Some(3) by (auto simp: simulates_def)
        with Some show ?thesis by (auto simp: returns_alike_def)
      qed
    qed
  qed
qed

lemma getLatestBlockNonce_observed:
  assumes "snd s = w"
  shows "fst (getLatestBlockNonce E p s) = fst (getLatestBlockNonce E p (c, w))"
    "snd (snd (getLatestBlockNonce E p s)) = snd (snd (getLatestBlockNonce E p (c, w)))"
    "fst (snd (getLatestBlockNonce E p s)) = fst s"
  using assms
  by (auto simp: getLatestBlockNonce_def getPlainNodeStatus_def getResource_def getResourceWithErrConversion_def
      bind_step_def ask_def split: prod.splits sum.splits)

lemma GetBlockByNonceAt_returns_alike:
  assumes K: "parametric_cache K E alike" and enum: "enumerates (ext_enum E) order"
    and sim: "simulates alike S s s'"
  shows "returns_alike alike (GetBlockByNonceAt K order E c p n s) (GetBlockByNonce E p n s')"
proof (cases "p_isOffline p")
  case True
  with sim show ?thesis by (auto simp: GetBlockByNonceAt_def GetBlockByNonce_def intro: returns_alike_Inl)
next
  case False
  obtain r t where m: "getLatestBlockNonce E p s' = (r, t)" by (cases "getLatestBlockNonce E p s'")
  have "snd s = snd s'" using sim by (simp add: simulates_def)
  with getLatestBlockNonce_observed(1,2) [of s' "snd s'" E p c] getLatestBlockNonce_observed(3) [of s' "snd s'" E p] m
  have m': "observing (getLatestBlockNonce E p) c s = (r, (fst s, snd t))" and t: "fst t = fst s'"
    by (auto simp: observing_def split: prod.splits)
  have sim1: "simulates alike S (fst s, snd t) t" using sim t by (simp add: simulates_def)
  show ?thesis
  proof (cases r)
    case (Inl e)
    with False m m' sim1 show ?thesis
      by (auto simp: GetBlockByNonceAt_def GetBlockByNonce_def bind_step_def intro: returns_alike_Inl)
  next
    case (Inr latestNonce)
    show ?thesis
    proof (cases "n > latestNonce")
      case True
      with False m m' sim1 Inr show ?thesis
        by (auto simp: GetBlockByNonceAt_def GetBlockByNonce_def bind_step_def intro: returns_alike_Inl)
    next
      case le: False
      have "returns_alike alike
          (bind_step (doGetBlockByNonceAt K E p n) (simplifyBlockWithScheduledTransactionsAt K order E p) (fst s, snd t))
          (bind_step (doGetBlockByNonce E p n) (simplifyBlockWithScheduledTransactions E p) t)"
        by (rule bind_hands_out, rule doGetBlockByNonceAt_hands_out [OF K sim1])
          (rule simplifyAt_returns_alike [OF K enum])
      with False le Inr m m' show ?thesis
        unfolding GetBlockByNonceAt_def GetBlockByNonce_def by (simp add: bind_step_def)
    qed
  qed
qed

lemma doGetBlockByHashAt_hands_out:
  assumes K: "parametric_cache K E alike" and sim: "simulates alike S s s'"
  shows "hands_out alike S (storeOf s) (doGetBlockByHashAt E p hash s) (doGetBlockByHash E p hash s')"
proof -
  obtain d h w where s: "s = ((d, h), w)" by (metis prod.collapse)
  obtain c where s': "s' = (c, w)" using sim by (cases s') (simp add: simulates_def s)
  obtain answer w2 where answer:
    "of_GetBlockByHash E (p_observedActualShard p) hash withTransactionsAndLogs w = (answer, w2)"
    by (cases "of_GetBlockByHash E (p_observedActualShard p) hash withTransactionsAndLogs w")
  have sim2: "simulates alike S ((d, h), w2) (c, w2)" using sim by (simp add: simulates_def s s')
  note unfolded = doGetBlockByHashAt_def doGetBlockByHash_def ask_def s s' answer
  show ?thesis
  proof (cases "\<exists>response. answer = Inr response \<and> ar_Error response = []")
    case False
    then show ?thesis using sim2
      by (auto simp: unfolded hands_out_def Let_def split: sum.splits intro!: exI [of _ S])
  next
    case True
    then obtain response where response: "answer = Inr response" "ar_Error response = []" by blast
    note dec = decodeBlock_spec [of h "ar_Data response"]
    have "fst (decodeBlock (ar_Data response) h) \<notin> S" using dec sim by (auto simp: simulates_def s)
    moreover have "simulates alike S ((d, snd (decodeBlock (ar_Data response) h)), w2) (c, w2)"
      using simulates_grows [OF K sim2] dec by blast
    ultimately show ?thesis using response dec
      by (auto simp: unfolded hands_out_def withStore_def published_later_def split_beta intro!: exI [of _ S])
  qed
qed

lemma GetBlockByHashAt_returns_alike:
  assumes K: "parametric_cache K E alike" and enum: "enumerates (ext_enum E) order"
    and sim: "simulates alike S s s'"
  shows "returns_alike alike (GetBlockByHashAt K order E p hash s) (GetBlockByHash E p hash s')"
proof (cases "p_isOffline p")
  case True
  with sim show ?thesis by (auto simp: GetBlockByHashAt_def GetBlockByHash_def intro: returns_alike_Inl)
next
  case False
  have "returns_alike alike
      (bind_step (doGetBlockByHashAt E p hash) (simplifyBlockWithScheduledTransactionsAt K order E p) s)
      (bind_step (doGetBlockByHash E p hash) (simplifyBlockWithScheduledTransactions E p) s')"
    by (rule bind_hands_out, rule doGetBlockByHashAt_hands_out [OF K sim])
      (rule simplifyAt_returns_alike [OF K enum])
  with False show ?thesis by (simp add: GetBlockByHashAt_def GetBlockByHash_def)
qed

section \<open>The block service\<close>

lemma writeBlockNonce_at:
  "t < length (hp_Txs h) \<Longrightarrow> t' < length (hp_Txs h) \<Longrightarrow>
     txAt (writeBlockNonce n t h) t' = (if t' = t then (txAt h t)\<lparr>tx_BlockNonce := n\<rparr> else txAt h t')"
  by (simp add: writeBlockNonce_def txAt_def)

lemma writeBlockNonce_length: "length (hp_Txs (writeBlockNonce n t h)) = length (hp_Txs h)"
  by (simp add: writeBlockNonce_def)

lemma writes_at:
  "\<forall>t \<in> set ts. t < length (hp_Txs h) \<Longrightarrow> t' < length (hp_Txs h) \<Longrightarrow>
     txAt (fold (writeBlockNonce n) ts h) t' =
       (if t' \<in> set ts then (txAt h t')\<lparr>tx_BlockNonce := n\<rparr> else txAt h t')"
  by (induction ts arbitrary: h) (auto simp: writeBlockNonce_at writeBlockNonce_length)

lemma writes_elsewhere:
  "hp_Blocks (fold (writeBlockNonce n) ts h) = hp_Blocks h"
  "hp_MiniBlocks (fold (writeBlockNonce n) ts h) = hp_MiniBlocks h"
  "length (hp_Txs (fold (writeBlockNonce n) ts h)) = length (hp_Txs h)"
  by (induction ts arbitrary: h) (simp_all add: writeBlockNonce_def)

lemma writes_grow:
  "\<forall>t \<in> set ts. t < length (hp_Txs h) \<Longrightarrow> grows h (fold (writeBlockNonce n) ts h)"
  by (simp add: grows_def writes_elsewhere writes_at)

lemma txsOfBlock_gathered:
  "txsOfBlock b = map (\<lambda>tx. tx\<lparr>tx_BlockNonce := bk_Nonce b\<rparr>) (gatherAllTransactions b)"
  by (simp add: txsOfBlock_def gatherAllTransactions_def map_concat o_def)

lemma convertAt_alike:
  assumes "stands_for h a b"
  shows "fst (convertToRosettaBlockAt L P a h) = convertToRosettaBlock L P b \<and>
    grows h (snd (convertToRosettaBlockAt L P a h))"
proof -
  let ?ts = "gatherAllTransactionsAt h a" and ?n = "bk_Nonce b"
  let ?h = "fold (writeBlockNonce ?n) ?ts h"
  have fields: "ob_Nonce (blockAt h a) = bk_Nonce b" "ob_Round (blockAt h a) = bk_Round b"
    "ob_Epoch (blockAt h a) = bk_Epoch b" "ob_Shard (blockAt h a) = bk_Shard b"
    "ob_Hash (blockAt h a) = bk_Hash b" "ob_PrevBlockHash (blockAt h a) = bk_PrevBlockHash b"
    "ob_Status (blockAt h a) = bk_Status b" "ob_Timestamp (blockAt h a) = bk_Timestamp b"
    using assms by (simp_all add: stands_for_def Let_def)
  note g = gathered_related [OF assms]
  have valid: "\<forall>t \<in> set ?ts. t < length (hp_Txs h)"
    using g(1) unfolding list_all2_conv_all_nth stands_for_tx_def by (metis in_set_conv_nth)
  have "map (txAt ?h) ?ts = map (\<lambda>tx. tx\<lparr>tx_BlockNonce := ?n\<rparr>) (gatherAllTransactions b)"
  proof -
    have "txAt ?h t = tx\<lparr>tx_BlockNonce := ?n\<rparr>" if "t \<in> set ?ts" "stands_for_tx h t tx" for t tx
      using writes_at [OF valid] that by (auto simp: stands_for_tx_def up_to_nonce_def)
    then show ?thesis
      using g(1) by (auto simp: list_all2_conv_all_nth intro: nth_equalityI)
  qed
  then have "fst (transformBlockTxsAt L P a h) = transformBlockTxs L P b"
    by (simp add: transformBlockTxsAt_def transformBlockTxs_def fields txsOfBlock_gathered
        receiptsOfBlock_def g(3) gatherAllReceipts_def Let_def)
  moreover have "snd (transformBlockTxsAt L P a h) = ?h" by (simp add: transformBlockTxsAt_def fields Let_def)
  ultimately show ?thesis using writes_grow [OF valid, of ?n]
    by (simp add: convertToRosettaBlockAt_def convertToRosettaBlock_def fields blockToIdentifier_def
        Let_def split_beta)
qed

text \<open>A request on the store and on values: the same answer, and the simulation goes on.\<close>

definition answers_alike ::
  "((addr \<Rightarrow> Block \<Rightarrow> bool) \<Rightarrow> 'd \<Rightarrow> 'c \<Rightarrow> bool) \<Rightarrow> 'r \<times> (('d \<times> heap) \<times> 'w) \<Rightarrow> 'r \<times> ('c \<times> 'w) \<Rightarrow> bool" where
  "answers_alike alike out out' \<longleftrightarrow> fst out = fst out' \<and> (\<exists>S. simulates alike S (snd out) (snd out'))"

lemma convertFetchedAt_alike:
  assumes K: "parametric_cache K E alike" and out: "returns_alike alike out out'"
  shows "answers_alike alike (convertFetchedAt L P out) (convertFetched L P out')"
proof -
  obtain r d h w where o1: "out = (r, ((d, h), w))" by (metis prod.collapse)
  obtain r' s' where o2: "out' = (r', s')" by (cases out')
  from out obtain S where S: "simulates alike S ((d, h), w) s'" and r: "rel_sum (=) (stands_for h) r r'"
    by (auto simp: returns_alike_def o1 o2)
  show ?thesis
  proof (cases r')
    case (Inl e)
    with r have "r = Inl e" by (auto elim: rel_sum.cases)
    with S Inl show ?thesis
      by (auto simp: answers_alike_def convertFetchedAt_def convertFetched_def o1 o2 orFail_def)
  next
    case (Inr b)
    with r obtain a where "r = Inr a" "stands_for h a b" by (auto elim: rel_sum.cases)
    with Inr convertAt_alike [of h a b L P] simulates_grows [OF K S]
    show ?thesis
      by (auto simp: answers_alike_def convertFetchedAt_def convertFetched_def o1 o2 withStore_def
          orFail_def split_beta)
  qed
qed

lemma getBlockAt_alike:
  assumes K: "parametric_cache K E alike" and enum: "enumerates (ext_enum E) order"
    and sim: "simulates alike S s s'"
  shows "answers_alike alike (getBlockAt K order L E c p query s)
    (getBlock L (asNetworkProvider E p) query s')"
proof (cases query)
  case (ByNonce n)
  then show ?thesis
    using convertFetchedAt_alike [OF K GetBlockByNonceAt_returns_alike [OF K enum sim]]
    by (simp add: getBlockAt_def getBlock_def getBlockByNonce_def asNetworkProvider_def)
next
  case (ByHash hash)
  then show ?thesis
    using convertFetchedAt_alike [OF K GetBlockByHashAt_returns_alike [OF K enum sim]]
    by (simp add: getBlockAt_def getBlock_def getBlockByHash_def asNetworkProvider_def)
qed

lemma inSequence_alike:
  assumes K: "parametric_cache K E alike" and enum: "enumerates (ext_enum E) order"
    and sim: "simulates alike S s s'"
  shows "answers_alike alike (inSequence (getBlockAt K order L E c p) queries s)
    (inSequence (getBlock L (asNetworkProvider E p)) queries s')"
  using sim
proof (induction queries arbitrary: S s s')
  case Nil
  then show ?case by (auto simp: answers_alike_def)
next
  case (Cons query queries)
  obtain r t where 1: "getBlockAt K order L E c p query s = (r, t)" by (cases "getBlockAt K order L E c p query s")
  obtain r' t' where 2: "getBlock L (asNetworkProvider E p) query s' = (r', t')"
    by (cases "getBlock L (asNetworkProvider E p) query s'")
  from getBlockAt_alike [OF K enum Cons.prems, of L c p query] 1 2
  obtain S1 where "r = r'" "simulates alike S1 t t'" by (auto simp: answers_alike_def)
  with Cons.IH [OF this(2)] 1 2 show ?case by (auto simp: answers_alike_def split_beta)
qed

section \<open>What the cache points to\<close>

lemma empty_caches_simulate:
  "parametric_cache K E alike \<Longrightarrow> alike (\<lambda>a b. False) d c \<Longrightarrow> simulates alike {} ((d, h), w) (c, w)"
  by (auto simp: simulates_def elim: alike_mono)

lemma getBlock_coherent:
  assumes "lawful_cache E contents" "serves_chain E p chain" "coherent contents chain (fst s)"
  shows "coherent contents chain (fst (snd (getBlock L (asNetworkProvider E p) query s)))"
  using GetBlockByNonce_coherent [OF assms, of "uint64_of_int64 _", OF prod.collapse [symmetric]]
    GetBlockByHash_coherent [OF assms, OF prod.collapse [symmetric]]
  by (cases query)
    (simp_all add: getBlock_def getBlockByNonce_def getBlockByHash_def convertFetched_def asNetworkProvider_def)

lemma inSequence_coherent:
  assumes "lawful_cache E contents" "serves_chain E p chain" "coherent contents chain (fst s)"
  shows "coherent contents chain (fst (snd (inSequence (getBlock L (asNetworkProvider E p)) queries s)))"
  using assms(3)
proof (induction queries arbitrary: s)
  case (Cons query queries)
  from Cons.IH [OF getBlock_coherent [OF assms(1,2) Cons.prems, of L query]]
  show ?case by (simp add: split_beta)
qed simp

lemma cached_object_stands_for:
  assumes K: "parametric_cache K E alike" and law: "lawful_cache E contents"
    and sim: "simulates alike S ((d, h), w) s'" and coh: "coherent contents chain (fst s')"
    and hit: "fst (pc_Get K (blockNonceToBytes n) d) = Some a"
  shows "stands_for h a (chain n)"
proof -
  have "alike (\<lambda>a b. a \<in> S \<and> stands_for h a b) d (fst s')" using sim by (simp add: simulates_def)
  from alike_get(1) [OF K this, of "blockNonceToBytes n"] hit obtain b where
    b: "fst (cache_Get E (blockNonceToBytes n) (fst s')) = Some b" "stands_for h a b"
    by (auto simp: option_rel_Some1)
  have "contents (fst s') (blockNonceToBytes n) = Some b"
    using lawful_get [OF law prod.collapse [symmetric], of "blockNonceToBytes n" "fst s'"] b(1) by auto
  with coh b(2) show ?thesis by (auto simp: coherent_def)
qed

end
