(* ===== verification/NonceReads.thy ===== *)
theory NonceReads
  imports BlockStoreFacts
begin

text \<open>
  The block nonce that \<open>transformBlockTxs\<close> writes into shared transactions is read by nothing that
  makes up an answer (the source only logs it). So a write by another request, between the write
  of a request and its reads, changes no answer: the data race on the field is benign.
\<close>

named_theorems unread \<open>functions of a transaction that do not read its block nonce\<close>

lemma events_unread [unread]:
  "hasEvents (tx\<lparr>tx_BlockNonce := n\<rparr>) = hasEvents tx"
  "logEvents (tx\<lparr>tx_BlockNonce := n\<rparr>) = logEvents tx"
  by (simp_all add: hasEvents_def logEvents_def)

lemma signals_unread [unread]:
  "hasAnySignalError (tx\<lparr>tx_BlockNonce := n\<rparr>) = hasAnySignalError tx"
  "hasSignalErrorOfSendingValueToNonPayableContract (tx\<lparr>tx_BlockNonce := n\<rparr>) =
     hasSignalErrorOfSendingValueToNonPayableContract tx"
  "hasSignalErrorOfMetaTransactionIsInvalid (tx\<lparr>tx_BlockNonce := n\<rparr>) = hasSignalErrorOfMetaTransactionIsInvalid tx"
  "findManyEventsByIdentifier (tx\<lparr>tx_BlockNonce := n\<rparr>) ident = findManyEventsByIdentifier tx ident"
  by (simp_all add: hasAnySignalError_def hasSignalErrorOfSendingValueToNonPayableContract_def
      hasSignalErrorOfMetaTransactionIsInvalid_def findManyEventsByIdentifier_def unread)

lemma extractors_unread [unread]:
  "extractEventSCDeploy P (tx\<lparr>tx_BlockNonce := n\<rparr>) = extractEventSCDeploy P tx"
  "extractEventTransferValueOnly P (tx\<lparr>tx_BlockNonce := n\<rparr>) = extractEventTransferValueOnly P tx"
  "extractEventsESDTOrESDTNFTTransfers P (tx\<lparr>tx_BlockNonce := n\<rparr>) = extractEventsESDTOrESDTNFTTransfers P tx"
  "extractEventsESDTLocalBurn (tx\<lparr>tx_BlockNonce := n\<rparr>) = extractEventsESDTLocalBurn tx"
  "extractEventsESDTLocalMint (tx\<lparr>tx_BlockNonce := n\<rparr>) = extractEventsESDTLocalMint tx"
  "extractEventsESDTWipe P (tx\<lparr>tx_BlockNonce := n\<rparr>) = extractEventsESDTWipe P tx"
  "extractEventsESDTNFTCreate (tx\<lparr>tx_BlockNonce := n\<rparr>) = extractEventsESDTNFTCreate tx"
  "extractEventsESDTNFTBurn (tx\<lparr>tx_BlockNonce := n\<rparr>) = extractEventsESDTNFTBurn tx"
  "extractEventsESDTNFTAddQuantity (tx\<lparr>tx_BlockNonce := n\<rparr>) = extractEventsESDTNFTAddQuantity tx"
  "extractEventsClaimDeveloperRewards P (tx\<lparr>tx_BlockNonce := n\<rparr>) = extractEventsClaimDeveloperRewards P tx"
  by (simp_all add: extractEventSCDeploy_def extractEventTransferValueOnly_def
      extractEventsESDTOrESDTNFTTransfers_def extractor_defs extractEventsClaimDeveloperRewards_def unread)

lemma features_unread [unread]:
  "isRelayedV1Transaction (tx\<lparr>tx_BlockNonce := n\<rparr>) = isRelayedV1Transaction tx"
  "parseInnerTxOfRelayedV1 L (tx\<lparr>tx_BlockNonce := n\<rparr>) = parseInnerTxOfRelayedV1 L tx"
  "IsRelayedTxV3 (tx\<lparr>tx_BlockNonce := n\<rparr>) = IsRelayedTxV3 tx"
  "isInvalidTransactionOfTypeMoveBalanceThatOnlyConsumesDataMovementGas (tx\<lparr>tx_BlockNonce := n\<rparr>) =
     isInvalidTransactionOfTypeMoveBalanceThatOnlyConsumesDataMovementGas tx"
  "isRelayedV1TransactionCompletelyIntrashardWithSignalError P (tx\<lparr>tx_BlockNonce := n\<rparr>) innerTx =
     isRelayedV1TransactionCompletelyIntrashardWithSignalError P tx innerTx"
  "isContractDeploymentWithSignalErrorOrIntrashardContractCallWithSignalError (tx\<lparr>tx_BlockNonce := n\<rparr>) =
     isContractDeploymentWithSignalErrorOrIntrashardContractCallWithSignalError tx"
  "isSmartContractResultIneffectiveRefund L P (tx\<lparr>tx_BlockNonce := n\<rparr>) = isSmartContractResultIneffectiveRefund L P tx"
  "extractTransactionMetadata (tx\<lparr>tx_BlockNonce := n\<rparr>) = extractTransactionMetadata tx"
  by (simp_all add: isRelayedV1Transaction_def parseInnerTxOfRelayedV1_def IsRelayedTxV3_def
      isInvalidTransactionOfTypeMoveBalanceThatOnlyConsumesDataMovementGas_def
      isRelayedV1TransactionCompletelyIntrashardWithSignalError_def
      isContractDeploymentWithSignalErrorOrIntrashardContractCallWithSignalError_def
      isContractDeploymentWithSignalError_def isContractCallWithSignalError_def isIntrashard_def
      isSmartContractResultIneffectiveRefund_def extractTransactionMetadata_def unread
      cong: if_cong)

text \<open>Lists of transactions, of which the transactions may have any block nonce.\<close>

abbreviation same_txs :: "ApiTransactionResult list \<Rightarrow> ApiTransactionResult list \<Rightarrow> bool" where
  "same_txs \<equiv> list_all2 up_to_nonce"

lemma up_to_nonceE:
  assumes "up_to_nonce tx' tx"
  obtains n where "tx' = tx\<lparr>tx_BlockNonce := n\<rparr>"
  using assms by (auto simp: up_to_nonce_def)

lemma hashes_unread: "same_txs txs' txs \<Longrightarrow> hashesOfInvalidTxs txs' = hashesOfInvalidTxs txs"
  unfolding hashesOfInvalidTxs_def
  by (induction txs' txs rule: list_all2_induct) (auto elim!: up_to_nonceE)

lemma filter_unread:
  "same_txs txs' txs \<Longrightarrow> (\<And>tx n. keep (tx\<lparr>tx_BlockNonce := n\<rparr>) = keep tx) \<Longrightarrow>
     same_txs (filter keep txs') (filter keep txs)"
  by (induction txs' txs rule: list_all2_induct) (auto elim!: up_to_nonceE)

lemma filters_unread: "same_txs txs' txs \<Longrightarrow> same_txs (filterTxsOfBlock txs') (filterTxsOfBlock txs)"
  unfolding filterTxsOfBlock_def filterOutIntrashardRelayedTransactionAlreadyHeldInInvalidMiniblock_def
    filterOutIntrashardContractResultsWhoseOriginalTransactionIsInInvalidMiniblock_def Let_def
  by (simp add: hashes_unread filter_unread unread
      hashes_unread [OF filter_unread [of _ _ "\<lambda>tx. tx_Type tx = TxTypeUnsigned \<longrightarrow>
        tx_OriginalTransactionHash tx \<notin> hashesOfInvalidTxs txs"]])

lemma rewards_unread:
  assumes "same_txs txs' txs"
  shows "doesContractResultHoldRewardsOfClaimDeveloperRewards (scr\<lparr>tx_BlockNonce := n\<rparr>) txs' =
    doesContractResultHoldRewardsOfClaimDeveloperRewards scr txs"
  using assms unfolding doesContractResultHoldRewardsOfClaimDeveloperRewards_def Let_def
  by (induction txs' txs rule: list_all2_induct) (auto elim!: up_to_nonceE)

lemma fee_unread [unread]:
  "np_ComputeTransactionFeeForMoveBalance (asNetworkProvider E p) (tx\<lparr>tx_BlockNonce := n\<rparr>) =
     np_ComputeTransactionFeeForMoveBalance (asNetworkProvider E p) tx"
  by (simp add: asNetworkProvider_def ComputeTransactionFeeForMoveBalance_def gasLimitForMoveBalance_def
      unread cong: if_cong)

lemma added_operations_unread [unread]:
  "addOperationsGivenTransactionEvents P (tx\<lparr>tx_BlockNonce := n\<rparr>) rtx = addOperationsGivenTransactionEvents P tx rtx"
proof -
  have "operationsOfSCDeploy P (tx\<lparr>tx_BlockNonce := n\<rparr>) = operationsOfSCDeploy P tx"
    by (rule ext) (simp add: operationsOfSCDeploy_def)
  then show ?thesis by (simp add: addOperationsGivenTransactionEvents_def unread)
qed

lemma tx_unread:
  assumes "same_txs txs' txs"
  shows "txToRosettaTx L (asNetworkProvider E p) (tx\<lparr>tx_BlockNonce := n\<rparr>) txs' =
    txToRosettaTx L (asNetworkProvider E p) tx txs"
proof -
  let ?P = "asNetworkProvider E p"
  have "decideFeePayer (tx\<lparr>tx_BlockNonce := n\<rparr>) = decideFeePayer tx" by (simp add: decideFeePayer_def unread)
  note payer = this
  have "extractInnerTxOperationsIfBeforeSiriusRelayedCompletelyIntrashardWithSignalError L ?P (tx\<lparr>tx_BlockNonce := n\<rparr>) =
      extractInnerTxOperationsIfBeforeSiriusRelayedCompletelyIntrashardWithSignalError L ?P tx"
    by (simp add: extractInnerTxOperationsIfBeforeSiriusRelayedCompletelyIntrashardWithSignalError_def unread
        cong: if_cong)
  note inner = this
  have "normalTxToRosetta L ?P (tx\<lparr>tx_BlockNonce := n\<rparr>) = normalTxToRosetta L ?P tx"
    by (simp add: normalTxToRosetta_def payer inner unread cong: if_cong)
  moreover have "unsignedTxToRosettaTx L ?P (tx\<lparr>tx_BlockNonce := n\<rparr>) txs' = unsignedTxToRosettaTx L ?P tx txs"
    by (simp add: unsignedTxToRosettaTx_def rewards_unread [OF assms] unread cong: if_cong)
  moreover have "rewardTxToRosettaTx ?P (tx\<lparr>tx_BlockNonce := n\<rparr>) = rewardTxToRosettaTx ?P tx"
    by (simp add: rewardTxToRosettaTx_def)
  moreover have "invalidTxToRosettaTx ?P (tx\<lparr>tx_BlockNonce := n\<rparr>) = invalidTxToRosettaTx ?P tx"
    by (simp add: invalidTxToRosettaTx_def payer unread Let_def cong: if_cong)
  ultimately show ?thesis by (simp add: txToRosettaTx_def unread cong: if_cong)
qed

lemma transformed_unread:
  assumes "same_txs txs' txs"
  shows "transformGathered L (asNetworkProvider E p) txs' receipts =
    transformGathered L (asNetworkProvider E p) txs receipts"
proof -
  note filtered = filters_unread [OF assms]
  have "same_txs ys' ys \<Longrightarrow>
      traverse (\<lambda>tx. txToRosettaTx L (asNetworkProvider E p) tx (filterTxsOfBlock txs')) ys' =
      traverse (\<lambda>tx. txToRosettaTx L (asNetworkProvider E p) tx (filterTxsOfBlock txs)) ys" for ys' ys
    by (induction ys' ys rule: list_all2_induct) (auto elim!: up_to_nonceE simp: tx_unread [OF filtered])
  from this [OF filtered] show ?thesis by (simp add: transformGathered_def Let_def)
qed

text \<open>
  Between its own writes and its reads, the objects may have grown by what other requests do.
\<close>

lemma transformed_in_grown_store:
  assumes "stands_for h a b" "grows h h'"
  shows "transformGathered L (asNetworkProvider E p) (map (txAt h') (gatherAllTransactionsAt h a))
      (gatherAllReceiptsAt h a) = transformBlockTxs L (asNetworkProvider E p) b"
proof -
  note g = gathered_related [OF assms(1)]
  have "same_txs (map (txAt h') (gatherAllTransactionsAt h a)) (gatherAllTransactions b)"
    unfolding list_all2_map1
    using g(1) by (rule list_all2_mono) (use stands_for_tx_grows [OF _ assms(2)] in \<open>auto simp: stands_for_tx_def\<close>)
  moreover have "same_txs (txsOfBlock b) (gatherAllTransactions b)"
    by (simp add: txsOfBlock_gathered list_all2_map1 list_all2_refl)
  ultimately show ?thesis
    using transformed_unread g(3)
    by (metis transformBlockTxs_def receiptsOfBlock_def gatherAllReceipts_def)
qed

end
