(* ===== verification/Factory.thy ===== *)
theory Factory
  imports ProviderFacts
begin

text \<open>
  The factory of the network provider (\<open>server/factory/provider.go\<close>) and the facade that it
  builds (\<open>factory/components/observerFacade.go\<close>). The objects that it puts together are of other
  repositories: their constructors and methods are the record \<open>Constructors\<close>.
\<close>

section \<open>Arguments\<close>

record ArgsCreateNetworkProvider =
  c_IsOffline :: bool
  c_NumShards :: u32
  c_ObservedActualShard :: u32
  c_ObservedProjectedShard :: u32
  c_ObservedProjectedShardIsSet :: bool
  c_ObserverUrl :: string
  c_BlockchainName :: string
  c_NetworkID :: string
  c_NetworkName :: string
  c_GasPerDataByte :: u64
  c_GasPriceModifier :: float64
  c_GasLimitCustomTransfer :: u64
  c_MinGasPrice :: u64
  c_MinGasLimit :: u64
  c_ExtraGasLimitGuardedTx :: u64
  c_ExtraGasLimitRelayedTxV3 :: u64
  c_NativeCurrencySymbol :: string
  c_CustomCurrencies :: "Currency list"
  c_GenesisBlockHash :: string
  c_GenesisTimestamp :: int
  c_FirstHistoricalEpoch :: u32
  c_NumHistoricalEpochs :: u32
  c_ShouldHandleContracts :: bool
  c_ActivationEpochSirius :: u32
  c_ActivationEpochSpica :: u32

definition argsOfCreate :: "ArgsCreateNetworkProvider \<Rightarrow> ArgsNewNetworkProvider" where
  "argsOfCreate args =
     \<lparr>a_IsOffline = c_IsOffline args,
      a_ObservedActualShard = c_ObservedActualShard args,
      a_ObservedProjectedShard = c_ObservedProjectedShard args,
      a_ObservedProjectedShardIsSet = c_ObservedProjectedShardIsSet args,
      a_ObserverUrl = c_ObserverUrl args,
      a_BlockchainName = c_BlockchainName args,
      a_NetworkID = c_NetworkID args,
      a_NetworkName = c_NetworkName args,
      a_GasPerDataByte = c_GasPerDataByte args,
      a_GasPriceModifier = c_GasPriceModifier args,
      a_GasLimitCustomTransfer = c_GasLimitCustomTransfer args,
      a_MinGasPrice = c_MinGasPrice args,
      a_MinGasLimit = c_MinGasLimit args,
      a_ExtraGasLimitGuardedTx = c_ExtraGasLimitGuardedTx args,
      a_ExtraGasLimitRelayedTxV3 = c_ExtraGasLimitRelayedTxV3 args,
      a_NativeCurrencySymbol = c_NativeCurrencySymbol args,
      a_CustomCurrencies = c_CustomCurrencies args,
      a_GenesisBlockHash = c_GenesisBlockHash args,
      a_GenesisTimestamp = c_GenesisTimestamp args,
      a_FirstHistoricalEpoch = c_FirstHistoricalEpoch args,
      a_NumHistoricalEpochs = c_NumHistoricalEpochs args,
      a_ShouldHandleContracts = c_ShouldHandleContracts args,
      a_ActivationEpochSirius = c_ActivationEpochSirius args,
      a_ActivationEpochSpica = c_ActivationEpochSpica args\<rparr>"

section \<open>The observer facade (components/observerFacade.go)\<close>

text \<open>Objects made by the constructors are values of one type \<open>'x\<close>. The facade embeds three of them.\<close>

record 'x ObserverFacade =
  Processor :: 'x
  TransactionProcessor :: 'x
  BlockProcessor :: 'x

record NodeData =
  nd_ShardId :: u32
  nd_Address :: string
  nd_IsSynced :: bool

text \<open>
  The constructors, each with the arguments that the factory passes, two methods of the
  objects, and \<open>embedded\<close>: what the promoted methods of the facade, the converter, the hasher and
  the marshalizer give to a provider.
\<close>

record ('x, 'c, 'w) Constructors =
  NewMultiShardCoordinator :: "u32 \<Rightarrow> u32 \<Rightarrow> go_error + 'x"
  NumberOfShards :: "'x \<Rightarrow> u32"
  ComputeId :: "'x \<Rightarrow> bytes \<Rightarrow> u32"
  GetShardCoordinator :: "'x \<Rightarrow> 'x"
  NewBech32PubkeyConverter :: "nat \<Rightarrow> string \<Rightarrow> go_error + 'x"
  NewSimpleNodesProvider :: "NodeData list \<Rightarrow> string \<Rightarrow> u32 \<Rightarrow> go_error + 'x"
  NewDisabledNodesProvider :: "string \<Rightarrow> 'x"
  NewBaseProcessor :: "nat \<Rightarrow> 'x \<Rightarrow> 'x \<Rightarrow> 'x \<Rightarrow> 'x \<Rightarrow> bool \<Rightarrow> go_error + 'x"
  NewHasher :: "string \<Rightarrow> go_error + 'x"
  NewMarshalizer :: "string \<Rightarrow> go_error + 'x"
  CreateTransactionProcessor :: "'x \<Rightarrow> 'x \<Rightarrow> 'x \<Rightarrow> 'x \<Rightarrow> bool \<Rightarrow> go_error + 'x"
  NewBlockProcessor :: "'x \<Rightarrow> go_error + 'x"
  embedded :: "'x ObserverFacade \<Rightarrow> 'x \<Rightarrow> 'x \<Rightarrow> 'x \<Rightarrow> ('c, 'w) Externals"

definition ComputeShardId :: "('x, 'c, 'w) Constructors \<Rightarrow> 'x ObserverFacade \<Rightarrow> bytes \<Rightarrow> u32" where
  "ComputeShardId X facade pubKey = ComputeId X (GetShardCoordinator X (Processor facade)) pubKey"

section \<open>The network provider\<close>

definition hasherType :: string where "hasherType = ''blake2b''"
definition marshalizerForHashingType :: string where "marshalizerForHashingType = ''gogo protobuf''"
definition pubKeyLength :: nat where "pubKeyLength = 32"
definition bech32Prefix :: string where "bech32Prefix = ''erd''"
definition notApplicableConfigurationFilePath :: string where "notApplicableConfigurationFilePath = ''not applicable''"
definition notApplicableFullHistoryNodesMessage :: string where "notApplicableFullHistoryNodesMessage = ''not applicable''"
definition requestTimeoutInSeconds :: nat where "requestTimeoutInSeconds = 60"

text \<open>The one observer that is asked.\<close>

definition observersOf :: "ArgsCreateNetworkProvider \<Rightarrow> NodeData list" where
  "observersOf args =
     [\<lparr>nd_ShardId = c_ObservedActualShard args, nd_Address = c_ObserverUrl args, nd_IsSynced = True\<rparr>]"

text \<open>The components behind the provider, in the order in which the factory makes them.\<close>

definition buildExternals ::
  "('x, 'c, 'w) Constructors \<Rightarrow> ArgsCreateNetworkProvider \<Rightarrow> go_error + ('c, 'w) Externals" where
  "buildExternals X args =
     bind_err (NewMultiShardCoordinator X (c_NumShards args) (c_ObservedActualShard args)) (\<lambda>shardCoordinator.
     bind_err (NewBech32PubkeyConverter X pubKeyLength bech32Prefix) (\<lambda>pubKeyConverter.
     bind_err (NewSimpleNodesProvider X (observersOf args) notApplicableConfigurationFilePath
                 (NumberOfShards X shardCoordinator)) (\<lambda>observersProvider.
     let disabledObserversProvider = NewDisabledNodesProvider X notApplicableFullHistoryNodesMessage in
     bind_err (NewBaseProcessor X requestTimeoutInSeconds shardCoordinator observersProvider
                 disabledObserversProvider pubKeyConverter True) (\<lambda>baseProcessor.
     bind_err (NewHasher X hasherType) (\<lambda>hasher.
     bind_err (NewMarshalizer X marshalizerForHashingType) (\<lambda>marshalizerForHashing.
     bind_err (CreateTransactionProcessor X baseProcessor pubKeyConverter hasher marshalizerForHashing False)
       (\<lambda>transactionProcessor.
     bind_err (NewBlockProcessor X baseProcessor) (\<lambda>blockProcessor.
       let facade = \<lparr>Processor = baseProcessor, TransactionProcessor = transactionProcessor,
                     BlockProcessor = blockProcessor\<rparr>
       in Inr ((embedded X facade hasher marshalizerForHashing pubKeyConverter)
                 \<lparr>of_ComputeShardId := ComputeShardId X facade\<rparr>)))))))))"

definition CreateNetworkProvider ::
  "('x, 'c, 'w) Constructors \<Rightarrow> ArgsCreateNetworkProvider \<Rightarrow>
     go_error + ('c, 'w) Externals \<times> networkProvider \<times> 'c" where
  "CreateNetworkProvider X args =
     bind_err (buildExternals X args) (\<lambda>E.
     bind_err (NewNetworkProvider E (argsOfCreate args)) (\<lambda>p. Inr (E, p)))"

text \<open>
  Where the base processor keeps the coordinator that it was made with, a provider computes shards
  with the coordinator for its number of shards.
\<close>

lemma buildExternals_shards:
  assumes "buildExternals X args = Inr E"
    and "\<And>timeout sc nodes disabled conv noStatus base.
      NewBaseProcessor X timeout sc nodes disabled conv noStatus = Inr base \<Longrightarrow> GetShardCoordinator X base = sc"
  shows "\<exists>sc. NewMultiShardCoordinator X (c_NumShards args) (c_ObservedActualShard args) = Inr sc \<and>
    of_ComputeShardId E = ComputeId X sc"
  using assms(1) by (auto simp: buildExternals_def Let_def ComputeShardId_def fun_eq_iff dest!: assms(2))

end
