(* ===== verification/Wiring.thy ===== *)
theory Wiring
  imports Services Factory JsonText
begin

text \<open>
  How a server is put together: the command line (\<open>cmd/rosetta/cli.go\<close>, \<open>config.go\<close>, the first
  half of \<open>startRosetta\<close> in \<open>main.go\<close>), the provider factory (\<open>server/factory/provider.go\<close>) and the
  choice of the services behind the endpoints (\<open>server/factory/controllers.go\<close>). The flag library,
  the file system and the constructors of mx-chain-proxy-go are parameters.
\<close>

section \<open>The command line (cli.go, config.go)\<close>

record Context =
  GlobalInt :: "string \<Rightarrow> int"
  GlobalBool :: "string \<Rightarrow> bool"
  GlobalString :: "string \<Rightarrow> string"
  GlobalUint :: "string \<Rightarrow> u64"
  GlobalInt64 :: "string \<Rightarrow> int"
  GlobalUint64 :: "string \<Rightarrow> u64"
  GlobalFloat64 :: "string \<Rightarrow> float64"
  GlobalIsSet :: "string \<Rightarrow> bool"

record parsedCliFlags =
  f_port :: int
  f_offline :: bool
  f_logLevel :: string
  f_logsFolder :: string
  f_observerActualShard :: u32
  f_observerProjectedShard :: u32
  f_observerProjectedShardIsSet :: bool
  f_observerHttpUrl :: string
  f_blockchainName :: string
  f_networkID :: string
  f_networkName :: string
  f_numShards :: u32
  f_genesisBlock :: string
  f_genesisTimestamp :: int
  f_minGasPrice :: u64
  f_minGasLimit :: u64
  f_extraGasLimitGuardedTx :: u64
  f_extraGasLimitRelayedTxV3 :: u64
  f_gasPerDataByte :: u64
  f_gasPriceModifier :: float64
  f_gasLimitCustomTransfer :: u64
  f_nativeCurrencySymbol :: string
  f_firstHistoricalEpoch :: u32
  f_numHistoricalEpochs :: u32
  f_shouldHandleContracts :: bool
  f_configFileCustomCurrencies :: string
  f_activationEpochSirius :: u32
  f_activationEpochSpica :: u32
  f_shouldEnablePprofEndpoints :: bool

text \<open>\<open>uint32(ctx.GlobalUint(...))\<close> keeps the low 32 bits.\<close>

definition getParsedCliFlags :: "Context \<Rightarrow> parsedCliFlags" where
  "getParsedCliFlags ctx =
     \<lparr>f_port = GlobalInt ctx ''port'',
      f_offline = GlobalBool ctx ''offline'',
      f_logLevel = GlobalString ctx ''log-level'',
      f_logsFolder = GlobalString ctx ''logs-folder'',
      f_observerActualShard = ucast (GlobalUint ctx ''observer-actual-shard''),
      f_observerProjectedShard = ucast (GlobalUint ctx ''observer-projected-shard''),
      f_observerProjectedShardIsSet = GlobalIsSet ctx ''observer-projected-shard'',
      f_observerHttpUrl = GlobalString ctx ''observer-http-url'',
      f_blockchainName = GlobalString ctx ''blockchain'',
      f_networkID = GlobalString ctx ''network-id'',
      f_networkName = GlobalString ctx ''network-name'',
      f_numShards = ucast (GlobalUint ctx ''num-shards''),
      f_genesisBlock = GlobalString ctx ''genesis-block'',
      f_genesisTimestamp = GlobalInt64 ctx ''genesis-timestamp'',
      f_minGasPrice = GlobalUint64 ctx ''min-gas-price'',
      f_minGasLimit = GlobalUint64 ctx ''min-gas-limit'',
      f_extraGasLimitGuardedTx = GlobalUint64 ctx ''extra-gas-limit-guarded-tx'',
      f_extraGasLimitRelayedTxV3 = GlobalUint64 ctx ''extra-gas-limit-relayed-tx-v3'',
      f_gasPerDataByte = GlobalUint64 ctx ''gas-per-data-byte'',
      f_gasPriceModifier = GlobalFloat64 ctx ''gas-price-modifier'',
      f_gasLimitCustomTransfer = GlobalUint64 ctx ''gas-limit-custom-transfer'',
      f_nativeCurrencySymbol = GlobalString ctx ''native-currency'',
      f_firstHistoricalEpoch = ucast (GlobalUint ctx ''first-historical-epoch''),
      f_numHistoricalEpochs = ucast (GlobalUint ctx ''num-historical-epochs''),
      f_shouldHandleContracts = GlobalBool ctx ''handle-contracts'',
      f_configFileCustomCurrencies = GlobalString ctx ''config-custom-currencies'',
      f_activationEpochSirius = ucast (GlobalUint ctx ''activation-epoch-sirius''),
      f_activationEpochSpica = ucast (GlobalUint ctx ''activation-epoch-spica''),
      f_shouldEnablePprofEndpoints = GlobalBool ctx ''pprof''\<rparr>"

definition loadConfigOfCustomCurrencies ::
  "(string \<Rightarrow> go_error + string) \<Rightarrow> string \<Rightarrow> go_error + Currency list" where
  "loadConfigOfCustomCurrencies readFile configFile =
     (case readFile configFile of
        Inl err \<Rightarrow> Inl (Errorf [Txt ''error when reading custom currencies config file: '', Err err])
      | Inr fileContent \<Rightarrow>
          (case unmarshalCurrencies fileContent of
             Inl err \<Rightarrow> Inl (Errorf [Txt ''error when loading custom currencies from file: '', Err err])
           | Inr currencies \<Rightarrow> Inr currencies))"

definition decideCustomCurrencies ::
  "(string \<Rightarrow> go_error + string) \<Rightarrow> string \<Rightarrow> go_error + Currency list" where
  "decideCustomCurrencies readFile configFileCustomCurrencies =
     (if length configFileCustomCurrencies = 0 then Inr []
      else loadConfigOfCustomCurrencies readFile configFileCustomCurrencies)"

section \<open>The arguments of the factory (main.go)\<close>

text \<open>The arguments that \<open>startRosetta\<close> writes down; fields it does not name are zero.\<close>

definition argsOfFlags :: "parsedCliFlags \<Rightarrow> Currency list \<Rightarrow> ArgsCreateNetworkProvider" where
  "argsOfFlags cliFlags currencies =
     \<lparr>c_IsOffline = f_offline cliFlags,
      c_NumShards = f_numShards cliFlags,
      c_ObservedActualShard = f_observerActualShard cliFlags,
      c_ObservedProjectedShard = f_observerProjectedShard cliFlags,
      c_ObservedProjectedShardIsSet = f_observerProjectedShardIsSet cliFlags,
      c_ObserverUrl = f_observerHttpUrl cliFlags,
      c_BlockchainName = f_blockchainName cliFlags,
      c_NetworkID = f_networkID cliFlags,
      c_NetworkName = f_networkName cliFlags,
      c_GasPerDataByte = f_gasPerDataByte cliFlags,
      c_GasPriceModifier = f_gasPriceModifier cliFlags,
      c_GasLimitCustomTransfer = f_gasLimitCustomTransfer cliFlags,
      c_MinGasPrice = f_minGasPrice cliFlags,
      c_MinGasLimit = f_minGasLimit cliFlags,
      c_ExtraGasLimitGuardedTx = f_extraGasLimitGuardedTx cliFlags,
      c_ExtraGasLimitRelayedTxV3 = f_extraGasLimitRelayedTxV3 cliFlags,
      c_NativeCurrencySymbol = f_nativeCurrencySymbol cliFlags,
      c_CustomCurrencies = currencies,
      c_GenesisBlockHash = f_genesisBlock cliFlags,
      c_GenesisTimestamp = 0,
      c_FirstHistoricalEpoch = f_firstHistoricalEpoch cliFlags,
      c_NumHistoricalEpochs = f_numHistoricalEpochs cliFlags,
      c_ShouldHandleContracts = f_shouldHandleContracts cliFlags,
      c_ActivationEpochSirius = f_activationEpochSirius cliFlags,
      c_ActivationEpochSpica = f_activationEpochSpica cliFlags\<rparr>"

section \<open>The services behind the endpoints (factory/controllers.go)\<close>

datatype implementation =
    NetworkService
  | AccountService
  | BlockService
  | MempoolService
  | ConstructionService
  | OfflineService offlineService

record Routers =
  networkController :: implementation
  accountController :: implementation
  blockController :: implementation
  mempoolController :: implementation
  constructionController :: implementation

text \<open>
  The arguments of \<open>asserter.NewServer\<close>, which rejects requests that are not well formed. Only whether
  it can be made is of interest here.
\<close>

record AsserterArgs =
  supportedOperationTypes :: "string list"
  historicalBalanceLookup :: bool
  supportedNetworks :: "(string \<times> string) list"
  callMethods :: "string list"
  mempoolCoins :: bool
  validationFilePath :: string

definition createAsserter :: "(AsserterArgs \<Rightarrow> go_error + unit) \<Rightarrow> 'w NetworkProvider \<Rightarrow> go_error + unit" where
  "createAsserter newServer P =
     newServer
       \<lparr>supportedOperationTypes = SupportedOperationTypes, historicalBalanceLookup = True,
        supportedNetworks = [(np_GetBlockchainName P, nc_NetworkName (np_GetNetworkConfig P))],
        callMethods = [], mempoolCoins = False, validationFilePath = []\<rparr>"

definition createOfflineControllers :: "(AsserterArgs \<Rightarrow> go_error + unit) \<Rightarrow> 'w NetworkProvider \<Rightarrow> go_error + Routers" where
  "createOfflineControllers newServer P =
     bind_err (createAsserter newServer P) (\<lambda>_.
       let offlineService = OfflineService NewOfflineService
       in Inr \<lparr>networkController = NetworkService, accountController = offlineService,
               blockController = offlineService, mempoolController = offlineService,
               constructionController = ConstructionService\<rparr>)"

definition createOnlineControllers :: "(AsserterArgs \<Rightarrow> go_error + unit) \<Rightarrow> 'w NetworkProvider \<Rightarrow> go_error + Routers" where
  "createOnlineControllers newServer P =
     bind_err (createAsserter newServer P) (\<lambda>_.
       Inr \<lparr>networkController = NetworkService, accountController = AccountService,
            blockController = BlockService, mempoolController = MempoolService,
            constructionController = ConstructionService\<rparr>)"

definition CreateControllers :: "(AsserterArgs \<Rightarrow> go_error + unit) \<Rightarrow> 'w NetworkProvider \<Rightarrow> go_error + Routers" where
  "CreateControllers newServer P =
     (if np_IsOffline P then createOfflineControllers newServer P
      else createOnlineControllers newServer P)"

section \<open>Start (main.go, logging.go, pprof.go)\<close>

text \<open>
  What starting needs of the operating system and of other repositories: the working directory,
  files, the logger, the constructors behind
  \<open>CreateNetworkProvider\<close>, and the asserter of the Rosetta SDK.
\<close>

record ('x, 'c, 'w) Platform =
  getwd :: "go_error + string"
  setLogLevel :: "string \<Rightarrow> go_error + unit"
  newFileLogging :: "string \<times> string \<times> string \<Rightarrow> go_error + unit"
  changeFileLifeSpan :: "nat \<Rightarrow> nat \<Rightarrow> go_error + unit"
  readFile :: "string \<Rightarrow> go_error + string"
  constructors :: "('x, 'c, 'w) Constructors"
  newServer :: "AsserterArgs \<Rightarrow> go_error + unit"

definition defaultLogsPath :: string where "defaultLogsPath = ''logs''"
definition logFilePrefix :: string where "logFilePrefix = ''rosetta''"
definition logFileLifeSpanInSec :: nat where "logFileLifeSpanInSec = 86400"
definition logMaxSizeInMB :: nat where "logMaxSizeInMB = 1024"

definition makeProxyLessVerbose :: "string \<Rightarrow> string" where
  "makeProxyLessVerbose logLevel = logLevel @ '',process:WARN''"

definition initializeLogger :: "('x, 'c, 'w) Platform \<Rightarrow> string \<Rightarrow> string \<Rightarrow> go_error + unit" where
  "initializeLogger platform logsFolder logLevel =
     bind_err (getwd platform) (\<lambda>currentDirectory.
       let logsFolderNotSpecified = (length logsFolder = 0);
           logsFolder = (if logsFolderNotSpecified then currentDirectory else logsFolder);
           logLevel = makeProxyLessVerbose logLevel
       in bind_err (setLogLevel platform logLevel) (\<lambda>_.
          case newFileLogging platform (logsFolder, defaultLogsPath, logFilePrefix) of
            Inl err \<Rightarrow> Inl (Errorf [Err err, Txt '' creating a log file''])
          | Inr _ \<Rightarrow> changeFileLifeSpan platform logFileLifeSpanInSec logMaxSizeInMB))"

text \<open>The routes of the profiling controller, with the handlers of \<open>net/http/pprof\<close> by name.\<close>

record Route =
  rt_Method :: string
  rt_Pattern :: string
  rt_Handler :: string

definition newPprofController :: "Route list" where
  "newPprofController =
     [\<lparr>rt_Method = ''GET'', rt_Pattern = ''/debug/pprof/'', rt_Handler = ''Index''\<rparr>,
      \<lparr>rt_Method = ''GET'', rt_Pattern = ''/debug/pprof/cmdline'', rt_Handler = ''Cmdline''\<rparr>,
      \<lparr>rt_Method = ''GET'', rt_Pattern = ''/debug/pprof/profile'', rt_Handler = ''Profile''\<rparr>,
      \<lparr>rt_Method = ''GET'', rt_Pattern = ''/debug/pprof/symbol'', rt_Handler = ''Symbol''\<rparr>,
      \<lparr>rt_Method = ''GET'', rt_Pattern = ''/debug/pprof/trace'', rt_Handler = ''Trace''\<rparr>,
      \<lparr>rt_Method = ''GET'', rt_Pattern = ''/debug/pprof/{cmd}'', rt_Handler = ''Index''\<rparr>]"

text \<open>The address that \<open>createHttpServer\<close> listens on.\<close>

definition httpAddress :: "int \<Rightarrow> string" where
  "httpAddress port = CHR '':'' # int_to_dec port"

record ('c, 'w) Server =
  sv_Externals :: "('c, 'w) Externals"
  sv_Provider :: networkProvider
  sv_Cache :: 'c
  sv_Routers :: Routers
  sv_Profiling :: "Route list"
  sv_Addr :: string

text \<open>\<open>startRosetta\<close> up to the moment at which the HTTP server listens.\<close>

definition startRosetta :: "('x, 'c, 'w) Platform \<Rightarrow> Context \<Rightarrow> go_error + ('c, 'w) Server" where
  "startRosetta platform ctx =
     (let cliFlags = getParsedCliFlags ctx in
      bind_err (initializeLogger platform (f_logsFolder cliFlags) (f_logLevel cliFlags)) (\<lambda>_.
      bind_err (decideCustomCurrencies (readFile platform) (f_configFileCustomCurrencies cliFlags)) (\<lambda>currencies.
      bind_err (CreateNetworkProvider (constructors platform) (argsOfFlags cliFlags currencies))
        (\<lambda>(E, p, c).
      bind_err (CreateControllers (newServer platform) (asNetworkProvider E p)) (\<lambda>controllers.
        Inr \<lparr>sv_Externals = E, sv_Provider = p, sv_Cache = c, sv_Routers = controllers,
             sv_Profiling = (if f_shouldEnablePprofEndpoints cliFlags then newPprofController else []),
             sv_Addr = httpAddress (f_port cliFlags)\<rparr>)))))"

section \<open>Requests\<close>

text \<open>The endpoints, with the parts of a request that the services read, and their answers.\<close>

datatype request =
    ReqNetworkList
  | ReqNetworkStatus
  | ReqNetworkOptions
  | ReqAccountBalance "PartialBlockIdentifier option" string "Currency list"
  | ReqAccountCoins
  | ReqBlock PartialBlockIdentifier
  | ReqBlockTransaction
  | ReqMempool
  | ReqMempoolTransaction string
  | ReqPreprocess json_object "RequestOperation list"
  | ReqMetadata json_object
  | ReqPayloads json_object
  | ReqParse string bool
  | ReqCombine string "bytes list"
  | ReqDerive string bytes
  | ReqHash string
  | ReqSubmit string

datatype response =
    RespNetworkList "(string \<times> string) list"
  | RespNetworkStatus NetworkStatusResponse
  | RespNetworkOptions NetworkOptionsResponse
  | RespAccountBalance AccountBalanceResponse
  | RespBlock BlockResponse
  | RespMempool "string list"
  | RespTransaction Transaction
  | RespObject json_object
  | RespMetadata json_object "Amount list"
  | RespPayloads string "SigningPayload list"
  | RespParse "Operation list" "string list"
  | RespText string

definition answer :: "('a \<Rightarrow> response) \<Rightarrow> failure + 'a \<Rightarrow> failure + response" where
  "answer f r = bind_err r (\<lambda>x. Inr (f x))"

definition keepGenesis :: "('a \<Rightarrow> response) \<Rightarrow> ('w \<Rightarrow> (failure + 'a) \<times> 'w) \<Rightarrow> 'w block_state \<Rightarrow>
     (failure + response) \<times> 'w block_state" where
  "keepGenesis f call s = (case call (snd s) of (r, w) \<Rightarrow> (answer f r, (fst s, w)))"

text \<open>The service that a controller calls for a request; the offline one refuses everything.\<close>

fun controllerOf :: "Routers \<Rightarrow> request \<Rightarrow> implementation" where
  "controllerOf routers ReqNetworkList = networkController routers"
| "controllerOf routers ReqNetworkStatus = networkController routers"
| "controllerOf routers ReqNetworkOptions = networkController routers"
| "controllerOf routers (ReqAccountBalance _ _ _) = accountController routers"
| "controllerOf routers ReqAccountCoins = accountController routers"
| "controllerOf routers (ReqBlock _) = blockController routers"
| "controllerOf routers ReqBlockTransaction = blockController routers"
| "controllerOf routers ReqMempool = mempoolController routers"
| "controllerOf routers (ReqMempoolTransaction _) = mempoolController routers"
| "controllerOf routers _ = constructionController routers"

text \<open>The handlers of the account and the block service measure the time that the work takes, for the log.\<close>

definition handleAccountBalance ::
  "'w NetworkProvider \<Rightarrow> PartialBlockIdentifier option \<Rightarrow> string \<Rightarrow> Currency list \<Rightarrow> 'w block_state \<Rightarrow>
     (failure + response) \<times> 'w block_state" where
  "handleAccountBalance P identifier address currencies s =
     keepGenesis RespAccountBalance (doGetAccountBalance P identifier address currencies) s"

definition handleBlock ::
  "Library \<Rightarrow> 'w NetworkProvider \<Rightarrow> PartialBlockIdentifier \<Rightarrow> 'w block_state \<Rightarrow> (failure + response) \<times> 'w block_state" where
  "handleBlock L P identifier s = (case doGetBlock L P identifier s of (r, s') \<Rightarrow> (answer RespBlock r, s'))"

declare handleAccountBalance_def [simp] handleBlock_def [simp]

fun serveOnline :: "Library \<Rightarrow> 'w NetworkProvider \<Rightarrow> request \<Rightarrow> 'w block_state \<Rightarrow>
     (failure + response) \<times> 'w block_state" where
  "serveOnline L P ReqNetworkList s = (Inr (RespNetworkList (NetworkList P)), s)"
| "serveOnline L P ReqNetworkStatus s = keepGenesis RespNetworkStatus (NetworkStatus P) s"
| "serveOnline L P ReqNetworkOptions s = keepGenesis RespNetworkOptions (NetworkOptions P) s"
| "serveOnline L P (ReqAccountBalance identifier address currencies) s =
     handleAccountBalance P identifier address currencies s"
| "serveOnline L P ReqAccountCoins s = (answer RespAccountBalance AccountCoins, s)"
| "serveOnline L P (ReqBlock identifier) s = handleBlock L P identifier s"
| "serveOnline L P ReqBlockTransaction s = (answer RespBlock BlockTransaction, s)"
| "serveOnline L P ReqMempool s = (answer RespMempool Mempool, s)"
| "serveOnline L P (ReqMempoolTransaction h) s = keepGenesis RespTransaction (MempoolTransaction P h) s"
| "serveOnline L P (ReqPreprocess metadata operations) s =
     (answer RespObject (ConstructionPreprocess P metadata operations), s)"
| "serveOnline L P (ReqMetadata options) s =
     keepGenesis (\<lambda>(m, fee). RespMetadata m fee) (ConstructionMetadata L P options) s"
| "serveOnline L P (ReqPayloads metadata) s =
     (answer (\<lambda>(t, payloads). RespPayloads t payloads) (ConstructionPayloads L metadata), s)"
| "serveOnline L P (ReqParse transaction isSigned) s =
     (answer (\<lambda>(operations, signers). RespParse operations signers) (ConstructionParse L P transaction isSigned), s)"
| "serveOnline L P (ReqCombine transaction signatures) s =
     (answer RespText (ConstructionCombine L transaction signatures), s)"
| "serveOnline L P (ReqDerive curveType pubKey) s = (answer RespText (ConstructionDerive P curveType pubKey), s)"
| "serveOnline L P (ReqHash transaction) s = (answer RespText (ConstructionHash L P transaction), s)"
| "serveOnline L P (ReqSubmit transaction) s = keepGenesis RespText (ConstructionSubmit L P transaction) s"

definition serve :: "Library \<Rightarrow> 'w NetworkProvider \<Rightarrow> Routers \<Rightarrow> request \<Rightarrow> 'w block_state \<Rightarrow>
     (failure + response) \<times> 'w block_state" where
  "serve L P routers request s =
     (case controllerOf routers request of
        OfflineService service \<Rightarrow> (Inl (offlineEndpoint service), s)
      | _ \<Rightarrow> serveOnline L P request s)"

end
