(* ===== verification/TransformerFacts.thy ===== *)
theory TransformerFacts
  imports Transformer ProviderBlocks
begin

text \<open>
  What the transformer guarantees, for any provider that keeps its contract: the operations of a
  transaction add up, per currency, to what the protocol creates or burns; a signal error
  silences the events; finishing keeps the balance of every observed account; the operations of
  a block are well formed; the order of the transactions does not matter.
\<close>

section \<open>What the protocol creates and burns (specification)\<close>

text \<open>
  \<open>base_change\<close> is the change of the native supply that a transaction makes by its type: fees
  are taken, refunds and rewards are given, transfers are neutral.
\<close>

definition base_change ::
  "Library \<Rightarrow> 'w NetworkProvider \<Rightarrow> ApiTransactionResult \<Rightarrow> ApiTransactionResult list \<Rightarrow> int" where
  "base_change L P tx txsInBlock =
     (if tx_Type tx = TxTypeNormal then - amount_value (tx_InitiallyPaidFee tx)
      else if tx_Type tx = TxTypeReward then amount_value (tx_Value tx)
      else if tx_Type tx = TxTypeInvalid then
        - (if isInvalidTransactionOfTypeMoveBalanceThatOnlyConsumesDataMovementGas tx
           then np_ComputeTransactionFeeForMoveBalance P tx else amount_value (tx_InitiallyPaidFee tx))
      else if isSmartContractResultIneffectiveRefund L P tx then 0
      else if tx_IsRefund tx \<or>
              \<not> np_IsReleaseSpicaActive P (tx_Epoch tx) \<and>
              doesContractResultHoldRewardsOfClaimDeveloperRewards tx txsInBlock
      then amount_value (tx_Value tx)
      else 0)"

text \<open>The currency of the token that an event is about, and what the event adds to its supply.\<close>

definition event_currency :: "'w NetworkProvider \<Rightarrow> Event \<Rightarrow> Currency" where
  "event_currency P ev =
     am_Currency (valueToCustomAmount P []
       (if ev_Topics ev ! 1 \<noteq> [] then ev_Topics ev ! 0 @ ''-'' @ hex_encode (ev_Topics ev ! 1)
        else ev_Topics ev ! 0))"

definition inflow_events :: "string set" where
  "inflow_events = {transactionEventESDTLocalMint, transactionEventESDTNFTCreate,
     transactionEventESDTNFTAddQuantity}"

definition outflow_events :: "string set" where
  "outflow_events = {transactionEventESDTLocalBurn, transactionEventESDTWipe,
     transactionEventESDTNFTBurn}"

definition supply_change :: "'w NetworkProvider \<Rightarrow> Currency \<Rightarrow> Event \<Rightarrow> int" where
  "supply_change P cur ev =
     (if np_HasCustomCurrency P (ev_Topics ev ! 0) \<and> event_currency P ev = cur
      then (if ev_Identifier ev \<in> inflow_events then big_SetBytes (ev_Topics ev ! 2)
            else if ev_Identifier ev \<in> outflow_events then - big_SetBytes (ev_Topics ev ! 2)
            else 0)
      else 0)"

text \<open>Developer rewards are paid from outside of the accounts.\<close>

definition rewards_change :: "'w NetworkProvider \<Rightarrow> u32 \<Rightarrow> Currency \<Rightarrow> Event \<Rightarrow> int" where
  "rewards_change P epoch cur ev =
     (if np_IsReleaseSpicaActive P epoch \<and> cur = getNativeCurrency P \<and>
         ev_Identifier ev = transactionEventClaimDeveloperRewards
      then big_SetBytes (ev_Topics ev ! 0) else 0)"

definition events_change :: "'w NetworkProvider \<Rightarrow> ApiTransactionResult \<Rightarrow> Currency \<Rightarrow> int" where
  "events_change P tx cur =
     (if hasAnySignalError tx then 0
      else sum_list (map (\<lambda>ev. supply_change P cur ev + rewards_change P (tx_Epoch tx) cur ev) (logEvents tx)))"

section \<open>Sums over typed events\<close>

lemma sum_list_filter_if:
  "sum_list (map f (filter Q xs)) = sum_list (map (\<lambda>x. if Q x then f x else (0::int)) xs)"
  by (induction xs) auto

lemma sum_list_all2:
  "list_all2 R xs ys \<Longrightarrow> (\<And>x y. R x y \<Longrightarrow> g y = f x) \<Longrightarrow> sum_list (map g ys) = (sum_list (map f xs) :: int)"
  by (induction rule: list_all2_induct) auto

lemma effect_native [simp]:
  "op_effect (getNativeCurrency P) (newOperation ty a (valueToNativeAmount P v)) = amount_value v"
  by (simp add: op_effect_def op_value_def newOperation_def valueToNativeAmount_def)

lemma effect_native_other:
  "cur \<noteq> getNativeCurrency P \<Longrightarrow> op_effect cur (newOperation ty a (valueToNativeAmount P v)) = 0"
  by (simp add: op_effect_def newOperation_def valueToNativeAmount_def)

lemma effect_native_gen:
  "op_effect cur (newOperation ty a (valueToNativeAmount P v)) =
     (if cur = getNativeCurrency P then amount_value v else 0)"
  by (simp add: effect_native_other)

lemma effect_failed [simp]:
  "op_effect cur (operation\<lparr>op_Status := Some opStatusFailure\<rparr>) = 0"
  by (simp add: op_effect_def op_value_def)

lemma effect_custom:
  "op_effect cur (newOperation ty a (valueToCustomAmount P v s)) =
     (if am_Currency (valueToCustomAmount P [] s) = cur then amount_value v else 0)"
  by (simp add: op_effect_def op_value_def newOperation_def valueToCustomAmount_def Let_def)

text \<open>Operations come in opposite pairs in every transfer.\<close>

lemma pair_neutral:
  assumes "v = [] \<or> is_decimal v"
  shows "total_effect cur [newOperation ty a (valueToNativeAmount P (CHR ''-'' # v)),
           newOperation ty' b (valueToNativeAmount P v)] = 0"
  using amount_value_minus_opt [OF assms] by (simp add: effect_native_gen)

lemma deploy_neutral: "v = [] \<or> is_decimal v \<Longrightarrow> v = tx_Value tx \<Longrightarrow> total_effect cur (operationsOfSCDeploy P tx e) = 0"
  by (simp add: operationsOfSCDeploy_def pair_neutral del: total_effect_simps(2))

lemma transfer_value_neutral:
  "tv_value e = int_to_dec i \<Longrightarrow> 0 \<le> i \<Longrightarrow> total_effect cur (operationsOfTransferValueOnly P e) = 0"
  by (simp add: operationsOfTransferValueOnly_def pair_neutral is_decimal_int_to_dec
      del: total_effect_simps(2))

lemma esdt_transfer_neutral:
  "esdt_value e = int_to_dec i \<Longrightarrow> 0 \<le> i \<Longrightarrow> total_effect cur (extractOperationsFromEventESDT P e) = 0"
  by (auto simp: extractOperationsFromEventESDT_def effect_native_gen effect_custom)

lemma total_effect_concat_map_zero:
  "(\<And>x. x \<in> set xs \<Longrightarrow> total_effect cur (f x) = 0) \<Longrightarrow> total_effect cur (concat (map f xs)) = 0"
  by (induction xs) auto

lemma extended_identifier_of:
  assumes "esdt_typed_of addr ev t"
  shows "am_Currency (valueToCustomAmount P v (getExtendedIdentifier t)) = event_currency P ev"
proof -
  have "getExtendedIdentifier t =
      (if ev_Topics ev ! 1 \<noteq> [] then ev_Topics ev ! 0 @ ''-'' @ hex_encode (ev_Topics ev ! 1)
       else ev_Topics ev ! 0)"
    using assms by (simp add: esdt_typed_of_def getExtendedIdentifier_def)
  then show ?thesis by (simp add: event_currency_def valueToCustomAmount_def Let_def)
qed

lemma inflow_effect:
  "esdt_typed_of addr ev t \<Longrightarrow> total_effect cur (operationsOfInflow P t) =
     (if np_HasCustomCurrency P (ev_Topics ev ! 0) \<and> event_currency P ev = cur
      then big_SetBytes (ev_Topics ev ! 2) else 0)"
  using extended_identifier_of [of addr ev t P "[]"]
  by (auto simp: operationsOfInflow_def effect_custom esdt_typed_of_def)

lemma outflow_effect:
  "esdt_typed_of addr ev t \<Longrightarrow> total_effect cur (operationsOfOutflow P t) =
     (if np_HasCustomCurrency P (ev_Topics ev ! 0) \<and> event_currency P ev = cur
      then - big_SetBytes (ev_Topics ev ! 2) else 0)"
  using extended_identifier_of [of addr ev t P "[]"]
  by (auto simp: operationsOfOutflow_def effect_custom esdt_typed_of_def)

lemma typed_flow_sum:
  assumes "list_all2 (esdt_typed_of addr) (findManyEventsByIdentifier tx name) ts"
    and "\<And>ev t. esdt_typed_of addr ev t \<Longrightarrow> total_effect cur (f t) =
      (if np_HasCustomCurrency P (ev_Topics ev ! 0) \<and> event_currency P ev = cur
       then k * big_SetBytes (ev_Topics ev ! 2) else 0)"
  shows "total_effect cur (concat (map f ts)) =
    sum_list (map (\<lambda>ev. if ev_Identifier ev = name \<and> np_HasCustomCurrency P (ev_Topics ev ! 0) \<and>
        event_currency P ev = cur then k * big_SetBytes (ev_Topics ev ! 2) else 0) (logEvents tx))"
proof -
  have "total_effect cur (concat (map f ts)) = sum_list (map (\<lambda>t. total_effect cur (f t)) ts)"
    by (simp add: total_effect_concat comp_def)
  also have "\<dots> = sum_list (map (\<lambda>ev. if np_HasCustomCurrency P (ev_Topics ev ! 0) \<and> event_currency P ev = cur
       then k * big_SetBytes (ev_Topics ev ! 2) else 0) (findManyEventsByIdentifier tx name))"
    using assms by (rule sum_list_all2)
  finally show ?thesis
    by (simp add: findManyEventsByIdentifier_filter sum_list_filter_if if_if_eq_conj)
qed

lemma claim_rewards_sum:
  assumes "extractEventsClaimDeveloperRewards P tx = Inr ts"
  shows "total_effect cur (concat (map (operationsOfClaimDeveloperRewards P) ts)) =
    sum_list (map (\<lambda>ev. if ev_Identifier ev = transactionEventClaimDeveloperRewards \<and>
        cur = getNativeCurrency P then big_SetBytes (ev_Topics ev ! 0) else 0) (logEvents tx))"
proof -
  have "total_effect cur (concat (map (operationsOfClaimDeveloperRewards P) ts)) =
      sum_list (map (\<lambda>t. if cur = getNativeCurrency P then amount_value (cdr_value t) else 0) ts)"
    by (simp add: total_effect_concat comp_def operationsOfClaimDeveloperRewards_def effect_native_gen)
  also have "\<dots> = sum_list (map (\<lambda>ev. if cur = getNativeCurrency P then big_SetBytes (ev_Topics ev ! 0) else 0)
      (findManyEventsByIdentifier tx transactionEventClaimDeveloperRewards))"
    by (rule sum_list_all2 [OF claimRewards.extract_typed [OF assms]]) auto
  finally show ?thesis
    by (simp add: findManyEventsByIdentifier_filter sum_list_filter_if if_if_eq_conj)
qed

section \<open>The operations of a transaction add up\<close>

lemma signal_error_silences_events:
  "hasAnySignalError tx \<Longrightarrow> addOperationsGivenTransactionEvents P tx r = Inr r"
  by (simp add: addOperationsGivenTransactionEvents_def)

lemma addOperations_total:
  assumes add: "addOperationsGivenTransactionEvents P tx r0 = Inr r"
    and dec: "tx_Value tx = [] \<or> is_decimal (tx_Value tx)"
  shows "total_effect cur (rt_Operations r) = total_effect cur (rt_Operations r0) + events_change P tx cur"
proof (cases "hasAnySignalError tx")
  case True
  with add show ?thesis by (simp add: signal_error_silences_events events_change_def)
next
  case False
  from add False obtain deploys vals transfers burns mints wipes creates nftburns adds claims where
      dp: "extractEventSCDeploy P tx = Inr deploys"
    and vl: "extractEventTransferValueOnly P tx = Inr vals"
    and tr: "extractEventsESDTOrESDTNFTTransfers P tx = Inr transfers"
    and lb: "extractEventsESDTLocalBurn tx = Inr burns"
    and lm: "extractEventsESDTLocalMint tx = Inr mints"
    and wp: "extractEventsESDTWipe P tx = Inr wipes"
    and nc: "extractEventsESDTNFTCreate tx = Inr creates"
    and nb: "extractEventsESDTNFTBurn tx = Inr nftburns"
    and aq: "extractEventsESDTNFTAddQuantity tx = Inr adds"
    and cl: "extractEventsClaimDeveloperRewards P tx = Inr claims"
    and r: "rt_Operations r = rt_Operations r0
           @ concat (map (operationsOfSCDeploy P tx) deploys)
           @ concat (map (operationsOfTransferValueOnly P) vals)
           @ concat (map (extractOperationsFromEventESDT P) transfers)
           @ concat (map (operationsOfOutflow P) burns)
           @ concat (map (operationsOfInflow P) mints)
           @ concat (map (operationsOfOutflow P) wipes)
           @ concat (map (operationsOfInflow P) creates)
           @ concat (map (operationsOfOutflow P) nftburns)
           @ concat (map (operationsOfInflow P) adds)
           @ (if areClaimDeveloperRewardsEventsEnabled P (tx_Epoch tx)
              then concat (map (operationsOfClaimDeveloperRewards P) claims) else [])"
    by (auto simp: addOperationsGivenTransactionEvents_def)
  have 1: "total_effect cur (concat (map (operationsOfSCDeploy P tx) deploys)) = 0"
    by (rule total_effect_concat_map_zero) (simp add: deploy_neutral [OF dec])
  have 2: "total_effect cur (concat (map (operationsOfTransferValueOnly P) vals)) = 0"
    by (rule total_effect_concat_map_zero)
      (use extractEventTransferValueOnly_member [OF vl] decided_value transfer_value_neutral in fastforce)
  have 3: "total_effect cur (concat (map (extractOperationsFromEventESDT P) transfers)) = 0"
    by (rule total_effect_concat_map_zero)
      (use transfers_value [OF tr] esdt_transfer_neutral in fastforce)
  note out = typed_flow_sum [where P = P and cur = cur and k = "-1" and f = "operationsOfOutflow P"]
  note inf = typed_flow_sum [where P = P and cur = cur and k = 1 and f = "operationsOfInflow P"]
  note sums = out [OF localBurn.extract_typed [OF lb]] out [OF wipe.extract_typed [OF wp]]
    out [OF nftBurn.extract_typed [OF nb]] inf [OF localMint.extract_typed [OF lm]]
    inf [OF nftCreate.extract_typed [OF nc]] inf [OF nftAddQuantity.extract_typed [OF aq]]
  have split_event: "supply_change P cur ev + rewards_change P (tx_Epoch tx) cur ev =
    (\<Sum>name \<leftarrow> [transactionEventESDTLocalBurn, transactionEventESDTWipe, transactionEventESDTNFTBurn].
       if ev_Identifier ev = name \<and> np_HasCustomCurrency P (ev_Topics ev ! 0) \<and> event_currency P ev = cur
       then -1 * big_SetBytes (ev_Topics ev ! 2) else 0) +
    (\<Sum>name \<leftarrow> [transactionEventESDTLocalMint, transactionEventESDTNFTCreate, transactionEventESDTNFTAddQuantity].
       if ev_Identifier ev = name \<and> np_HasCustomCurrency P (ev_Topics ev ! 0) \<and> event_currency P ev = cur
       then 1 * big_SetBytes (ev_Topics ev ! 2) else 0) +
    rewards_change P (tx_Epoch tx) cur ev" for ev
    by (auto simp: supply_change_def inflow_events_def outflow_events_def event_name_defs)
  have rw: "(if areClaimDeveloperRewardsEventsEnabled P (tx_Epoch tx)
       then total_effect cur (concat (map (operationsOfClaimDeveloperRewards P) claims)) else 0) =
     sum_list (map (rewards_change P (tx_Epoch tx) cur) (logEvents tx))"
  proof -
    have "rewards_change P (tx_Epoch tx) cur = (\<lambda>ev. if np_IsReleaseSpicaActive P (tx_Epoch tx)
        then (if ev_Identifier ev = transactionEventClaimDeveloperRewards \<and> cur = getNativeCurrency P
              then big_SetBytes (ev_Topics ev ! 0) else 0) else 0)"
      by (rule ext) (simp add: rewards_change_def)
    then show ?thesis
      by (simp add: claim_rewards_sum [OF cl] areClaimDeveloperRewardsEventsEnabled_def)
  qed
  have "total_effect cur (rt_Operations r) = total_effect cur (rt_Operations r0) +
      sum_list (map (\<lambda>ev. supply_change P cur ev + rewards_change P (tx_Epoch tx) cur ev) (logEvents tx))"
    unfolding split_event
    by (simp add: r 1 2 3 sums inflow_effect outflow_effect sum_list_addf rw [symmetric])
  with False show ?thesis by (simp add: events_change_def)
qed

section \<open>By the type of the transaction\<close>

text \<open>The operations of a transaction before its events are looked at.\<close>

definition baseRosettaTx ::
  "Library \<Rightarrow> 'w NetworkProvider \<Rightarrow> ApiTransactionResult \<Rightarrow> ApiTransactionResult list \<Rightarrow> go_error + Transaction" where
  "baseRosettaTx L P tx txsInBlock =
     (if tx_Type tx = TxTypeNormal then normalTxToRosetta L P tx
      else if tx_Type tx = TxTypeReward then Inr (rewardTxToRosettaTx P tx)
      else if tx_Type tx = TxTypeUnsigned then Inr (unsignedTxToRosettaTx L P tx txsInBlock)
      else if tx_Type tx = TxTypeInvalid then Inr (invalidTxToRosettaTx P tx)
      else Inl (unknownTransactionType (tx_Type tx)))"

lemma txToRosettaTx_base:
  "txToRosettaTx L P tx txs =
     bind_err (baseRosettaTx L P tx txs) (addOperationsGivenTransactionEvents P tx)"
  by (simp add: txToRosettaTx_def baseRosettaTx_def)

lemma txToRosettaTx_unknown:
  "tx_Type tx \<notin> {TxTypeNormal, TxTypeReward, TxTypeUnsigned, TxTypeInvalid} \<Longrightarrow>
     txToRosettaTx L P tx txs = Inl (unknownTransactionType (tx_Type tx))"
  by (simp add: txToRosettaTx_def)

text \<open>
  Amounts as the network reports them, unsigned decimal text: of the value always, of the initially
  paid fee where it is charged (contract results and rewards have none).
\<close>

definition charges_initial_fee :: "ApiTransactionResult \<Rightarrow> bool" where
  "charges_initial_fee tx \<longleftrightarrow>
     tx_Type tx = TxTypeNormal \<or>
     tx_Type tx = TxTypeInvalid \<and> \<not> isInvalidTransactionOfTypeMoveBalanceThatOnlyConsumesDataMovementGas tx"

definition decimal_amounts :: "ApiTransactionResult \<Rightarrow> bool" where
  "decimal_amounts tx \<longleftrightarrow>
     is_decimal (tx_Value tx) \<and> (charges_initial_fee tx \<longrightarrow> is_decimal (tx_InitiallyPaidFee tx))"

text \<open>
  The inner transaction that a relayed one carries, if it can be read, does not bear a negative value
  (the decoder would read one, and the operation of the sender would get an amount with two signs).
\<close>

definition inner_value_nonneg :: "Library \<Rightarrow> ApiTransactionResult \<Rightarrow> bool" where
  "inner_value_nonneg L tx \<longleftrightarrow> (\<forall>innerTx. parseInnerTxOfRelayedV1 L tx = Inr innerTx \<longrightarrow> 0 \<le> it_Value innerTx)"

lemma inner_ops_neutral:
  assumes "inner_value_nonneg L tx"
    and "extractInnerTxOperationsIfBeforeSiriusRelayedCompletelyIntrashardWithSignalError L P tx = Inr ops"
  shows "total_effect cur ops = 0"
proof -
  have "parseInnerTxOfRelayedV1 L tx = Inr itx \<Longrightarrow> 0 \<le> it_Value itx" for itx
    using assms(1) by (simp add: inner_value_nonneg_def)
  then show ?thesis using assms(2)
    by (auto simp: extractInnerTxOperationsIfBeforeSiriusRelayedCompletelyIntrashardWithSignalError_def
        Let_def effect_native_gen split: if_splits)
qed

lemma base_total:
  assumes base: "baseRosettaTx L P tx txs = Inr r" and dec: "decimal_amounts tx"
    and inner: "inner_value_nonneg L tx"
    and fee: "0 \<le> np_ComputeTransactionFeeForMoveBalance P tx"
  shows "total_effect cur (rt_Operations r) =
    (if cur = getNativeCurrency P then base_change L P tx txs else 0)"
proof -
  note neg = amount_value_minus [of "tx_Value tx"] amount_value_minus [of "tx_InitiallyPaidFee tx"]
  from dec have d: "is_decimal (tx_Value tx)"
    and paid: "charges_initial_fee tx \<Longrightarrow> is_decimal (tx_InitiallyPaidFee tx)"
    by (simp_all add: decimal_amounts_def)
  consider (normal) "tx_Type tx = TxTypeNormal" | (reward) "tx_Type tx = TxTypeReward"
    | (unsigned) "tx_Type tx = TxTypeUnsigned" | (invalid) "tx_Type tx = TxTypeInvalid"
    using base by (auto simp: baseRosettaTx_def split: if_splits)
  then show ?thesis
  proof cases
    case normal
    with base obtain inner_ops where
        io: "extractInnerTxOperationsIfBeforeSiriusRelayedCompletelyIntrashardWithSignalError L P tx = Inr inner_ops"
      by (auto simp: baseRosettaTx_def normalTxToRosetta_def Let_def)
    from normal have "is_decimal (tx_InitiallyPaidFee tx)" by (intro paid) (simp add: charges_initial_fee_def)
    with base normal neg d inner_ops_neutral [OF inner io] io show ?thesis
      by (auto simp: baseRosettaTx_def normalTxToRosetta_def Let_def base_change_def effect_native_gen)
  next
    case reward
    with base show ?thesis
      by (auto simp: baseRosettaTx_def rewardTxToRosettaTx_def base_change_def effect_native_gen)
  next
    case unsigned
    with base neg d show ?thesis
      by (auto simp: baseRosettaTx_def unsignedTxToRosettaTx_def base_change_def effect_native_gen
          areClaimDeveloperRewardsEventsEnabled_def)
  next
    case invalid
    then have "isInvalidTransactionOfTypeMoveBalanceThatOnlyConsumesDataMovementGas tx \<or>
        is_decimal (tx_InitiallyPaidFee tx)"
      using paid by (auto simp: charges_initial_fee_def)
    with invalid base neg d fee show ?thesis
      by (auto simp: baseRosettaTx_def invalidTxToRosettaTx_def base_change_def effect_native_gen Let_def)
  qed
qed

text \<open>The balance sheet of a transaction, for any provider that keeps its contract.\<close>

context network_provider
begin

lemma transaction_total:
  assumes "txToRosettaTx L P tx txs = Inr r" "decimal_amounts tx" "inner_value_nonneg L tx"
  shows "total_effect cur (rt_Operations r) =
    (if cur = getNativeCurrency P then base_change L P tx txs else 0) + events_change P tx cur"
proof -
  from assms(1) obtain r0 where "baseRosettaTx L P tx txs = Inr r0"
    "addOperationsGivenTransactionEvents P tx r0 = Inr r"
    by (auto simp: txToRosettaTx_base)
  with base_total [of L P tx txs r0 cur] addOperations_total [of P tx r0 r cur] assms(2,3) fee_nonneg
  show ?thesis by (simp add: decimal_amounts_def)
qed

text \<open>
  No event changes the native supply except claimed rewards, when no supported token has an
  identifier that starts the native symbol.
\<close>

lemma event_currency_symbol:
  assumes "np_HasCustomCurrency P (ev_Topics ev ! 0)"
  shows "has_prefix (Symbol (event_currency P ev)) (ev_Topics ev ! 0)"
proof -
  have "Symbol (am_Currency (valueToCustomAmount P v s)) = s" for v s
    using lookup_symbol [of s] by (auto simp: valueToCustomAmount_def Let_def split: option.splits)
  then show ?thesis by (simp add: event_currency_def has_prefix_def)
qed

lemma native_supply_change:
  assumes "\<forall>s. np_HasCustomCurrency P s \<longrightarrow> \<not> has_prefix (getNativeCurrencySymbol P) s"
  shows "supply_change P (getNativeCurrency P) ev = 0"
proof -
  have "event_currency P ev \<noteq> getNativeCurrency P" if "np_HasCustomCurrency P (ev_Topics ev ! 0)"
    using event_currency_symbol [OF that] assms that
    by (auto simp: getNativeCurrency_def getNativeCurrencySymbol_def)
  then show ?thesis by (auto simp: supply_change_def)
qed

end

section \<open>Finishing\<close>

lemma finishRosettaTx_effect:
  assumes "finishRosettaTx P r = Inr r'"
  shows "effect_on a cur (rt_Operations r') =
    (if np_IsAddressObserved P a = Inr True then effect_on a cur (rt_Operations r) else 0)"
proof -
  from assms obtain kept where
      kept: "filterOperationsByAddress (rt_Operations r) (np_IsAddressObserved P) = Inr kept"
    and r': "r' = r\<lparr>rt_Operations := applyDefaultStatusOnOperations (filterOutOperationsWithZeroAmount kept)\<rparr>"
    by (auto simp: finishRosettaTx_def)
  show ?thesis by (simp add: r' filterOperationsByAddress_effect [OF kept])
qed

text \<open>The shape that the Rosetta API requires of operations, and that the services rely on.\<close>

definition well_formed_operations :: "'w NetworkProvider \<Rightarrow> Operation list \<Rightarrow> bool" where
  "well_formed_operations P ops =
     (well_indexed ops \<and>
      (\<forall>o1 \<in> set ops. op_Status o1 \<in> {Some opStatusSuccess, Some opStatusFailure} \<and>
         op_Type o1 \<in> set SupportedOperationTypes \<and>
         isNonZeroAmount (am_Value (op_Amount o1)) \<and>
         np_IsAddressObserved P (op_Address o1) = Inr True))"

definition raw_operation :: "Operation \<Rightarrow> bool" where
  "raw_operation o1 =
     (op_Type o1 \<in> set SupportedOperationTypes \<and> op_Status o1 \<in> {None, Some opStatusFailure})"

lemma newOperation_raw:
  "ty \<in> set SupportedOperationTypes \<Longrightarrow> raw_operation (newOperation ty a v)"
  "ty \<in> set SupportedOperationTypes \<Longrightarrow> raw_operation ((newOperation ty a v)\<lparr>op_Status := Some opStatusFailure\<rparr>)"
  by (simp_all add: raw_operation_def newOperation_def)

lemma supported_types [simp]:
  "opTransfer \<in> set SupportedOperationTypes" "opFee \<in> set SupportedOperationTypes"
  "opReward \<in> set SupportedOperationTypes" "opScResult \<in> set SupportedOperationTypes"
  "opFeeRefundAsScResult \<in> set SupportedOperationTypes"
  "opDeveloperRewardsAsScResult \<in> set SupportedOperationTypes"
  "opDeveloperRewards \<in> set SupportedOperationTypes" "opFeeOfInvalidTx \<in> set SupportedOperationTypes"
  "opFeeRefund \<in> set SupportedOperationTypes" "opCustomTransfer \<in> set SupportedOperationTypes"
  "opGenesisBalanceMovement \<in> set SupportedOperationTypes"
  by (simp_all add: SupportedOperationTypes_def)

lemma base_raw:
  assumes "baseRosettaTx L P tx txs = Inr r" "o1 \<in> set (rt_Operations r)"
  shows "raw_operation o1"
  using assms
  by (auto simp: baseRosettaTx_def normalTxToRosetta_def rewardTxToRosettaTx_def unsignedTxToRosettaTx_def
      invalidTxToRosettaTx_def Let_def newOperation_raw
      extractInnerTxOperationsIfBeforeSiriusRelayedCompletelyIntrashardWithSignalError_def
      split: if_splits)

lemma events_raw:
  assumes "addOperationsGivenTransactionEvents P tx r0 = Inr r" "o1 \<in> set (rt_Operations r)"
    and "\<forall>o1 \<in> set (rt_Operations r0). raw_operation o1"
  shows "raw_operation o1"
proof -
  note gen = operationsOfSCDeploy_def operationsOfTransferValueOnly_def
    extractOperationsFromEventESDT_def operationsOfOutflow_def operationsOfInflow_def
    operationsOfClaimDeveloperRewards_def
  have each: "o1 \<in> set (operationsOfSCDeploy P tx e1) \<Longrightarrow> raw_operation o1"
    "o1 \<in> set (operationsOfTransferValueOnly P e2) \<Longrightarrow> raw_operation o1"
    "o1 \<in> set (extractOperationsFromEventESDT P e3) \<Longrightarrow> raw_operation o1"
    "o1 \<in> set (operationsOfOutflow P e3) \<Longrightarrow> raw_operation o1"
    "o1 \<in> set (operationsOfInflow P e3) \<Longrightarrow> raw_operation o1"
    "o1 \<in> set (operationsOfClaimDeveloperRewards P e4) \<Longrightarrow> raw_operation o1" for e1 e2 e3 e4
    by (auto simp: gen newOperation_raw split: if_splits)
  from assms show ?thesis
    by (cases "hasAnySignalError tx")
      (auto simp: addOperationsGivenTransactionEvents_def dest: each split: if_splits)
qed

lemma applyDefault_set:
  "o1 \<in> set (applyDefaultStatusOnOperations os) \<Longrightarrow> \<exists>o2 \<in> set os. \<exists>st.
     o1 = o2\<lparr>op_Status := Some st\<rparr> \<and> (st = opStatusSuccess \<and> op_Status o2 = None \<or> op_Status o2 = Some st)"
proof -
  assume "o1 \<in> set (applyDefaultStatusOnOperations os)"
  then obtain o2 where o2: "o2 \<in> set os" and
    o1: "o1 = (if op_Status o2 = None then o2\<lparr>op_Status := Some opStatusSuccess\<rparr> else o2)"
    by (auto simp: applyDefaultStatusOnOperations_def)
  show ?thesis
  proof (cases "op_Status o2")
    case None
    with o1 o2 show ?thesis by auto
  next
    case (Some st)
    with o1 have "o1 = o2\<lparr>op_Status := Some st\<rparr>" by simp
    with o2 Some show ?thesis by blast
  qed
qed

lemma finishRosettaTx_well_formed:
  assumes fin: "finishRosettaTx P r = Inr r'" and raw: "\<forall>o1 \<in> set (rt_Operations r). raw_operation o1"
  shows "well_formed_operations P (rt_Operations r')"
proof -
  from fin obtain kept where
      kept: "filterOperationsByAddress (rt_Operations r) (np_IsAddressObserved P) = Inr kept"
    and r': "rt_Operations r' = applyDefaultStatusOnOperations (filterOutOperationsWithZeroAmount kept)"
    by (auto simp: finishRosettaTx_def)
  have "well_indexed (rt_Operations r')"
    by (simp add: r' well_indexed_applyDefault filterOutOperationsWithZeroAmount_def)
  moreover have "op_Status o1 \<in> {Some opStatusSuccess, Some opStatusFailure} \<and>
         op_Type o1 \<in> set SupportedOperationTypes \<and> isNonZeroAmount (am_Value (op_Amount o1)) \<and>
         np_IsAddressObserved P (op_Address o1) = Inr True" if "o1 \<in> set (rt_Operations r')" for o1
  proof -
    from that obtain o2 st where o2: "o2 \<in> set (filterOutOperationsWithZeroAmount kept)"
        "o1 = o2\<lparr>op_Status := Some st\<rparr>"
      and st: "st = opStatusSuccess \<and> op_Status o2 = None \<or> op_Status o2 = Some st"
      unfolding r' using applyDefault_set by blast
    from o2(1) obtain o3 k where o3: "o3 \<in> set kept" "o2 = o3\<lparr>op_Index := Some k\<rparr>"
      "isNonZeroAmount (am_Value (op_Amount o3))"
      by (auto simp: filterOutOperationsWithZeroAmount_def indexOperations_def dest!: indexFrom_set)
    from filterOperationsByAddress_address [OF kept o3(1)] obtain o4 k' where
      o4: "o4 \<in> set (rt_Operations r)" "o3 = o4\<lparr>op_Index := Some k'\<rparr>"
      "np_IsAddressObserved P (op_Address o3) = Inr True" by blast
    with raw have "raw_operation o4" by blast
    with o2(2) st o3(2,3) o4(2,3) show ?thesis by (auto simp: raw_operation_def)
  qed
  ultimately show ?thesis by (simp add: well_formed_operations_def)
qed

section \<open>Blocks\<close>

lemma refundReceipt_raw:
  "refundReceiptToRosettaTx P receipt = Inr r \<Longrightarrow> o1 \<in> set (rt_Operations r) \<Longrightarrow> raw_operation o1"
  by (auto simp: refundReceiptToRosettaTx_def newOperation_raw)

text \<open>
  \<open>recoveredTxs\<close> are the transactions of a block with all their operations, before the filters
  of the last loop.
\<close>

definition recoveredTxs ::
  "Library \<Rightarrow> 'w NetworkProvider \<Rightarrow> Block \<Rightarrow> go_error + Transaction list" where
  "recoveredTxs L P block =
     (let txs = filterTxsOfBlock (txsOfBlock block);
          receipts = filter (\<lambda>receipt. rc_Data receipt = refundGasMessage) (receiptsOfBlock block)
      in bind_err (traverse (\<lambda>tx. txToRosettaTx L P tx txs) txs) (\<lambda>ofTxs.
         bind_err (traverse (refundReceiptToRosettaTx P) receipts) (\<lambda>ofReceipts. Inr (ofTxs @ ofReceipts))))"

lemma transformBlockTxs_recovered:
  "transformBlockTxs L P block =
     bind_err (recoveredTxs L P block) (\<lambda>recovered.
     bind_err (traverse (finishRosettaTx P) recovered) (\<lambda>finished.
       Inr (filterOutRosettaTransactionsWithNoOperations finished)))"
  by (auto simp: transformBlockTxs_unfold recoveredTxs_def Let_def bind_err_def split: sum.splits)

lemma recovered_raw:
  assumes "recoveredTxs L P block = Inr recovered" "r \<in> set recovered" "o1 \<in> set (rt_Operations r)"
  shows "raw_operation o1"
proof -
  from assms(1) obtain txs receipts ts rs where
      ts: "traverse (\<lambda>tx. txToRosettaTx L P tx txs) txs = Inr ts"
    and rs: "traverse (refundReceiptToRosettaTx P) receipts = Inr rs" and rec: "recovered = ts @ rs"
    by (auto simp: recoveredTxs_def Let_def)
  from assms(2) rec consider tx txs where "txToRosettaTx L P tx txs = Inr r"
    | receipt where "refundReceiptToRosettaTx P receipt = Inr r"
    using traverse_set [OF ts] traverse_set [OF rs] unfolding rec set_append Un_iff by blast
  then show ?thesis
  proof cases
    case 1
    then show ?thesis
      using events_raw base_raw assms(3) by (fastforce simp: txToRosettaTx_base)
  next
    case 2
    then show ?thesis using refundReceipt_raw assms(3) by blast
  qed
qed

lemma block_well_formed:
  assumes "transformBlockTxs L P block = Inr rtxs" "r \<in> set rtxs"
  shows "well_formed_operations P (rt_Operations r) \<and> rt_Operations r \<noteq> []"
proof -
  from assms obtain recovered finished where
      rec: "recoveredTxs L P block = Inr recovered"
    and fin: "traverse (finishRosettaTx P) recovered = Inr finished"
    and r: "r \<in> set finished" "rt_Operations r \<noteq> []"
    by (auto simp: transformBlockTxs_recovered filterOutRosettaTransactionsWithNoOperations_def)
  from traverse_set [OF fin r(1)] obtain r0 where "r0 \<in> set recovered" "finishRosettaTx P r0 = Inr r" by blast
  with recovered_raw [OF rec] r(2) finishRosettaTx_well_formed show ?thesis by blast
qed

definition block_effect :: "string \<Rightarrow> Currency \<Rightarrow> Transaction list \<Rightarrow> int" where
  "block_effect a cur rtxs = sum_list (map (\<lambda>r. effect_on a cur (rt_Operations r)) rtxs)"

lemma block_effect_filter:
  "block_effect a cur (filterOutRosettaTransactionsWithNoOperations rtxs) = block_effect a cur rtxs"
  unfolding block_effect_def filterOutRosettaTransactionsWithNoOperations_def
  by (rule sum_list_map_filter_zero) simp

lemma block_balances:
  assumes "transformBlockTxs L P block = Inr rtxs"
  shows "\<exists>recovered. recoveredTxs L P block = Inr recovered \<and>
    block_effect a cur rtxs =
      (if np_IsAddressObserved P a = Inr True then block_effect a cur recovered else 0)"
proof -
  from assms obtain recovered finished where
      rec: "recoveredTxs L P block = Inr recovered"
    and fin: "traverse (finishRosettaTx P) recovered = Inr finished"
    and rtxs: "rtxs = filterOutRosettaTransactionsWithNoOperations finished"
    by (auto simp: transformBlockTxs_recovered)
  have "block_effect a cur finished =
      sum_list (map (\<lambda>r. if np_IsAddressObserved P a = Inr True then effect_on a cur (rt_Operations r) else 0) recovered)"
    unfolding block_effect_def
    by (rule sum_list_all2 [OF fin [unfolded traverse_Inr_iff]]) (rule finishRosettaTx_effect)
  also have "\<dots> = (if np_IsAddressObserved P a = Inr True then block_effect a cur recovered else 0)"
    by (simp add: block_effect_def)
  finally show ?thesis using rec by (simp add: rtxs block_effect_filter)
qed

section \<open>The order of the transactions does not matter\<close>

lemma traverse_mset:
  assumes "mset xs = mset ys" "traverse f xs = Inr rs"
  shows "\<exists>rs'. traverse f ys = Inr rs' \<and> mset rs' = mset rs"
proof -
  define g where "g x = projr (f x)" for x
  have g: "f x = Inr (g x)" if "x \<in> set xs" for x
  proof -
    from assms(2) have "\<forall>x \<in> set xs. \<exists>y. f x = Inr y" by (metis traverse_succeeds_iff)
    with that show ?thesis by (auto simp: g_def)
  qed
  from mset_eq_setD [OF assms(1)] g have "traverse f ys = Inr (map g ys)"
    by (intro traverse_all_Inr) simp
  moreover have "rs = map g xs" using traverse_all_Inr [of xs f g] g assms(2) by simp
  ultimately show ?thesis using assms(1) by (metis mset_map)
qed

lemma txToRosettaTx_mset:
  assumes "mset xs = mset ys"
  shows "txToRosettaTx L P tx xs = txToRosettaTx L P tx ys"
  unfolding txToRosettaTx_def unsignedTxToRosettaTx_def doesContractResultHoldRewards_mset [OF assms] ..

lemma transformBlockTxs_mset:
  assumes txs: "mset (txsOfBlock b) = mset (txsOfBlock b')"
    and receipts: "mset (receiptsOfBlock b) = mset (receiptsOfBlock b')"
    and ok: "transformBlockTxs L P b = Inr rtxs"
  shows "\<exists>rtxs'. transformBlockTxs L P b' = Inr rtxs' \<and> mset rtxs' = mset rtxs"
proof -
  define xs where "xs = filterTxsOfBlock (txsOfBlock b)"
  define ys where "ys = filterTxsOfBlock (txsOfBlock b')"
  define rx where "rx = filter (\<lambda>receipt. rc_Data receipt = refundGasMessage) (receiptsOfBlock b)"
  define ry where "ry = filter (\<lambda>receipt. rc_Data receipt = refundGasMessage) (receiptsOfBlock b')"
  have xy: "mset xs = mset ys"
    unfolding xs_def ys_def filterTxsOfBlock_def by (intro filter1_mset filter2_mset txs)
  have rr: "mset rx = mset ry" using receipts by (simp add: rx_def ry_def)
  from ok obtain ts rs fs where
      ts: "traverse (\<lambda>tx. txToRosettaTx L P tx xs) xs = Inr ts"
    and rs: "traverse (refundReceiptToRosettaTx P) rx = Inr rs"
    and fs: "traverse (finishRosettaTx P) (ts @ rs) = Inr fs"
    and out: "rtxs = filterOutRosettaTransactionsWithNoOperations fs"
    by (auto simp: transformBlockTxs_unfold Let_def xs_def rx_def)
  from traverse_mset [OF xy ts] obtain ts' where
    ts': "traverse (\<lambda>tx. txToRosettaTx L P tx ys) ys = Inr ts'" "mset ts' = mset ts"
    by (auto simp: txToRosettaTx_mset [OF xy])
  from traverse_mset [OF rr rs] obtain rs' where
    rs': "traverse (refundReceiptToRosettaTx P) ry = Inr rs'" "mset rs' = mset rs" by blast
  from traverse_mset [OF _ fs, of "ts' @ rs'"] ts'(2) rs'(2) obtain fs' where
    fs': "traverse (finishRosettaTx P) (ts' @ rs') = Inr fs'" "mset fs' = mset fs" by auto
  then show ?thesis
    using ts'(1) rs'(1)
    by (auto simp: transformBlockTxs_unfold Let_def ys_def ry_def out
        filterOutRosettaTransactionsWithNoOperations_def)
qed

section \<open>Plain transfers, invalid transactions, filtered transactions\<close>

lemma no_logs_no_events:
  assumes "tx_Logs tx = None"
  shows "addOperationsGivenTransactionEvents P tx r = Inr r"
proof -
  have none: "findManyEventsByIdentifier tx ident = []" for ident
    using assms by (simp add: findManyEventsByIdentifier_def hasEvents_def)
  have sig: "\<not> hasAnySignalError tx" using assms by (simp add: hasAnySignalError_def hasEvents_def)
  show ?thesis
    by (simp add: addOperationsGivenTransactionEvents_def sig extractEventTransferValueOnly_def
        extractEventsESDTOrESDTNFTTransfers_def none
        scDeploy.extract_none [OF none] localBurn.extract_none [OF none] localMint.extract_none [OF none]
        wipe.extract_none [OF none] nftCreate.extract_none [OF none] nftBurn.extract_none [OF none]
        nftAddQuantity.extract_none [OF none] claimRewards.extract_none [OF none])
qed

lemma effect_on_native:
  "effect_on a (getNativeCurrency P) (newOperation ty b (valueToNativeAmount P v) # ops) =
     (if b = a then amount_value v else 0) + effect_on a (getNativeCurrency P) ops"
  by (simp add: newOperation_def op_effect_def op_value_def valueToNativeAmount_def)

text \<open>A transfer without logs moves its value and takes its fee.\<close>

lemma plain_transfer_effect:
  assumes "txToRosettaTx L P tx txs = Inr r" "tx_Type tx = TxTypeNormal" "tx_Logs tx = None"
    and "\<not> isRelayedV1Transaction tx" "decimal_amounts tx" "isNonZeroAmount (tx_Value tx)"
  shows "effect_on a (getNativeCurrency P) (rt_Operations r) =
      (if a = tx_Receiver tx then amount_value (tx_Value tx) else 0)
      - (if a = tx_Sender tx then amount_value (tx_Value tx) else 0)
      - (if a = decideFeePayer tx then amount_value (tx_InitiallyPaidFee tx) else 0)"
proof -
  have sig: "\<not> hasAnySignalError tx" using assms(3) by (simp add: hasAnySignalError_def hasEvents_def)
  then have noerr: "\<not> isContractDeploymentWithSignalErrorOrIntrashardContractCallWithSignalError tx"
    by (simp add: isContractDeploymentWithSignalErrorOrIntrashardContractCallWithSignalError_def
        isContractDeploymentWithSignalError_def isContractCallWithSignalError_def)
  have ops: "rt_Operations r =
     [newOperation opTransfer (tx_Sender tx) (valueToNativeAmount P (CHR ''-'' # tx_Value tx)),
      newOperation opTransfer (tx_Receiver tx) (valueToNativeAmount P (tx_Value tx)),
      newOperation opFee (decideFeePayer tx) (valueToNativeAmount P (CHR ''-'' # tx_InitiallyPaidFee tx))]"
    using assms(1,2,4,6) no_logs_no_events [OF assms(3), of P]
    by (auto simp: txToRosettaTx_def normalTxToRosetta_def Let_def noerr
        extractInnerTxOperationsIfBeforeSiriusRelayedCompletelyIntrashardWithSignalError_def split: if_splits)
  show ?thesis
    unfolding ops effect_on_native
    using amount_value_minus [of "tx_Value tx"] amount_value_minus [of "tx_InitiallyPaidFee tx"] assms(2,5)
    by (auto simp: decimal_amounts_def charges_initial_fee_def)
qed

text \<open>An invalid transaction without effects of its own takes its fee and nothing else.\<close>

lemma invalid_transaction_effect:
  assumes "txToRosettaTx L P tx txs = Inr r" "tx_Type tx = TxTypeInvalid"
    and "hasAnySignalError tx \<or> tx_Logs tx = None" "decimal_amounts tx"
    and fee: "0 \<le> np_ComputeTransactionFeeForMoveBalance P tx"
  shows "effect_on a cur (rt_Operations r) =
      (if cur = getNativeCurrency P \<and> a = decideFeePayer tx then base_change L P tx txs else 0)"
proof -
  have ops: "rt_Operations r = rt_Operations (invalidTxToRosettaTx P tx)"
    using assms(1-3) no_logs_no_events [of tx P] signal_error_silences_events [of tx P]
    by (auto simp: txToRosettaTx_def)
  show ?thesis
    unfolding ops
    using amount_value_minus [of "tx_InitiallyPaidFee tx"] assms(2,4) fee
    by (auto simp: invalidTxToRosettaTx_def Let_def base_change_def decimal_amounts_def charges_initial_fee_def effect_native_gen newOperation_def [of _ "decideFeePayer tx"]
        op_effect_def op_value_def valueToNativeAmount_def newOperation_def)
qed

lemma filterTxsOfBlock_one_pass:
  "filterTxsOfBlock txs =
     filter (\<lambda>tx. \<not> (tx_Type tx = TxTypeUnsigned \<and> tx_OriginalTransactionHash tx \<in> hashesOfInvalidTxs txs) \<and>
                 \<not> (isRelayedV1Transaction tx \<and> tx_Hash tx \<in> hashesOfInvalidTxs txs)) txs"
proof -
  have "hashesOfInvalidTxs (filterOutIntrashardContractResultsWhoseOriginalTransactionIsInInvalidMiniblock txs) =
      hashesOfInvalidTxs txs" by (rule hashesOfInvalidTxs_filter1)
  then have "filterTxsOfBlock txs = filter (\<lambda>tx. \<not> (isRelayedV1Transaction tx \<and> tx_Hash tx \<in> hashesOfInvalidTxs txs))
      (filterOutIntrashardContractResultsWhoseOriginalTransactionIsInInvalidMiniblock txs)"
    unfolding filterTxsOfBlock_def
    by (simp only: filterOutIntrashardRelayedTransactionAlreadyHeldInInvalidMiniblock_def Let_def)
  then show ?thesis
    by (simp add: filterOutIntrashardContractResultsWhoseOriginalTransactionIsInInvalidMiniblock_def Let_def conj_commute)
qed

text \<open>A block with a transaction of an unknown type is refused.\<close>

lemma unknown_type_refused:
  assumes "filterTxsOfBlock (txsOfBlock block) = before @ tx # after"
    and "\<forall>t \<in> set before. \<exists>r. txToRosettaTx L P t (before @ tx # after) = Inr r"
    and "tx_Type tx \<notin> {TxTypeNormal, TxTypeReward, TxTypeUnsigned, TxTypeInvalid}"
  shows "transformBlockTxs L P block = Inl (unknownTransactionType (tx_Type tx))"
proof -
  have "traverse f (before @ tx # after) = Inl e" if "\<forall>t \<in> set before. \<exists>r. f t = Inr r" "f tx = Inl e"
    for f :: "ApiTransactionResult \<Rightarrow> go_error + Transaction" and e
    using that by (induction before) auto
  from this [OF assms(2) txToRosettaTx_unknown [OF assms(3)]] show ?thesis
    by (simp add: transformBlockTxs_unfold assms(1) Let_def)
qed

end
