(* ===== verification/ConstructionFacts.thy ===== *)
theory ConstructionFacts
  imports Construction
begin

text \<open>
  What the construction endpoints guarantee: objects decode to the structs they were made from
  (numbers below \<open>2 ^ 53\<close>), amounts survive their hexadecimal form, fees and gas are those of the
  network, and an intent comes back unchanged from the transaction built for it.
\<close>

section \<open>Objects\<close>

lemmas object_simps = fromObjectsMap_def coerce_entries_def marshal_order_def find_field_def

text \<open>The texts of a struct as they arrive: bytes that are not UTF-8 are replaced.\<close>

definition coerced_options :: "constructionOptions \<Rightarrow> constructionOptions" where
  "coerced_options opts = opts\<lparr>co_Sender := coerce_utf8 (co_Sender opts), co_Receiver := coerce_utf8 (co_Receiver opts),
     co_Amount := coerce_utf8 (co_Amount opts), co_CurrencySymbol := coerce_utf8 (co_CurrencySymbol opts)\<rparr>"

definition coerced_metadata :: "constructionMetadata \<Rightarrow> constructionMetadata" where
  "coerced_metadata m = m\<lparr>cm_Sender := coerce_utf8 (cm_Sender m), cm_Receiver := coerce_utf8 (cm_Receiver m),
     cm_Amount := coerce_utf8 (cm_Amount m), cm_CurrencySymbol := coerce_utf8 (cm_CurrencySymbol m),
     cm_ChainID := coerce_utf8 (cm_ChainID m)\<rparr>"

definition valid_options :: "constructionOptions \<Rightarrow> bool" where
  "valid_options opts \<longleftrightarrow> valid_utf8 (co_Sender opts) \<and> valid_utf8 (co_Receiver opts) \<and>
     valid_utf8 (co_Amount opts) \<and> valid_utf8 (co_CurrencySymbol opts)"

definition valid_metadata :: "constructionMetadata \<Rightarrow> bool" where
  "valid_metadata m \<longleftrightarrow> valid_utf8 (cm_Sender m) \<and> valid_utf8 (cm_Receiver m) \<and> valid_utf8 (cm_Amount m) \<and>
     valid_utf8 (cm_CurrencySymbol m) \<and> valid_utf8 (cm_ChainID m)"

lemma coerced_valid_options: "valid_options opts \<Longrightarrow> coerced_options opts = opts"
  by (simp add: coerced_options_def valid_options_def)

lemma coerced_valid_metadata: "valid_metadata m \<Longrightarrow> coerced_metadata m = m"
  by (simp add: coerced_metadata_def valid_metadata_def)

lemma names_ascii: "list_all (\<lambda>c. byte_code c < 128) name \<Longrightarrow> coerce_utf8 name = name"
  by (rule coerce_valid) (rule ascii_valid)

lemma options_roundtrip:
  assumes "unat (co_GasLimit opts) < 2 ^ 53" "unat (co_GasPrice opts) < 2 ^ 53"
  shows "newConstructionOptions (optionsToObjectsMap opts) = Inr (coerced_options opts)"
  using assms
  by (simp add: coerced_options_def newConstructionOptions_def optionsToObjectsMap_def object_simps optionsFields_def noOptions_def)

lemma metadata_roundtrip:
  assumes "unat (cm_GasLimit m) < 2 ^ 53" "unat (cm_GasPrice m) < 2 ^ 53" "unat (cm_Nonce m) < 2 ^ 53"
    and "0 \<le> cm_Version m" "cm_Version m < 2 ^ 53"
  shows "newConstructionMetadata (metadataToObjectsMap m) = Inr (coerced_metadata m)"
  using assms
  by (simp add: coerced_metadata_def newConstructionMetadata_def metadataToObjectsMap_def object_simps metadataFields_def noMetadata_def)

lemma no_preprocess_metadata: "newConstructionPreprocessMetadata [] = Inr noPreprocessMetadata"
  by (simp add: newConstructionPreprocessMetadata_def object_simps)

text \<open>Keys that a struct does not have are ignored, whatever they hold.\<close>

lemma unknown_key_ignored:
  "find_field flds key = None \<Longrightarrow> decode_entries flds ((key, v) # obj) s = decode_entries flds obj s"
  by simp

section \<open>Amounts as hexadecimal text\<close>

lemma big_SetBytes_Bytes: "big_SetBytes (big_Bytes i) = \<bar>i\<bar>"
proof -
  have "map of_char (map char_of (to_digits 256 n)) = to_digits 256 n" for n
    by (induction n rule: nat.induct) (auto intro!: map_idI dest: to_digits_lt simp: of_char_of)
  then show ?thesis by (simp add: big_SetBytes_def big_Bytes_def)
qed

lemma even_hex [simp]: "ensureEvenLengthOfHexString (hex_encode bs) = hex_encode bs"
  by (simp add: ensureEvenLengthOfHexString_def)

lemma hexToAmount_amountToHex:
  "big_SetString v = Some i \<Longrightarrow> hexToAmount (amountToHex v) = Inr (int_to_dec \<bar>i\<bar>)"
  by (simp add: amountToHex_def hexToAmount_def big_SetBytes_Bytes)

lemma at_not_in_hex: "CHR ''@'' \<notin> set (hex_encode bs)"
proof -
  have "from_hex_char (CHR ''@'') = None" by (simp add: from_hex_char_def)
  then have "CHR ''@'' \<noteq> hex_digit d" if "d < 16" for d
    using from_hex_digit [OF that] by auto
  then show ?thesis by (induction bs) auto
qed

lemma amountToHex_is_hex: "\<exists>bs. amountToHex v = hex_encode bs"
proof (cases "big_SetString v")
  case None
  then show ?thesis by (intro exI [of _ "[]"]) (simp add: amountToHex_def)
qed (auto simp: amountToHex_def)

lemma parse_computed_data:
  assumes "big_SetString v = Some i"
  shows "parseCustomCurrencyTransfer (computeDataForCustomCurrencyTransfer token v) = Inr (token, int_to_dec \<bar>i\<bar>)"
proof -
  obtain bs where bs: "amountToHex v = hex_encode bs" using amountToHex_is_hex by blast
  have "CHR ''@'' \<notin> set builtInFunctionESDTTransfer" by (simp add: builtInFunctionESDTTransfer_def)
  then have "split_on (CHR ''@'') (computeDataForCustomCurrencyTransfer token v) =
      [builtInFunctionESDTTransfer, hex_encode token, hex_encode bs]"
    by (simp add: computeDataForCustomCurrencyTransfer_def stringToHex_def bs split_on_append_sep
        split_on_no_sep at_not_in_hex)
  moreover from hexToAmount_amountToHex [OF assms] have "hexToAmount (hex_encode bs) = Inr (int_to_dec \<bar>i\<bar>)"
    by (simp add: bs)
  ultimately show ?thesis by (simp add: parseCustomCurrencyTransfer_def)
qed

lemma computed_data_is_custom:
  "isCustomCurrencyTransfer (computeDataForCustomCurrencyTransfer token v)"
  by (simp add: isCustomCurrencyTransfer_def computeDataForCustomCurrencyTransfer_def)

section \<open>Fees and gas\<close>

lemma computeFee_native: "computeFee L movement 0 price modifier = uint movement * uint price"
  by (simp add: computeFee_def multiplyUint64_def addBigInt_def)

lemma movementGas_exact:
  assumes "unat (nc_MinGasLimit c) + unat (nc_GasPerDataByte c) * length d < 2 ^ 64"
  shows "unat (movementGasLimitOf c d) = unat (nc_MinGasLimit c) + unat (nc_GasPerDataByte c) * length d"
proof -
  have "movementGasLimitOf c d = of_nat (unat (nc_MinGasLimit c) + unat (nc_GasPerDataByte c) * length d)"
    by (simp add: movementGasLimitOf_def)
  then show ?thesis using assms by (simp only: unat_of_nat) simp
qed

lemma components_accepted:
  assumes "computeFeeComponents L P opts d = Inr (fee, limit, price)"
  shows "nc_MinGasPrice (np_GetNetworkConfig P) \<le> price"
    and "movementGasLimitOf (np_GetNetworkConfig P) d +
           (if isNativeCurrencySymbol P (co_CurrencySymbol opts) then 0
            else nc_GasLimitCustomTransfer (np_GetNetworkConfig P)) \<le> limit"
    and "fee = computeFee L (movementGasLimitOf (np_GetNetworkConfig P) d)
           (if isNativeCurrencySymbol P (co_CurrencySymbol opts) then 0
            else nc_GasLimitCustomTransfer (np_GetNetworkConfig P)) price
           (nc_GasPriceModifier (np_GetNetworkConfig P))"
  using assms by (auto simp: computeFeeComponents_def Let_def not_less split: if_splits)

lemma components_default:
  assumes "co_GasLimit opts = 0" "co_GasPrice opts = 0"
  shows "\<exists>fee. computeFeeComponents L P opts d =
    Inr (fee, movementGasLimitOf (np_GetNetworkConfig P) d +
           (if isNativeCurrencySymbol P (co_CurrencySymbol opts) then 0
            else nc_GasLimitCustomTransfer (np_GetNetworkConfig P)),
         nc_MinGasPrice (np_GetNetworkConfig P))"
  using assms by (simp add: computeFeeComponents_def coalesceGasLimit_def coalesceGasPrice_def Let_def)

section \<open>From an intent to a transaction and back\<close>

text \<open>
  The documented behaviour of \<open>encoding/json\<close> on the transaction struct: the text of a transaction
  whose strings are valid UTF-8 reads back, and what is read has such strings. (The data is a
  \<open>[]byte\<close>, written in base 64: it may hold any bytes.)
\<close>

definition valid_tx :: "PreparedTransaction \<Rightarrow> bool" where
  "valid_tx tx \<longleftrightarrow> valid_utf8 (pt_Value tx) \<and> valid_utf8 (pt_Receiver tx) \<and> valid_utf8 (pt_Sender tx) \<and>
     valid_utf8 (pt_Signature tx) \<and> valid_utf8 (pt_ChainID tx)"

definition tx_text_law :: "Library \<Rightarrow> bool" where
  "tx_text_law L \<longleftrightarrow>
     (\<forall>tx. valid_tx tx \<longrightarrow> (\<exists>s. lib_MarshalTx L tx = Inr s \<and> lib_UnmarshalTx L s = Inr tx)) \<and>
     (\<forall>s tx. lib_UnmarshalTx L s = Inr tx \<longrightarrow> valid_tx tx)"

lemma decimal_valid: "is_decimal v \<Longrightarrow> valid_utf8 v"
proof -
  assume "is_decimal v"
  then have "list_all (\<lambda>c. byte_code c < 128) v"
    by (fastforce simp: is_decimal_def list_all_iff is_digit_def from_dec_char_def Let_def split: if_splits)
  then show ?thesis by (rule ascii_valid)
qed

lemma hex_valid: "valid_utf8 (hex_encode bs)"
proof -
  have "byte_code (hex_digit d) < 128" if "d < 16" for d
    using less_16_cases [OF that] by (auto simp: hex_digit_def hextable_def)
  then have "list_all (\<lambda>c. byte_code c < 128) (hex_encode bs)" by (induction bs) auto
  then show ?thesis by (rule ascii_valid)
qed

text \<open>Steps of the flow, each on its own.\<close>

definition transferIntent :: "Currency \<Rightarrow> string \<Rightarrow> string \<Rightarrow> string \<Rightarrow> RequestOperation list" where
  "transferIntent cur sender receiver v =
     [\<lparr>rq_Account = Some sender, rq_Amount = Some \<lparr>ra_Value = CHR ''-'' # v, ra_Currency = Some cur\<rparr>\<rparr>,
      \<lparr>rq_Account = Some receiver, rq_Amount = Some \<lparr>ra_Value = v, ra_Currency = Some cur\<rparr>\<rparr>]"

definition transferOptions :: "string \<Rightarrow> string \<Rightarrow> string \<Rightarrow> string \<Rightarrow> constructionOptions" where
  "transferOptions symbol sender receiver v =
     \<lparr>co_Sender = sender, co_Receiver = receiver, co_Amount = v, co_CurrencySymbol = symbol,
      co_GasLimit = 0, co_GasPrice = 0, co_Data = []\<rparr>"

lemma decimal_magnitude: "is_decimal v \<Longrightarrow> getMagnitudeOfAmount (CHR ''-'' # v) = v"
proof -
  assume "is_decimal v"
  then have "CHR ''-'' \<notin> set v" using sign_not_digit by (auto simp: is_decimal_def list_all_iff)
  then show ?thesis by (simp add: getMagnitudeOfAmount_def trim_char_id)
qed

lemma preprocess_transfer:
  assumes "sender \<noteq> []" "receiver \<noteq> []" "is_decimal v" "isNonZeroAmount v" "Symbol cur \<noteq> []"
  shows "ConstructionPreprocess P [] (transferIntent cur sender receiver v) =
    Inr (optionsToObjectsMap (transferOptions (Symbol cur) sender receiver v))"
  using assms
  by (simp add: ConstructionPreprocess_def no_preprocess_metadata noPreprocessMetadata_def orFallback_def
      transferIntent_def accountAddress_def amountValue_def amountCurrencySymbol_def decimal_magnitude
      validateOptions_def isNonZeroAmount_def transferOptions_def)

definition builtMetadata ::
  "'w NetworkProvider \<Rightarrow> AccountOnBlock \<Rightarrow> constructionOptions \<Rightarrow> constructionMetadata" where
  "builtMetadata P account opts =
     (let config = np_GetNetworkConfig P;
          native = isNativeCurrencySymbol P (co_CurrencySymbol opts);
          d = (if native then co_Data opts
               else computeDataForCustomCurrencyTransfer (co_CurrencySymbol opts) (co_Amount opts))
      in \<lparr>cm_Sender = co_Sender opts, cm_Receiver = co_Receiver opts,
          cm_Nonce = ac_Nonce (aob_Account account),
          cm_Amount = (if native then co_Amount opts else amountZero),
          cm_CurrencySymbol = co_CurrencySymbol opts,
          cm_GasLimit = movementGasLimitOf config d + (if native then 0 else nc_GasLimitCustomTransfer config),
          cm_GasPrice = nc_MinGasPrice config, cm_Data = d,
          cm_ChainID = nc_NetworkID config, cm_Version = transactionVersion\<rparr>)"

lemma metadata_built:
  assumes "\<not> np_IsOffline P" "np_GetAccount P (co_Sender opts) w = (Inr account, w')"
    and "co_GasLimit opts = 0" "co_GasPrice opts = 0" "valid_options opts"
  shows "\<exists>fee. ConstructionMetadata L P (optionsToObjectsMap opts) w =
    (Inr (metadataToObjectsMap (builtMetadata P account opts), [valueToNativeAmount P (int_to_dec fee)]), w')"
proof -
  have dec: "newConstructionOptions (optionsToObjectsMap opts) = Inr opts"
    using options_roundtrip [of opts] assms(3-5) by (simp add: coerced_valid_options)
  define d where "d = (if isNativeCurrencySymbol P (co_CurrencySymbol opts) then co_Data opts
      else computeDataForCustomCurrencyTransfer (co_CurrencySymbol opts) (co_Amount opts))"
  obtain fee where "computeFeeComponents L P opts d = Inr (fee, movementGasLimitOf (np_GetNetworkConfig P) d +
           (if isNativeCurrencySymbol P (co_CurrencySymbol opts) then 0
            else nc_GasLimitCustomTransfer (np_GetNetworkConfig P)), nc_MinGasPrice (np_GetNetworkConfig P))"
    using components_default [OF assms(3,4)] by blast
  with assms(1,2) dec show ?thesis
    by (auto simp: ConstructionMetadata_def metadataOfAccount_def builtMetadata_def Let_def d_def)
qed

text \<open>
  The numbers of the network have to survive their way through \<open>float64\<close>, and the texts have to be
  valid UTF-8.
\<close>

definition buildable :: "'w NetworkProvider \<Rightarrow> AccountOnBlock \<Rightarrow> constructionOptions \<Rightarrow> bool" where
  "buildable P account opts =
     (let m = builtMetadata P account opts
      in unat (cm_GasLimit m) < 2 ^ 53 \<and> unat (cm_GasPrice m) < 2 ^ 53 \<and> unat (cm_Nonce m) < 2 ^ 53 \<and>
         cm_GasLimit m \<noteq> 0 \<and> cm_GasPrice m \<noteq> 0 \<and> cm_ChainID m \<noteq> [] \<and>
         cm_Sender m \<noteq> [] \<and> cm_Receiver m \<noteq> [] \<and> valid_metadata m)"

definition transactionOf :: "constructionMetadata \<Rightarrow> PreparedTransaction" where
  "transactionOf m =
     \<lparr>pt_Nonce = cm_Nonce m, pt_Value = cm_Amount m, pt_Receiver = cm_Receiver m, pt_Sender = cm_Sender m,
      pt_GasPrice = cm_GasPrice m, pt_GasLimit = cm_GasLimit m, pt_Data = cm_Data m, pt_Signature = [],
      pt_ChainID = cm_ChainID m, pt_Version = 1\<rparr>"

lemma payloads_built:
  assumes "buildable P account opts" "tx_text_law L"
  shows "\<exists>text payloads. ConstructionPayloads L (metadataToObjectsMap (builtMetadata P account opts)) =
      Inr (text, payloads) \<and> lib_UnmarshalTx L text = Inr (transactionOf (builtMetadata P account opts)) \<and>
      payloads = [\<lparr>sp_Address = co_Sender opts, sp_SignatureType = ''ed25519'', sp_Bytes = text\<rparr>]"
proof -
  let ?m = "builtMetadata P account opts"
  have v: "cm_Version ?m = 1" "cm_Sender ?m = co_Sender opts"
    by (simp_all add: builtMetadata_def Let_def transactionVersion_def)
  have "newConstructionMetadata (metadataToObjectsMap ?m) = Inr ?m"
    using metadata_roundtrip [of ?m] assms(1) v by (simp add: buildable_def Let_def coerced_valid_metadata)
  moreover have "toTransaction ?m = Inr (transactionOf ?m)"
    using assms(1) v
    by (simp add: toTransaction_def validateMetadata_def transactionOf_def buildable_def Let_def)
  moreover obtain s where "lib_MarshalTx L (transactionOf ?m) = Inr s" "lib_UnmarshalTx L s = Inr (transactionOf ?m)"
  proof -
    have "valid_tx (transactionOf ?m)"
      using assms(1) by (simp add: valid_tx_def transactionOf_def buildable_def Let_def valid_metadata_def)
    with assms(2) that show thesis unfolding tx_text_law_def by blast
  qed
  ultimately show ?thesis
    by (simp add: ConstructionPayloads_def toTransactionJson_def v)
qed

lemma parse_transfer:
  assumes "lib_UnmarshalTx L text = Inr tx" "createOperationsFromPreparedTx P tx = Inr ops"
  shows "ConstructionParse L P text isSigned = Inr (ops, if isSigned then [pt_Sender tx] else [])"
  using assms by (simp add: ConstructionParse_def getTxFromRequest_def)

lemma operations_of_native:
  assumes "\<not> isCustomCurrencyTransfer (pt_Data tx)"
  shows "createOperationsFromPreparedTx P tx =
    Inr (indexOperations
      [newOperation opTransfer (pt_Sender tx) (valueToNativeAmount P (CHR ''-'' # pt_Value tx)),
       newOperation opTransfer (pt_Receiver tx) (valueToNativeAmount P (pt_Value tx))])"
  using assms by (simp add: createOperationsFromPreparedTx_def)

lemma operations_of_custom:
  assumes "pt_Data tx = computeDataForCustomCurrencyTransfer token v" "big_SetString v = Some i"
  shows "createOperationsFromPreparedTx P tx =
    Inr (indexOperations
      [newOperation opCustomTransfer (pt_Sender tx) (valueToCustomAmount P (CHR ''-'' # int_to_dec \<bar>i\<bar>) token),
       newOperation opCustomTransfer (pt_Receiver tx) (valueToCustomAmount P (int_to_dec \<bar>i\<bar>) token)])"
  using assms by (simp add: createOperationsFromPreparedTx_def computed_data_is_custom parse_computed_data)

text \<open>The whole flow, for a native transfer and for a transfer of a custom currency.\<close>

definition constructed ::
  "Library \<Rightarrow> 'w NetworkProvider \<Rightarrow> RequestOperation list \<Rightarrow> 'w \<Rightarrow> Operation list \<Rightarrow> bool" where
  "constructed L P intent w ops =
     (\<exists>opts metadata fee w' text payloads.
        ConstructionPreprocess P [] intent = Inr opts \<and>
        ConstructionMetadata L P opts w = (Inr (metadata, fee), w') \<and>
        ConstructionPayloads L metadata = Inr (text, payloads) \<and>
        ConstructionParse L P text False = Inr (ops, []))"

lemma construct_transfer:
  assumes intent: "sender \<noteq> []" "receiver \<noteq> []" "is_decimal v" "isNonZeroAmount v" "Symbol cur \<noteq> []"
    and online: "\<not> np_IsOffline P" "np_GetAccount P sender w = (Inr account, w')"
    and build: "buildable P account (transferOptions (Symbol cur) sender receiver v)" and law: "tx_text_law L"
    and ops: "createOperationsFromPreparedTx P
      (transactionOf (builtMetadata P account (transferOptions (Symbol cur) sender receiver v))) = Inr ops"
  shows "constructed L P (transferIntent cur sender receiver v) w ops"
proof -
  let ?o = "transferOptions (Symbol cur) sender receiver v"
  obtain fee where md: "ConstructionMetadata L P (optionsToObjectsMap ?o) w =
      (Inr (metadataToObjectsMap (builtMetadata P account ?o), [valueToNativeAmount P (int_to_dec fee)]), w')"
    using metadata_built [OF online(1), of ?o w account w' L] online(2) decimal_valid [OF intent(3)] build
    by (auto simp: transferOptions_def buildable_def builtMetadata_def valid_metadata_def valid_options_def Let_def)
  obtain tj payloads where pl: "ConstructionPayloads L (metadataToObjectsMap (builtMetadata P account ?o)) =
      Inr (tj, payloads)" and tx: "lib_UnmarshalTx L tj = Inr (transactionOf (builtMetadata P account ?o))"
    using payloads_built [OF build law] by blast
  show ?thesis
    unfolding constructed_def
    using preprocess_transfer [OF intent] md pl parse_transfer [OF tx ops, of False] by fastforce
qed

section \<open>Signing\<close>

lemma combine_signs:
  assumes "tx_text_law L" "lib_UnmarshalTx L text = Inr tx"
  shows "\<exists>result. ConstructionCombine L text [signature] = Inr result \<and>
    lib_UnmarshalTx L result = Inr (tx\<lparr>pt_Signature := hex_encode signature\<rparr>)"
proof -
  have "valid_tx (tx\<lparr>pt_Signature := hex_encode signature\<rparr>)"
    using assms by (auto simp: tx_text_law_def valid_tx_def hex_valid)
  then obtain s where "lib_MarshalTx L (tx\<lparr>pt_Signature := hex_encode signature\<rparr>) = Inr s"
    "lib_UnmarshalTx L s = Inr (tx\<lparr>pt_Signature := hex_encode signature\<rparr>)"
    using assms(1) unfolding tx_text_law_def by blast
  with assms(2) show ?thesis by (simp add: ConstructionCombine_def getTxFromRequest_def)
qed

lemma operations_ignore_signature:
  "createOperationsFromPreparedTx P (tx\<lparr>pt_Signature := sig\<rparr>) = createOperationsFromPreparedTx P tx"
  by (simp add: createOperationsFromPreparedTx_def)

section \<open>Numbers above 2 to the 53\<close>

lemma nonce_altered: "json_uint64 (json_of_uint64 9007199254740993) = Inr 9007199254740992"
  by (simp add: json_uint64_def json_of_uint64_def round53_def log2.simps shortest_digits_def shortestFrom.simps
      within_def upper_bound_def lower_bound_def even_mantissa_def Let_def)

lemma largest_refused: "json_uint64 (json_of_uint64 18446744073709551615) = Inl (JsonTypeError ''uint64'')"
  by (simp add: json_uint64_def json_of_uint64_def round53_def log2.simps shortest_digits_def shortestFrom.simps
      within_def upper_bound_def lower_bound_def even_mantissa_def Let_def)

end
