(* ===== verification/ServerFacts.thy ===== *)
theory ServerFacts
  imports Wiring TransformerFacts ConstructionFacts
begin

text \<open>
  Facts on whole requests: every refusal is one of the published errors, an offline server
  touches nothing, blocks link to their parents, the genesis block is built once, and the
  provider of a started server is the one its flags describe.
\<close>

section \<open>Published errors\<close>

definition published_error :: "RosettaError \<Rightarrow> bool" where
  "published_error e =
     (\<exists>p \<in> set (getPossibleErrors newErrFactory).
        re_Code p = re_Code e \<and> re_Message p = re_Message e \<and> re_Retriable p = re_Retriable e)"

definition published :: "failure + 'a \<Rightarrow> bool" where
  "published r = (\<forall>e. r = Inl (Refused e) \<longrightarrow> published_error e)"

named_theorems published_intros \<open>how answers are composed\<close>

lemma newErr_is_published: "1 \<le> code \<Longrightarrow> code \<le> 19 \<Longrightarrow> published_error (newErr newErrFactory code)"
  using newErr_published unfolding published_error_def by blast

lemma newErrWithOriginal_is_published:
  "1 \<le> code \<Longrightarrow> code \<le> 19 \<Longrightarrow> published_error (newErrWithOriginal newErrFactory code e)"
  using newErr_is_published [of code]
  by (simp add: published_error_def newErrWithOriginal_def)

lemma published_Inr [published_intros]: "published (Inr x)"
  by (simp add: published_def)

lemma published_Crashed [published_intros]: "published (Inl (Crashed what))"
  by (simp add: published_def)

lemma published_nilPointer [published_intros]: "published (Inl nilPointer)"
  by (simp add: published_def nilPointer_def)

lemma published_newErr [published_intros]:
  "1 \<le> code \<Longrightarrow> code \<le> 19 \<Longrightarrow> published (Inl (Refused (newErr newErrFactory code)))"
  by (simp add: published_def newErr_is_published)

lemma published_failWith [published_intros]:
  "1 \<le> code \<Longrightarrow> code \<le> 19 \<Longrightarrow> published (Inl (failWith newErrFactory code e))"
  by (cases e) (simp_all add: published_def failWith_def newErrWithOriginal_is_published)

lemma published_orFail [published_intros]:
  "1 \<le> code \<Longrightarrow> code \<le> 19 \<Longrightarrow> published (orFail newErrFactory code r)"
  by (cases r) (simp_all add: orFail_def published_intros)

lemma published_bind [published_intros]:
  "published r \<Longrightarrow> (\<And>x. r = Inr x \<Longrightarrow> published (f x)) \<Longrightarrow> published (bind_err r f)"
  by (cases r) (simp_all add: published_def)

lemma published_if [published_intros]:
  "(b \<Longrightarrow> published x) \<Longrightarrow> (\<not> b \<Longrightarrow> published y) \<Longrightarrow> published (if b then x else y)"
  by simp

lemma published_answer [published_intros]: "published r \<Longrightarrow> published (answer f r)"
  unfolding answer_def by (intro published_intros)

lemma published_keepGenesis:
  "published (fst (call (snd s))) \<Longrightarrow> published (fst (keepGenesis f call s))"
  by (cases "call (snd s)") (simp add: keepGenesis_def published_answer)

lemma published_orFallback:
  "(\<And>i. published (read (operations ! i))) \<Longrightarrow> published (orFallback given operations i what read)"
  unfolding orFallback_def by (intro published_intros) (simp_all add: err_code_defs)

lemma published_fields:
  "published (accountAddress o1)" "published (amountValue o1)" "published (amountCurrencySymbol o1)"
  by (auto simp: accountAddress_def amountValue_def amountCurrencySymbol_def published_intros split: option.splits)

lemma published_preprocess: "published (ConstructionPreprocess P metadata operations)"
  unfolding ConstructionPreprocess_def Let_def
  by (intro published_intros published_orFallback published_fields) (simp_all add: err_code_defs)

lemma published_components: "published (computeFeeComponents L P options d)"
  unfolding computeFeeComponents_def Let_def
  by (intro published_intros) (simp_all add: err_code_defs)

lemma published_metadata: "published (fst (ConstructionMetadata L P options w))"
proof -
  have "published (metadataOfAccount L P o1 account)" for o1 account
    unfolding metadataOfAccount_def Let_def
    by (auto intro!: published_intros published_components split: prod.split)
  moreover have "published (orFail newErrFactory ErrConstruction (newConstructionOptions options))"
    by (intro published_intros) (simp_all add: err_code_defs)
  ultimately show ?thesis
    unfolding ConstructionMetadata_def
    by (auto intro!: published_intros simp: err_code_defs published_def [of "Inl _"] newErr_is_published split: sum.split prod.split)
qed

lemma published_construction:
  "published (ConstructionPayloads L obj)" "published (ConstructionParse L P t isSigned)"
  "published (ConstructionCombine L t signatures)" "published (ConstructionDerive P curve key)"
  "published (ConstructionHash L P t)"
  unfolding ConstructionPayloads_def ConstructionParse_def ConstructionCombine_def ConstructionDerive_def
    ConstructionHash_def Let_def
  by ((intro published_intros; simp add: err_code_defs)+)

lemma published_submit: "published (fst (ConstructionSubmit L P t w))"
proof -
  have "published (orFail newErrFactory ErrMalformedValue (getTxFromRequest L t))"
    by (intro published_intros) (simp_all add: err_code_defs)
  then show ?thesis
    unfolding ConstructionSubmit_def
    by (auto intro!: published_intros simp: err_code_defs published_def [of "Inl _"] newErr_is_published split: sum.split prod.split)
qed

lemma published_genesis: "published (fst (doGetGenesisBlock P w))"
  unfolding doGetGenesisBlock_def
  by (auto intro!: published_intros simp: err_code_defs split: prod.split)

lemma published_block: "published (fst (doGetBlock L P identifier s))"
proof -
  have "published (fst (getGenesisBlock P s))"
    using published_genesis [of P "snd s"]
    by (auto simp: getGenesisBlock_def published_def split: option.split prod.split sum.split)
  moreover have "published (fst (convertFetched L P fetched))" for fetched
    unfolding convertFetched_def by (auto intro!: published_intros simp: err_code_defs)
  then have "getBlockByNonce L P n w = (r, w') \<Longrightarrow> published r" "getBlockByHash L P h w = (r, w') \<Longrightarrow> published r"
    for n h w r w'
    unfolding getBlockByNonce_def getBlockByHash_def by (metis fst_conv)+
  moreover have "published (Inl (Refused (newErr newErrFactory ErrMustQueryByIndexOrByHash)) :: failure + BlockResponse)"
    by (intro published_intros) (simp_all add: err_code_defs)
  ultimately show ?thesis
    by (auto simp: doGetBlock_def Let_def split: option.split prod.split)
qed

lemma published_account: "published (fst (doGetAccountBalance P identifier address currencies w))"
proof -
  have "published (orFail newErrFactory ErrUnableToGetAccount (blockIdentifierToAccountQueryOptions identifier))"
    by (intro published_intros) (simp_all add: err_code_defs)
  then show ?thesis
    unfolding doGetAccountBalance_def Let_def
    by (auto intro!: published_intros simp: err_code_defs published_def [of "Inl _"] newErr_is_published split: sum.split prod.split)
qed

lemma published_network:
  "published (fst (NetworkStatus P w))" "published (fst (NetworkOptions P w))"
  unfolding NetworkStatus_def NetworkOptions_def getNodeVersion_def
  by (auto intro!: published_intros simp: err_code_defs split: prod.split)

lemma published_mempool: "published (fst (MempoolTransaction P h w))"
  unfolding MempoolTransaction_def
  by (auto intro!: published_intros simp: err_code_defs split: prod.split option.split)

lemma published_online: "published (fst (serveOnline L P request s))"
proof (cases request)
  case (ReqBlock pbi)
  then show ?thesis
    using published_block [of L P pbi s] by (auto intro: published_answer split: prod.split)
next
  case ReqAccountCoins
  then show ?thesis by (simp add: AccountCoins_def published_intros err_code_defs)
next
  case ReqBlockTransaction
  then show ?thesis by (simp add: BlockTransaction_def published_intros err_code_defs)
next
  case ReqMempool
  then show ?thesis by (simp add: Mempool_def published_intros err_code_defs)
qed (auto intro!: published_keepGenesis published_answer published_Inr published_network published_account
    published_mempool published_preprocess published_metadata published_construction published_submit)

section \<open>Offline servers\<close>

lemma createControllers_offline:
  assumes "CreateControllers newAsserter P = Inr routers" "np_IsOffline P"
  shows "routers = \<lparr>networkController = NetworkService, accountController = OfflineService NewOfflineService,
               blockController = OfflineService NewOfflineService,
               mempoolController = OfflineService NewOfflineService,
               constructionController = ConstructionService\<rparr>"
  using assms by (auto simp: CreateControllers_def createOfflineControllers_def Let_def)

lemma createControllers_online:
  assumes "CreateControllers newAsserter P = Inr routers" "\<not> np_IsOffline P"
  shows "serve L P routers request s = serveOnline L P request s"
  using assms
  by (cases request) (auto simp: CreateControllers_def createOnlineControllers_def serve_def)

lemma offline_state:
  assumes "CreateControllers newAsserter P = Inr routers" "np_IsOffline P"
  shows "snd (serve L P routers request s) = s"
  using createControllers_offline [OF assms] assms(2)
  by (cases request; cases s)
    (simp_all add: serve_def keepGenesis_def NetworkStatus_def NetworkOptions_def getNodeVersion_def
      ConstructionMetadata_def ConstructionSubmit_def)

lemma serve_published:
  assumes "CreateControllers newAsserter P = Inr routers"
  shows "published (fst (serve L P routers request s))"
proof (cases "np_IsOffline P")
  case True
  have off: "published (Inl (offlineEndpoint NewOfflineService) :: failure + response)"
    by (simp add: offlineEndpoint_def NewOfflineService_def published_nilPointer)
  show ?thesis
    using published_online [of L P request s] off
    by (cases request) (simp_all add: createControllers_offline [OF assms True] serve_def)
next
  case False
  then show ?thesis using createControllers_online [OF assms] published_online by simp
qed

section \<open>Blocks and their parents\<close>

lemma convert_identifiers:
  assumes "convertToRosettaBlock L P b = Inr r"
  shows "br_BlockIdentifier r = blockToIdentifier b"
    and "br_ParentBlockIdentifier r =
      (if bk_Nonce b = 1 then getGenesisBlockIdentifier P
       else \<lparr>bi_Index = int64_of_uint64 (bk_Nonce b - 1), bi_Hash = bk_PrevBlockHash b\<rparr>)"
    and "transformBlockTxs L P b = Inr (br_Transactions r)"
  using assms by (auto simp: convertToRosettaBlock_def Let_def)

text \<open>Simplifying a block does not change what identifies it.\<close>

lemma simplified_header:
  assumes "doSimplifyBlockWithScheduledTransactions enum prev b nxt = Some b'"
  shows "bk_Nonce b' = bk_Nonce b" "bk_Hash b' = bk_Hash b" "bk_PrevBlockHash b' = bk_PrevBlockHash b"
    "bk_Timestamp b' = bk_Timestamp b"
  using assms by (auto simp: doSimplifyBlockWithScheduledTransactions_def bind_eq_Some_conv Let_def)

section \<open>The genesis block\<close>

lemma genesis_kept:
  assumes "getGenesisBlock P s = (Inr r, s')"
  shows "fst s' = Some r" and "getGenesisBlock P (Some r, w) = (Inr r, (Some r, w))"
  using assms by (auto simp: getGenesisBlock_def split: option.splits prod.splits sum.splits)

lemma genesis_operations:
  assumes "createGenesisOperations P balances = Inr ops"
  shows "effect_on a (getNativeCurrency P) ops =
      (if np_IsAddressObserved P a = Inr True
       then sum_list (map (\<lambda>b. amount_value (gb_Balance b)) (filter (\<lambda>b. gb_Address b = a) balances)) else 0)"
proof -
  let ?raw = "map (\<lambda>b. newOperation opGenesisBalanceMovement (gb_Address b)
      (valueToNativeAmount P (gb_Balance b))) balances"
  have raw: "effect_on a (getNativeCurrency P) ?raw =
      sum_list (map (\<lambda>b. amount_value (gb_Balance b)) (filter (\<lambda>b. gb_Address b = a) balances))"
    by (induction balances) (simp_all add: newOperation_def op_effect_def op_value_def valueToNativeAmount_def)
  from assms obtain kept where "filterOperationsByAddress ?raw (np_IsAddressObserved P) = Inr kept"
    and "ops = applyDefaultStatusOnOperations kept"
    by (auto simp: createGenesisOperations_def Let_def)
  then show ?thesis by (simp add: filterOperationsByAddress_effect raw)
qed

section \<open>From flags to the provider\<close>

lemma startRosetta_Inr:
  assumes "startRosetta platform ctx = Inr sv"
  shows "\<exists>cs. decideCustomCurrencies (readFile platform)
        (GlobalString ctx ''config-custom-currencies'') = Inr cs \<and>
      asNetworkProvider (sv_Externals sv) (sv_Provider sv) =
        serverProvider (sv_Externals sv) (argsOfCreate (argsOfFlags (getParsedCliFlags ctx) cs)) \<and>
      CreateControllers (newServer platform) (asNetworkProvider (sv_Externals sv) (sv_Provider sv)) =
        Inr (sv_Routers sv)"
proof -
  from assms obtain cs E p c where
      cs: "decideCustomCurrencies (readFile platform)
        (f_configFileCustomCurrencies (getParsedCliFlags ctx)) = Inr cs"
    and cr: "CreateNetworkProvider (constructors platform) (argsOfFlags (getParsedCliFlags ctx) cs) = Inr (E, p, c)"
    and sv: "sv_Externals sv = E" "sv_Provider sv = p"
      "CreateControllers (newServer platform) (asNetworkProvider E p) = Inr (sv_Routers sv)"
    by (auto simp: startRosetta_def Let_def)
  from cr have "NewNetworkProvider E (argsOfCreate (argsOfFlags (getParsedCliFlags ctx) cs)) = Inr (p, c)"
    by (auto simp: CreateNetworkProvider_def)
  with NewNetworkProvider_Inr cs sv show ?thesis by (fastforce simp: getParsedCliFlags_def)
qed

section \<open>Effective transactions and the transformer\<close>

text \<open>The order in which a run enumerates the map of effective transactions does not matter.\<close>

lemma simplified_mset:
  assumes perm: "\<And>m. mset (enum1 m) = mset m" "\<And>m. mset (enum2 m) = mset m"
    and b1: "doSimplifyBlockWithScheduledTransactions enum1 prev b nxt = Some b1"
  shows "\<exists>b2. doSimplifyBlockWithScheduledTransactions enum2 prev b nxt = Some b2 \<and>
    mset (txsOfBlock b1) = mset (txsOfBlock b2) \<and> receiptsOfBlock b1 = receiptsOfBlock b2"
proof -
  from b1 obtain txs1 where t1: "gatherEffectiveTransactions enum1 (bk_Shard b) prev b nxt = Some txs1"
    and b1': "b1 = b\<lparr>bk_MiniBlocks := [artificialMiniblock txs1 [], artificialMiniblock [] (gatherAllReceipts b)]\<rparr>"
    by (auto simp: doSimplifyBlockWithScheduledTransactions_def bind_eq_Some_conv Let_def)
  from t1 obtain txs2 where t2: "gatherEffectiveTransactions enum2 (bk_Shard b) prev b nxt = Some txs2"
    and mm: "mset txs1 = mset txs2"
    using perm by (auto simp: gatherEffectiveTransactions_def Let_def bind_eq_Some_conv split: if_splits)
  define b2 where "b2 = b\<lparr>bk_MiniBlocks := [artificialMiniblock txs2 [], artificialMiniblock [] (gatherAllReceipts b)]\<rparr>"
  have "doSimplifyBlockWithScheduledTransactions enum2 prev b nxt = Some b2"
    by (simp add: doSimplifyBlockWithScheduledTransactions_def t2 b2_def)
  moreover have "mset (txsOfBlock b1) = mset (txsOfBlock b2)"
    using mm by (simp add: b1' b2_def txsOfBlock_def artificialMiniblock_def)
  moreover have "receiptsOfBlock b1 = receiptsOfBlock b2"
    by (simp add: b1' b2_def receiptsOfBlock_def artificialMiniblock_def)
  ultimately show ?thesis by blast
qed

text \<open>The recursion of the scheduled transactions returns when results do not form a cycle.\<close>

lemma simplify_returns:
  assumes "acyclic_results (directResults (gatherAllTransactions cur))"
    and "acyclic_results (directResults (gatherAllTransactions nxt))"
  shows "\<exists>b. doSimplifyBlockWithScheduledTransactions enum prev cur nxt = Some b"
proof -
  obtain r1 where r1: "findImmediatelyExecutingContractResults (bk_Shard cur) (gatherScheduledTransactions prev)
      (gatherAllTransactions cur) = Some r1" using findImmediately_returns [OF assms(1)] by blast
  obtain r2 where r2: "findImmediatelyExecutingContractResults (bk_Shard cur) (gatherScheduledTransactions cur)
      (gatherAllTransactions nxt) = Some r2" using findImmediately_returns [OF assms(2)] by blast
  have "\<exists>txs. gatherEffectiveTransactions enum (bk_Shard cur) prev cur nxt = Some txs"
    using r1 r2 by (simp add: gatherEffectiveTransactions_def Let_def)
  then show ?thesis by (auto simp: doSimplifyBlockWithScheduledTransactions_def Let_def)
qed

section \<open>Consecutive blocks\<close>

lemma parent_is_previous:
  assumes "convertToRosettaBlock L P b = Inr r" "convertToRosettaBlock L P b' = Inr r'"
    and "bk_Nonce b' = bk_Nonce b + 1" "bk_PrevBlockHash b' = bk_Hash b" "bk_Nonce b \<noteq> 0"
  shows "br_ParentBlockIdentifier r' = br_BlockIdentifier r"
  using convert_identifiers [OF assms(1)] convert_identifiers [OF assms(2)] assms(3-5)
  by (simp add: blockToIdentifier_def)

section \<open>The block of the chain\<close>

lemma block_endpoint:
  assumes cache: "lawful_cache E contents" "serves_chain E p chain" "coherent contents chain (fst (snd s))"
    and n: "bk_Nonce (chain (uint64_of_int64 n)) = uint64_of_int64 n" "0 \<le> n" "n < 2 ^ 63"
    and req: "pbi_Index pbi = Some n" "n \<noteq> bi_Index (getGenesisBlockIdentifier (asNetworkProvider E p))"
      "pbi_Hash pbi = None"
    and get: "doGetBlock L (asNetworkProvider E p) pbi s = (Inr r, s')"
  shows "\<exists>b. doSimplifyBlockWithScheduledTransactions (ext_enum E) (chain (uint64_of_int64 n - 1))
        (chain (uint64_of_int64 n)) (chain (uint64_of_int64 n + 1)) = Some b \<and>
      transformBlockTxs L (asNetworkProvider E p) b = Inr (br_Transactions r) \<and>
      br_BlockIdentifier r = \<lparr>bi_Index = n, bi_Hash = bk_Hash (chain (uint64_of_int64 n))\<rparr>"
proof -
  let ?P = "asNetworkProvider E p" and ?w = "uint64_of_int64 n"
  from get req obtain w' where "getBlockByNonce L ?P n (snd s) = (Inr r, w')"
    by (auto simp: doGetBlock_def Let_def split: prod.splits)
  then obtain b where g: "GetBlockByNonce E p ?w (snd s) = (Inr b, w')"
    and c: "convertToRosettaBlock L ?P b = Inr r"
    by (auto simp: getBlockByNonce_def convertFetched_def asNetworkProvider_def prod_eq_iff)
  from GetBlockByNonce_Inr [OF cache n(1) g] have
    sim: "doSimplifyBlockWithScheduledTransactions (ext_enum E) (chain (?w - 1)) (chain ?w) (chain (?w + 1)) = Some b" .
  have "int64_of_uint64 ?w = n" using n(2,3) by (intro int64_uint64_roundtrip) simp_all
  with simplified_header [OF sim] convert_identifiers(1,3) [OF c] n(1) sim show ?thesis
    by (intro exI [of _ b]) (simp add: blockToIdentifier_def)
qed

section \<open>A block by hash puts the next one into the cache\<close>

text \<open>An entry that has just been put into the cache is found there.\<close>

definition finds_what_was_put :: "('c, 'w) Externals \<Rightarrow> bool" where
  "finds_what_was_put E \<longleftrightarrow> (\<forall>k b c. fst (cache_Get E k (cache_Put E k b c)) = Some b)"

lemma doGetBlockByNonce_caches:
  assumes "finds_what_was_put E" "fst (cache_Get E (blockNonceToBytes n) (fst s)) = None"
    and "of_GetBlockByNonce E (p_observedActualShard p) n withTransactionsAndLogs (snd s) = (Inr response, w)"
    and "ar_Error response = []"
  shows "\<exists>c. doGetBlockByNonce E p n s = (Inr (ar_Data response), (c, w)) \<and>
    fst (cache_Get E (blockNonceToBytes n) c) = Some (ar_Data response)"
  using assms
  by (auto simp: doGetBlockByNonce_def getBlockByNonceCached_def ask_def cacheBlockByNonce_def finds_what_was_put_def
      split_beta Let_def split: option.splits)

lemma GetBlockByHash_caches_next:
  assumes "finds_what_was_put E" "\<not> p_isOffline p" "doGetBlockByHash E p h s = (Inr b, s1)"
    and "doGetBlockByNonce E p (bk_Nonce b - 1) s1 = (Inr previous, s2)"
    and "fst (cache_Get E (blockNonceToBytes (bk_Nonce b + 1)) (fst s2)) = None"
    and "of_GetBlockByNonce E (p_observedActualShard p) (bk_Nonce b + 1) withTransactionsAndLogs (snd s2) = (Inr response, w)"
    and "ar_Error response = []"
  shows "\<exists>c. snd (GetBlockByHash E p h s) = (c, w) \<and>
    fst (cache_Get E (blockNonceToBytes (bk_Nonce b + 1)) c) = Some (ar_Data response)"
proof -
  obtain c where c: "doGetBlockByNonce E p (bk_Nonce b + 1) s2 = (Inr (ar_Data response), (c, w))"
    "fst (cache_Get E (blockNonceToBytes (bk_Nonce b + 1)) c) = Some (ar_Data response)"
    using doGetBlockByNonce_caches [OF assms(1,5-7)] by blast
  have "snd (GetBlockByHash E p h s) = (c, w)"
    using assms(2-4) c(1)
    by (simp add: GetBlockByHash_def simplifyBlockWithScheduledTransactions_def bind_step_def split: option.split)
  with c(2) show ?thesis by blast
qed

text \<open>A block found in the cache is the one that is answered with, whatever the observer has now.\<close>

lemma GetBlockByNonce_cached:
  assumes "\<not> p_isOffline p" "getLatestBlockNonce E p (c, w) = (Inr latest, (c, w'))" "n \<le> latest"
    and "fst (cache_Get E (blockNonceToBytes n) c) = Some b"
  shows "GetBlockByNonce E p n (c, w) =
    simplifyBlockWithScheduledTransactions E p b (snd (cache_Get E (blockNonceToBytes n) c), w')"
  using assms
  by (auto simp: GetBlockByNonce_def bind_step_def doGetBlockByNonce_def getBlockByNonceCached_def split_beta)

lemma simplifyBlock_hash:
  "simplifyBlockWithScheduledTransactions E p b s = (Inr b', s') \<Longrightarrow> bk_Hash b' = bk_Hash b"
  by (auto simp: simplifyBlockWithScheduledTransactions_def bind_step_def
      split: prod.splits sum.splits option.splits dest: simplified_header(2))

lemma cached_block_answers:
  assumes "\<not> p_isOffline p" "fst (cache_Get E (blockNonceToBytes n) c) = Some b"
    and "GetBlockByNonce E p n (c, w) = (Inr b', s')"
  shows "bk_Hash b' = bk_Hash b"
proof -
  obtain r w' where l: "getLatestBlockNonce E p (c, w) = (r, (c, w'))"
    using getLatestBlockNonce_keeps_cache [of E p "(c, w)"] by (metis fst_conv prod.exhaust)
  with assms(1,3) obtain latest where r: "r = Inr latest" "n \<le> latest"
    by (cases r) (auto simp: GetBlockByNonce_def bind_step_def linorder_not_less split: if_splits)
  have "simplifyBlockWithScheduledTransactions E p b (snd (cache_Get E (blockNonceToBytes n) c), w') = (Inr b', s')"
    using GetBlockByNonce_cached [OF assms(1) l [unfolded r(1)] r(2) assms(2)] assms(3) by simp
  then show ?thesis by (rule simplifyBlock_hash)
qed

section \<open>What the observer says when it refuses\<close>

text \<open>The text of a refusal: of an error in its body, or of the error field of a response.\<close>

definition tells :: "('c, 'w) Externals \<Rightarrow> go_error + 'd ApiResponse \<Rightarrow> go_error \<Rightarrow> bool" where
  "tells E reply err \<longleftrightarrow>
     (case reply of
        Inl apiErr \<Rightarrow> err = convertStructuredApiErrToFlatErr E apiErr
      | Inr response \<Rightarrow> ar_Error response \<noteq> [] \<and> err = ErrorsNew (ar_Error response))"

lemma doGetBlockByNonce_tells:
  assumes "fst (cache_Get E (blockNonceToBytes n) (fst s)) = None"
    and "tells E (fst (of_GetBlockByNonce E (p_observedActualShard p) n withTransactionsAndLogs (snd s))) err"
  shows "fst (doGetBlockByNonce E p n s) = Inl (newErrCannotGetBlockByNonce n err)"
  using assms
  by (auto simp: doGetBlockByNonce_def getBlockByNonceCached_def ask_def tells_def split: prod.splits sum.splits)

lemma block_endpoint_tells:
  assumes online: "\<not> p_isOffline p" "getLatestBlockNonce E p (snd s) = (Inr latest, s1)" "uint64_of_int64 n \<le> latest"
    and req: "n \<noteq> bi_Index (getGenesisBlockIdentifier (asNetworkProvider E p))"
    and "fst (cache_Get E (blockNonceToBytes (uint64_of_int64 n)) (fst s1)) = None"
      "tells E (fst (of_GetBlockByNonce E (p_observedActualShard p) (uint64_of_int64 n)
         withTransactionsAndLogs (snd s1))) err"
  shows "fst (doGetBlock L (asNetworkProvider E p) \<lparr>pbi_Index = Some n, pbi_Hash = None\<rparr> s) =
    Inl (Refused (newErrWithOriginal newErrFactory ErrUnableToGetBlock
      (newErrCannotGetBlockByNonce (uint64_of_int64 n) err)))"
proof -
  let ?w = "uint64_of_int64 n"
  obtain s2 where "doGetBlockByNonce E p ?w s1 = (Inl (newErrCannotGetBlockByNonce ?w err), s2)"
    using doGetBlockByNonce_tells [OF assms(5,6)] by (metis prod.collapse)
  with online have "GetBlockByNonce E p ?w (snd s) = (Inl (newErrCannotGetBlockByNonce ?w err), s2)"
    by (auto simp: GetBlockByNonce_def bind_step_def)
  with req show ?thesis
    by (simp add: doGetBlock_def getBlockByNonce_def convertFetched_def asNetworkProvider_def orFail_def
        failWith_def newErrCannotGetBlockByNonce_def split: prod.splits)
qed

end
