(* ===== verification/ServerRuns.thy ===== *)
theory ServerRuns
  imports ServerFacts
begin

text \<open>
  A server over its lifetime: requests served one after the other, with the cache of the provider,
  the kept genesis block and the world passed on from each to the next. A property of the world
  that every method of the provider keeps is kept by every request, whatever is asked; so the
  blocks that the cache holds are those of the chain throughout.
\<close>

section \<open>Requests in sequence\<close>

primrec serveAll :: "Library \<Rightarrow> 'w NetworkProvider \<Rightarrow> Routers \<Rightarrow> request list \<Rightarrow> 'w block_state \<Rightarrow>
     (failure + response) list \<times> 'w block_state" where
  "serveAll L P routers [] s = ([], s)"
| "serveAll L P routers (request # requests) s =
     (case serve L P routers request s of
        (r, s1) \<Rightarrow> (case serveAll L P routers requests s1 of (rs, s2) \<Rightarrow> (r # rs, s2)))"

text \<open>The state in which the request at a position is served.\<close>

definition stateBefore :: "Library \<Rightarrow> 'w NetworkProvider \<Rightarrow> Routers \<Rightarrow> request list \<Rightarrow> nat \<Rightarrow> 'w block_state \<Rightarrow>
     'w block_state" where
  "stateBefore L P routers requests i s = snd (serveAll L P routers (take i requests) s)"

lemma serveAll_length: "length (fst (serveAll L P routers requests s)) = length requests"
  by (induction requests arbitrary: s) (simp_all add: split_beta)

lemma serveAll_nth:
  "i < length requests \<Longrightarrow>
     fst (serveAll L P routers requests s) ! i =
       fst (serve L P routers (requests ! i) (stateBefore L P routers requests i s))"
proof (induction requests arbitrary: s i)
  case (Cons request requests)
  show ?case
  proof (cases i)
    case 0
    then show ?thesis by (simp add: stateBefore_def split_beta)
  next
    case (Suc j)
    with Cons.prems Cons.IH [of j "snd (serve L P routers request s)"] show ?thesis
      by (simp add: stateBefore_def split_beta)
  qed
qed simp

section \<open>What every method keeps, every request keeps\<close>

locale provider_invariant =
  fixes P :: "'w NetworkProvider" and holds :: "'w \<Rightarrow> bool"
  assumes keeps_GetGenesisBalances: "np_GetGenesisBalances P w = (r1, w') \<Longrightarrow> holds w \<Longrightarrow> holds w'"
    and keeps_GetNodeStatus: "np_GetNodeStatus P w = (r2, w') \<Longrightarrow> holds w \<Longrightarrow> holds w'"
    and keeps_GetBlockByNonce: "np_GetBlockByNonce P n w = (r3, w') \<Longrightarrow> holds w \<Longrightarrow> holds w'"
    and keeps_GetBlockByHash: "np_GetBlockByHash P h w = (r4, w') \<Longrightarrow> holds w \<Longrightarrow> holds w'"
    and keeps_GetAccount: "np_GetAccount P a w = (r5, w') \<Longrightarrow> holds w \<Longrightarrow> holds w'"
    and keeps_GetAccountBalance: "np_GetAccountBalance P a symbol opts w = (r6, w') \<Longrightarrow> holds w \<Longrightarrow> holds w'"
    and keeps_SendTransaction: "np_SendTransaction P tx w = (r7, w') \<Longrightarrow> holds w \<Longrightarrow> holds w'"
    and keeps_GetMempoolTransactionByHash:
      "np_GetMempoolTransactionByHash P h w = (r8, w') \<Longrightarrow> holds w \<Longrightarrow> holds w'"
begin

lemmas keeps = keeps_GetGenesisBalances keeps_GetNodeStatus keeps_GetBlockByNonce keeps_GetBlockByHash
  keeps_GetAccount keeps_GetAccountBalance keeps_SendTransaction keeps_GetMempoolTransactionByHash

lemma calls_keep:
  assumes "holds w"
  shows "holds (snd (doGetGenesisBlock P w))" "holds (snd (NetworkStatus P w))"
    "holds (snd (NetworkOptions P w))" "holds (snd (doGetAccountBalance P i a cs w))"
    "holds (snd (MempoolTransaction P h w))" "holds (snd (ConstructionMetadata L P options w))"
    "holds (snd (ConstructionSubmit L P t w))"
    "holds (snd (getBlockByNonce L P n w))" "holds (snd (getBlockByHash L P h w))"
  using assms
  by (auto simp: doGetGenesisBlock_def NetworkStatus_def NetworkOptions_def getNodeVersion_def
      doGetAccountBalance_def MempoolTransaction_def ConstructionMetadata_def ConstructionSubmit_def
      getBlockByNonce_def getBlockByHash_def convertFetched_def Let_def
      split: prod.splits sum.splits intro: keeps [OF prod.collapse [symmetric]] dest: keeps)

lemma keepGenesis_keeps: "holds (snd (call (snd s))) \<Longrightarrow> holds (snd (snd (keepGenesis f call s)))"
  by (simp add: keepGenesis_def split_beta)

lemma doGetBlock_keeps:
  assumes "holds (snd s)"
  shows "holds (snd (snd (doGetBlock L P pbi s)))"
  using assms calls_keep [OF assms]
  by (auto simp: doGetBlock_def getGenesisBlock_def Let_def split: option.splits prod.splits sum.splits)
    (metis snd_conv)+

lemma serveOnline_keeps: "holds (snd s) \<Longrightarrow> holds (snd (snd (serveOnline L P request s)))"
proof (cases request)
  case (ReqBlock pbi)
  assume "holds (snd s)"
  with doGetBlock_keeps [of s L pbi] ReqBlock show ?thesis by (simp add: split_beta)
qed (auto intro!: keepGenesis_keeps calls_keep)

lemma serve_keeps: "holds (snd s) \<Longrightarrow> holds (snd (snd (serve L P routers request s)))"
  using serveOnline_keeps [of s L request] by (simp add: serve_def split: implementation.split)

lemma serveAll_keeps: "holds (snd s) \<Longrightarrow> holds (snd (snd (serveAll L P routers requests s)))"
proof (induction requests arbitrary: s)
  case (Cons request requests)
  from Cons.IH [OF serve_keeps [OF Cons.prems]] show ?case by (simp add: split_beta)
qed simp

lemma stateBefore_keeps: "holds (snd s) \<Longrightarrow> holds (snd (stateBefore L P routers requests i s))"
  unfolding stateBefore_def by (rule serveAll_keeps)

end

section \<open>The provider's own invariants\<close>

lemma fst_of_steps:
  "GetGenesisBalances E p s = (r1, s') \<Longrightarrow> fst s' = fst s"
  "GetAccount E p a s = (r2, s') \<Longrightarrow> fst s' = fst s"
  "SendTransaction E p tx s = (r3, s') \<Longrightarrow> fst s' = fst s"
  "GetMempoolTransactionByHash E p h s = (r4, s') \<Longrightarrow> fst s' = fst s"
  "getEpochStartInfo E p epoch s = (r5, s') \<Longrightarrow> fst s' = fst s"
  "getBlockSummaryByNonce E p n s = (r6, s') \<Longrightarrow> fst s' = fst s"
  "getNativeBalance E p a opts s = (r7, s') \<Longrightarrow> fst s' = fst s"
  by (auto simp: GetGenesisBalances_def GetAccount_def SendTransaction_def GetMempoolTransactionByHash_def
      getEpochStartInfo_def getBlockSummaryByNonce_def getNativeBalance_def map_error_def bind_step_def Let_def
      split: if_splits prod.splits sum.splits dest: getResource_keeps_cache ask_keeps_cache)

lemma GetAccountBalance_keeps_cache: "GetAccountBalance E p a symbol opts s = (r, s') \<Longrightarrow> fst s' = fst s"
  by (auto simp: GetAccountBalance_def getCustomTokenBalance_def map_error_def bind_step_def Let_def
      split: if_splits prod.splits sum.splits dest: getResource_keeps_cache fst_of_steps(7))

lemma GetNodeStatus_keeps_cache: "GetNodeStatus E p s = (r, s') \<Longrightarrow> fst s' = fst s"
  by (auto simp: GetNodeStatus_def getOldestNonceWithHistoricalStateGivenNodeStatus_def bind_step_def
      split: if_splits prod.splits sum.splits
      dest!: getPlainNodeStatus_keeps_cache fst_of_steps(5,6))

text \<open>As long as the observer answers from a chain, the cache holds blocks of that chain.\<close>

definition chain_cached :: "('c, 'w) Externals \<Rightarrow> networkProvider \<Rightarrow> ('c \<Rightarrow> bytes \<rightharpoonup> Block) \<Rightarrow>
     (u64 \<Rightarrow> Block) \<Rightarrow> 'c \<times> 'w \<Rightarrow> bool" where
  "chain_cached E p contents chain s =
     (lawful_cache E contents \<longrightarrow> serves_chain E p chain \<longrightarrow> coherent contents chain (fst s))"

interpretation cached: provider_invariant "asNetworkProvider E p" "chain_cached E p contents chain"
  for E p contents chain
  by unfold_locales
    (auto simp: asNetworkProvider_def chain_cached_def
      dest: fst_of_steps GetAccountBalance_keeps_cache GetNodeStatus_keeps_cache
        GetBlockByNonce_coherent GetBlockByHash_coherent)

text \<open>A provider in offline mode leaves the cache and the world as they are.\<close>

definition untouched :: "networkProvider \<Rightarrow> 'c \<times> 'w \<Rightarrow> 'c \<times> 'w \<Rightarrow> bool" where
  "untouched p s0 s = (p_isOffline p \<longrightarrow> s = s0)"

interpretation offline: provider_invariant "asNetworkProvider E p" "untouched p s0"
  for E p s0
proof unfold_locales
  fix s s' a symbol opts r
  assume "np_GetAccountBalance (asNetworkProvider E p) a symbol opts s = (r, s')" "untouched p s0 s"
  with offline_balance [of p E a symbol opts s] show "untouched p s0 s'"
    by (auto simp: asNetworkProvider_def untouched_def)
qed (auto simp: asNetworkProvider_def untouched_def offline_steps)

section \<open>Sessions of a server\<close>

lemma genesis_index: "bi_Index (getGenesisBlockIdentifier (asNetworkProvider E p)) = 0"
  by (simp add: getGenesisBlockIdentifier_def blockSummaryToIdentifier_def asNetworkProvider_def
      GetGenesisBlockSummary_def genesisBlockNonce_def int64_of_uint64_def)

lemma session_block:
  assumes routers: "CreateControllers newAsserter P = Inr routers" "\<not> p_isOffline p"
    and PE: "P = asNetworkProvider E p"
    and law: "lawful_cache E contents" "serves_chain E p chain" "coherent contents chain c"
      "\<forall>n. bk_Nonce (chain n) = n"
    and run: "serveAll L P routers requests (g, (c, w)) = (answers, s')"
    and i: "i < length requests" "requests ! i = ReqBlock \<lparr>pbi_Index = Some n, pbi_Hash = None\<rparr>"
      "0 < n" "n < 2 ^ 63" "answers ! i = Inr (RespBlock r)"
  shows "\<exists>b. doSimplifyBlockWithScheduledTransactions (ext_enum E)
        (chain (uint64_of_int64 n - 1)) (chain (uint64_of_int64 n)) (chain (uint64_of_int64 n + 1)) = Some b \<and>
      convertToRosettaBlock L P b = Inr r"
proof -
  let ?s = "stateBefore L P routers requests i (g, (c, w))" and ?w = "uint64_of_int64 n"
  have "\<not> np_IsOffline P" using routers(2) by (simp add: PE asNetworkProvider_def)
  note online = createControllers_online [OF routers(1) this]
  have "chain_cached E p contents chain (snd ?s)"
    unfolding PE by (rule cached.stateBefore_keeps) (simp add: chain_cached_def law)
  with law have coh: "coherent contents chain (fst (snd ?s))" by (simp add: chain_cached_def)
  from serveAll_nth [OF i(1), of L P routers "(g, (c, w))"] run i(5)
  have "fst (serve L P routers (requests ! i) ?s) = Inr (RespBlock r)" by simp
  then have "fst (doGetBlock L P \<lparr>pbi_Index = Some n, pbi_Hash = None\<rparr> ?s) = Inr r"
    unfolding online i(2) by (auto simp: answer_def bind_err_def split: prod.splits sum.splits)
  then obtain s2 where "doGetBlock L P \<lparr>pbi_Index = Some n, pbi_Hash = None\<rparr> ?s = (Inr r, s2)"
    by (metis prod.collapse)
  with i(3) obtain w' where "getBlockByNonce L P n (snd ?s) = (Inr r, w')"
    by (auto simp: doGetBlock_def PE genesis_index Let_def split: prod.splits)
  then obtain b where g: "GetBlockByNonce E p ?w (snd ?s) = (Inr b, w')"
    and c: "convertToRosettaBlock L P b = Inr r"
    by (auto simp: getBlockByNonce_def convertFetched_def PE asNetworkProvider_def prod_eq_iff)
  from GetBlockByNonce_Inr [OF law(1,2) coh _ g] law(4) c show ?thesis by blast
qed

text \<open>Two blocks of a session that follow each other in the chain: the second names the first as its parent.\<close>

lemma chain_parents:
  assumes linked: "\<forall>m. bk_PrevBlockHash (chain (m + 1)) = bk_Hash (chain m)" "\<forall>m. bk_Nonce (chain m) = m"
    and n: "0 < n" "n + 1 < 2 ^ 63"
    and b: "doSimplifyBlockWithScheduledTransactions enum p1 (chain (uint64_of_int64 n)) x1 = Some b1"
      "convertToRosettaBlock L P b1 = Inr r1"
      "doSimplifyBlockWithScheduledTransactions enum p2 (chain (uint64_of_int64 (n + 1))) x2 = Some b2"
      "convertToRosettaBlock L P b2 = Inr r2"
  shows "br_ParentBlockIdentifier r2 = br_BlockIdentifier r1"
proof (rule parent_is_previous [OF b(2,4)])
  have suc: "uint64_of_int64 (n + 1) = uint64_of_int64 n + 1" by (simp add: uint64_of_int64_def)
  from n have "uint (uint64_of_int64 n) = n"
    by (simp add: uint64_of_int64_def uint_word_of_int)
  with n(1) have "uint64_of_int64 n \<noteq> 0" by auto
  then show "bk_Nonce b2 = bk_Nonce b1 + 1" "bk_PrevBlockHash b2 = bk_Hash b1" "bk_Nonce b1 \<noteq> 0"
    using simplified_header [OF b(1)] simplified_header [OF b(3)] linked by (simp_all add: suc)
qed

text \<open>What the answer for a block of the chain consists of.\<close>

lemma converted_from_chain:
  assumes "\<exists>b. doSimplifyBlockWithScheduledTransactions enum p1 (chain (uint64_of_int64 n)) x1 = Some b \<and>
      convertToRosettaBlock L P b = Inr r"
    and "\<forall>n. bk_Nonce (chain n) = n" "0 < n" "n < 2 ^ 63"
  shows "\<exists>b. doSimplifyBlockWithScheduledTransactions enum p1 (chain (uint64_of_int64 n)) x1 = Some b \<and>
      transformBlockTxs L P b = Inr (br_Transactions r) \<and>
      br_BlockIdentifier r = \<lparr>bi_Index = n, bi_Hash = bk_Hash (chain (uint64_of_int64 n))\<rparr>"
proof -
  obtain b where b: "doSimplifyBlockWithScheduledTransactions enum p1 (chain (uint64_of_int64 n)) x1 = Some b"
    "convertToRosettaBlock L P b = Inr r" using assms(1) by blast
  have "int64_of_uint64 (uint64_of_int64 n) = n" using assms(3,4) by (intro int64_uint64_roundtrip) simp_all
  with simplified_header [OF b(1)] convert_identifiers(1,3) [OF b(2)] assms(2) b(1) show ?thesis
    by (intro exI [of _ b]) (simp add: blockToIdentifier_def)
qed

end
