(* ===== verification/ScheduledFacts.thy ===== *)
theory ScheduledFacts
  imports Scheduled
begin

text \<open>
  When the recursion over contract results returns: exactly if no result that it reaches is its
  own descendant. The recursion is over a relation on hashes, and returning is being in its
  accessible part.
\<close>

section \<open>Links between hashes\<close>

definition linked :: "u32 \<Rightarrow> (string \<Rightarrow> ApiTransactionResult list) \<Rightarrow> string \<Rightarrow> string \<Rightarrow> bool" where
  "linked self direct h' h = (\<exists>r \<in> set (direct h). tx_SourceShard r = self \<and> h' = tx_Hash r)"

lemma executes_under_step:
  "executes_under self direct h r \<Longrightarrow> s \<in> set (direct (tx_Hash r)) \<Longrightarrow> tx_SourceShard s = self \<Longrightarrow>
     executes_under self direct h s"
  by (induction rule: executes_under.induct) (blast intro: executes_under.intros)+

lemma executes_under_trans:
  "executes_under self direct h q \<Longrightarrow> executes_under self direct (tx_Hash q) s \<Longrightarrow> executes_under self direct h s"
  by (induction rule: executes_under.induct) (blast intro: executes_under.intros)+

lemma executes_under_linked: "executes_under self direct h r \<Longrightarrow> (linked self direct)\<^sup>+\<^sup>+ (tx_Hash r) h"
proof (induction rule: executes_under.induct)
  case (step r h)
  then show ?case by (auto simp: linked_def)
next
  case (further s h r)
  then have "linked self direct (tx_Hash s) h" by (auto simp: linked_def)
  with further.IH show ?case by (rule tranclp.trancl_into_trancl)
qed

lemma linked_executes: "(linked self direct)\<^sup>+\<^sup>+ h' h \<Longrightarrow> \<exists>r. tx_Hash r = h' \<and> executes_under self direct h r"
proof (induction rule: tranclp_induct)
  case (base h)
  then show ?case by (auto simp: linked_def intro: executes_under.step)
next
  case (step h h2)
  then show ?case by (auto simp: linked_def) (blast intro: executes_under.further)
qed

section \<open>Returning means that the links end\<close>

lemma returns_links_end:
  assumes "descendants self direct siblings = Some rs" "s \<in> set siblings" "tx_SourceShard s = self"
  shows "Wellfounded.accp (linked self direct) (tx_Hash s)"
proof -
  have "\<forall>s \<in> set siblings. tx_SourceShard s = self \<longrightarrow> Wellfounded.accp (linked self direct) (tx_Hash s)"
  proof (rule descendants.raw_induct [where P = "\<lambda>sh d sib r. \<forall>s \<in> set sib. tx_SourceShard s = sh \<longrightarrow>
        Wellfounded.accp (linked sh d) (tx_Hash s)", OF _ assms(1)])
    fix f sh d sib r
    assume IH: "\<And>sh d sib r. f sh d sib = Some r \<Longrightarrow>
          \<forall>s \<in> set sib. tx_SourceShard s = sh \<longrightarrow> Wellfounded.accp (linked sh d) (tx_Hash s)"
      and eq: "(case sib of [] \<Rightarrow> Some []
         | s # rest \<Rightarrow> if tx_SourceShard s \<noteq> sh then f sh d rest
             else Option.bind (f sh d (d (tx_Hash s)))
               (\<lambda>part. Option.bind (f sh d rest) (\<lambda>others. Some (s # part @ others)))) = Some r"
    have here: "Wellfounded.accp (linked sh d) h" if "f sh d (d h) = Some part" for h part
    proof (rule Wellfounded.accp.accI)
      fix h' assume "linked sh d h' h"
      with IH [OF that] show "Wellfounded.accp (linked sh d) h'" by (auto simp: linked_def)
    qed
    show "\<forall>s \<in> set sib. tx_SourceShard s = sh \<longrightarrow> Wellfounded.accp (linked sh d) (tx_Hash s)"
    proof (cases sib)
      case (Cons s rest)
      show ?thesis
      proof (cases "tx_SourceShard s = sh")
        case False
        with eq Cons IH show ?thesis by simp
      next
        case True
        with eq Cons obtain part others where "f sh d (d (tx_Hash s)) = Some part" "f sh d rest = Some others"
          by (auto simp: bind_eq_Some_conv)
        with Cons here IH show ?thesis by (metis set_ConsD)
      qed
    qed simp
  qed
  with assms(2,3) show ?thesis by blast
qed

lemma links_end_returns:
  "\<forall>s \<in> set siblings. tx_SourceShard s = self \<longrightarrow> Wellfounded.accp (linked self direct) (tx_Hash s) \<Longrightarrow>
     \<exists>rs. descendants self direct siblings = Some rs"
proof (induction siblings)
  case Nil
  show ?case by (simp add: descendants.simps)
next
  case (Cons s rest)
  then obtain others where others: "descendants self direct rest = Some others" by auto
  show ?case
  proof (cases "tx_SourceShard s = self")
    case False
    with others show ?thesis by (simp add: descendants.simps [of self direct "s # rest"])
  next
    case True
    have here: "Wellfounded.accp (linked self direct) h \<Longrightarrow> \<exists>part. descendants self direct (direct h) = Some part" for h
    proof (erule Wellfounded.accp_induct)
      fix h
      assume IH: "\<forall>h'. linked self direct h' h \<longrightarrow> (\<exists>part. descendants self direct (direct h') = Some part)"
      have "\<exists>part. descendants self direct sib = Some part" if "set sib \<subseteq> set (direct h)" for sib
        using that
      proof (induction sib)
        case Nil
        show ?case by (simp add: descendants.simps)
      next
        case (Cons r sib)
        then obtain others where others: "descendants self direct sib = Some others" by auto
        show ?case
        proof (cases "tx_SourceShard r = self")
          case False
          with others show ?thesis by (simp add: descendants.simps [of self direct "r # sib"])
        next
          case True
          with Cons.prems have "linked self direct (tx_Hash r) h" by (auto simp: linked_def)
          with IH obtain part where "descendants self direct (direct (tx_Hash r)) = Some part" by blast
          with True others show ?thesis by (simp add: descendants.simps [of self direct "r # sib"])
        qed
      qed
      then show "\<exists>part. descendants self direct (direct h) = Some part" by blast
    qed
    from True Cons.prems have "Wellfounded.accp (linked self direct) (tx_Hash s)" by simp
    with here obtain part where "descendants self direct (direct (tx_Hash s)) = Some part" by blast
    with True others show ?thesis by (simp add: descendants.simps [of self direct "s # rest"])
  qed
qed

section \<open>No result below itself\<close>

text \<open>\<open>loops_below self direct h\<close>: some result reached from \<open>h\<close> is its own descendant.\<close>

definition loops_below :: "u32 \<Rightarrow> (string \<Rightarrow> ApiTransactionResult list) \<Rightarrow> string \<Rightarrow> bool" where
  "loops_below self direct h =
     (\<exists>r. executes_under self direct h r \<and> executes_under self direct (tx_Hash r) r)"

lemma links_end_no_cycle:
  "Wellfounded.accp (linked self direct) h \<Longrightarrow> \<not> (linked self direct)\<^sup>+\<^sup>+ h h"
proof (erule Wellfounded.accp_induct)
  fix h
  assume IH: "\<forall>h'. linked self direct h' h \<longrightarrow> \<not> (linked self direct)\<^sup>+\<^sup>+ h' h'"
  show "\<not> (linked self direct)\<^sup>+\<^sup>+ h h"
  proof
    assume "(linked self direct)\<^sup>+\<^sup>+ h h"
    then obtain s where s: "(linked self direct)\<^sup>*\<^sup>* h s" "linked self direct s h"
      by (auto elim: tranclp.cases intro: tranclp_into_rtranclp)
    have "(linked self direct)\<^sup>+\<^sup>+ s s" using s(2,1) by (rule rtranclp_into_tranclp2)
    with IH s(2) show False by blast
  qed
qed

lemma links_end_no_loop:
  assumes "Wellfounded.accp (linked self direct) h"
  shows "\<not> loops_below self direct h"
proof
  assume "loops_below self direct h"
  then obtain r where r: "executes_under self direct h r" "executes_under self direct (tx_Hash r) r"
    by (auto simp: loops_below_def)
  from executes_under_linked [OF r(1)] assms have "Wellfounded.accp (linked self direct) (tx_Hash r)"
    by (meson accp_downwards tranclp_into_rtranclp)
  with executes_under_linked [OF r(2)] links_end_no_cycle show False by blast
qed

lemma no_loop_links_end:
  assumes "\<not> loops_below self (directResults items) h"
  shows "Wellfounded.accp (linked self (directResults items)) h"
proof -
  let ?L = "linked self (directResults items)"
  define R where "R = {(x, y). ?L x y \<and> (y = h \<or> ?L\<^sup>+\<^sup>+ y h)}"
  have "R \<subseteq> (\<lambda>r. (tx_Hash r, tx_PreviousTransactionHash r)) ` set items"
    by (auto simp: R_def linked_def directResults_filter)
  then have "finite R" by (rule finite_subset) simp
  moreover have "acyclic R"
  proof (rule acyclicI, intro allI notI)
    fix x assume "(x, x) \<in> R\<^sup>+"
    have sub: "(a, b) \<in> R\<^sup>+ \<Longrightarrow> ?L\<^sup>+\<^sup>+ a b" for a b
      by (induction rule: trancl_induct) (auto simp: R_def)
    from \<open>(x, x) \<in> R\<^sup>+\<close> obtain y where "(x, y) \<in> R" by (metis converse_tranclE)
    then have "?L\<^sup>+\<^sup>+ x h" by (auto simp: R_def intro: tranclp_into_tranclp2)
    with linked_executes [of self "directResults items" x h] obtain r where
      r: "tx_Hash r = x" "executes_under self (directResults items) h r" by blast
    from linked_executes [OF sub [OF \<open>(x, x) \<in> R\<^sup>+\<close>]] obtain s where
      s: "tx_Hash s = x" "executes_under self (directResults items) x s" by blast
    then have "?L\<^sup>+\<^sup>+ x x" using executes_under_linked by metis
    with \<open>?L\<^sup>+\<^sup>+ x h\<close> obtain q where q: "executes_under self (directResults items) h q" "tx_Hash q = x"
      using r by blast
    have "executes_under self (directResults items) h s"
      using executes_under_trans [OF q(1)] q(2) s(2) by simp
    with s assms show False by (auto simp: loops_below_def)
  qed
  ultimately have "wf R" by (rule finite_acyclic_wf)
  then have "y = h \<or> ?L\<^sup>+\<^sup>+ y h \<longrightarrow> Wellfounded.accp ?L y" for y
  proof (induction y rule: wf_induct_rule)
    case (less y)
    show ?case
    proof
      assume y: "y = h \<or> ?L\<^sup>+\<^sup>+ y h"
      show "Wellfounded.accp ?L y"
      proof (rule Wellfounded.accp.accI)
        fix x assume "?L x y"
        with y have "(x, y) \<in> R" "?L\<^sup>+\<^sup>+ x h" by (auto simp: R_def intro: tranclp_into_tranclp2)
        with less show "Wellfounded.accp ?L x" by blast
      qed
    qed
  qed
  then show ?thesis by blast
qed

lemma returns_iff:
  "(\<exists>rs. findImmediatelyExecutingContractResultsOfTransaction self tx (directResults items) = Some rs) \<longleftrightarrow>
     \<not> loops_below self (directResults items) (tx_Hash tx)"
proof
  assume "\<exists>rs. findImmediatelyExecutingContractResultsOfTransaction self tx (directResults items) = Some rs"
  then obtain rs where "descendants self (directResults items) (directResults items (tx_Hash tx)) = Some rs"
    by (auto simp: findImmediatelyExecutingContractResultsOfTransaction_def)
  note ends = returns_links_end [OF this]
  have "Wellfounded.accp (linked self (directResults items)) (tx_Hash tx)"
  proof (rule Wellfounded.accp.accI)
    fix h assume "linked self (directResults items) h (tx_Hash tx)"
    then obtain r where "r \<in> set (directResults items (tx_Hash tx))" "tx_SourceShard r = self" "h = tx_Hash r"
      by (auto simp: linked_def)
    with ends show "Wellfounded.accp (linked self (directResults items)) h" by simp
  qed
  then show "\<not> loops_below self (directResults items) (tx_Hash tx)" by (rule links_end_no_loop)
next
  assume "\<not> loops_below self (directResults items) (tx_Hash tx)"
  then have "Wellfounded.accp (linked self (directResults items)) (tx_Hash tx)" by (rule no_loop_links_end)
  moreover have "linked self (directResults items) (tx_Hash s) (tx_Hash tx)"
    if "s \<in> set (directResults items (tx_Hash tx))" "tx_SourceShard s = self" for s
    using that by (auto simp: linked_def)
  ultimately have "\<forall>s \<in> set (directResults items (tx_Hash tx)). tx_SourceShard s = self \<longrightarrow>
      Wellfounded.accp (linked self (directResults items)) (tx_Hash s)"
    using Wellfounded.accp_downward by metis
  then show "\<exists>rs. findImmediatelyExecutingContractResultsOfTransaction self tx (directResults items) = Some rs"
    unfolding findImmediatelyExecutingContractResultsOfTransaction_def by (rule links_end_returns)
qed

section \<open>The block of effective transactions\<close>

lemma concat_options_Some_iff:
  "(\<exists>ys. concat_options (map f xs) = Some ys) \<longleftrightarrow> (\<forall>x \<in> set xs. \<exists>zs. f x = Some zs)"
proof (induction xs)
  case (Cons x xs)
  have "(\<exists>ys. concat_options (map f (x # xs)) = Some ys) \<longleftrightarrow>
      (\<exists>zs. f x = Some zs) \<and> (\<exists>ys. concat_options (map f xs) = Some ys)"
    by (auto simp: bind_eq_Some_conv)
  with Cons.IH show ?case by simp
qed simp

lemma findImmediately_returns_iff:
  "(\<exists>rs. findImmediatelyExecutingContractResults self txs items = Some rs) \<longleftrightarrow>
     (\<forall>tx \<in> set txs. \<not> loops_below self (directResults items) (tx_Hash tx))"
  by (simp add: findImmediatelyExecutingContractResults_def Let_def concat_options_Some_iff returns_iff)

lemma simplify_returns_iff:
  "(\<exists>b. doSimplifyBlockWithScheduledTransactions enum prev cur nxt = Some b) \<longleftrightarrow>
     (\<forall>tx \<in> set (gatherScheduledTransactions prev).
        \<not> loops_below (bk_Shard cur) (directResults (gatherAllTransactions cur)) (tx_Hash tx)) \<and>
     (\<forall>tx \<in> set (gatherScheduledTransactions cur).
        \<not> loops_below (bk_Shard cur) (directResults (gatherAllTransactions nxt)) (tx_Hash tx))"
proof -
  let ?before = "\<exists>rs. findImmediatelyExecutingContractResults (bk_Shard cur) (gatherScheduledTransactions prev)
      (gatherAllTransactions cur) = Some rs"
  let ?now = "\<exists>rs. findImmediatelyExecutingContractResults (bk_Shard cur) (gatherScheduledTransactions cur)
      (gatherAllTransactions nxt) = Some rs"
  have "(\<exists>b. doSimplifyBlockWithScheduledTransactions enum prev cur nxt = Some b) \<longleftrightarrow>
      (gatherScheduledTransactions prev = [] \<or> ?before) \<and> (gatherScheduledTransactions cur = [] \<or> ?now)"
    by (auto simp: doSimplifyBlockWithScheduledTransactions_def gatherEffectiveTransactions_def Let_def
        bind_eq_Some_conv)
  also have "\<dots> \<longleftrightarrow> ?before \<and> ?now"
    by (auto simp: findImmediately_returns_iff)
  finally show ?thesis by (simp add: findImmediately_returns_iff)
qed

text \<open>A result whose previous transaction is itself.\<close>

lemma self_referring_result_never_returns:
  assumes "r \<in> set results" "tx_SourceShard r = self" "tx_PreviousTransactionHash r = tx_Hash r"
    and "tx_Hash tx = tx_Hash r"
  shows "findImmediatelyExecutingContractResultsOfTransaction self tx (directResults results) = None"
  unfolding findImmediatelyExecutingContractResultsOfTransaction_def
  using assms by (intro self_result_diverges [of r]) (simp_all add: directResults_filter)

end
