(* ===== verification/GenesisCache.thy ===== *)
theory GenesisCache
  imports Services
begin

text \<open>
  \<open>getGenesisBlock\<close> of \<open>blockService.go\<close> as it runs in concurrent requests: double-checked
  locking around the field \<open>genesisBlock\<close> with a \<open>sync.RWMutex\<close>. A request is a thread; each
  atomic step is one access to the lock or to the field. The fetch in the critical section may
  answer differently each time, since it asks the observer.
\<close>

section \<open>The step relation\<close>

text \<open>
  \<open>Reading\<close> holds the read lock; \<open>HaveRead b\<close> too, and has loaded the field; \<open>Checked b\<close> has
  released it; \<open>Locked\<close> holds the write lock; \<open>Leaving r\<close> holds it with the result decided
  (the deferred unlock is still to run).
\<close>

datatype pc =
    Start
  | Reading
  | HaveRead "BlockResponse option"
  | Checked "BlockResponse option"
  | Locked
  | Leaving "failure + BlockResponse"
  | Returned "failure + BlockResponse"

record genesis_state =
  genesisBlock :: "BlockResponse option"
  readers :: "nat set"
  writer :: "nat option"
  threads :: "nat \<Rightarrow> pc"
  fetches :: nat

definition initial :: genesis_state where
  "initial = \<lparr>genesisBlock = None, readers = {}, writer = None, threads = (\<lambda>_. Start), fetches = 0\<rparr>"

text \<open>\<open>fetch\<close> holds of the results that \<open>doGetGenesisBlock\<close> may have; \<open>fetches\<close> counts its successes.\<close>

inductive genesis_step :: "(failure + BlockResponse \<Rightarrow> bool) \<Rightarrow> genesis_state \<Rightarrow> genesis_state \<Rightarrow> bool"
  for fetch where
  rlock: "threads s t = Start \<Longrightarrow> writer s = None \<Longrightarrow>
    genesis_step fetch s (s\<lparr>threads := (threads s)(t := Reading), readers := insert t (readers s)\<rparr>)"
| load: "threads s t = Reading \<Longrightarrow>
    genesis_step fetch s (s\<lparr>threads := (threads s)(t := HaveRead (genesisBlock s))\<rparr>)"
| runlock: "threads s t = HaveRead b \<Longrightarrow>
    genesis_step fetch s (s\<lparr>threads := (threads s)(t := Checked b), readers := readers s - {t}\<rparr>)"
| hit: "threads s t = Checked (Some b) \<Longrightarrow>
    genesis_step fetch s (s\<lparr>threads := (threads s)(t := Returned (Inr b))\<rparr>)"
| lock: "threads s t = Checked None \<Longrightarrow> writer s = None \<Longrightarrow> readers s = {} \<Longrightarrow>
    genesis_step fetch s (s\<lparr>threads := (threads s)(t := Locked), writer := Some t\<rparr>)"
| hit_again: "threads s t = Locked \<Longrightarrow> genesisBlock s = Some b \<Longrightarrow>
    genesis_step fetch s (s\<lparr>threads := (threads s)(t := Leaving (Inr b))\<rparr>)"
| fetch_ok: "threads s t = Locked \<Longrightarrow> genesisBlock s = None \<Longrightarrow> fetch (Inr b) \<Longrightarrow>
    genesis_step fetch s (s\<lparr>threads := (threads s)(t := Leaving (Inr b)), genesisBlock := Some b,
                            fetches := Suc (fetches s)\<rparr>)"
| fetch_fails: "threads s t = Locked \<Longrightarrow> genesisBlock s = None \<Longrightarrow> fetch (Inl e) \<Longrightarrow>
    genesis_step fetch s (s\<lparr>threads := (threads s)(t := Leaving (Inl e))\<rparr>)"
| unlock: "threads s t = Leaving r \<Longrightarrow>
    genesis_step fetch s (s\<lparr>threads := (threads s)(t := Returned r), writer := None\<rparr>)"

inductive_cases genesis_stepE: "genesis_step fetch s s'"

inductive reachable :: "(failure + BlockResponse \<Rightarrow> bool) \<Rightarrow> genesis_state \<Rightarrow> bool" for fetch where
  start: "reachable fetch initial"
| step: "reachable fetch s \<Longrightarrow> genesis_step fetch s s' \<Longrightarrow> reachable fetch s'"

text \<open>The results that the model's fetch can have, over all states of the world.\<close>

definition fetch_of :: "'w NetworkProvider \<Rightarrow> failure + BlockResponse \<Rightarrow> bool" where
  "fetch_of P r = (\<exists>w. r = fst (doGetGenesisBlock P w))"

section \<open>Invariants\<close>

definition holds_read :: "pc \<Rightarrow> bool" where
  "holds_read c = (c = Reading \<or> (\<exists>b. c = HaveRead b))"

definition holds_write :: "pc \<Rightarrow> bool" where
  "holds_write c = (c = Locked \<or> (\<exists>r. c = Leaving r))"

lemma holds_simps [simp]:
  "\<not> holds_read Start" "holds_read Reading" "holds_read (HaveRead b)" "\<not> holds_read (Checked b)"
  "\<not> holds_read Locked" "\<not> holds_read (Leaving r)" "\<not> holds_read (Returned r)"
  "\<not> holds_write Start" "\<not> holds_write Reading" "\<not> holds_write (HaveRead b)" "\<not> holds_write (Checked b)"
  "holds_write Locked" "holds_write (Leaving r)" "\<not> holds_write (Returned r)"
  by (simp_all add: holds_read_def holds_write_def)

text \<open>The lock is held by the threads that are between their lock and unlock calls.\<close>

definition lock_invariant :: "genesis_state \<Rightarrow> bool" where
  "lock_invariant s =
     ((\<forall>t. t \<in> readers s \<longleftrightarrow> holds_read (threads s t)) \<and>
      (\<forall>t. writer s = Some t \<longleftrightarrow> holds_write (threads s t)) \<and>
      (writer s \<noteq> None \<longrightarrow> readers s = {}))"

lemma lock_invariant_step:
  assumes "genesis_step fetch s s'" "lock_invariant s"
  shows "lock_invariant s'"
  using assms
proof (cases rule: genesis_step.cases)
  case (unlock t r)
  then have "writer s = Some t" using assms(2) by (simp add: lock_invariant_def)
  with unlock assms(2) show ?thesis by (auto simp: lock_invariant_def)
next
  case (lock t)
  then show ?thesis using assms(2) by (auto simp: lock_invariant_def)
next
  case (rlock t)
  then show ?thesis using assms(2) by (auto simp: lock_invariant_def)
qed (auto simp: lock_invariant_def)

lemma reachable_lock: "reachable fetch s \<Longrightarrow> lock_invariant s"
  by (induction rule: reachable.induct) (auto simp: lock_invariant_step, simp add: initial_def lock_invariant_def)

lemma mutual_exclusion:
  assumes "reachable fetch s" "holds_write (threads s t)" "holds_write (threads s u) \<or> holds_read (threads s u)"
  shows "u = t"
  using reachable_lock [OF assms(1)] assms(2,3) unfolding lock_invariant_def
  by (metis emptyE option.distinct(1) option.inject)

text \<open>What a thread knows or has returned is what the field holds.\<close>

definition knows :: "pc \<Rightarrow> BlockResponse option" where
  "knows c = (case c of HaveRead b \<Rightarrow> b | Checked b \<Rightarrow> b
     | Leaving r \<Rightarrow> (case r of Inr b \<Rightarrow> Some b | Inl _ \<Rightarrow> None)
     | Returned r \<Rightarrow> (case r of Inr b \<Rightarrow> Some b | Inl _ \<Rightarrow> None) | _ \<Rightarrow> None)"

definition value_invariant :: "(failure + BlockResponse \<Rightarrow> bool) \<Rightarrow> genesis_state \<Rightarrow> bool" where
  "value_invariant fetch s =
     ((\<forall>t b. knows (threads s t) = Some b \<longrightarrow> genesisBlock s = Some b) \<and>
      (\<forall>b. genesisBlock s = Some b \<longrightarrow> fetch (Inr b)) \<and>
      fetches s = (if genesisBlock s = None then 0 else 1))"

text \<open>A step that leaves the field alone may only make a thread know what the field holds.\<close>

lemma value_invariant_thread:
  assumes inv: "value_invariant fetch s" and c: "knows c = knows (threads s t) \<or> knows c = genesisBlock s"
    and same: "genesisBlock s' = genesisBlock s" "fetches s' = fetches s" and upd: "threads s' = (threads s)(t := c)"
  shows "value_invariant fetch s'"
proof -
  have old: "knows (threads s u) = Some b \<Longrightarrow> genesisBlock s = Some b" for u b
    using inv by (auto simp only: value_invariant_def)
  have "genesisBlock s = Some b" if "knows (threads s' u) = Some b" for u b
  proof (cases "u = t")
    case True
    with that upd have "knows c = Some b" by simp
    with c old [of t b] show ?thesis by metis
  next
    case False
    with that upd have "knows (threads s u) = Some b" by simp
    then show ?thesis by (rule old)
  qed
  with inv same show ?thesis unfolding value_invariant_def by (metis (no_types))
qed

lemma value_invariant_step:
  assumes "genesis_step fetch s s'" and inv: "value_invariant fetch s"
  shows "value_invariant fetch s'"
  using assms(1)
proof (cases rule: genesis_step.cases)
  case (rlock t)
  then show ?thesis by (intro value_invariant_thread [OF inv, of Reading t]) (simp_all add: knows_def)
next
  case (load t)
  then show ?thesis
    by (intro value_invariant_thread [OF inv, of "HaveRead (genesisBlock s)" t]) (simp_all add: knows_def)
next
  case (runlock t b)
  then show ?thesis by (intro value_invariant_thread [OF inv, of "Checked b" t]) (simp_all add: knows_def)
next
  case (hit t b)
  then show ?thesis by (intro value_invariant_thread [OF inv, of "Returned (Inr b)" t]) (simp_all add: knows_def)
next
  case (lock t)
  then show ?thesis by (intro value_invariant_thread [OF inv, of Locked t]) (simp_all add: knows_def)
next
  case (hit_again t b)
  then show ?thesis by (intro value_invariant_thread [OF inv, of "Leaving (Inr b)" t]) (simp_all add: knows_def)
next
  case (fetch_fails t e)
  then show ?thesis by (intro value_invariant_thread [OF inv, of "Leaving (Inl e)" t]) (simp_all add: knows_def)
next
  case (unlock t r)
  then show ?thesis by (intro value_invariant_thread [OF inv, of "Returned r" t]) (simp_all add: knows_def)
next
  case (fetch_ok t b)
  have "knows (threads s u) = None" for u
    using inv fetch_ok(3) by (cases "knows (threads s u)") (auto simp only: value_invariant_def)
  with fetch_ok inv show ?thesis by (simp add: value_invariant_def) (simp add: knows_def)
qed

lemma reachable_value: "reachable fetch s \<Longrightarrow> value_invariant fetch s"
  by (induction rule: reachable.induct)
    (auto simp: value_invariant_step, simp add: initial_def value_invariant_def knows_def)

lemma field_is_stable:
  "genesis_step fetch s s' \<Longrightarrow> genesisBlock s = Some b \<Longrightarrow> genesisBlock s' = Some b"
  by (erule genesis_step.cases) auto

section \<open>No request is blocked for good\<close>

text \<open>In every reachable state in which some request has not returned, some step is possible.\<close>

lemma some_step:
  assumes inv: "reachable fetch s" and t: "\<nexists>r. threads s t = Returned r"
    and answers: "\<exists>r. fetch r"
  shows "\<exists>s'. genesis_step fetch s s'"
proof (cases "\<exists>u. holds_read (threads s u) \<or> holds_write (threads s u)")
  case True
  then obtain u where "holds_read (threads s u) \<or> holds_write (threads s u)" by blast
  then consider "threads s u = Reading" | b where "threads s u = HaveRead b"
    | "threads s u = Locked" | r where "threads s u = Leaving r"
    by (auto simp: holds_read_def holds_write_def)
  then show ?thesis
  proof cases
    case 3
    obtain r where "fetch r" using answers by blast
    with 3 show ?thesis
      by (cases "genesisBlock s"; cases r) (auto intro: genesis_step.intros)
  qed (blast intro: genesis_step.intros)+
next
  case False
  with reachable_lock [OF inv] have free: "readers s = {}" "writer s = None"
    by (auto simp: lock_invariant_def)
  show ?thesis
  proof (cases "threads s t")
    case Start
    with free show ?thesis by (blast intro: genesis_step.rlock)
  next
    case (Checked b)
    with free show ?thesis by (cases b) (blast intro: genesis_step.lock genesis_step.hit)+
  qed (use False t in \<open>auto simp: holds_read_def holds_write_def\<close>)
qed

section \<open>The sequential call is a run of one thread\<close>

text \<open>
  \<open>getGenesisBlock\<close> of Services, from a state in which nobody holds the lock, is what a thread
  does when no other thread interferes.
\<close>

inductive_simps reachable_iff: "reachable fetch s"

definition quiet :: "genesis_state \<Rightarrow> nat \<Rightarrow> bool" where
  "quiet s t = (threads s t = Start \<and> readers s = {} \<and> writer s = None)"

lemma sequential_run:
  assumes "quiet s t" "getGenesisBlock P (genesisBlock s, w) = (r, (cache, w'))"
  shows "\<exists>s'. (genesis_step (fetch_of P))\<^sup>*\<^sup>* s s' \<and> threads s' t = Returned r \<and> genesisBlock s' = cache \<and>
    readers s' = {} \<and> writer s' = None"
proof -
  let ?R = "genesis_step (fetch_of P)"
  have q: "threads s t = Start" "readers s = {}" "writer s = None" using assms(1) by (simp_all add: quiet_def)
  define s1 where "s1 = s\<lparr>threads := (threads s)(t := Reading), readers := insert t (readers s)\<rparr>"
  define s2 where "s2 = s1\<lparr>threads := (threads s1)(t := HaveRead (genesisBlock s1))\<rparr>"
  define s3 where "s3 = s2\<lparr>threads := (threads s2)(t := Checked (genesisBlock s1)), readers := readers s2 - {t}\<rparr>"
  have "?R s s1" unfolding s1_def by (rule rlock) (use q in simp_all)
  moreover have "?R s1 s2" unfolding s2_def by (rule load) (simp add: s1_def)
  moreover have "?R s2 s3" unfolding s3_def by (rule runlock) (simp add: s2_def)
  ultimately have run3: "?R\<^sup>*\<^sup>* s s3" by (meson rtranclp.rtrancl_into_rtrancl rtranclp.rtrancl_refl)
  have s3: "threads s3 t = Checked (genesisBlock s)" "readers s3 = {}" "writer s3 = None"
    "genesisBlock s3 = genesisBlock s"
    using q by (simp_all add: s3_def s2_def s1_def)
  show ?thesis
  proof (cases "genesisBlock s")
    case (Some b)
    let ?s4 = "s3\<lparr>threads := (threads s3)(t := Returned (Inr b))\<rparr>"
    have "?R s3 ?s4" by (rule hit) (simp add: s3 Some)
    with run3 have "?R\<^sup>*\<^sup>* s ?s4" by (rule rtranclp.rtrancl_into_rtrancl)
    moreover have "r = Inr b" "cache = Some b" using assms(2) Some by (auto simp: getGenesisBlock_def)
    ultimately show ?thesis using s3 Some by (intro exI [of _ ?s4]) simp
  next
    case None
    define s4 where "s4 = s3\<lparr>threads := (threads s3)(t := Locked), writer := Some t\<rparr>"
    have "?R s3 s4" unfolding s4_def by (rule lock) (simp_all add: s3 None)
    with run3 have run4: "?R\<^sup>*\<^sup>* s s4" by (rule rtranclp.rtrancl_into_rtrancl)
    have s4: "threads s4 t = Locked" "genesisBlock s4 = None" "readers s4 = {}"
      by (simp_all add: s4_def s3 None)
    have fetched: "fetch_of P r"
      using assms(2) None by (auto simp: getGenesisBlock_def fetch_of_def split: prod.splits sum.splits)
        (metis fst_conv)+
    define s5 where "s5 = (case r of
        Inr b \<Rightarrow> s4\<lparr>threads := (threads s4)(t := Leaving (Inr b)), genesisBlock := Some b, fetches := Suc (fetches s4)\<rparr>
      | Inl e \<Rightarrow> s4\<lparr>threads := (threads s4)(t := Leaving (Inl e))\<rparr>)"
    have "?R s4 s5"
      using fetched s4 by (cases r) (auto simp: s5_def intro: fetch_ok fetch_fails)
    with run4 have run5: "?R\<^sup>*\<^sup>* s s5" by (rule rtranclp.rtrancl_into_rtrancl)
    have s5: "threads s5 t = Leaving r" "readers s5 = {}" "genesisBlock s5 = cache"
      using assms(2) None s4
      by (cases r; auto simp: s5_def getGenesisBlock_def split: prod.splits sum.splits)+
    let ?s6 = "s5\<lparr>threads := (threads s5)(t := Returned r), writer := None\<rparr>"
    have "?R s5 ?s6" by (rule unlock) (simp add: s5)
    with run5 have "?R\<^sup>*\<^sup>* s ?s6" by (rule rtranclp.rtrancl_into_rtrancl)
    then show ?thesis using s5 by (intro exI [of _ ?s6]) simp
  qed
qed

end
