(* ===== verification/Samples.thy ===== *)
theory Samples
  imports ServerRuns ScheduledFacts GenesisCache Urls
begin

text \<open>
  A concrete platform on which the properties are tried out: an observer of a small chain, a
  cache that is an association list, addresses that are their own public keys, and a text
  encoding of transactions that reads back. The theorems with hypotheses are instantiated on it.
\<close>

section \<open>A text encoding of transactions\<close>

definition fieldsOfTx :: "PreparedTransaction \<Rightarrow> string list" where
  "fieldsOfTx tx =
     [nat_to_dec (unat (pt_Nonce tx)), hex_encode (pt_Value tx), hex_encode (pt_Receiver tx),
      hex_encode (pt_Sender tx), nat_to_dec (unat (pt_GasPrice tx)), nat_to_dec (unat (pt_GasLimit tx)),
      hex_encode (pt_Data tx), hex_encode (pt_Signature tx), hex_encode (pt_ChainID tx),
      nat_to_dec (unat (pt_Version tx))]"

definition sampleMarshalTx :: "PreparedTransaction \<Rightarrow> go_error + string" where
  "sampleMarshalTx tx = Inr (concat (map (\<lambda>f. f @ '','') (fieldsOfTx tx)))"

definition readNat :: "string \<Rightarrow> nat" where
  "readNat s = (case parse_digits from_dec_char 10 s of Some n \<Rightarrow> n | None \<Rightarrow> 0)"

definition readHex :: "string \<Rightarrow> string" where
  "readHex s = (case hex_decode s of Inr bs \<Rightarrow> bs | Inl _ \<Rightarrow> [])"

definition readText :: "string \<Rightarrow> string" where "readText s = coerce_utf8 (readHex s)"

definition sampleUnmarshalTx :: "string \<Rightarrow> go_error + PreparedTransaction" where
  "sampleUnmarshalTx s =
     (case split_on (CHR '','') s of
        [nonce, val, receiver, sender, gasPrice, gasLimit, d, sig, chain, version, rest] \<Rightarrow>
          Inr \<lparr>pt_Nonce = of_nat (readNat nonce), pt_Value = readText val, pt_Receiver = readText receiver,
               pt_Sender = readText sender, pt_GasPrice = of_nat (readNat gasPrice),
               pt_GasLimit = of_nat (readNat gasLimit), pt_Data = readHex d, pt_Signature = readText sig,
               pt_ChainID = readText chain, pt_Version = of_nat (readNat version)\<rparr>
      | _ \<Rightarrow> Inl (JsonTypeError ''Transaction''))"

lemma read_simps [simp]: "readNat (nat_to_dec n) = n" "readHex (hex_encode bs) = bs"
  by (simp_all add: readNat_def readHex_def)

lemma no_comma [simp]: "CHR '','' \<notin> set (nat_to_dec n)" "CHR '','' \<notin> set (hex_encode bs)"
proof -
  have "\<not> is_digit (CHR '','')" by (simp add: is_digit_def from_dec_char_def)
  then show "CHR '','' \<notin> set (nat_to_dec n)" using nat_to_dec_digits by blast
  have "from_hex_char (CHR '','') = None" by (simp add: from_hex_char_def)
  then show "CHR '','' \<notin> set (hex_encode bs)" by (auto dest: hex_char_some)
qed

definition sampleLibrary :: Library where
  "sampleLibrary =
     \<lparr>lib_IsSmartContractAddress = (\<lambda>k. has_prefix k ''sc''),
      lib_UnmarshalInnerTx = (\<lambda>d. Inl (JsonTypeError ''Transaction'')),
      lib_MarshalTx = sampleMarshalTx, lib_UnmarshalTx = sampleUnmarshalTx,
      lib_uint64_overflow = (\<lambda>_. 9223372036854775808)\<rparr>"

lemma sample_tx_text_law: "tx_text_law sampleLibrary"
proof -
  have "\<exists>s. sampleMarshalTx tx = Inr s \<and> sampleUnmarshalTx s = Inr tx" if "valid_tx tx" for tx
    using that
    by (simp add: sampleMarshalTx_def sampleUnmarshalTx_def fieldsOfTx_def split_on_append_sep readText_def valid_tx_def)
  moreover have "valid_tx tx" if "sampleUnmarshalTx s = Inr tx" for s tx
    using that by (auto simp: sampleUnmarshalTx_def readText_def valid_tx_def split: list.splits)
  ultimately show ?thesis by (simp add: tx_text_law_def sampleLibrary_def)
qed

section \<open>Transactions, blocks, accounts\<close>

definition plainTx :: ApiTransactionResult where
  "plainTx =
     \<lparr>tx_Type = ''normal'', tx_ProcessingTypeOnSource = ''MoveBalance'',
      tx_ProcessingTypeOnDestination = ''MoveBalance'', tx_Hash = ''aa'', tx_Nonce = 7, tx_Value = ''100'',
      tx_Receiver = ''bob'', tx_Sender = ''alice'', tx_SenderUsername = [], tx_ReceiverUsername = [],
      tx_GasPrice = 1000000000, tx_GasLimit = 50000, tx_Data = [], tx_Signature = ''05'',
      tx_RelayerAddress = [], tx_RelayerSignature = [], tx_GuardianAddr = [], tx_Epoch = 9,
      tx_SourceShard = 0, tx_DestinationShard = 0, tx_BlockNonce = 0, tx_MiniBlockType = ''TxBlock'',
      tx_MiniBlockHash = ''cc'', tx_Timestamp = 1596117600, tx_Status = ''success'', tx_Logs = None,
      tx_OriginalTransactionHash = [], tx_PreviousTransactionHash = [], tx_OriginalSender = [],
      tx_IsRefund = False, tx_Operation = ''transfer'', tx_InitiallyPaidFee = ''50''\<rparr>"

definition plainMiniblock :: "string \<Rightarrow> ApiTransactionResult list \<Rightarrow> MiniBlock" where
  "plainMiniblock processing txs =
     \<lparr>mb_Type = ''TxBlock'', mb_Hash = ''cc'', mb_ProcessingType = processing, mb_ConstructionState = ''Final'',
      mb_SourceShard = 0, mb_DestinationShard = 0, mb_Transactions = txs, mb_Receipts = []\<rparr>"

definition plainBlock :: "u64 \<Rightarrow> MiniBlock list \<Rightarrow> Block" where
  "plainBlock n miniblocks =
     \<lparr>bk_Nonce = n, bk_Round = n, bk_Epoch = 9, bk_Shard = 0, bk_NumTxs = 1,
      bk_Hash = ''hash'' @ nat_to_dec (unat n), bk_PrevBlockHash = ''hash'' @ nat_to_dec (unat (n - 1)),
      bk_StateRootHash = ''dd'', bk_Status = ''on-chain'', bk_Timestamp = 1596117600,
      bk_MiniBlocks = miniblocks\<rparr>"

definition sampleChain :: "u64 \<Rightarrow> Block" where
  "sampleChain n = plainBlock n [plainMiniblock ''Normal'' [plainTx]]"

definition ok :: "'d \<Rightarrow> 'd ApiResponse" where
  "ok d = \<lparr>ar_Error = [], ar_Code = ''successful'', ar_Data = d\<rparr>"

definition sampleAccount :: AccountOnBlock where
  "sampleAccount =
     \<lparr>aob_Account = \<lparr>ac_Address = ''alice'', ac_Nonce = 7, ac_Balance = ''1000''\<rparr>,
      aob_BlockCoordinates = \<lparr>bc_Nonce = 8, bc_Hash = ''hash8''\<rparr>\<rparr>"

definition sampleStatus :: NodeStatus where
  "sampleStatus =
     \<lparr>ns_Version = ''v1'', ns_ConnectedPeersCounts = ''intraVal:1,crossVal:2'', ns_ObserverPublicKey = ''ee'',
      ns_IsSyncing = 0, ns_CurrentEpoch = 9, ns_HighestNonce = 12, ns_HighestFinalNonce = 10\<rparr>"

section \<open>The platform\<close>

type_synonym sample_cache = "(bytes \<times> Block) list"

definition sampleExternals :: "(sample_cache, 'w) Externals" where
  "sampleExternals =
     \<lparr>of_GetAccount = (\<lambda>base path w. (Inr (ok sampleAccount), w)),
      of_GetESDTBalance = (\<lambda>base path w.
        (Inr (ok \<lparr>esdt_TokenData = \<lparr>td_Identifier = ''TOK-123456'', td_Balance = ''7''\<rparr>,
                  esdt_BlockCoordinates = \<lparr>bc_Nonce = 8, bc_Hash = ''hash8''\<rparr>\<rparr>), w)),
      of_GetNodeStatus = (\<lambda>base path w. (Inr (ok sampleStatus), w)),
      of_GetEpochStart = (\<lambda>base path w. (Inr (ok \<lparr>es_Nonce = 3\<rparr>), w)),
      of_GetGenesisBalances = (\<lambda>base path w.
        (Inr (ok [\<lparr>gb_Address = ''alice'', gb_Supply = ''1000'', gb_Balance = ''1000'', gb_StakingValue = ''0'',
                   gb_Delegation = \<lparr>gd_Address = [], gd_Value = ''0''\<rparr>\<rparr>]), w)),
      of_ComputeShardId = (\<lambda>k. 0),
      of_SendTransaction = (\<lambda>tx w. (Inr ''ff'', w)),
      of_ComputeTransactionHash = (\<lambda>tx. Inr ''ff''),
      of_GetTransactionByHashAndSenderAddress = (\<lambda>h a e w. (Inr plainTx, w)),
      of_GetBlockByHash = (\<lambda>shard h opts w. (Inr (ok (sampleChain 5)), w)),
      of_GetBlockByNonce = (\<lambda>shard n opts w. (Inr (ok (sampleChain n)), w)),
      cache_New = (\<lambda>n. Inr []),
      cache_Get = (\<lambda>k c. (map_of c k, c)),
      cache_Put = (\<lambda>k b c. (k, b) # c),
      ext_Encode = (\<lambda>k. Inr k),
      ext_Decode = (\<lambda>a. if a = [] then Inl (ErrorsNew ''wrong size'') else Inr a),
      ext_CalculateHash = (\<lambda>r. Inr (r_TxHash r)),
      ext_SafeMul = (\<lambda>a b. unat a * unat b),
      ext_ErrorText = (\<lambda>e. []),
      ext_enum = (\<lambda>m. m),
      ext_Library = sampleLibrary\<rparr>"

definition sampleArgs :: ArgsNewNetworkProvider where
  "sampleArgs =
     \<lparr>a_IsOffline = False, a_ObservedActualShard = 0, a_ObservedProjectedShard = 0,
      a_ObservedProjectedShardIsSet = False, a_ObserverUrl = ''http://observer'',
      a_BlockchainName = ''MultiversX'', a_NetworkID = ''1'', a_NetworkName = ''mainnet'',
      a_GasPerDataByte = 1500, a_GasPriceModifier = \<lparr>mantissa = 5764607523034235, exponent = -59\<rparr>,
      a_GasLimitCustomTransfer = 200000, a_MinGasPrice = 1000000000, a_MinGasLimit = 50000,
      a_ExtraGasLimitGuardedTx = 50000, a_ExtraGasLimitRelayedTxV3 = 50000,
      a_NativeCurrencySymbol = ''EGLD'', a_CustomCurrencies = [\<lparr>Symbol = ''TOK-123456'', Decimals = 6\<rparr>],
      a_GenesisBlockHash = ''hash0'', a_GenesisTimestamp = 1596117600, a_FirstHistoricalEpoch = 2,
      a_NumHistoricalEpochs = 4, a_ShouldHandleContracts = False,
      a_ActivationEpochSirius = 4, a_ActivationEpochSpica = 6\<rparr>"

definition sampleProvider :: networkProvider where
  "sampleProvider = providerOfArgs (currenciesOf (a_NativeCurrencySymbol sampleArgs) (a_CustomCurrencies sampleArgs)) sampleArgs"

definition offlineArgs :: ArgsNewNetworkProvider where
  "offlineArgs = sampleArgs\<lparr>a_IsOffline := True\<rparr>"

abbreviation sampleP :: "(sample_cache \<times> unit) NetworkProvider" where
  "sampleP \<equiv> serverProvider sampleExternals sampleArgs"

abbreviation offlineP :: "(sample_cache \<times> unit) NetworkProvider" where
  "offlineP \<equiv> serverProvider sampleExternals offlineArgs"

lemmas sample_simps = sampleArgs_def offlineArgs_def sampleExternals_def sampleLibrary_def sampleChain_def
  plainBlock_def plainMiniblock_def plainTx_def ok_def sampleAccount_def sampleStatus_def

lemma sampleP_asNetworkProvider: "sampleP = asNetworkProvider sampleExternals sampleProvider"
  by (simp add: serverProvider_def sampleProvider_def)

lemma sample_cache_lawful: "lawful_cache sampleExternals map_of"
  by (simp add: lawful_cache_def sampleExternals_def)

lemma sample_serves_chain: "serves_chain sampleExternals sampleProvider sampleChain"
  by (simp add: serves_chain_def sampleExternals_def ok_def)

lemma sample_coherent: "coherent map_of sampleChain []"
  by (simp add: coherent_def)

lemma sample_inner_values: "inner_value_nonneg sampleLibrary tx"
  by (auto simp: inner_value_nonneg_def parseInnerTxOfRelayedV1_def sampleLibrary_def Let_def split: if_splits)

lemma sample_decimals: "is_decimal (tx_Value plainTx)" "is_decimal (tx_InitiallyPaidFee plainTx)"
  by (simp_all add: plainTx_def is_decimal_def is_digit_def from_dec_char_def)

lemma sample_decimal: "decimal_amounts plainTx"
  by (simp add: decimal_amounts_def sample_decimals)

lemma sample_tx: "\<exists>r. txToRosettaTx sampleLibrary sampleP plainTx txs = Inr r"
proof -
  have "tx_Logs plainTx = None" "tx_Type plainTx = TxTypeNormal" "\<not> isRelayedV1Transaction plainTx"
    by (simp_all add: plainTx_def TxTypeNormal_def isRelayedV1Transaction_def transactionProcessingTypeRelayedV1_def)
  then show ?thesis
    by (simp add: txToRosettaTx_def no_logs_no_events normalTxToRosetta_def Let_def
        extractInnerTxOperationsIfBeforeSiriusRelayedCompletelyIntrashardWithSignalError_def)
qed

lemma sample_amounts [simp]: "amount_value ''100'' = 100" "amount_value ''50'' = 50"
  by (simp_all add: amount_value_def big_SetString_def parse_digits_def from_dec_char_def of_digits_def)

lemma plainTx_fields:
  "tx_Type plainTx = ''normal''" "tx_Value plainTx = ''100''" "tx_InitiallyPaidFee plainTx = ''50''"
  "tx_Sender plainTx = ''alice''" "tx_Receiver plainTx = ''bob''" "tx_Logs plainTx = None"
  "tx_Epoch plainTx = 9" "\<not> hasAnySignalError plainTx" "logEvents plainTx = []"
  by (simp_all add: plainTx_def hasAnySignalError_def hasEvents_def logEvents_def)

lemma sample_plain:
  "tx_Type plainTx = TxTypeNormal" "tx_Logs plainTx = None" "\<not> isRelayedV1Transaction plainTx"
  by (simp_all add: plainTx_def TxTypeNormal_def isRelayedV1Transaction_def transactionProcessingTypeRelayedV1_def)

lemma sample_fee_payer: "decideFeePayer plainTx = ''alice''"
  by (simp add: decideFeePayer_def IsRelayedTxV3_def plainTx_def)

lemma sample_key: "a \<noteq> [] \<Longrightarrow> ext_Decode sampleExternals a = Inr a"
  by (simp add: sampleExternals_def)

lemma sample_observed: "a \<noteq> [] \<Longrightarrow> \<not> has_prefix a ''sc'' \<Longrightarrow> np_IsAddressObserved sampleP a = Inr True"
  by (simp add: provider_simps IsAddressObserved_def ConvertAddressToPubKey_def sample_simps Let_def)

lemma sample_block_of:
  assumes obs: "np_IsAddressObserved P ''alice'' = Inr True" "np_IsAddressObserved P ''bob'' = Inr True"
  shows "\<exists>rtxs. transformBlockTxs sampleLibrary P (sampleChain n) = Inr rtxs \<and> rtxs \<noteq> []"
proof -
  let ?t = "plainTx\<lparr>tx_BlockNonce := n\<rparr>"
  let ?pay = "newOperation opTransfer ''alice'' (valueToNativeAmount P ''-100'')"
  let ?get = "newOperation opTransfer ''bob'' (valueToNativeAmount P ''100'')"
  let ?fee = "newOperation opFee ''alice'' (valueToNativeAmount P ''-50'')"
  have "tx_Logs ?t = None" by (simp add: plainTx_def)
  note quiet = no_logs_no_events [OF this]
  have one: "filterTxsOfBlock (txsOfBlock (sampleChain n)) = [?t]"
    by (simp add: filterTxsOfBlock_one_pass txsOfBlock_def sampleChain_def plainBlock_def plainMiniblock_def
        plainTx_def isRelayedV1Transaction_def transactionProcessingTypeRelayedV1_def tx_type_defs)
  have noerr: "\<not> hasAnySignalError ?t" by (simp add: hasAnySignalError_def hasEvents_def plainTx_def)
  have nz: "isNonZeroAmount ''100''" "isNonZeroAmount ''-100''" "isNonZeroAmount ''-50''"
    by (simp_all add: isNonZeroAmount_def isZeroAmount_def big_SetString_def parse_digits_def from_dec_char_def
        of_digits_def)
  have "\<exists>r. txToRosettaTx sampleLibrary P ?t [?t] = Inr r \<and> rt_Operations r = [?pay, ?get, ?fee]"
    using noerr nz
    by (simp add: txToRosettaTx_def quiet normalTxToRosetta_def Let_def)
      (simp add: plainTx_def tx_type_defs isRelayedV1Transaction_def transactionProcessingTypeRelayedV1_def
        extractInnerTxOperationsIfBeforeSiriusRelayedCompletelyIntrashardWithSignalError_def
        decideFeePayer_def IsRelayedTxV3_def
        isContractDeploymentWithSignalErrorOrIntrashardContractCallWithSignalError_def
        isContractDeploymentWithSignalError_def isContractCallWithSignalError_def)
  then obtain r where r: "txToRosettaTx sampleLibrary P ?t [?t] = Inr r"
    "rt_Operations r = [?pay, ?get, ?fee]" by blast
  have "\<exists>r'. finishRosettaTx P r = Inr r' \<and> rt_Operations r' \<noteq> []"
    by (simp add: finishRosettaTx_def r filterOperationsByAddress_def newOperation_def obs indexOperations_def
        filterOutOperationsWithZeroAmount_def valueToNativeAmount_def nz applyDefaultStatusOnOperations_def)
  moreover have "receiptsOfBlock (sampleChain n) = []"
    by (simp add: receiptsOfBlock_def sampleChain_def plainBlock_def plainMiniblock_def)
  ultimately show ?thesis
    by (auto simp: transformBlockTxs_unfold one r(1) filterOutRosettaTransactionsWithNoOperations_def)
qed

lemma sample_block: "\<exists>rtxs. transformBlockTxs sampleLibrary sampleP (sampleChain n) = Inr rtxs \<and> rtxs \<noteq> []"
  by (rule sample_block_of; rule sample_observed; simp add: has_prefix_def)

definition invalidTx :: ApiTransactionResult where
  "invalidTx = plainTx\<lparr>tx_Type := ''invalid''\<rparr>"

lemma sample_invalid:
  "tx_Type invalidTx = TxTypeInvalid" "tx_Logs invalidTx = None" "decimal_amounts invalidTx"
  "\<exists>r. txToRosettaTx sampleLibrary sampleP invalidTx [] = Inr r"
  "decideFeePayer invalidTx = ''alice''" "base_change sampleLibrary sampleP invalidTx [] = - 50"
proof -
  show logs: "tx_Logs invalidTx = None" and ty: "tx_Type invalidTx = TxTypeInvalid"
    by (simp_all add: invalidTx_def plainTx_def TxTypeInvalid_def)
  show "decimal_amounts invalidTx"
    using sample_decimals by (simp add: decimal_amounts_def invalidTx_def)
  show "\<exists>r. txToRosettaTx sampleLibrary sampleP invalidTx [] = Inr r"
    by (simp add: txToRosettaTx_def ty no_logs_no_events [OF logs])
  show "decideFeePayer invalidTx = ''alice''"
    by (simp add: decideFeePayer_def IsRelayedTxV3_def invalidTx_def plainTx_def)
  have "\<not> isInvalidTransactionOfTypeMoveBalanceThatOnlyConsumesDataMovementGas invalidTx"
    by (simp add: isInvalidTransactionOfTypeMoveBalanceThatOnlyConsumesDataMovementGas_def Let_def
        hasSignalErrorOfSendingValueToNonPayableContract_def hasSignalErrorOfMetaTransactionIsInvalid_def
        hasEvents_def logs)
  then show "base_change sampleLibrary sampleP invalidTx [] = - 50"
    by (simp add: base_change_def ty) (simp add: invalidTx_def plainTx_fields)
qed

text \<open>A transaction that mints 3 units of a supported token, and one that burns them.\<close>

definition mintTx :: ApiTransactionResult where
  "mintTx = plainTx\<lparr>tx_Logs := Some [\<lparr>ev_Address = ''alice'', ev_Identifier = transactionEventESDTLocalMint,
     ev_Topics = [''TOK-123456'', [], [CHR 0x03]], ev_Data = []\<rparr>]\<rparr>"

definition burnTx :: ApiTransactionResult where
  "burnTx = plainTx\<lparr>tx_Logs := Some [\<lparr>ev_Address = ''alice'', ev_Identifier = transactionEventESDTLocalBurn,
     ev_Topics = [''TOK-123456'', [], [CHR 0x03]], ev_Data = []\<rparr>]\<rparr>"

lemma sample_mint_decimal: "decimal_amounts mintTx"
  using sample_decimals by (simp add: decimal_amounts_def mintTx_def)

lemma sample_mint_tx: "\<exists>r. txToRosettaTx sampleLibrary sampleP mintTx [mintTx] = Inr r"
proof -
  have fields: "tx_Type mintTx = TxTypeNormal" "\<not> isRelayedV1Transaction mintTx"
    using sample_plain by (simp_all add: mintTx_def isRelayedV1Transaction_def)
  have none: "findManyEventsByIdentifier mintTx n = []" if "n \<noteq> transactionEventESDTLocalMint" for n
    using that by (simp add: findManyEventsByIdentifier_filter logEvents_def mintTx_def)
  have sig: "\<not> hasAnySignalError mintTx"
    by (simp add: hasAnySignalError_iff logEvents_def mintTx_def event_name_defs)
  have "\<exists>ts. extractEventsESDTLocalMint mintTx = Inr ts"
    using localMint.extract_succeeds_iff [of mintTx]
    by (simp add: findManyEventsByIdentifier_filter logEvents_def mintTx_def)
  then obtain mints where mints: "extractEventsESDTLocalMint mintTx = Inr mints" by blast
  have "\<exists>r'. addOperationsGivenTransactionEvents sampleP mintTx r = Inr r'" for r
    by (simp add: addOperationsGivenTransactionEvents_def sig mints extractEventTransferValueOnly_def
        extractEventsESDTOrESDTNFTTransfers_def none event_name_defs
        scDeploy.extract_none localBurn.extract_none wipe.extract_none nftCreate.extract_none
        nftBurn.extract_none nftAddQuantity.extract_none claimRewards.extract_none)
  then show ?thesis
    by (simp add: txToRosettaTx_def fields normalTxToRosetta_def Let_def
        extractInnerTxOperationsIfBeforeSiriusRelayedCompletelyIntrashardWithSignalError_def)
qed

lemma sample_mint_change:
  "\<not> hasAnySignalError mintTx"
  "sum_list (map (supply_change sampleP \<lparr>Symbol = ''TOK-123456'', Decimals = 6\<rparr>) (logEvents mintTx)) = 3"
  by (simp_all add: hasAnySignalError_iff logEvents_def mintTx_def event_name_defs supply_change_def
      inflow_events_def event_currency_def valueToCustomAmount_def provider_simps sampleArgs_def
      HasCustomCurrency_def GetCustomCurrencyBySymbol_def currenciesOf_def big_SetBytes_def of_digits_def)

section \<open>An observer whose tip changes\<close>

text \<open>At time 0, nonce 10 is final and nonce 11 is a block that is later replaced.\<close>

definition forkBlock :: Block where
  "forkBlock = (sampleChain 11)\<lparr>bk_Hash := ''orphan''\<rparr>"

definition forkExternals :: "(sample_cache, nat) Externals" where
  "forkExternals =
     sampleExternals\<lparr>
       of_GetNodeStatus := (\<lambda>base path w.
         (Inr (ok (sampleStatus\<lparr>ns_HighestFinalNonce := (if w = 0 then 10 else 20)\<rparr>)), w)),
       of_GetBlockByHash := (\<lambda>shard h opts w. (Inr (ok (sampleChain 10)), w)),
       of_GetBlockByNonce := (\<lambda>shard n opts w.
         (Inr (ok (if n = 11 \<and> w = 0 then forkBlock else sampleChain n)), w))\<rparr>"

lemma forkBlock_other: "bk_Hash forkBlock \<noteq> bk_Hash (sampleChain 11)"
  by (simp add: forkBlock_def sampleChain_def plainBlock_def)

section \<open>Runs\<close>

definition scheduledBlock :: Block where
  "scheduledBlock = plainBlock 5 [plainMiniblock ''Scheduled'' [plainTx]]"

lemma sample_acyclic:
  "acyclic_results (directResults (gatherAllTransactions scheduledBlock))"
  "acyclic_results (directResults (gatherAllTransactions (sampleChain n)))"
proof -
  have "acyclic_results (directResults [plainTx])"
    unfolding acyclic_results_def
    by (rule exI [of _ "\<lambda>h. if h = [] then 1 else 0"])
      (auto simp: directResults_filter plainTx_def)
  then show "acyclic_results (directResults (gatherAllTransactions scheduledBlock))"
    "acyclic_results (directResults (gatherAllTransactions (sampleChain n)))"
    by (simp_all add: gatherAllTransactions_def scheduledBlock_def sampleChain_def plainBlock_def plainMiniblock_def)
qed

lemma sample_scheduled:
  "\<exists>txs. gatherEffectiveTransactions (\<lambda>m. m) 0 (sampleChain 4) scheduledBlock (sampleChain 6) = Some txs \<and> txs \<noteq> []"
proof -
  have "gatherScheduledTransactions (sampleChain 4) = []" "gatherScheduledTransactions scheduledBlock = [plainTx]"
    "gatherAllTransactions scheduledBlock = [plainTx]"
    by (simp_all add: gatherScheduledTransactions_def gatherAllTransactions_def sampleChain_def scheduledBlock_def
        plainBlock_def plainMiniblock_def ScheduledProcessingType_def)
  moreover obtain r where "findImmediatelyExecutingContractResults 0 [plainTx] (gatherAllTransactions (sampleChain 6)) = Some r"
    using findImmediately_returns [OF sample_acyclic(2)] by blast
  moreover have "fold put_tx txs m \<noteq> []" if "m \<noteq> []" for txs m
    using that by (induction txs arbitrary: m) (simp_all add: put_tx_def update_nonempty)
  ultimately show ?thesis
    by (simp add: gatherEffectiveTransactions_def effectiveTxsByHash_def Let_def put_tx_def)
qed

lemma sample_simplify:
  assumes "gatherScheduledTransactions prev = []" "gatherScheduledTransactions b = []"
  shows "doSimplifyBlockWithScheduledTransactions enum prev b nxt =
    Some (b\<lparr>bk_MiniBlocks := [artificialMiniblock (gatherAllTransactions b) [],
                             artificialMiniblock [] (gatherAllReceipts b)]\<rparr>)"
  using assms by (simp add: doSimplifyBlockWithScheduledTransactions_def gatherEffectiveTransactions_def Let_def)

lemma sample_unscheduled:
  "gatherScheduledTransactions (sampleChain n) = []" "gatherScheduledTransactions forkBlock = []"
  "gatherAllTransactions (sampleChain n) = [plainTx]" "gatherAllTransactions forkBlock = [plainTx]"
  "gatherAllReceipts (sampleChain n) = []" "gatherAllReceipts forkBlock = []"
  "bk_Nonce (sampleChain n) = n" "bk_Nonce forkBlock = 11"
  by (simp_all add: gatherScheduledTransactions_def gatherAllTransactions_def gatherAllReceipts_def
      sampleChain_def forkBlock_def plainBlock_def plainMiniblock_def ScheduledProcessingType_def)

lemma sample_transformed:
  "\<exists>rtxs. transformBlockTxs sampleLibrary sampleP ((sampleChain n)\<lparr>bk_MiniBlocks :=
     [artificialMiniblock [plainTx] [], artificialMiniblock [] []]\<rparr>) = Inr rtxs \<and> rtxs \<noteq> []"
proof -
  have "txsOfBlock ((sampleChain n)\<lparr>bk_MiniBlocks := [artificialMiniblock [plainTx] [], artificialMiniblock [] []]\<rparr>) =
      txsOfBlock (sampleChain n)"
    "receiptsOfBlock ((sampleChain n)\<lparr>bk_MiniBlocks := [artificialMiniblock [plainTx] [], artificialMiniblock [] []]\<rparr>) =
      receiptsOfBlock (sampleChain n)"
    by (simp_all add: txsOfBlock_def receiptsOfBlock_def artificialMiniblock_def sampleChain_def plainBlock_def
        plainMiniblock_def)
  then show ?thesis using sample_block by (simp add: transformBlockTxs_unfold)
qed

lemma sample_simplified:
  "\<exists>b1 rtxs. doSimplifyBlockWithScheduledTransactions (\<lambda>m. m) (sampleChain 4) (sampleChain 5) (sampleChain 6) = Some b1 \<and>
    transformBlockTxs sampleLibrary sampleP b1 = Inr rtxs"
  using sample_transformed by (auto simp: sample_simplify sample_unscheduled)

lemma sample_online: "\<not> p_isOffline sampleProvider" "p_observedActualShard sampleProvider = 0"
  by (simp_all add: sampleProvider_def providerOfArgs_def sampleArgs_def)

lemma sample_do_get:
  "doGetBlockByNonce sampleExternals sampleProvider n (c, w) =
     (case map_of c (blockNonceToBytes n) of
        Some b \<Rightarrow> (Inr b, (c, w))
      | None \<Rightarrow> (Inr (sampleChain n), ((blockNonceToBytes n, sampleChain n) # c, w)))"
  by (simp add: doGetBlockByNonce_def getBlockByNonceCached_def cacheBlockByNonce_def ask_def sampleExternals_def
      ok_def Let_def split: option.split)

lemma sample_latest: "getLatestBlockNonce sampleExternals sampleProvider s = (Inr 8, s)"
  by (simp add: getLatestBlockNonce_def getPlainNodeStatus_def sample_online getResource_def bind_step_def
      getResourceWithErrConversion_def ask_def sampleExternals_def ok_def GetErrorMessage_def sampleStatus_def
      getLatestNonceGivenHighestFinalNonce_def nonceDelta_def)

definition sampleServed :: "u64 \<Rightarrow> Block" where
  "sampleServed n = (sampleChain n)\<lparr>bk_MiniBlocks := [artificialMiniblock [plainTx] [], artificialMiniblock [] []]\<rparr>"

lemma sample_hit: "coherent map_of sampleChain c \<Longrightarrow>
    \<exists>c'. doGetBlockByNonce sampleExternals sampleProvider n (c, w) = (Inr (sampleChain n), (c', w)) \<and>
      coherent map_of sampleChain c'"
  by (auto simp: sample_do_get coherent_def blockNonceToBytes_inj split: option.split)

lemma sample_get_block_run:
  assumes "coherent map_of sampleChain c" "n \<le> 8"
  shows "\<exists>s'. GetBlockByNonce sampleExternals sampleProvider n (c, w) = (Inr (sampleServed n), s')"
proof -
  obtain c1 where c1: "doGetBlockByNonce sampleExternals sampleProvider n (c, w) = (Inr (sampleChain n), (c1, w))"
    "coherent map_of sampleChain c1" using sample_hit [OF assms(1), of n w] by metis
  obtain c2 where c2: "doGetBlockByNonce sampleExternals sampleProvider (n - 1) (c1, w) =
      (Inr (sampleChain (n - 1)), (c2, w))" "coherent map_of sampleChain c2" using sample_hit [OF c1(2), of "n - 1" w] by metis
  obtain c3 where "doGetBlockByNonce sampleExternals sampleProvider (n + 1) (c2, w) =
      (Inr (sampleChain (n + 1)), (c3, w))" using sample_hit [OF c2(2), of "n + 1" w] by metis
  with c1 c2 assms(2) show ?thesis
    by (simp add: GetBlockByNonce_def sample_online sample_latest bind_step_def sampleServed_def
      simplifyBlockWithScheduledTransactions_def sample_unscheduled sample_simplify not_less)
qed

lemma sample_get_block: "\<exists>b s'. GetBlockByNonce sampleExternals sampleProvider 5 ([], ()) = (Inr b, s')"
  using sample_get_block_run [of "[]" 5] by (fastforce simp: sample_coherent)

lemma sample_genesis: "getGenesisBlockIdentifier (asNetworkProvider sampleExternals sampleProvider) =
   \<lparr>bi_Index = 0, bi_Hash = ''hash0''\<rparr>"
  by (simp add: getGenesisBlockIdentifier_def blockSummaryToIdentifier_def asNetworkProvider_def
      GetGenesisBlockSummary_def sampleProvider_def providerOfArgs_def sampleArgs_def genesisBlockNonce_def
      int64_of_uint64_def)

lemma sample_nonce: "bk_Nonce (sampleChain n) = n"
  by (simp add: sample_unscheduled)

lemma sample_hash5: "bk_Hash (sampleChain 5) = ''hash5''"
  by (simp add: sampleChain_def plainBlock_def nat_to_dec_def to_digits.simps dec_digit_def)

lemma sample_do_get_block_at:
  assumes "coherent map_of sampleChain c" "0 < n" "n \<le> 8"
  shows "\<exists>r s'. doGetBlock sampleLibrary
     (asNetworkProvider sampleExternals sampleProvider :: (sample_cache \<times> unit) NetworkProvider)
     \<lparr>pbi_Index = Some n, pbi_Hash = None\<rparr> (g, (c, w)) = (Inr r, s')"
proof -
  obtain rtxs where "transformBlockTxs sampleLibrary
      (asNetworkProvider sampleExternals sampleProvider :: (sample_cache \<times> unit) NetworkProvider)
      (sampleServed (uint64_of_int64 n)) = Inr rtxs"
    using sample_transformed unfolding sampleP_asNetworkProvider sampleServed_def by blast
  moreover have "uint64_of_int64 n \<le> 8"
    using assms(2,3) by (simp add: uint64_of_int64_def word_le_def uint_word_of_int)
  then obtain s' where "GetBlockByNonce sampleExternals sampleProvider (uint64_of_int64 n) (c, w) =
     (Inr (sampleServed (uint64_of_int64 n)), s')"
    using sample_get_block_run [OF assms(1), of "uint64_of_int64 n" w] by metis
  moreover have "np_GetBlockByNonce
      (asNetworkProvider sampleExternals sampleProvider :: (sample_cache \<times> unit) NetworkProvider) =
      GetBlockByNonce sampleExternals sampleProvider" by (simp add: asNetworkProvider_def)
  ultimately show ?thesis using assms(2)
    by (cases s') (simp add: doGetBlock_def sample_genesis getBlockByNonce_def convertFetched_def
        convertToRosettaBlock_def Let_def)
qed

lemma sample_do_get_block:
  "\<exists>r s'. doGetBlock sampleLibrary (asNetworkProvider sampleExternals sampleProvider)
     \<lparr>pbi_Index = Some 5, pbi_Hash = None\<rparr> (None, ([], ())) = (Inr r, s')"
  by (rule sample_do_get_block_at) (simp_all add: sample_coherent)

section \<open>The run over a changing tip\<close>

lemma fork_do_get:
  "doGetBlockByNonce forkExternals sampleProvider n (c, w) =
     (case map_of c (blockNonceToBytes n) of
        Some b \<Rightarrow> (Inr b, (c, w))
      | None \<Rightarrow> (let b = if n = 11 \<and> w = 0 then forkBlock else sampleChain n
                  in (Inr b, ((blockNonceToBytes n, b) # c, w))))"
  by (simp add: doGetBlockByNonce_def getBlockByNonceCached_def cacheBlockByNonce_def ask_def forkExternals_def
      sampleExternals_def ok_def Let_def split: option.split)

lemma fork_latest: "getLatestBlockNonce forkExternals sampleProvider (c, 1) = (Inr 18, (c, 1))"
  by (simp add: getLatestBlockNonce_def getPlainNodeStatus_def sample_online getResource_def bind_step_def
      getResourceWithErrConversion_def ask_def forkExternals_def ok_def GetErrorMessage_def sampleStatus_def
      getLatestNonceGivenHighestFinalNonce_def nonceDelta_def)

lemma fork_by_hash:
  "fst (snd (GetBlockByHash forkExternals sampleProvider ''hash10'' ([], 0))) =
     [(blockNonceToBytes 11, forkBlock), (blockNonceToBytes 9, sampleChain 9)]"
proof -
  have "ext_enum forkExternals = (\<lambda>m. m)" by (simp add: forkExternals_def sampleExternals_def)
  moreover have "doGetBlockByHash forkExternals sampleProvider ''hash10'' ([], 0) = (Inr (sampleChain 10), ([], 0))"
    by (simp add: doGetBlockByHash_def ask_def forkExternals_def ok_def)
  ultimately show ?thesis
    by (simp add: GetBlockByHash_def sample_online bind_step_def simplifyBlockWithScheduledTransactions_def
        fork_do_get sample_unscheduled sample_simplify blockNonceToBytes_inj Let_def)
qed

lemma fork_run:
  "fst (GetBlockByNonce forkExternals sampleProvider 11
      (fst (snd (GetBlockByHash forkExternals sampleProvider ''hash10'' ([], 0))), 1)) =
     Inr (forkBlock\<lparr>bk_MiniBlocks := [artificialMiniblock [plainTx] [], artificialMiniblock [] []]\<rparr>) \<and>
   fst (GetBlockByNonce forkExternals sampleProvider 11 ([], 1)) =
     Inr ((sampleChain 11)\<lparr>bk_MiniBlocks := [artificialMiniblock [plainTx] [], artificialMiniblock [] []]\<rparr>) \<and>
   bk_Hash forkBlock \<noteq> bk_Hash (sampleChain 11)"
  unfolding fork_by_hash
  by (simp add: GetBlockByNonce_def sample_online fork_latest [unfolded One_nat_def] bind_step_def fork_do_get
      simplifyBlockWithScheduledTransactions_def blockNonceToBytes_inj sample_unscheduled sample_simplify
      forkBlock_other Let_def)

end
