(* ===== verification/SampleRuns.thy ===== *)
theory SampleRuns
  imports Samples
begin

text \<open>
  More runs on the sample platform: started servers (online and offline), the construction flow,
  the node status, and requests that race for the genesis block.
\<close>

section \<open>Started servers\<close>

definition sampleContext :: "bool \<Rightarrow> Context" where
  "sampleContext offline =
     \<lparr>GlobalInt = (\<lambda>_. 8080), GlobalBool = (\<lambda>name. offline \<and> name = ''offline''),
      GlobalString = (\<lambda>name. if name = ''native-currency'' then ''EGLD'' else []),
      GlobalUint = (\<lambda>_. 0), GlobalInt64 = (\<lambda>_. 1596117600), GlobalUint64 = (\<lambda>_. 50000),
      GlobalFloat64 = (\<lambda>_. \<lparr>mantissa = 5764607523034235, exponent = -59\<rparr>), GlobalIsSet = (\<lambda>_. False)\<rparr>"

definition sampleConstructors :: "(unit, sample_cache, unit) Constructors" where
  "sampleConstructors =
     \<lparr>NewMultiShardCoordinator = (\<lambda>shards self. Inr ()), NumberOfShards = (\<lambda>_. 3),
      ComputeId = (\<lambda>_ k. 0), GetShardCoordinator = (\<lambda>_. ()),
      NewBech32PubkeyConverter = (\<lambda>size prefix. Inr ()), NewSimpleNodesProvider = (\<lambda>nodes path shards. Inr ()),
      NewDisabledNodesProvider = (\<lambda>_. ()), NewBaseProcessor = (\<lambda>_ _ _ _ _ _. Inr ()),
      NewHasher = (\<lambda>_. Inr ()), NewMarshalizer = (\<lambda>_. Inr ()),
      CreateTransactionProcessor = (\<lambda>_ _ _ _ _. Inr ()), NewBlockProcessor = (\<lambda>_. Inr ()),
      embedded = (\<lambda>_ _ _ _. sampleExternals)\<rparr>"

lemma sample_built: "buildExternals sampleConstructors args = Inr sampleExternals"
  by (simp add: buildExternals_def sampleConstructors_def Let_def) (simp add: ComputeShardId_def fun_eq_iff sampleExternals_def)

definition samplePlatform :: "(unit, sample_cache, unit) Platform" where
  "samplePlatform =
     \<lparr>getwd = Inr ''/home'', setLogLevel = (\<lambda>_. Inr ()), newFileLogging = (\<lambda>_. Inr ()),
      changeFileLifeSpan = (\<lambda>_ _. Inr ()), readFile = (\<lambda>_. Inl (ErrorsNew ''no such file'')),
      constructors = sampleConstructors, newServer = (\<lambda>_. Inr ())\<rparr>"

lemma sample_start:
  assumes "decideCustomCurrencies (readFile platform)
      (f_configFileCustomCurrencies (getParsedCliFlags ctx)) = Inr cs"
    and "getwd platform = Inr ''/home''" "setLogLevel platform = (\<lambda>_. Inr ())" "newFileLogging platform = (\<lambda>_. Inr ())"
      "changeFileLifeSpan platform = (\<lambda>_ _. Inr ())" "newServer platform = (\<lambda>_. Inr ())"
      "constructors platform = sampleConstructors"
    and "\<exists>registered. registerCurrencies 0 cs Map.empty [] = Inr registered"
  shows "\<exists>sv. startRosetta platform ctx = Inr sv"
proof -
  let ?args = "argsOfFlags (getParsedCliFlags ctx) cs"
  have "\<exists>E p c. CreateNetworkProvider (constructors platform) ?args = Inr (E, p, c)"
    using assms(8) by (auto simp: CreateNetworkProvider_def assms(7) sample_built NewNetworkProvider_def sampleExternals_def
        newCurrenciesProvider_def argsOfCreate_def argsOfFlags_def)
  then obtain E p c where created: "CreateNetworkProvider (constructors platform) ?args = Inr (E, p, c)"
    by blast
  have "\<exists>r. CreateControllers (newServer platform) P = Inr r" for P :: "(sample_cache \<times> unit) NetworkProvider"
    by (simp add: CreateControllers_def createOfflineControllers_def createOnlineControllers_def createAsserter_def assms(6) Let_def)
  moreover have "initializeLogger platform folder level = Inr ()" for folder level
    by (simp add: initializeLogger_def assms(2-5))
  ultimately show ?thesis by (auto simp: startRosetta_def Let_def assms(1) created)
qed

lemma sample_started: "\<exists>sv. startRosetta samplePlatform (sampleContext offline) = Inr sv"
  by (rule sample_start [where cs = "[]"])
    (simp_all add: samplePlatform_def decideCustomCurrencies_def getParsedCliFlags_def sampleContext_def)

lemma sample_flags:
  "GlobalBool (sampleContext offline) ''offline'' = offline"
  "GlobalString (sampleContext offline) ''config-custom-currencies'' = []"
  by (simp_all add: sampleContext_def)

section \<open>A session\<close>

text \<open>Blocks 5 and 6 are asked for, with other requests before and between.\<close>

definition sampleSession :: "request list" where
  "sampleSession =
     [ReqNetworkStatus, ReqBlock \<lparr>pbi_Index = Some 5, pbi_Hash = None\<rparr>, ReqMempoolTransaction ''aa'',
      ReqBlock \<lparr>pbi_Index = Some 6, pbi_Hash = None\<rparr>]"

abbreviation sampleServer :: "(sample_cache \<times> unit) NetworkProvider" where
  "sampleServer \<equiv> asNetworkProvider sampleExternals sampleProvider"

definition sampleRouters :: Routers where
  "sampleRouters =
     \<lparr>networkController = NetworkService, accountController = AccountService,
      blockController = BlockService, mempoolController = MempoolService,
      constructionController = ConstructionService\<rparr>"

lemma sample_routers: "CreateControllers (\<lambda>_. Inr ()) sampleServer = Inr sampleRouters"
  using sample_online
  by (simp add: CreateControllers_def createOnlineControllers_def createAsserter_def sampleRouters_def asNetworkProvider_def)

lemma sample_serve_block:
  assumes "chain_cached sampleExternals sampleProvider map_of sampleChain (snd s)" "0 < n" "n \<le> 8"
  shows "\<exists>r. fst (serve sampleLibrary sampleServer sampleRouters
    (ReqBlock \<lparr>pbi_Index = Some n, pbi_Hash = None\<rparr>) s) = Inr (RespBlock r)"
proof -
  obtain g c w where s: "s = (g, (c, w))" by (metis prod.exhaust)
  with assms(1) have "coherent map_of sampleChain c"
    by (simp add: chain_cached_def sample_cache_lawful sample_serves_chain)
  with assms(2,3) obtain r s' where "doGetBlock sampleLibrary sampleServer
      \<lparr>pbi_Index = Some n, pbi_Hash = None\<rparr> (g, (c, w)) = (Inr r, s')"
    using sample_do_get_block_at [of c n g w] by metis
  then show ?thesis by (simp add: serve_def sampleRouters_def s answer_def)
qed

lemma sample_session:
  "\<exists>answers s' r5 r6. serveAll sampleLibrary sampleServer sampleRouters sampleSession (None, ([], ())) = (answers, s') \<and>
     answers ! 1 = Inr (RespBlock r5) \<and> answers ! 3 = Inr (RespBlock r6)"
proof -
  let ?s = "\<lambda>i. stateBefore sampleLibrary sampleServer sampleRouters sampleSession i (None, ([], ()))"
  have cached: "chain_cached sampleExternals sampleProvider map_of sampleChain (snd (?s i))" for i
    by (rule cached.stateBefore_keeps) (simp add: chain_cached_def sample_coherent)
  note at = serveAll_nth [of _ sampleSession sampleLibrary sampleServer sampleRouters "(None, ([], ()))"]
  obtain r5 where r5: "fst (serveAll sampleLibrary sampleServer sampleRouters sampleSession (None, ([], ()))) ! 1 =
      Inr (RespBlock r5)"
    using at [of 1] sample_serve_block [OF cached [of 1], of 5] by (auto simp: sampleSession_def)
  obtain r6 where "fst (serveAll sampleLibrary sampleServer sampleRouters sampleSession (None, ([], ()))) ! 3 =
      Inr (RespBlock r6)"
    using at [of 3] sample_serve_block [OF cached [of 3], of 6] by (auto simp: sampleSession_def)
  with r5 show ?thesis by (metis prod.collapse)
qed

lemma sample_chain_linked:
  "bk_PrevBlockHash (sampleChain (m + 1)) = bk_Hash (sampleChain m)" "bk_Nonce (sampleChain m) = m"
  by (simp_all add: sampleChain_def plainBlock_def)

section \<open>A result that is its own descendant\<close>

definition loopingBlock :: Block where
  "loopingBlock = plainBlock 6 [plainMiniblock ''Normal'' [plainTx\<lparr>tx_PreviousTransactionHash := ''aa''\<rparr>]]"

lemma looping_result: "loops_below 0 (directResults (gatherAllTransactions loopingBlock)) ''aa''"
proof -
  let ?r = "plainTx\<lparr>tx_PreviousTransactionHash := ''aa''\<rparr>"
  have "executes_under 0 (directResults (gatherAllTransactions loopingBlock)) ''aa'' ?r"
    by (rule executes_under.step)
      (simp_all add: loopingBlock_def gatherAllTransactions_def plainBlock_def plainMiniblock_def
        directResults_filter plainTx_def)
  moreover have "tx_Hash ?r = ''aa''" by (simp add: plainTx_def)
  ultimately show ?thesis unfolding loops_below_def by metis
qed

lemma looping_scheduled:
  "gatherScheduledTransactions scheduledBlock = [plainTx]" "tx_Hash plainTx = ''aa''" "bk_Shard scheduledBlock = 0"
  by (simp_all add: scheduledBlock_def gatherScheduledTransactions_def plainBlock_def plainMiniblock_def
      ScheduledProcessingType_def plainTx_def)

section \<open>Accounts and construction\<close>

lemma sample_get_account:
  "a \<noteq> [] \<Longrightarrow> np_GetAccount sampleP a s = (Inr sampleAccount, s)"
  by (cases s) (simp add: provider_simps GetAccount_def map_error_def getResource_def getResourceWithErrConversion_def
      ask_def sampleExternals_def ok_def GetErrorMessage_def sampleArgs_def)

lemma sampleP_fields:
  "np_GetNetworkConfig sampleP =
     \<lparr>nc_BlockchainName = ''MultiversX'', nc_NetworkID = ''1'', nc_NetworkName = ''mainnet'',
      nc_MinGasPrice = 1000000000, nc_MinGasLimit = 50000, nc_GasPerDataByte = 1500,
      nc_GasPriceModifier = \<lparr>mantissa = 5764607523034235, exponent = -59\<rparr>,
      nc_GasLimitCustomTransfer = 200000, nc_ExtraGasLimitGuardedTx = 50000,
      nc_ExtraGasLimitRelayedTxV3 = 50000\<rparr>"
  "getNativeCurrencySymbol sampleP = ''EGLD''" "\<not> np_IsOffline sampleP"
  by (simp_all add: provider_simps sampleArgs_def getNativeCurrencySymbol_def GetNativeCurrency_def currenciesOf_native)

lemma sample_buildable_native:
  "buildable sampleP sampleAccount (transferOptions ''EGLD'' ''alice'' ''bob'' ''100'')"
  by (simp add: buildable_def builtMetadata_def sampleP_fields isNativeCurrencySymbol_def transferOptions_def
      movementGasLimitOf_def sampleAccount_def Let_def valid_metadata_def)

lemma sample_buildable_custom:
  "buildable sampleP sampleAccount (transferOptions ''TOK-123456'' ''alice'' ''bob'' ''100'')"
proof -
  have len: "length (computeDataForCustomCurrencyTransfer ''TOK-123456'' ''100'') = 36"
    by (simp add: computeDataForCustomCurrencyTransfer_def builtInFunctionESDTTransfer_def stringToHex_def
        amountToHex_def big_Bytes_def to_digits.simps hex_encode_def ensureEvenLengthOfHexString_def
        big_SetString_def parse_digits_def from_dec_char_def of_digits_def)
  show ?thesis
    by (simp add: buildable_def builtMetadata_def sampleP_fields isNativeCurrencySymbol_def transferOptions_def
      movementGasLimitOf_def sampleAccount_def Let_def len valid_metadata_def amountZero_def)
qed

lemma large_nonce_fields:
  "uint64_field upd (json_of_uint64 9007199254740993) s = Inr (upd 9007199254740992 s)"
  "uint64_field upd (json_of_uint64 18446744073709551615) s = Inl (JsonTypeError ''uint64'')"
  using nonce_altered largest_refused by (auto simp: uint64_field_def json_of_uint64_def)

lemma sample_hundred:
  "is_decimal ''100''" "isNonZeroAmount ''100''" "big_SetString ''100'' = Some 100"
  by (simp_all add: is_decimal_def is_digit_def from_dec_char_def isNonZeroAmount_def isZeroAmount_def
      big_SetString_def parse_digits_def of_digits_def)

definition samplePrepared :: PreparedTransaction where
  "samplePrepared =
     \<lparr>pt_Nonce = 7, pt_Value = ''100'', pt_Receiver = ''bob'', pt_Sender = ''alice'',
      pt_GasPrice = 1000000000, pt_GasLimit = 50000, pt_Data = [], pt_Signature = [],
      pt_ChainID = ''1'', pt_Version = 1\<rparr>"

lemma sample_prepared_valid: "valid_tx samplePrepared"
  by (simp add: valid_tx_def samplePrepared_def)

definition sampleNFT :: eventESDT where
  "sampleNFT =
     \<lparr>senderAddress = ''alice'', receiverAddress = ''bob'', otherAddress = [], esdt_identifier = ''NFT-0a1b2c'',
      nonceAsBytes = [CHR 0x01, CHR 0x02], esdt_value = ''1''\<rparr>"

section \<open>Node status\<close>

lemma sample_node_status: "\<exists>st. GetNodeStatus sampleExternals sampleProvider s = (Inr st, s)"
  by (simp add: GetNodeStatus_def getPlainNodeStatus_def sample_online getResource_def bind_step_def
      getResourceWithErrConversion_def ask_def sampleExternals_def ok_def GetErrorMessage_def sampleStatus_def
      getLatestNonceGivenHighestFinalNonce_def nonceDelta_def getBlockSummaryByNonce_def
      getOldestNonceWithHistoricalStateGivenNodeStatus_def getEpochStartInfo_def Let_def)

section \<open>Races for the genesis block\<close>

lemma sample_genesis_balances:
  "np_GetGenesisBalances sampleP s =
     (Inr [\<lparr>gb_Address = ''alice'', gb_Supply = ''1000'', gb_Balance = ''1000'', gb_StakingValue = ''0'',
            gb_Delegation = \<lparr>gd_Address = [], gd_Value = ''0''\<rparr>\<rparr>], s)"
  by (cases s) (simp add: provider_simps GetGenesisBalances_def getResource_def getResourceWithErrConversion_def
      ask_def sampleExternals_def ok_def GetErrorMessage_def sampleArgs_def)

lemma sample_thousand: "big_SetString ''1000'' = Some 1000"
  by (simp add: big_SetString_def parse_digits_def from_dec_char_def of_digits_def)

lemma sample_genesis_block: "\<exists>b. fst (doGetGenesisBlock sampleP s) = Inr b"
proof -
  have "np_IsAddressObserved sampleP ''alice'' = Inr True" by (rule sample_observed) (simp_all add: has_prefix_def)
  then show ?thesis
    by (simp add: sample_genesis_balances doGetGenesisBlock_def createGenesisOperations_def newOperation_def filterOperationsByAddress_def
        split_beta)
qed

lemma sample_fetch: "\<exists>b. fetch_of sampleP (Inr b)"
  using sample_genesis_block unfolding fetch_of_def by metis

lemma reachable_run: "(genesis_step fetch)\<^sup>*\<^sup>* s s' \<Longrightarrow> reachable fetch s \<Longrightarrow> reachable fetch s'"
  by (induction rule: rtranclp_induct) (auto intro: reachable.step)

lemma initial_quiet: "quiet initial t"
  by (simp add: quiet_def initial_def)

text \<open>A request that runs alone returns the genesis block.\<close>

lemma sample_returned: "\<exists>s b. reachable (fetch_of sampleP) s \<and> threads s 0 = Returned (Inr b)"
proof -
  obtain b where b: "fst (doGetGenesisBlock sampleP ([], ())) = Inr b" using sample_genesis_block by blast
  then have "getGenesisBlock sampleP (genesisBlock initial, ([], ())) =
      (Inr b, (Some b, snd (doGetGenesisBlock sampleP ([], ()))))"
    by (simp add: getGenesisBlock_def initial_def split_beta)
  note run = sequential_run [OF initial_quiet this]
  from run [of 0] obtain s where
    "(genesis_step (fetch_of sampleP))\<^sup>*\<^sup>* initial s" "threads s 0 = Returned (Inr b)" by blast
  then show ?thesis using reachable_run reachable.start by blast
qed

text \<open>A request that has found no block takes the write lock.\<close>

lemma sample_locked: "\<exists>s. reachable fetch s \<and> threads s t = Locked"
proof -
  have "genesis_step fetch initial
      (initial\<lparr>threads := (threads initial)(t := Reading), readers := insert t (readers initial)\<rparr>)"
    by (rule rlock) (simp_all add: initial_def)
  then obtain s1 where s1: "reachable fetch s1" "threads s1 t = Reading" "readers s1 = {t}" "writer s1 = None"
      "genesisBlock s1 = None"
    by (auto intro!: that reachable.step [OF reachable.start] simp: initial_def)
  obtain s2 where s2: "reachable fetch s2" "threads s2 t = HaveRead None" "readers s2 = {t}" "writer s2 = None"
    using reachable.step [OF s1(1) load [OF s1(2)]] by (auto intro!: that simp: s1)
  obtain s3 where s3: "reachable fetch s3" "threads s3 t = Checked None" "readers s3 = {}" "writer s3 = None"
    using reachable.step [OF s2(1) runlock [OF s2(2)]] by (auto intro!: that simp: s2)
  show ?thesis
    using reachable.step [OF s3(1) lock [OF s3(2,4,3)]] by (intro exI conjI) auto
qed

end
