(* ===== verification/Typing.thy ===== *)
theory Typing
  imports TransformerFacts
begin

text \<open>
  The type of a recovered operation: its amount is an integer, and its currency goes with its
  kind. Custom transfers are in a supported token, with the nonce of the event as a suffix;
  every other operation is in the native currency.
\<close>

section \<open>Typed operations\<close>

definition is_amount :: "string \<Rightarrow> bool" where
  "is_amount s = (\<exists>i. big_SetString s = Some i)"

text \<open>The currency of a token, possibly with the bytes of a nonce.\<close>

definition token_currency :: "'w NetworkProvider \<Rightarrow> string \<Rightarrow> bytes \<Rightarrow> Currency" where
  "token_currency P ticker nonce =
     am_Currency (valueToCustomAmount P []
       (if nonce = [] then ticker else ticker @ ''-'' @ hex_encode nonce))"

definition typed_operation :: "'w NetworkProvider \<Rightarrow> Operation \<Rightarrow> bool" where
  "typed_operation P o1 =
     (is_amount (am_Value (op_Amount o1)) \<and>
      (if op_Type o1 = opCustomTransfer
       then \<exists>ticker nonce. np_HasCustomCurrency P ticker \<and>
              am_Currency (op_Amount o1) = token_currency P ticker nonce
       else am_Currency (op_Amount o1) = getNativeCurrency P))"

lemma amounts [simp]:
  "is_decimal s \<Longrightarrow> is_amount s" "is_decimal s \<Longrightarrow> is_amount (CHR ''-'' # s)"
  "is_amount (int_to_dec i)" "0 \<le> i \<Longrightarrow> is_amount (CHR ''-'' # int_to_dec i)"
  by (auto simp: is_amount_def big_SetString_unsigned is_decimal_parse is_decimal_int_to_dec
      simp flip: is_decimal_parse dest: is_decimal_parse [THEN iffD1])

lemma decimal_bytes [simp]: "is_decimal (int_to_dec (big_SetBytes bs))"
  by (rule is_decimal_int_to_dec) (simp add: big_SetBytes_def)

lemma native_types [simp]:
  "opTransfer \<noteq> opCustomTransfer" "opFee \<noteq> opCustomTransfer" "opReward \<noteq> opCustomTransfer"
  "opScResult \<noteq> opCustomTransfer" "opFeeRefundAsScResult \<noteq> opCustomTransfer"
  "opDeveloperRewardsAsScResult \<noteq> opCustomTransfer" "opDeveloperRewards \<noteq> opCustomTransfer"
  "opFeeOfInvalidTx \<noteq> opCustomTransfer" "opFeeRefund \<noteq> opCustomTransfer"
  by (simp_all add: opTransfer_def opFee_def opReward_def opScResult_def opFeeRefundAsScResult_def
      opDeveloperRewardsAsScResult_def opDeveloperRewards_def opFeeOfInvalidTx_def opFeeRefund_def
      opCustomTransfer_def)

lemma typed_native [simp]:
  "ty \<noteq> opCustomTransfer \<Longrightarrow> typed_operation P (newOperation ty a (valueToNativeAmount P v)) = is_amount v"
  by (simp add: typed_operation_def newOperation_def valueToNativeAmount_def)

lemma extended_currency:
  "am_Currency (valueToCustomAmount P v (getExtendedIdentifier e)) =
     token_currency P (esdt_identifier e) (nonceAsBytes e)"
  by (simp add: token_currency_def valueToCustomAmount_def getExtendedIdentifier_def Let_def)

lemma typed_custom:
  "np_HasCustomCurrency P (esdt_identifier e) \<Longrightarrow> is_amount v \<Longrightarrow>
     typed_operation P (newOperation opCustomTransfer a (valueToCustomAmount P v (getExtendedIdentifier e)))"
  unfolding typed_operation_def newOperation_def
  by (simp add: extended_currency) (auto simp: valueToCustomAmount_def Let_def)

lemma typed_updates [simp]:
  "typed_operation P (o1\<lparr>op_Status := s\<rparr>) = typed_operation P o1"
  "typed_operation P (o1\<lparr>op_Index := i\<rparr>) = typed_operation P o1"
  by (simp_all add: typed_operation_def)

section \<open>By the type of the transaction and by event\<close>

lemma base_typed:
  assumes "baseRosettaTx L P tx txs = Inr r" "o1 \<in> set (rt_Operations r)" "decimal_amounts tx"
    and "inner_value_nonneg L tx" "0 \<le> np_ComputeTransactionFeeForMoveBalance P tx"
  shows "typed_operation P o1"
proof -
  have inner: "parseInnerTxOfRelayedV1 L tx = Inr itx \<Longrightarrow> 0 \<le> it_Value itx" for itx
    using assms(4) by (simp add: inner_value_nonneg_def)
  from assms show ?thesis
    by (auto simp: baseRosettaTx_def normalTxToRosetta_def rewardTxToRosettaTx_def unsignedTxToRosettaTx_def
        invalidTxToRosettaTx_def Let_def decimal_amounts_def charges_initial_fee_def
        extractInnerTxOperationsIfBeforeSiriusRelayedCompletelyIntrashardWithSignalError_def
        dest!: inner split: if_splits)
qed

lemma events_typed:
  assumes add: "addOperationsGivenTransactionEvents P tx r0 = Inr r" and o1: "o1 \<in> set (rt_Operations r)"
    and base: "\<forall>o1 \<in> set (rt_Operations r0). typed_operation P o1" and dec: "is_decimal (tx_Value tx)"
  shows "typed_operation P o1"
proof -
  have each: "o1 \<in> set (operationsOfSCDeploy P tx e1) \<Longrightarrow> typed_operation P o1"
    "o1 \<in> set (operationsOfTransferValueOnly P e2) \<Longrightarrow> is_decimal (tv_value e2) \<Longrightarrow> typed_operation P o1"
    "o1 \<in> set (extractOperationsFromEventESDT P e3) \<Longrightarrow> is_decimal (esdt_value e3) \<Longrightarrow> typed_operation P o1"
    "o1 \<in> set (operationsOfOutflow P e3) \<Longrightarrow> is_decimal (esdt_value e3) \<Longrightarrow> typed_operation P o1"
    "o1 \<in> set (operationsOfInflow P e3) \<Longrightarrow> is_decimal (esdt_value e3) \<Longrightarrow> typed_operation P o1"
    "o1 \<in> set (operationsOfClaimDeveloperRewards P e4) \<Longrightarrow> is_decimal (cdr_value e4) \<Longrightarrow> typed_operation P o1"
    for e1 e2 e3 e4
    using dec
    by (auto simp: operationsOfSCDeploy_def operationsOfTransferValueOnly_def extractOperationsFromEventESDT_def
        operationsOfOutflow_def operationsOfInflow_def operationsOfClaimDeveloperRewards_def typed_custom
        split: if_splits)
  have vals: "is_decimal (tv_value e)" if "extractEventTransferValueOnly P tx = Inr ts" "e \<in> set ts" for e ts
  proof -
    from extractEventTransferValueOnly_member [OF that] obtain ev where
      "decideEffectiveEventTransferValueOnlyAfterSirius P ev = Inr (Some e)" by blast
    from decided_value [OF this] show ?thesis by simp
  qed
  have transfers: "is_decimal (esdt_value e)"
    if "extractEventsESDTOrESDTNFTTransfers P tx = Inr ts" "e \<in> set ts" for e ts
    using transfers_value [OF that] by auto
  have flows: "extractEventsESDTLocalBurn tx = Inr ts \<Longrightarrow> e \<in> set ts \<Longrightarrow> is_decimal (esdt_value e)"
    "extractEventsESDTLocalMint tx = Inr ts \<Longrightarrow> e \<in> set ts \<Longrightarrow> is_decimal (esdt_value e)"
    "extractEventsESDTWipe P tx = Inr ts \<Longrightarrow> e \<in> set ts \<Longrightarrow> is_decimal (esdt_value e)"
    "extractEventsESDTNFTCreate tx = Inr ts \<Longrightarrow> e \<in> set ts \<Longrightarrow> is_decimal (esdt_value e)"
    "extractEventsESDTNFTBurn tx = Inr ts \<Longrightarrow> e \<in> set ts \<Longrightarrow> is_decimal (esdt_value e)"
    "extractEventsESDTNFTAddQuantity tx = Inr ts \<Longrightarrow> e \<in> set ts \<Longrightarrow> is_decimal (esdt_value e)" for e ts
    by (auto simp: esdt_typed_of_def dest: localBurn.extract_member localMint.extract_member wipe.extract_member
        nftCreate.extract_member nftBurn.extract_member nftAddQuantity.extract_member)
  have claims: "is_decimal (cdr_value e)" if "extractEventsClaimDeveloperRewards P tx = Inr ts" "e \<in> set ts" for e ts
    using claimRewards.extract_member [OF that] by auto
  from add base o1 show ?thesis
    by (cases "hasAnySignalError tx")
      (auto simp: addOperationsGivenTransactionEvents_def split: if_splits
        intro: each(1) each(2) [OF _ vals] each(3) [OF _ transfers] each(4) [OF _ flows(1)] each(5) [OF _ flows(2)]
          each(4) [OF _ flows(3)] each(5) [OF _ flows(4)] each(4) [OF _ flows(5)] each(5) [OF _ flows(6)]
          each(6) [OF _ claims])
qed

section \<open>The answer for a block\<close>

lemma finished_typed:
  assumes fin: "finishRosettaTx P r = Inr r'" and typed: "\<forall>o1 \<in> set (rt_Operations r). typed_operation P o1"
    and o1: "o1 \<in> set (rt_Operations r')"
  shows "typed_operation P o1"
proof -
  from fin obtain kept where
      kept: "filterOperationsByAddress (rt_Operations r) (np_IsAddressObserved P) = Inr kept"
    and r': "rt_Operations r' = applyDefaultStatusOnOperations (filterOutOperationsWithZeroAmount kept)"
    by (auto simp: finishRosettaTx_def)
  from o1 obtain o2 st where o2: "o2 \<in> set (filterOutOperationsWithZeroAmount kept)" "o1 = o2\<lparr>op_Status := Some st\<rparr>"
    unfolding r' using applyDefault_set by blast
  from o2(1) obtain o3 k where o3: "o3 \<in> set kept" "o2 = o3\<lparr>op_Index := Some k\<rparr>"
    by (auto simp: filterOutOperationsWithZeroAmount_def indexOperations_def dest!: indexFrom_set)
  from filterOperationsByAddress_address [OF kept o3(1)] obtain o4 k' where
    "o4 \<in> set (rt_Operations r)" "o3 = o4\<lparr>op_Index := Some k'\<rparr>" by blast
  with typed o2(2) o3(2) show ?thesis by auto
qed

lemma refund_typed:
  "refundReceiptToRosettaTx P receipt = Inr r \<Longrightarrow> rc_Value receipt = Some i \<Longrightarrow> o1 \<in> set (rt_Operations r) \<Longrightarrow>
     typed_operation P o1"
  by (auto simp: refundReceiptToRosettaTx_def bigIntPtrString_def)

context network_provider
begin

lemma block_typed:
  assumes block: "transformBlockTxs L P block = Inr rtxs" "r \<in> set rtxs" "o1 \<in> set (rt_Operations r)"
    and dec: "\<forall>tx \<in> set (txsOfBlock block). decimal_amounts tx \<and> inner_value_nonneg L tx"
    and receipts: "\<forall>receipt \<in> set (receiptsOfBlock block). rc_Value receipt \<noteq> None"
  shows "typed_operation P o1"
proof -
  let ?txs = "filterTxsOfBlock (txsOfBlock block)"
  let ?receipts = "filter (\<lambda>receipt. rc_Data receipt = refundGasMessage) (receiptsOfBlock block)"
  from block obtain ts rs finished where
      ts: "traverse (\<lambda>tx. txToRosettaTx L P tx ?txs) ?txs = Inr ts"
    and rs: "traverse (refundReceiptToRosettaTx P) ?receipts = Inr rs"
    and fin: "traverse (finishRosettaTx P) (ts @ rs) = Inr finished" and r: "r \<in> set finished"
    by (auto simp: transformBlockTxs_unfold filterOutRosettaTransactionsWithNoOperations_def Let_def)
  from traverse_set [OF fin r] obtain r0 where r0: "r0 \<in> set (ts @ rs)" "finishRosettaTx P r0 = Inr r" by blast
  have "typed_operation P o2" if o2: "o2 \<in> set (rt_Operations r0)" for o2
  proof (cases "r0 \<in> set ts")
    case True
    from traverse_set [OF ts this] obtain tx where tx: "tx \<in> set ?txs" "txToRosettaTx L P tx ?txs = Inr r0" by blast
    then have d: "decimal_amounts tx" "inner_value_nonneg L tx" using dec by (simp_all add: filterTxsOfBlock_one_pass)
    from tx(2) obtain r1 where r1: "baseRosettaTx L P tx ?txs = Inr r1"
      "addOperationsGivenTransactionEvents P tx r1 = Inr r0" by (auto simp: txToRosettaTx_base)
    have "\<forall>o1 \<in> set (rt_Operations r1). typed_operation P o1"
      using base_typed [OF r1(1) _ d fee_nonneg] by blast
    with events_typed [OF r1(2) o2] d show ?thesis by (simp add: decimal_amounts_def)
  next
    case False
    with r0(1) have "r0 \<in> set rs" by simp
    from traverse_set [OF rs this] obtain receipt where "receipt \<in> set (receiptsOfBlock block)"
      "refundReceiptToRosettaTx P receipt = Inr r0" by auto
    with receipts refund_typed o2 show ?thesis by blast
  qed
  with finished_typed [OF r0(2)] block(3) show ?thesis by blast
qed

end

end
