(* ===== verification/Views.thy ===== *)
theory Views
  imports ServerFacts
begin

text \<open>
  What the services see of a provider when they turn a block into an answer: its currencies, its
  addresses, its releases and its genesis block. Two providers with the same view give the same
  answers for the same block, whatever worlds they run on; they may differ in the fees and the
  hashes of receipts of other blocks.
\<close>

section \<open>Two providers with the same view\<close>

locale same_view =
  fixes P1 :: "'a NetworkProvider" and P2 :: "'b NetworkProvider"
  assumes same_native: "np_GetNativeCurrency P1 = np_GetNativeCurrency P2"
    and same_lookup: "np_GetCustomCurrencyBySymbol P1 = np_GetCustomCurrencyBySymbol P2"
    and same_has: "np_HasCustomCurrency P1 = np_HasCustomCurrency P2"
    and same_observed: "np_IsAddressObserved P1 = np_IsAddressObserved P2"
    and same_shard: "np_ComputeShardIdOfPubKey P1 = np_ComputeShardIdOfPubKey P2"
    and same_encode: "np_ConvertPubKeyToAddress P1 = np_ConvertPubKeyToAddress P2"
    and same_decode: "np_ConvertAddressToPubKey P1 = np_ConvertAddressToPubKey P2"
    and same_sirius: "np_IsReleaseSiriusActive P1 = np_IsReleaseSiriusActive P2"
    and same_spica: "np_IsReleaseSpicaActive P1 = np_IsReleaseSpicaActive P2"
    and same_genesis: "np_GetGenesisBlockSummary P1 = np_GetGenesisBlockSummary P2"
begin

lemmas same = same_native same_lookup same_has same_observed same_shard same_encode same_decode
  same_sirius same_spica same_genesis

lemma amounts_view:
  "valueToNativeAmount P1 = valueToNativeAmount P2" "valueToCustomAmount P1 = valueToCustomAmount P2"
  by (simp_all only: fun_eq_iff simp_thms valueToNativeAmount_def valueToCustomAmount_def getNativeCurrency_def same)

lemma addresses_view: "isContractAddress f P1 = isContractAddress f P2"
  by (simp only: fun_eq_iff simp_thms isContractAddress_def isUserAddress_def same)

lemma event_view:
  "decideEffectiveEventTransferValueOnlyAfterSirius P1 = decideEffectiveEventTransferValueOnlyAfterSirius P2"
  "singleTransferOfEvent P1 = singleTransferOfEvent P2" "multiTransfersOfEvent P1 = multiTransfersOfEvent P2"
  by (simp_all only: fun_eq_iff simp_thms decideEffectiveEventTransferValueOnlyAfterSirius_def singleTransferOfEvent_def
      multiTransfersOfEvent_def same)

lemma events_view:
  "extractEventSCDeploy P1 = extractEventSCDeploy P2"
  "extractEventTransferValueOnly P1 = extractEventTransferValueOnly P2"
  "extractEventsESDTOrESDTNFTTransfers P1 = extractEventsESDTOrESDTNFTTransfers P2"
  "extractEventsESDTWipe P1 = extractEventsESDTWipe P2"
  "extractEventsClaimDeveloperRewards P1 = extractEventsClaimDeveloperRewards P2"
  by (simp_all only: fun_eq_iff simp_thms extractEventSCDeploy_def extractEventTransferValueOnly_def
      extractEventsESDTOrESDTNFTTransfers_def extractEventsESDTWipe_def
      extractEventsClaimDeveloperRewards_def event_view same)

lemma operations_view:
  "operationsOfSCDeploy P1 = operationsOfSCDeploy P2"
  "operationsOfTransferValueOnly P1 = operationsOfTransferValueOnly P2"
  "extractOperationsFromEventESDT P1 = extractOperationsFromEventESDT P2"
  "operationsOfOutflow P1 = operationsOfOutflow P2" "operationsOfInflow P1 = operationsOfInflow P2"
  "operationsOfClaimDeveloperRewards P1 = operationsOfClaimDeveloperRewards P2"
  by (simp_all only: fun_eq_iff simp_thms operationsOfSCDeploy_def operationsOfTransferValueOnly_def
      extractOperationsFromEventESDT_def operationsOfOutflow_def operationsOfInflow_def
      operationsOfClaimDeveloperRewards_def amounts_view same)

lemma added_view: "addOperationsGivenTransactionEvents P1 tx r = addOperationsGivenTransactionEvents P2 tx r"
  unfolding addOperationsGivenTransactionEvents_def areClaimDeveloperRewardsEventsEnabled_def
    events_view operations_view same ..

lemma relayed_view:
  "isRelayedV1TransactionCompletelyIntrashardWithSignalError P1 =
   isRelayedV1TransactionCompletelyIntrashardWithSignalError P2"
  by (simp_all only: fun_eq_iff simp_thms isRelayedV1TransactionCompletelyIntrashardWithSignalError_def same)

lemma inner_view:
  "extractInnerTxOperationsIfBeforeSiriusRelayedCompletelyIntrashardWithSignalError L P1 tx =
   extractInnerTxOperationsIfBeforeSiriusRelayedCompletelyIntrashardWithSignalError L P2 tx"
  unfolding extractInnerTxOperationsIfBeforeSiriusRelayedCompletelyIntrashardWithSignalError_def
    relayed_view amounts_view same ..

lemma recovered_view:
  "normalTxToRosetta L P1 tx = normalTxToRosetta L P2 tx"
  "rewardTxToRosettaTx P1 tx = rewardTxToRosettaTx P2 tx"
  "unsignedTxToRosettaTx L P1 tx txs = unsignedTxToRosettaTx L P2 tx txs"
  "np_ComputeTransactionFeeForMoveBalance P1 tx = np_ComputeTransactionFeeForMoveBalance P2 tx \<Longrightarrow>
     invalidTxToRosettaTx P1 tx = invalidTxToRosettaTx P2 tx"
  unfolding normalTxToRosetta_def rewardTxToRosettaTx_def unsignedTxToRosettaTx_def
    invalidTxToRosettaTx_def areClaimDeveloperRewardsEventsEnabled_def isSmartContractResultIneffectiveRefund_def
    inner_view amounts_view addresses_view same
  by (rule refl | simp)+

lemma transaction_view:
  "np_ComputeTransactionFeeForMoveBalance P1 tx = np_ComputeTransactionFeeForMoveBalance P2 tx \<Longrightarrow>
     txToRosettaTx L P1 tx txs = txToRosettaTx L P2 tx txs"
  unfolding txToRosettaTx_def added_view recovered_view(1-3) by (simp add: recovered_view(4))

lemma finish_view: "finishRosettaTx P1 = finishRosettaTx P2"
  by (rule ext) (simp add: finishRosettaTx_def same)

lemma block_view:
  assumes "\<forall>tx \<in> set (txsOfBlock block).
      np_ComputeTransactionFeeForMoveBalance P1 tx = np_ComputeTransactionFeeForMoveBalance P2 tx"
    and "\<forall>receipt \<in> set (receiptsOfBlock block).
      np_ComputeReceiptHash P1 receipt = np_ComputeReceiptHash P2 receipt"
  shows "transformBlockTxs L P1 block = transformBlockTxs L P2 block"
proof -
  let ?txs = "filterTxsOfBlock (txsOfBlock block)"
  let ?receipts = "filter (\<lambda>receipt. rc_Data receipt = refundGasMessage) (receiptsOfBlock block)"
  have "traverse (\<lambda>tx. txToRosettaTx L P1 tx ?txs) ?txs = traverse (\<lambda>tx. txToRosettaTx L P2 tx ?txs) ?txs"
    using assms(1) by (intro traverse_cong_set transaction_view) (simp add: filterTxsOfBlock_one_pass)
  moreover have "traverse (refundReceiptToRosettaTx P1) ?receipts = traverse (refundReceiptToRosettaTx P2) ?receipts"
    using assms(2) by (intro traverse_cong_set) (simp add: refundReceiptToRosettaTx_def amounts_view)
  ultimately show ?thesis by (simp add: transformBlockTxs_unfold finish_view)
qed

lemma converted_view:
  "transformBlockTxs L P1 block = transformBlockTxs L P2 block \<Longrightarrow>
     convertToRosettaBlock L P1 block = convertToRosettaBlock L P2 block"
  by (simp add: convertToRosettaBlock_def getGenesisBlockIdentifier_def same)

lemma genesis_view: "createGenesisOperations P1 balances = createGenesisOperations P2 balances"
  by (simp add: createGenesisOperations_def amounts_view same)

lemma construction_view:
  "ConstructionPreprocess P1 m ops = ConstructionPreprocess P2 m ops"
  "ConstructionParse L P1 t isSigned = ConstructionParse L P2 t isSigned"
  "ConstructionDerive P1 curve k = ConstructionDerive P2 curve k"
  unfolding ConstructionPreprocess_def ConstructionParse_def ConstructionDerive_def
    createOperationsFromPreparedTx_def getNativeCurrencySymbol_def amounts_view same by (rule refl)+

end

section \<open>The offline flag\<close>

text \<open>Two servers that differ in the offline flag and in their observer only have the same view.\<close>

interpretation offline_view: same_view "serverProvider E args"
  "serverProvider E (args\<lparr>a_IsOffline := isOffline, a_ObserverUrl := url\<rparr>)" for E args isOffline url
  by unfold_locales
    (simp_all add: fun_eq_iff provider_simps GetGenesisBlockSummary_def IsAddressObserved_def
      IsReleaseSiriusActive_def IsReleaseSpicaActive_def cong: if_cong)

text \<open>The endpoints for which no observer is needed.\<close>

fun needsNoObserver :: "request \<Rightarrow> bool" where
  "needsNoObserver ReqNetworkList = True"
| "needsNoObserver (ReqPreprocess _ _) = True"
| "needsNoObserver (ReqPayloads _) = True"
| "needsNoObserver (ReqParse _ _) = True"
| "needsNoObserver (ReqCombine _ _) = True"
| "needsNoObserver (ReqDerive _ _) = True"
| "needsNoObserver (ReqHash _) = True"
| "needsNoObserver _ = False"

lemma offline_answers:
  assumes "needsNoObserver request"
    and "CreateControllers asserter1 (serverProvider E args) = Inr r1"
    and "CreateControllers asserter2 (serverProvider E (args\<lparr>a_IsOffline := isOffline, a_ObserverUrl := url\<rparr>)) = Inr r2"
  shows "fst (serve L (serverProvider E args) r1 request s1) =
    fst (serve L (serverProvider E (args\<lparr>a_IsOffline := isOffline, a_ObserverUrl := url\<rparr>)) r2 request s2)"
proof -
  have controllers: "networkController r = NetworkService \<and> constructionController r = ConstructionService"
    if "CreateControllers asserter P = Inr r" for asserter r and P :: "('a \<times> 'b) NetworkProvider"
    using that by (auto simp: CreateControllers_def createOfflineControllers_def createOnlineControllers_def
        Let_def split: if_splits)
  have plain: "NetworkList (serverProvider E args) =
      NetworkList (serverProvider E (args\<lparr>a_IsOffline := isOffline, a_ObserverUrl := url\<rparr>))"
    "ConstructionHash L (serverProvider E args) t =
      ConstructionHash L (serverProvider E (args\<lparr>a_IsOffline := isOffline, a_ObserverUrl := url\<rparr>)) t" for t
    by (simp_all add: NetworkList_def ConstructionHash_def provider_simps)
  from assms(1) show ?thesis
    using controllers [OF assms(2)] controllers [OF assms(3)]
    by (cases request)
      (simp_all add: serve_def plain offline_view.construction_view [where E = E and args = args and isOffline = isOffline and url = url])
qed

end
