(* ===== verification/TestDoubles.thy ===== *)
theory TestDoubles
  imports Views ServerRuns
begin

text \<open>
  The doubles that the repository's tests run on (\<open>testscommon\<close>): a network provider whose answers
  are fields of a struct, and an observer facade of the same kind. The first is a second
  implementation of the interface \<open>NetworkProvider\<close> and keeps its contract; a real provider over
  the second is asked the paths that are built for it.
\<close>

section \<open>The network provider mock (networkProviderMock.go)\<close>

text \<open>
  What the mock uses of other repositories: the bech32 converter, the multi-shard coordinator
  (made from the number of shards and the own shard), and \<open>core.SafeMul\<close>.
\<close>

record MockLibrary =
  ml_Encode :: "bytes \<Rightarrow> go_error + string"
  ml_Decode :: "string \<Rightarrow> go_error + bytes"
  ml_NewMultiShardCoordinator :: "u32 \<Rightarrow> u32 \<Rightarrow> go_error + (bytes \<Rightarrow> u32)"
  ml_SafeMul :: "u64 \<Rightarrow> u64 \<Rightarrow> nat"

record networkProviderMock =
  MockIsOffline :: bool
  MockNumShards :: u32
  MockObservedActualShard :: u32
  MockObservedProjectedShard :: u32
  MockObservedProjectedShardIsSet :: bool
  MockNativeCurrencySymbol :: string
  MockCustomCurrencies :: "Currency list"
  MockGenesisBlockHash :: string
  MockGenesisTimestamp :: int
  MockActivationEpochSirius :: u32
  MockActivationEpochSpica :: u32
  MockNetworkConfig :: NetworkConfig
  MockGenesisBalances :: "GenesisBalance list"
  MockNodeStatus :: AggregatedNodeStatus
  MockBlocksByNonce :: "u64 \<rightharpoonup> Block"
  MockBlocksByHash :: "string \<rightharpoonup> Block"
  MockNextAccountBlockCoordinates :: BlockCoordinates
  MockAccountsByAddress :: "string \<rightharpoonup> AccountInfo"
  MockAccountsNativeBalances :: "string \<rightharpoonup> AccountBalanceOnBlock"
  MockAccountsCustomBalances :: "string \<rightharpoonup> AccountBalanceOnBlock"
  MockMempoolTransactionsByHash :: "string \<rightharpoonup> ApiTransactionResult"
  MockComputedTransactionHash :: string
  MockComputedReceiptHash :: string
  MockNextError :: "go_error option"
  MockSendTransactionCalled :: "(PreparedTransaction \<Rightarrow> go_error + string) option"

definition mockGenesisTimestamp :: int where "mockGenesisTimestamp = 1596117600"

text \<open>The modifier 0.01 is the \<open>float64\<close> nearest to it.\<close>

definition mockNetworkConfig :: NetworkConfig where
  "mockNetworkConfig =
     \<lparr>nc_BlockchainName = ''MultiversX'', nc_NetworkID = ''T'', nc_NetworkName = ''testnet'',
      nc_MinGasPrice = 1000000000, nc_MinGasLimit = 50000, nc_GasPerDataByte = 1500,
      nc_GasPriceModifier = \<lparr>mantissa = 5764607523034235, exponent = -59\<rparr>,
      nc_GasLimitCustomTransfer = 200000, nc_ExtraGasLimitGuardedTx = 50000,
      nc_ExtraGasLimitRelayedTxV3 = 50000\<rparr>"

definition mockGenesisSummary :: BlockSummary where
  "mockGenesisSummary =
     \<lparr>bs_Nonce = 0, bs_Hash = emptyHash, bs_PreviousBlockHash = emptyHash,
      bs_Timestamp = mockGenesisTimestamp\<rparr>"

definition NewNetworkProviderMock :: networkProviderMock where
  "NewNetworkProviderMock =
     \<lparr>MockIsOffline = False, MockNumShards = 3, MockObservedActualShard = 0,
      MockObservedProjectedShard = 0, MockObservedProjectedShardIsSet = False,
      MockNativeCurrencySymbol = ''XeGLD'', MockCustomCurrencies = [],
      MockGenesisBlockHash = emptyHash, MockGenesisTimestamp = mockGenesisTimestamp,
      MockActivationEpochSirius = 0, MockActivationEpochSpica = 0,
      MockNetworkConfig = mockNetworkConfig, MockGenesisBalances = [],
      MockNodeStatus =
        \<lparr>ans_Version = [], ans_ConnectedPeersCounts = Map.empty, ans_ObserverPublicKey = [],
         ans_Synced = True, ans_LatestBlock = mockGenesisSummary,
         ans_OldestBlockWithHistoricalState = mockGenesisSummary\<rparr>,
      MockBlocksByNonce = Map.empty, MockBlocksByHash = Map.empty,
      MockNextAccountBlockCoordinates = \<lparr>bc_Nonce = 0, bc_Hash = emptyHash\<rparr>,
      MockAccountsByAddress = Map.empty, MockAccountsNativeBalances = Map.empty,
      MockAccountsCustomBalances = Map.empty, MockMempoolTransactionsByHash = Map.empty,
      MockComputedTransactionHash = emptyHash, MockComputedReceiptHash = [],
      MockNextError = None, MockSendTransactionCalled = None\<rparr>"

definition mock_GetNativeCurrency :: "networkProviderMock \<Rightarrow> Currency" where
  "mock_GetNativeCurrency mock = \<lparr>Symbol = MockNativeCurrencySymbol mock, Decimals = 18\<rparr>"

definition mock_GetCustomCurrencyBySymbol :: "networkProviderMock \<Rightarrow> string \<Rightarrow> Currency option" where
  "mock_GetCustomCurrencyBySymbol mock symbol =
     List.find (\<lambda>currency. Symbol currency = symbol) (MockCustomCurrencies mock)"

definition mock_HasCustomCurrency :: "networkProviderMock \<Rightarrow> string \<Rightarrow> bool" where
  "mock_HasCustomCurrency mock symbol = (mock_GetCustomCurrencyBySymbol mock symbol \<noteq> None)"

definition mock_GetGenesisBlockSummary :: "networkProviderMock \<Rightarrow> BlockSummary" where
  "mock_GetGenesisBlockSummary mock =
     \<lparr>bs_Nonce = 0, bs_Hash = MockGenesisBlockHash mock, bs_PreviousBlockHash = [],
      bs_Timestamp = MockGenesisTimestamp mock\<rparr>"

text \<open>
  Every method that may fail begins with the test of \<open>MockNextError\<close>. The methods that look
  something up read the struct, which is the world here.
\<close>

definition orNextError :: "networkProviderMock \<Rightarrow> go_error + 'a \<Rightarrow> go_error + 'a" where
  "orNextError mock r = (case MockNextError mock of Some e \<Rightarrow> Inl e | None \<Rightarrow> r)"

definition foundOr :: "go_error \<Rightarrow> 'a option \<Rightarrow> go_error + 'a" where
  "foundOr e found = (case found of Some x \<Rightarrow> Inr x | None \<Rightarrow> Inl e)"

definition mock_GetGenesisBalances ::
  "networkProviderMock \<Rightarrow> (go_error + GenesisBalance list) \<times> networkProviderMock" where
  "mock_GetGenesisBalances mock = (orNextError mock (Inr (MockGenesisBalances mock)), mock)"

definition mock_GetNodeStatus ::
  "networkProviderMock \<Rightarrow> (go_error + AggregatedNodeStatus) \<times> networkProviderMock" where
  "mock_GetNodeStatus mock = (orNextError mock (Inr (MockNodeStatus mock)), mock)"

definition mock_GetBlockByNonce ::
  "u64 \<Rightarrow> networkProviderMock \<Rightarrow> (go_error + Block) \<times> networkProviderMock" where
  "mock_GetBlockByNonce nonce mock =
     (orNextError mock
        (foundOr (Errorf [Txt ''block '', Txt (nat_to_dec (unat nonce)), Txt '' not found''])
           (MockBlocksByNonce mock nonce)), mock)"

definition mock_GetBlockByHash ::
  "string \<Rightarrow> networkProviderMock \<Rightarrow> (go_error + Block) \<times> networkProviderMock" where
  "mock_GetBlockByHash h mock =
     (orNextError mock
        (foundOr (Errorf [Txt ''block '', Txt h, Txt '' not found'']) (MockBlocksByHash mock h)), mock)"

definition mock_GetAccount ::
  "string \<Rightarrow> networkProviderMock \<Rightarrow> (go_error + AccountOnBlock) \<times> networkProviderMock" where
  "mock_GetAccount address mock =
     (orNextError mock
        (bind_err (foundOr (Errorf [Txt ''account '', Txt address, Txt '' not found''])
                     (MockAccountsByAddress mock address))
           (\<lambda>account. Inr \<lparr>aob_Account = account,
                           aob_BlockCoordinates = MockNextAccountBlockCoordinates mock\<rparr>)), mock)"

text \<open>The found balance is written to through its pointer: its entry in the map changes.\<close>

definition mock_GetAccountBalance ::
  "string \<Rightarrow> string \<Rightarrow> AccountQueryOptions \<Rightarrow> networkProviderMock \<Rightarrow>
     (go_error + AccountBalanceOnBlock) \<times> networkProviderMock" where
  "mock_GetAccountBalance address tokenIdentifier options mock =
     (case MockNextError mock of
        Some e \<Rightarrow> (Inl e, mock)
      | None \<Rightarrow>
          let isNativeBalance = (tokenIdentifier = MockNativeCurrencySymbol mock);
              coordinates = MockNextAccountBlockCoordinates mock
          in if isNativeBalance then
               (case MockAccountsNativeBalances mock address of
                  Some accountBalance \<Rightarrow>
                    let accountBalance = accountBalance\<lparr>abb_BlockCoordinates := coordinates\<rparr>
                    in (Inr accountBalance,
                        mock\<lparr>MockAccountsNativeBalances :=
                               (MockAccountsNativeBalances mock)(address \<mapsto> accountBalance)\<rparr>)
                | None \<Rightarrow>
                    (Inl (Errorf [Txt ''account '', Txt address, Txt '' not found (for native balance)'']), mock))
             else
               let customTokenBalanceKey = address @ ''_'' @ tokenIdentifier
               in case MockAccountsCustomBalances mock customTokenBalanceKey of
                    Some accountBalance \<Rightarrow>
                      let accountBalance = accountBalance\<lparr>abb_BlockCoordinates := coordinates\<rparr>
                      in (Inr accountBalance,
                          mock\<lparr>MockAccountsCustomBalances :=
                                 (MockAccountsCustomBalances mock)(customTokenBalanceKey \<mapsto> accountBalance)\<rparr>)
                  | None \<Rightarrow>
                      (Inl (Errorf [Txt ''account '', Txt address, Txt '' not found (for custom token balance)'']),
                       mock))"

definition mock_ComputeShardIdOfPubKey :: "MockLibrary \<Rightarrow> networkProviderMock \<Rightarrow> bytes \<Rightarrow> u32" where
  "mock_ComputeShardIdOfPubKey X mock pubKey =
     (case ml_NewMultiShardCoordinator X (MockNumShards mock) (MockObservedActualShard mock) of
        Inl err \<Rightarrow> 0
      | Inr shardCoordinator \<Rightarrow> shardCoordinator pubKey)"

definition mock_ConvertPubKeyToAddress :: "MockLibrary \<Rightarrow> bytes \<Rightarrow> string" where
  "mock_ConvertPubKeyToAddress X pubkey = (case ml_Encode X pubkey of Inl err \<Rightarrow> [] | Inr address \<Rightarrow> address)"

text \<open>The last byte of the key is read whether a projected shard is set or not.\<close>

definition mock_IsAddressObserved :: "MockLibrary \<Rightarrow> networkProviderMock \<Rightarrow> string \<Rightarrow> go_error + bool" where
  "mock_IsAddressObserved X mock address =
     orNextError mock
       (bind_err (ml_Decode X address) (\<lambda>pubKey.
          let shard = mock_ComputeShardIdOfPubKey X mock pubKey;
              isObservedActualShard = (shard = MockObservedActualShard mock)
          in if pubKey = [] then Inl (Panic ''index out of range'')
             else
               let isObservedProjectedShard =
                     (of_char (last pubKey) = unat (MockObservedProjectedShard mock) mod 256)
               in if MockObservedProjectedShardIsSet mock then Inr isObservedProjectedShard
                  else Inr isObservedActualShard))"

definition mock_ComputeTransactionHash :: "networkProviderMock \<Rightarrow> PreparedTransaction \<Rightarrow> go_error + string" where
  "mock_ComputeTransactionHash mock tx = orNextError mock (Inr (MockComputedTransactionHash mock))"

definition mock_ComputeReceiptHash :: "networkProviderMock \<Rightarrow> ApiReceipt \<Rightarrow> go_error + string" where
  "mock_ComputeReceiptHash mock receipt = orNextError mock (Inr (MockComputedReceiptHash mock))"

definition mock_gasLimitForMoveBalance :: "networkProviderMock \<Rightarrow> ApiTransactionResult \<Rightarrow> u64" where
  "mock_gasLimitForMoveBalance mock tx =
     (let config = MockNetworkConfig mock;
          gasLimit = nc_MinGasLimit config + nc_GasPerDataByte config * of_nat (length (tx_Data tx));
          isGuarded = length (tx_GuardianAddr tx) > 0;
          gasLimit = (if isGuarded then gasLimit + nc_ExtraGasLimitGuardedTx config else gasLimit);
          isRelayedV3 = length (tx_RelayerAddress tx) > 0
      in if isRelayedV3 then gasLimit + nc_ExtraGasLimitRelayedTxV3 config else gasLimit)"

definition mock_ComputeTransactionFeeForMoveBalance ::
  "MockLibrary \<Rightarrow> networkProviderMock \<Rightarrow> ApiTransactionResult \<Rightarrow> int" where
  "mock_ComputeTransactionFeeForMoveBalance X mock tx =
     int (ml_SafeMul X (mock_gasLimitForMoveBalance mock tx) (tx_GasPrice tx))"

definition mock_SendTransaction ::
  "PreparedTransaction \<Rightarrow> networkProviderMock \<Rightarrow> (go_error + string) \<times> networkProviderMock" where
  "mock_SendTransaction tx mock =
     (orNextError mock
        (case MockSendTransactionCalled mock of
           Some called \<Rightarrow> called tx
         | None \<Rightarrow> Inr (MockComputedTransactionHash mock)), mock)"

definition mock_GetMempoolTransactionByHash ::
  "string \<Rightarrow> networkProviderMock \<Rightarrow> (go_error + ApiTransactionResult option) \<times> networkProviderMock" where
  "mock_GetMempoolTransactionByHash h mock =
     (orNextError mock (Inr (MockMempoolTransactionsByHash mock h)), mock)"

text \<open>The mock as the services see it, at a moment of a test.\<close>

definition mockNetworkProvider :: "MockLibrary \<Rightarrow> networkProviderMock \<Rightarrow> networkProviderMock NetworkProvider" where
  "mockNetworkProvider X mock =
     \<lparr>np_IsOffline = MockIsOffline mock,
      np_GetBlockchainName = nc_BlockchainName (MockNetworkConfig mock),
      np_GetNativeCurrency = mock_GetNativeCurrency mock,
      np_GetCustomCurrencies = MockCustomCurrencies mock,
      np_GetCustomCurrencyBySymbol = mock_GetCustomCurrencyBySymbol mock,
      np_HasCustomCurrency = mock_HasCustomCurrency mock,
      np_GetNetworkConfig = MockNetworkConfig mock,
      np_GetGenesisBlockSummary = mock_GetGenesisBlockSummary mock,
      np_GetGenesisTimestamp = MockGenesisTimestamp mock,
      np_GetGenesisBalances = mock_GetGenesisBalances,
      np_GetNodeStatus = mock_GetNodeStatus,
      np_GetBlockByNonce = mock_GetBlockByNonce,
      np_GetBlockByHash = mock_GetBlockByHash,
      np_GetAccount = mock_GetAccount,
      np_GetAccountBalance = mock_GetAccountBalance,
      np_IsAddressObserved = mock_IsAddressObserved X mock,
      np_ComputeShardIdOfPubKey = mock_ComputeShardIdOfPubKey X mock,
      np_ConvertPubKeyToAddress = mock_ConvertPubKeyToAddress X,
      np_ConvertAddressToPubKey = ml_Decode X,
      np_SendTransaction = mock_SendTransaction,
      np_ComputeTransactionHash = mock_ComputeTransactionHash mock,
      np_ComputeReceiptHash = mock_ComputeReceiptHash mock,
      np_ComputeTransactionFeeForMoveBalance = mock_ComputeTransactionFeeForMoveBalance X mock,
      np_GetMempoolTransactionByHash = mock_GetMempoolTransactionByHash,
      np_IsReleaseSiriusActive = (\<lambda>epoch. epoch \<ge> MockActivationEpochSirius mock),
      np_IsReleaseSpicaActive = (\<lambda>epoch. epoch \<ge> MockActivationEpochSpica mock)\<rparr>"

section \<open>The mock keeps the contract of the interface\<close>

interpretation mock: network_provider "mockNetworkProvider X m" for X m
proof unfold_locales
  fix s c
  show "np_HasCustomCurrency (mockNetworkProvider X m) s \<longleftrightarrow>
      (\<exists>c. np_GetCustomCurrencyBySymbol (mockNetworkProvider X m) s = Some c)"
    by (simp add: mockNetworkProvider_def mock_HasCustomCurrency_def)
  show "np_GetCustomCurrencyBySymbol (mockNetworkProvider X m) s = Some c \<Longrightarrow> Symbol c = s"
    by (auto simp: mockNetworkProvider_def mock_GetCustomCurrencyBySymbol_def find_Some_iff)
next
  fix tx a b
  show "0 \<le> np_ComputeTransactionFeeForMoveBalance (mockNetworkProvider X m) tx"
    by (simp add: mockNetworkProvider_def mock_ComputeTransactionFeeForMoveBalance_def)
  show "np_IsAddressObserved (mockNetworkProvider X m) a = Inr b \<Longrightarrow>
      \<exists>k. np_ConvertAddressToPubKey (mockNetworkProvider X m) a = Inr k"
    by (auto simp: mockNetworkProvider_def mock_IsAddressObserved_def orNextError_def split: option.splits)
qed (auto simp: mockNetworkProvider_def)

text \<open>No request changes the mock but in the coordinates of balances that it has handed out.\<close>

definition same_but_coordinates :: "networkProviderMock \<Rightarrow> networkProviderMock \<Rightarrow> bool" where
  "same_but_coordinates m0 m =
     (m\<lparr>MockAccountsNativeBalances := Map.empty, MockAccountsCustomBalances := Map.empty\<rparr> =
      m0\<lparr>MockAccountsNativeBalances := Map.empty, MockAccountsCustomBalances := Map.empty\<rparr> \<and>
      (\<forall>a. map_option abb_Balance (MockAccountsNativeBalances m a) =
           map_option abb_Balance (MockAccountsNativeBalances m0 a)) \<and>
      (\<forall>a. map_option abb_Balance (MockAccountsCustomBalances m a) =
           map_option abb_Balance (MockAccountsCustomBalances m0 a)))"

interpretation mock_keeps: provider_invariant "mockNetworkProvider X m" "same_but_coordinates m0" for X m m0
proof unfold_locales
  fix w w' a symbol opts r
  assume "np_GetAccountBalance (mockNetworkProvider X m) a symbol opts w = (r, w')" "same_but_coordinates m0 w"
  moreover have kept: "map_option abb_Balance ((M(x \<mapsto> b\<lparr>abb_BlockCoordinates := c\<rparr>)) y) = map_option abb_Balance (M y)"
    if "M x = Some b" for M :: "string \<rightharpoonup> AccountBalanceOnBlock" and x y b c
    using that by simp
  ultimately show "same_but_coordinates m0 w'"
    by (auto simp: mockNetworkProvider_def mock_GetAccountBalance_def same_but_coordinates_def Let_def
        simp del: fun_upd_apply split: option.splits if_splits)
qed (auto simp: mockNetworkProvider_def mock_GetGenesisBalances_def mock_GetNodeStatus_def
    mock_GetBlockByNonce_def mock_GetBlockByHash_def mock_GetAccount_def mock_SendTransaction_def
    mock_GetMempoolTransactionByHash_def)

section \<open>Where the mock is the server\<close>

text \<open>The mock of a test holds what the arguments of a server hold, over the same libraries.\<close>

definition mock_configured ::
  "('c, 'w) Externals \<Rightarrow> ArgsNewNetworkProvider \<Rightarrow> MockLibrary \<Rightarrow> networkProviderMock \<Rightarrow> bool" where
  "mock_configured E args X m =
     (ml_Encode X = ext_Encode E \<and> ml_Decode X = ext_Decode E \<and> ml_SafeMul X = ext_SafeMul E \<and>
      mock_ComputeShardIdOfPubKey X m = of_ComputeShardId E \<and>
      MockNativeCurrencySymbol m = a_NativeCurrencySymbol args \<and>
      MockCustomCurrencies m = a_CustomCurrencies args \<and>
      MockObservedActualShard m = a_ObservedActualShard args \<and>
      MockObservedProjectedShard m = a_ObservedProjectedShard args \<and>
      MockObservedProjectedShardIsSet m = a_ObservedProjectedShardIsSet args \<and>
      MockGenesisBlockHash m = a_GenesisBlockHash args \<and> MockGenesisTimestamp m = a_GenesisTimestamp args \<and>
      MockActivationEpochSirius m = a_ActivationEpochSirius args \<and>
      MockActivationEpochSpica m = a_ActivationEpochSpica args \<and>
      MockNetworkConfig m = np_GetNetworkConfig (serverProvider E args) \<and> MockNextError m = None)"

lemma first_is_last:
  fixes cs :: "Currency list"
  assumes "distinct (map Symbol cs)"
  shows "map_of (rev (map (\<lambda>c. (Symbol c, c)) cs)) s = List.find (\<lambda>c. Symbol c = s) cs"
proof -
  have "distinct (map fst (rev (map (\<lambda>c. (Symbol c, c)) cs)))"
    using assms by (simp add: rev_map [symmetric] comp_def)
  then have last: "map_of (rev (map (\<lambda>c. (Symbol c, c)) cs)) s = Some c \<longleftrightarrow> c \<in> set cs \<and> Symbol c = s" for c
    by (subst map_of_eq_Some_iff) auto
  have first: "List.find (\<lambda>c. Symbol c = s) cs = Some c \<longleftrightarrow> c \<in> set cs \<and> Symbol c = s" for c
    using assms by (induction cs) auto
  have same: "x = y" if "\<And>c. x = Some c \<longleftrightarrow> y = Some c" for x y :: "Currency option"
    using that [of "the x"] that [of "the y"] by (cases x; cases y) simp_all
  show ?thesis by (rule same) (simp only: first last)
qed

lemma mock_same_view:
  assumes conf: "mock_configured E args X m" and "distinct (map Symbol (a_CustomCurrencies args))"
    and "\<not> a_ObservedProjectedShardIsSet args" "a_ShouldHandleContracts args" "\<forall>a. ext_Decode E a \<noteq> Inr []"
  shows "same_view (serverProvider E args) (mockNetworkProvider X m)"
proof -
  have lookup: "GetCustomCurrencyBySymbol (currenciesOf (a_NativeCurrencySymbol args) (a_CustomCurrencies args)) s =
      mock_GetCustomCurrencyBySymbol m s" for s
    using conf first_is_last [OF assms(2)]
    by (simp add: GetCustomCurrencyBySymbol_def currenciesOf_def mock_GetCustomCurrencyBySymbol_def mock_configured_def)
  then have has: "HasCustomCurrency (currenciesOf (a_NativeCurrencySymbol args) (a_CustomCurrencies args)) s =
      mock_HasCustomCurrency m s" for s
    by (simp add: HasCustomCurrency_def mock_HasCustomCurrency_def flip: lookup GetCustomCurrencyBySymbol_def)
  have "IsAddressObserved E (providerOfArgs c args) a = mock_IsAddressObserved X m a" for a c
    using conf assms(3-5)
    by (cases "ext_Decode E a")
      (auto simp: IsAddressObserved_def ConvertAddressToPubKey_def mock_IsAddressObserved_def orNextError_def
        mock_configured_def providerOfArgs_def Let_def)
  then show ?thesis
    using conf
    by unfold_locales
      (auto simp: provider_simps mockNetworkProvider_def mock_configured_def fun_eq_iff lookup has
        ConvertPubKeyToAddress_def mock_ConvertPubKeyToAddress_def ConvertAddressToPubKey_def
        ComputeShardIdOfPubKey_def IsReleaseSiriusActive_def IsReleaseSpicaActive_def
        GetNativeCurrency_def mock_GetNativeCurrency_def currenciesOf_native
        GetGenesisBlockSummary_def mock_GetGenesisBlockSummary_def genesisBlockNonce_def)
qed

text \<open>
  The mock takes any relayer for one of a relayed transaction of version 3; on transactions where
  that is right it computes the fee of the server.
\<close>

lemma mock_fee:
  assumes "mock_configured E args X m" "IsRelayedTxV3 tx \<longleftrightarrow> tx_RelayerAddress tx \<noteq> []"
  shows "np_ComputeTransactionFeeForMoveBalance (serverProvider E args) tx =
    np_ComputeTransactionFeeForMoveBalance (mockNetworkProvider X m) tx"
  using assms
  by (simp add: provider_simps mockNetworkProvider_def mock_configured_def
      ComputeTransactionFeeForMoveBalance_def mock_ComputeTransactionFeeForMoveBalance_def
      gasLimitForMoveBalance_def mock_gasLimitForMoveBalance_def Let_def)

section \<open>The observer facade mock (observerFacadeMock.go)\<close>

text \<open>
  Values of type \<open>interface{}\<close> are of a type \<open>'r\<close> of Go values. A caller of
  \<open>CallGetRestEndPoint\<close> passes a pointer to a response of its own type \<open>'d\<close>: \<open>viaJson\<close> is what
  marshalling a Go value and unmarshalling it into that type gives, and \<open>asWritten\<close> reads
  what a hook has written through the pointer.
\<close>

record 'r observerFacadeMock =
  FMockNumShards :: u32
  FMockSelfShard :: u32
  FMockGetResponse :: 'r
  FMockComputedTransactionHash :: string
  FMockNextError :: "go_error option"
  FMockNextApiResponseError :: string
  FMockTransactionsByHash :: "string \<rightharpoonup> ApiTransactionResult"
  FMockBlocks :: "Block list"
  GetBlockByNonceCalled :: "(u32 \<Rightarrow> u64 \<Rightarrow> BlockQueryOptions \<Rightarrow> go_error + Block ApiResponse) option"
  GetBlockByHashCalled :: "(u32 \<Rightarrow> string \<Rightarrow> BlockQueryOptions \<Rightarrow> go_error + Block ApiResponse) option"
  CallGetRestEndPointCalled :: "(string \<Rightarrow> string \<Rightarrow> go_error + 'r) option"
  FSendTransactionCalled :: "(PreparedTransaction \<Rightarrow> go_error + string) option"
  RecordedBaseUrl :: string
  RecordedPath :: string

definition facade_CallGetRestEndPoint ::
  "('r \<Rightarrow> go_error + 'd) \<Rightarrow> ('r \<Rightarrow> 'd) \<Rightarrow> string \<Rightarrow> string \<Rightarrow> 'r observerFacadeMock \<Rightarrow>
     (go_error + 'd) \<times> 'r observerFacadeMock" where
  "facade_CallGetRestEndPoint viaJson asWritten baseUrl path mock =
     (let mock = mock\<lparr>RecordedBaseUrl := baseUrl, RecordedPath := path\<rparr> in
      case CallGetRestEndPointCalled mock of
        Some called \<Rightarrow> (bind_err (called baseUrl path) (\<lambda>written. Inr (asWritten written)), mock)
      | None \<Rightarrow>
          (case FMockNextError mock of
             Some e \<Rightarrow> (Inl e, mock)
           | None \<Rightarrow> (viaJson (FMockGetResponse mock), mock)))"

definition facade_ComputeShardId ::
  "(u32 \<Rightarrow> u32 \<Rightarrow> go_error + (bytes \<Rightarrow> u32)) \<Rightarrow> 'r observerFacadeMock \<Rightarrow> bytes \<Rightarrow> u32" where
  "facade_ComputeShardId newMultiShardCoordinator mock pubKey =
     (case newMultiShardCoordinator (FMockNumShards mock) (FMockSelfShard mock) of
        Inl err \<Rightarrow> 0
      | Inr shardCoordinator \<Rightarrow> shardCoordinator pubKey)"

definition facade_SendTransaction ::
  "PreparedTransaction \<Rightarrow> 'r observerFacadeMock \<Rightarrow> (go_error + string) \<times> 'r observerFacadeMock" where
  "facade_SendTransaction tx mock =
     (case FMockNextError mock of
        Some e \<Rightarrow> Inl e
      | None \<Rightarrow>
          (case FSendTransactionCalled mock of
             Some called \<Rightarrow> called tx
           | None \<Rightarrow> Inr (FMockComputedTransactionHash mock)), mock)"

definition facade_ComputeTransactionHash :: "'r observerFacadeMock \<Rightarrow> PreparedTransaction \<Rightarrow> go_error + string" where
  "facade_ComputeTransactionHash mock tx =
     (case FMockNextError mock of Some e \<Rightarrow> Inl e | None \<Rightarrow> Inr (FMockComputedTransactionHash mock))"

definition facade_GetTransactionByHashAndSenderAddress ::
  "string \<Rightarrow> string \<Rightarrow> bool \<Rightarrow> 'r observerFacadeMock \<Rightarrow>
     (go_error + ApiTransactionResult) \<times> 'r observerFacadeMock" where
  "facade_GetTransactionByHashAndSenderAddress h sender withEvents mock =
     (case FMockNextError mock of
        Some e \<Rightarrow> Inl e
      | None \<Rightarrow> foundOr (Errorf [Txt ''transaction '', Txt h, Txt '' not found'']) (FMockTransactionsByHash mock h),
      mock)"

definition zeroBlock :: Block where
  "zeroBlock =
     \<lparr>bk_Nonce = 0, bk_Round = 0, bk_Epoch = 0, bk_Shard = 0, bk_NumTxs = 0, bk_Hash = [], bk_PrevBlockHash = [],
      bk_StateRootHash = [], bk_Status = [], bk_Timestamp = 0, bk_MiniBlocks = []\<rparr>"

text \<open>The body that the two lookups of blocks share, with the test in the loop as an argument.\<close>

definition facade_blockResponse :: "(Block \<Rightarrow> bool) \<Rightarrow> 'r observerFacadeMock \<Rightarrow> go_error + Block ApiResponse" where
  "facade_blockResponse wanted mock =
     (let failed = (\<lambda>what. Inr \<lparr>ar_Error = what, ar_Code = ''internal_issue'', ar_Data = zeroBlock\<rparr>) in
      case FMockNextError mock of
        Some e \<Rightarrow> Inl e
      | None \<Rightarrow>
          if FMockNextApiResponseError mock \<noteq> [] then failed (FMockNextApiResponseError mock)
          else (case List.find wanted (FMockBlocks mock) of
                  Some block \<Rightarrow> Inr \<lparr>ar_Error = [], ar_Code = ''successful'', ar_Data = block\<rparr>
                | None \<Rightarrow> failed ''block not found''))"

definition facade_GetBlockByHash ::
  "u32 \<Rightarrow> string \<Rightarrow> BlockQueryOptions \<Rightarrow> 'r observerFacadeMock \<Rightarrow>
     (go_error + Block ApiResponse) \<times> 'r observerFacadeMock" where
  "facade_GetBlockByHash shardID h options mock =
     (case GetBlockByHashCalled mock of
        Some called \<Rightarrow> called shardID h options
      | None \<Rightarrow> facade_blockResponse (\<lambda>block. bk_Hash block = h) mock, mock)"

definition facade_GetBlockByNonce ::
  "u32 \<Rightarrow> u64 \<Rightarrow> BlockQueryOptions \<Rightarrow> 'r observerFacadeMock \<Rightarrow>
     (go_error + Block ApiResponse) \<times> 'r observerFacadeMock" where
  "facade_GetBlockByNonce shardID nonce options mock =
     (case GetBlockByNonceCalled mock of
        Some called \<Rightarrow> called shardID nonce options
      | None \<Rightarrow> facade_blockResponse (\<lambda>block. bk_Nonce block = nonce) mock, mock)"

text \<open>The mock of a new test; \<open>nil\<close> is the response that no test has set yet.\<close>

definition NewObserverFacadeMock :: "'r \<Rightarrow> 'r observerFacadeMock" where
  "NewObserverFacadeMock nil =
     \<lparr>FMockNumShards = 3, FMockSelfShard = 0, FMockGetResponse = nil,
      FMockComputedTransactionHash = emptyHash, FMockNextError = None, FMockNextApiResponseError = [],
      FMockTransactionsByHash = Map.empty,
      FMockBlocks = [zeroBlock\<lparr>bk_Nonce := 0, bk_Hash := ''0000''\<rparr>],
      GetBlockByNonceCalled = None, GetBlockByHashCalled = None, CallGetRestEndPointCalled = None,
      FSendTransactionCalled = None, RecordedBaseUrl = [], RecordedPath = []\<rparr>"

text \<open>A new mock knows one block, that with nonce 0.\<close>

lemma new_mock_blocks:
  "fst (facade_GetBlockByNonce shardID 0 options (NewObserverFacadeMock nil)) =
     Inr \<lparr>ar_Error = [], ar_Code = ''successful'', ar_Data = zeroBlock\<lparr>bk_Hash := ''0000''\<rparr>\<rparr>"
  "n \<noteq> 0 \<Longrightarrow> fst (facade_GetBlockByNonce shardID n options (NewObserverFacadeMock nil)) =
     Inr \<lparr>ar_Error = ''block not found'', ar_Code = ''internal_issue'', ar_Data = zeroBlock\<rparr>"
  by (simp_all add: facade_GetBlockByNonce_def facade_blockResponse_def NewObserverFacadeMock_def Let_def zeroBlock_def)

text \<open>How each kind of response is read back, for the five kinds that the provider asks for.\<close>

record 'r Responses =
  as_Account :: "('r \<Rightarrow> go_error + AccountOnBlock ApiResponse) \<times> ('r \<Rightarrow> AccountOnBlock ApiResponse)"
  as_ESDT :: "('r \<Rightarrow> go_error + AccountESDTBalance ApiResponse) \<times> ('r \<Rightarrow> AccountESDTBalance ApiResponse)"
  as_NodeStatus :: "('r \<Rightarrow> go_error + NodeStatus ApiResponse) \<times> ('r \<Rightarrow> NodeStatus ApiResponse)"
  as_EpochStart :: "('r \<Rightarrow> go_error + EpochStart ApiResponse) \<times> ('r \<Rightarrow> EpochStart ApiResponse)"
  as_GenesisBalances :: "('r \<Rightarrow> go_error + GenesisBalance list ApiResponse) \<times> ('r \<Rightarrow> GenesisBalance list ApiResponse)"

abbreviation restEndPoint :: "('r \<Rightarrow> go_error + 'd) \<times> ('r \<Rightarrow> 'd) \<Rightarrow> string \<Rightarrow> string \<Rightarrow>
     'r observerFacadeMock \<Rightarrow> (go_error + 'd) \<times> 'r observerFacadeMock" where
  "restEndPoint reads \<equiv> facade_CallGetRestEndPoint (fst reads) (snd reads)"

text \<open>A provider in a test: the facade is the mock, the rest is as in \<open>E\<close>.\<close>

definition facadeExternals ::
  "'r Responses \<Rightarrow> (u32 \<Rightarrow> u32 \<Rightarrow> go_error + (bytes \<Rightarrow> u32)) \<Rightarrow> ('c, 'w) Externals \<Rightarrow> 'r observerFacadeMock \<Rightarrow>
     ('c, 'r observerFacadeMock) Externals" where
  "facadeExternals R newMultiShardCoordinator E mock =
     \<lparr>of_GetAccount = restEndPoint (as_Account R),
      of_GetESDTBalance = restEndPoint (as_ESDT R),
      of_GetNodeStatus = restEndPoint (as_NodeStatus R),
      of_GetEpochStart = restEndPoint (as_EpochStart R),
      of_GetGenesisBalances = restEndPoint (as_GenesisBalances R),
      of_ComputeShardId = facade_ComputeShardId newMultiShardCoordinator mock,
      of_SendTransaction = facade_SendTransaction,
      of_ComputeTransactionHash = facade_ComputeTransactionHash mock,
      of_GetTransactionByHashAndSenderAddress = facade_GetTransactionByHashAndSenderAddress,
      of_GetBlockByHash = facade_GetBlockByHash,
      of_GetBlockByNonce = facade_GetBlockByNonce,
      cache_New = cache_New E, cache_Get = cache_Get E, cache_Put = cache_Put E,
      ext_Encode = ext_Encode E, ext_Decode = ext_Decode E, ext_CalculateHash = ext_CalculateHash E,
      ext_SafeMul = ext_SafeMul E, ext_ErrorText = ext_ErrorText E, ext_enum = ext_enum E,
      ext_Library = ext_Library E\<rparr>"

section \<open>The paths that are asked\<close>

definition asked :: "'r observerFacadeMock \<Rightarrow> string \<times> string" where
  "asked mock = (RecordedBaseUrl mock, RecordedPath mock)"

lemma asked_after: "asked (snd (facade_CallGetRestEndPoint viaJson asWritten baseUrl path mock)) = (baseUrl, path)"
  by (simp add: facade_CallGetRestEndPoint_def asked_def Let_def split: option.split)

lemma asked_resource:
  assumes "\<not> p_isOffline p" "\<And>w. asked (snd (request w)) = (baseUrl, path)"
  shows "asked (snd (snd (getResource E p request s))) = (baseUrl, path)"
  using assms(1) assms(2) [of "snd s"]
  by (auto simp: getResource_def getResourceWithErrConversion_def ask_def split: prod.split sum.split)

lemma bind_step_state: "(\<And>x s. snd (f x s) = s) \<Longrightarrow> snd (bind_step m f s) = snd (m s)"
  by (auto simp: bind_step_def split: prod.split sum.split)

lemma provider_asks:
  assumes "\<not> p_isOffline p" and E': "E' = facadeExternals R coordinator E m"
  shows "asked (snd (snd (GetAccount E' p a s))) = (p_observerUrl p, buildUrlGetAccount a)"
    and "asked (snd (snd (getNativeBalance E' p a opts s))) =
      (p_observerUrl p, buildUrlGetAccountNativeBalance a opts)"
    and "decideCustomTokenBalanceUrl a token opts = Inr url \<Longrightarrow>
      asked (snd (snd (getCustomTokenBalance E' p a token opts s))) = (p_observerUrl p, url)"
    and "decideCustomTokenBalanceUrl a token opts = Inl e \<Longrightarrow>
      getCustomTokenBalance E' p a token opts s = (Inl e, s)"
    and "asked (snd (snd (GetGenesisBalances E' p s))) = (p_observerUrl p, urlPathGetGenesisBalances)"
    and "asked (snd (snd (getPlainNodeStatus E' p s))) = (p_observerUrl p, urlPathGetNodeStatus)"
    and "asked (snd (snd (getEpochStartInfo E' p epoch s))) = (p_observerUrl p, buildUrlGetEpochStartInfo epoch)"
  using assms(1)
  by (simp_all add: GetAccount_def getNativeBalance_def getCustomTokenBalance_def GetGenesisBalances_def
      getPlainNodeStatus_def getEpochStartInfo_def map_error_state bind_step_state asked_resource asked_after
      E' facadeExternals_def)

section \<open>Accounts of the tests (addresses.go)\<close>

record testAccount =
  ta_Address :: string
  ta_PubKey :: bytes

text \<open>The error of the decoder is dropped; the key is nil then.\<close>

definition newTestAccount :: "(string \<Rightarrow> go_error + bytes) \<Rightarrow> string \<Rightarrow> testAccount" where
  "newTestAccount decode address =
     \<lparr>ta_Address = address, ta_PubKey = (case decode address of Inl err \<Rightarrow> [] | Inr pubKey \<Rightarrow> pubKey)\<rparr>"

definition testAddresses :: "(string \<times> string) list" where
  "testAddresses =
     [(''TestAddressAlice'',
       ''erd1qyu5wthldzr8wx5c9ucg8kjagg0jfs53s8nr3zpz3hypefsdd8ssycr6th''),
      (''TestAddressBob'',
       ''erd1spyavw0956vq68xj8y4tenjpq2wd5a9p2c6j8gsz7ztyrnpxrruqzu66jx''),
      (''TestAddressCarol'',
       ''erd1k2s324ww2g0yj38qn2ch2jwctdy8mnfxep94q9arncc6xecg3xaq6mjse8''),
      (''TestAddressOfContract'',
       ''erd1qqqqqqqqqqqqqpgqfejaxfh4ktp8mh8s77pl90dq0uzvh2vk396qlcwepw'')]"

definition testAccountAddresses :: "(string \<times> string) list" where
  "testAccountAddresses =
     [(''TestUserAShard0'',
       ''erd1spyavw0956vq68xj8y4tenjpq2wd5a9p2c6j8gsz7ztyrnpxrruqzu66jx''),
      (''TestUserBShard0'',
       ''erd1uv40ahysflse896x4ktnh6ecx43u7cmy9wnxnvcyp7deg299a4sq6vaywa''),
      (''TestUserCShard0'',
       ''erd1ncsyvhku3q7zy8f8rjmmx2t9zxgch38cel28kzg3m8pt86dt0vqqecw0gy''),
      (''TestContractFooShard0'',
       ''erd1qqqqqqqqqqqqqpgqagjekf5mxv86hy5c62vvtug5vc6jmgcsq6uq8reras''),
      (''TestContractBarShard0'',
       ''erd1qqqqqqqqqqqqqpgqdstpe4fepzl4w8683xw88t5kcjkxz0zaq6uquj6ztu''),
      (''TestContractFooShard1'',
       ''erd1qqqqqqqqqqqqqpgq89t5xm4x04tnt9lv747wdrsaycf3rcwcggzsa7crse''),
      (''TestContractBarShard1'',
       ''erd1qqqqqqqqqqqqqpgq0dtujxcrmwwqdtwzvq5nxuwgjcgaty7fggzse2vmm2''),
      (''TestContractFooShard2'',
       ''erd1qqqqqqqqqqqqqpgqeesfamasje5zru7ku79m8p4xqfqnywvqxj0qhtyzdr''),
      (''TestContractBarShard2'',
       ''erd1ux2wvqyh8pw8ea26urjqq65mqytfn42dr980pvucztxk9w79xj0q2x98te''),
      (''TestUserShard1'',
       ''erd1qyu5wthldzr8wx5c9ucg8kjagg0jfs53s8nr3zpz3hypefsdd8ssycr6th''),
      (''TestUserShard2'',
       ''erd1k2s324ww2g0yj38qn2ch2jwctdy8mnfxep94q9arncc6xecg3xaq6mjse8'')]"

definition testAccounts :: "(string \<Rightarrow> go_error + bytes) \<Rightarrow> (string \<times> testAccount) list" where
  "testAccounts decode = map (\<lambda>(name, address). (name, newTestAccount decode address)) testAccountAddresses"

text \<open>
  The text of the address of a contract starts with the zeros of its key (\<open>q\<close> is the zero of
  bech32). One account that is named, and documented, as a contract does not have such an address.
\<close>

lemma contract_accounts:
  "filter (\<lambda>(name, address). has_prefix name ''TestContract'' \<and> \<not> has_prefix address ''erd1qqqqqqqqqqqq'')
     testAccountAddresses =
   [(''TestContractBarShard2'', ''erd1ux2wvqyh8pw8ea26urjqq65mqytfn42dr980pvucztxk9w79xj0q2x98te'')]"
  by (simp add: testAccountAddresses_def has_prefix_def)

end
