(* ===== verification/CommandLine.thy ===== *)
theory CommandLine
  imports Wiring
begin

text \<open>
  The flags of the command line (\<open>cmd/rosetta/cli.go\<close>): the table of all flags, with names, usage,
  defaults and whether they are required; what the flag library answers for a flag; and
  what \<open>getParsedCliFlags\<close> makes of it. The name of the debug level is that of the logger library.
\<close>

section \<open>The table of flags\<close>

text \<open>The kinds of flags: a name, a usage text, the default, and whether the flag is required.\<close>

datatype Flag =
    IntFlag string string int bool
  | BoolFlag string string
  | StringFlag string string string bool
  | UintFlag string string u64 bool
  | Int64Flag string string int bool
  | Uint64Flag string string u64 bool
  | Float64Flag string string float64 bool

definition cliFlagPort :: "Flag" where
  "cliFlagPort =
     IntFlag ''port''
      ''Specifies the TCP port used by Rosetta endpoints.''
      8091 False"

definition cliFlagOffline :: "Flag" where
  "cliFlagOffline =
     BoolFlag ''offline''
      ''Starts in offline mode''"

definition cliFlagLogLevel :: "string \<Rightarrow> Flag" where
  "cliFlagLogLevel logDebug =
     StringFlag ''log-level''
      (''Specifies the logger `level(s)`. It can contain multiple comma-separated '' @
       ''value. For example, if set to *:INFO the logs for all packages will have '' @
       ''the INFO level. However, if set to *:INFO,api:DEBUG the logs for all '' @
       ''packages will have the INFO level, excepting the api package which will '' @
       ''receive a DEBUG log level.'')
      (''*:'' @ logDebug) False"

definition cliFlagLogsFolder :: "Flag" where
  "cliFlagLogsFolder =
     StringFlag ''logs-folder''
      ''Specifies where to save the log files.''
      [] False"

definition cliFlagObserverActualShard :: "Flag" where
  "cliFlagObserverActualShard =
     UintFlag ''observer-actual-shard''
      ''Specifies the actual shard to observe.''
      0 False"

definition cliFlagObserverProjectedShard :: "Flag" where
  "cliFlagObserverProjectedShard =
     UintFlag ''observer-projected-shard''
      ''Specifies the projected shard to observe.''
      0 False"

definition cliFlagObserverHttpUrl :: "Flag" where
  "cliFlagObserverHttpUrl =
     StringFlag ''observer-http-url''
      ''Specifies the URL of the observer.''
      ''http://nowhere.localhost.local'' False"

definition cliFlagBlockchainName :: "Flag" where
  "cliFlagBlockchainName =
     StringFlag ''blockchain''
      ''Specifies the blockchain name (e.g. MultiversX).''
      ''MultiversX'' False"

definition cliFlagNetworkID :: "Flag" where
  "cliFlagNetworkID =
     StringFlag ''network-id''
      ''Specifies the network ID (e.g. 1, D, T)''
      [] True"

definition cliFlagNetworkName :: "Flag" where
  "cliFlagNetworkName =
     StringFlag ''network-name''
      ''Specifies the network name (e.g. mainnet, devnet, testnet).''
      [] True"

definition cliFlagNumShards :: "Flag" where
  "cliFlagNumShards =
     UintFlag ''num-shards''
      (''Specifies the total number of actual network shards (with the exception '' @
       ''of the metachain). Must be 3 for mainnet.'')
      3 False"

definition cliFlagGenesisBlock :: "Flag" where
  "cliFlagGenesisBlock =
     StringFlag ''genesis-block''
      (''Specifies the hash of the genesis block, to be returned by '' @
       ''network/status. For mainnet, it must be '' @
       ''cd229e4ad2753708e4bab01d7f249affe29441829524c9529e84d51b6d12f2a7.'')
      ''cd229e4ad2753708e4bab01d7f249affe29441829524c9529e84d51b6d12f2a7'' False"

definition cliFlagGenesisTimestamp :: "Flag" where
  "cliFlagGenesisTimestamp =
     Int64Flag ''genesis-timestamp''
      (''Specifies the timestamp of the genesis block. For mainnet, it must be '' @
       ''1596117600 (Thursday, July 30, 2020 14:00:00 UTC).'')
      1596117600 False"

definition cliFlagMinGasPrice :: "Flag" where
  "cliFlagMinGasPrice =
     Uint64Flag ''min-gas-price''
      ''Specifies the minimum gas price (for transaction construction).''
      1000000000 False"

definition cliFlagMinGasLimit :: "Flag" where
  "cliFlagMinGasLimit =
     UintFlag ''min-gas-limit''
      ''Specifies the minimum gas limit (for transaction construction).''
      50000 False"

definition cliFlagExtraGasLimitGuardedTx :: "Flag" where
  "cliFlagExtraGasLimitGuardedTx =
     UintFlag ''extra-gas-limit-guarded-tx''
      (''Specifies the extra gas limit for guarded transactions (necessary to '' @
       ''compute fees in some circumstances).'')
      50000 False"

definition cliFlagExtraGasLimitRelayedTxV3 :: "Flag" where
  "cliFlagExtraGasLimitRelayedTxV3 =
     UintFlag ''extra-gas-limit-relayed-tx-v3''
      (''Specifies the extra gas limit for relayed transactions (necessary to '' @
       ''compute fees in some circumstances).'')
      50000 False"

definition cliFlagGasPerDataByte :: "Flag" where
  "cliFlagGasPerDataByte =
     UintFlag ''gas-per-data-byte''
      ''Specifies the gas required per data byte (for transaction construction).''
      1500 False"

definition cliFlagGasPriceModifier :: "Flag" where
  "cliFlagGasPriceModifier =
     Float64Flag ''gas-price-modifier''
      ''Specifies the gas price modifier (for transaction construction).''
      \<lparr>mantissa = 5764607523034235, exponent = -59\<rparr> False"

definition cliFlagGasLimitCustomTransfer :: "Flag" where
  "cliFlagGasLimitCustomTransfer =
     Float64Flag ''gas-limit-custom-transfer''
      (''Specifies the necessary gas limit for a custom transfer (for transaction '' @
       ''construction).'')
      \<lparr>mantissa = 200000, exponent = 0\<rparr> False"

definition cliFlagNativeCurrencySymbol :: "Flag" where
  "cliFlagNativeCurrencySymbol =
     StringFlag ''native-currency''
      (''Specifies the symbol of the native currency (must be EGLD for mainnet, '' @
       ''XeGLD for testnet and devnet).'')
      ''EGLD'' False"

definition cliFlagFirstHistoricalEpoch :: "Flag" where
  "cliFlagFirstHistoricalEpoch =
     UintFlag ''first-historical-epoch''
      (''Specifies the first epoch with historical data available in Observer'' @ [CHR 0x27] @ ''s '' @
       ''database.'')
      0 True"

definition cliFlagNumHistoricalEpochs :: "Flag" where
  "cliFlagNumHistoricalEpochs =
     UintFlag ''num-historical-epochs''
      ''Provides a hint for the number of historical epochs to be kept.''
      0 True"

definition cliFlagShouldHandleContracts :: "Flag" where
  "cliFlagShouldHandleContracts =
     BoolFlag ''handle-contracts''
      ''Whether to handle balance changes of smart contracts or not.''"

definition cliFlagConfigFileCustomCurrencies :: "Flag" where
  "cliFlagConfigFileCustomCurrencies =
     StringFlag ''config-custom-currencies''
      ''Specifies the configuration file for custom currencies.''
      [] False"

definition cliFlagActivationEpochSirius :: "Flag" where
  "cliFlagActivationEpochSirius =
     UintFlag ''activation-epoch-sirius''
      ''Specifies the activation epoch for Sirius release.''
      1265 False"

definition cliFlagActivationEpochSpica :: "Flag" where
  "cliFlagActivationEpochSpica =
     UintFlag ''activation-epoch-spica''
      ''Specifies the activation epoch for Spica release.''
      1575 False"

definition cliFlagShouldEnablePprofEndpoints :: "Flag" where
  "cliFlagShouldEnablePprofEndpoints =
     BoolFlag ''pprof''
      ''Whether to enable pprof HTTP endpoints.''"

definition getAllCliFlags :: "string \<Rightarrow> Flag list" where
  "getAllCliFlags logDebug =
     [cliFlagPort,
      cliFlagOffline,
      cliFlagLogLevel logDebug,
      cliFlagLogsFolder,
      cliFlagObserverActualShard,
      cliFlagObserverProjectedShard,
      cliFlagObserverHttpUrl,
      cliFlagBlockchainName,
      cliFlagNetworkID,
      cliFlagNetworkName,
      cliFlagNumShards,
      cliFlagGenesisBlock,
      cliFlagGenesisTimestamp,
      cliFlagMinGasPrice,
      cliFlagMinGasLimit,
      cliFlagExtraGasLimitGuardedTx,
      cliFlagExtraGasLimitRelayedTxV3,
      cliFlagGasPerDataByte,
      cliFlagGasPriceModifier,
      cliFlagGasLimitCustomTransfer,
      cliFlagNativeCurrencySymbol,
      cliFlagFirstHistoricalEpoch,
      cliFlagNumHistoricalEpochs,
      cliFlagShouldHandleContracts,
      cliFlagConfigFileCustomCurrencies,
      cliFlagActivationEpochSirius,
      cliFlagActivationEpochSpica,
      cliFlagShouldEnablePprofEndpoints]"

section \<open>What is given, and what is read\<close>

datatype flag_value =
    VInt int
  | VBool bool
  | VString string
  | VUint u64
  | VInt64 int
  | VUint64 u64
  | VFloat64 float64

fun flagName :: "Flag \<Rightarrow> string" where
  "flagName (IntFlag name _ _ _) = name"
| "flagName (BoolFlag name _) = name"
| "flagName (StringFlag name _ _ _) = name"
| "flagName (UintFlag name _ _ _) = name"
| "flagName (Int64Flag name _ _ _) = name"
| "flagName (Uint64Flag name _ _ _) = name"
| "flagName (Float64Flag name _ _ _) = name"

fun flagDefault :: "Flag \<Rightarrow> flag_value" where
  "flagDefault (IntFlag _ _ i _) = VInt i"
| "flagDefault (BoolFlag _ _) = VBool False"
| "flagDefault (StringFlag _ _ s _) = VString s"
| "flagDefault (UintFlag _ _ n _) = VUint n"
| "flagDefault (Int64Flag _ _ i _) = VInt64 i"
| "flagDefault (Uint64Flag _ _ n _) = VUint64 n"
| "flagDefault (Float64Flag _ _ x _) = VFloat64 x"

fun same_kind :: "flag_value \<Rightarrow> flag_value \<Rightarrow> bool" where
  "same_kind (VInt _) (VInt _) = True"
| "same_kind (VBool _) (VBool _) = True"
| "same_kind (VString _) (VString _) = True"
| "same_kind (VUint _) (VUint _) = True"
| "same_kind (VInt64 _) (VInt64 _) = True"
| "same_kind (VUint64 _) (VUint64 _) = True"
| "same_kind (VFloat64 _) (VFloat64 _) = True"
| "same_kind _ _ = False"

text \<open>The value of a flag: the one given on the command line, or the default.\<close>

definition effective :: "(string \<rightharpoonup> flag_value) \<Rightarrow> Flag \<Rightarrow> flag_value" where
  "effective given flag = (case given (flagName flag) of Some v \<Rightarrow> v | None \<Rightarrow> flagDefault flag)"

definition well_typed :: "string \<Rightarrow> (string \<rightharpoonup> flag_value) \<Rightarrow> bool" where
  "well_typed logDebug given =
     list_all (\<lambda>flag. same_kind (flagDefault flag) (effective given flag)) (getAllCliFlags logDebug)"

text \<open>
  The text of a \<open>float64\<close>, \<open>strconv.FormatFloat(f, 'g', -1, 64)\<close>: with an exponent from \<open>1e6\<close> on.
  \<open>None\<close> stands for the texts that are not spelled out here, those with a point and those of numbers
  from \<open>1e21\<close> on.
\<close>

definition integral :: "float64 \<Rightarrow> nat option" where
  "integral x =
     (if exponent x \<ge> 0 then Some (mantissa x * 2 ^ nat (exponent x))
      else if 2 ^ nat (- exponent x) dvd mantissa x then Some (mantissa x div 2 ^ nat (- exponent x))
      else None)"

definition exponentText :: "nat \<Rightarrow> string" where
  "exponentText e = (if e < 10 then ''e+0'' else ''e+'') @ nat_to_dec e"

definition formatG :: "nat \<Rightarrow> string" where
  "formatG n =
     (let digits = nat_to_dec (shortest_digits n); e = length digits - 1 in
      if e < 6 then digits
      else
        let significant = rev (dropWhile (\<lambda>c. c = CHR ''0'') (rev digits))
        in hd significant # (if tl significant = [] then [] else CHR ''.'' # tl significant) @ exponentText e)"

definition floatText :: "float64 \<Rightarrow> string option" where
  "floatText x = Option.bind (integral x) (\<lambda>n. if n < 10 ^ 21 then Some (formatG n) else None)"

text \<open>\<open>strconv.ParseUint\<close> of such a text, and 0 if it fails.\<close>

definition uint64OfText :: "string \<Rightarrow> u64" where
  "uint64OfText t =
     (case parse_digits from_dec_char 10 t of
        None \<Rightarrow> 0
      | Some n \<Rightarrow> if n < 2 ^ 64 then of_nat n else 0)"

text \<open>
  What the flag library documents: a lookup of the type of the flag gives its value, and
  \<open>GlobalIsSet\<close> tells whether the flag was given. An unsigned flag has the same number whether it is
  looked up as \<open>uint\<close> or as \<open>uint64\<close>. Nothing is said of a float that is looked up as an integer.
\<close>

definition looked_up :: "Context \<Rightarrow> string \<Rightarrow> flag_value \<Rightarrow> bool" where
  "looked_up ctx name v =
     (case v of
        VInt i \<Rightarrow> GlobalInt ctx name = i
      | VBool b \<Rightarrow> GlobalBool ctx name = b
      | VString s \<Rightarrow> GlobalString ctx name = s
      | VUint n \<Rightarrow> GlobalUint ctx name = n \<and> GlobalUint64 ctx name = n
      | VInt64 i \<Rightarrow> GlobalInt64 ctx name = i
      | VUint64 n \<Rightarrow> GlobalUint64 ctx name = n
      | VFloat64 x \<Rightarrow> GlobalFloat64 ctx name = x)"

definition reads_flags :: "string \<Rightarrow> (string \<rightharpoonup> flag_value) \<Rightarrow> Context \<Rightarrow> bool" where
  "reads_flags logDebug given ctx =
     list_all (\<lambda>flag. looked_up ctx (flagName flag) (effective given flag) \<and>
        GlobalIsSet ctx (flagName flag) = (given (flagName flag) \<noteq> None)) (getAllCliFlags logDebug)"

section \<open>What the flags mean\<close>

fun theInt :: "flag_value \<Rightarrow> int" where
  "theInt (VInt i) = i" | "theInt (VInt64 i) = i" | "theInt _ = 0"
fun theBool :: "flag_value \<Rightarrow> bool" where
  "theBool (VBool b) = b" | "theBool _ = False"
fun theString :: "flag_value \<Rightarrow> string" where
  "theString (VString s) = s" | "theString _ = []"
fun theUint :: "flag_value \<Rightarrow> u64" where
  "theUint (VUint n) = n" | "theUint (VUint64 n) = n" | "theUint _ = 0"
fun theFloat :: "flag_value \<Rightarrow> float64" where
  "theFloat (VFloat64 x) = x" | "theFloat _ = \<lparr>mantissa = 0, exponent = 0\<rparr>"

text \<open>The fields that have the type of their flag, and are its value.\<close>

definition read_exactly :: "string \<Rightarrow> (string \<rightharpoonup> flag_value) \<Rightarrow> parsedCliFlags \<Rightarrow> bool" where
  "read_exactly logDebug given flags \<longleftrightarrow>
     f_port flags = theInt (effective given cliFlagPort) \<and>
     f_offline flags = theBool (effective given cliFlagOffline) \<and>
     f_logLevel flags = theString (effective given (cliFlagLogLevel logDebug)) \<and>
     f_logsFolder flags = theString (effective given cliFlagLogsFolder) \<and>
     f_observerProjectedShardIsSet flags = (given (flagName cliFlagObserverProjectedShard) \<noteq> None) \<and>
     f_observerHttpUrl flags = theString (effective given cliFlagObserverHttpUrl) \<and>
     f_blockchainName flags = theString (effective given cliFlagBlockchainName) \<and>
     f_networkID flags = theString (effective given cliFlagNetworkID) \<and>
     f_networkName flags = theString (effective given cliFlagNetworkName) \<and>
     f_genesisBlock flags = theString (effective given cliFlagGenesisBlock) \<and>
     f_genesisTimestamp flags = theInt (effective given cliFlagGenesisTimestamp) \<and>
     f_minGasPrice flags = theUint (effective given cliFlagMinGasPrice) \<and>
     f_minGasLimit flags = theUint (effective given cliFlagMinGasLimit) \<and>
     f_extraGasLimitGuardedTx flags = theUint (effective given cliFlagExtraGasLimitGuardedTx) \<and>
     f_extraGasLimitRelayedTxV3 flags = theUint (effective given cliFlagExtraGasLimitRelayedTxV3) \<and>
     f_gasPerDataByte flags = theUint (effective given cliFlagGasPerDataByte) \<and>
     f_gasPriceModifier flags = theFloat (effective given cliFlagGasPriceModifier) \<and>
     f_nativeCurrencySymbol flags = theString (effective given cliFlagNativeCurrencySymbol) \<and>
     f_shouldHandleContracts flags = theBool (effective given cliFlagShouldHandleContracts) \<and>
     f_configFileCustomCurrencies flags = theString (effective given cliFlagConfigFileCustomCurrencies) \<and>
     f_shouldEnablePprofEndpoints flags = theBool (effective given cliFlagShouldEnablePprofEndpoints)"

lemmas flag_defs =
  getAllCliFlags_def cliFlagPort_def cliFlagOffline_def cliFlagLogLevel_def cliFlagLogsFolder_def
  cliFlagObserverActualShard_def cliFlagObserverProjectedShard_def cliFlagObserverHttpUrl_def
  cliFlagBlockchainName_def cliFlagNetworkID_def cliFlagNetworkName_def cliFlagNumShards_def
  cliFlagGenesisBlock_def cliFlagGenesisTimestamp_def cliFlagMinGasPrice_def cliFlagMinGasLimit_def
  cliFlagExtraGasLimitGuardedTx_def cliFlagExtraGasLimitRelayedTxV3_def cliFlagGasPerDataByte_def
  cliFlagGasPriceModifier_def cliFlagGasLimitCustomTransfer_def cliFlagNativeCurrencySymbol_def
  cliFlagFirstHistoricalEpoch_def cliFlagNumHistoricalEpochs_def cliFlagShouldHandleContracts_def
  cliFlagConfigFileCustomCurrencies_def cliFlagActivationEpochSirius_def
  cliFlagActivationEpochSpica_def cliFlagShouldEnablePprofEndpoints_def

section \<open>Flags are read as they are meant\<close>

definition read_as_meant :: "Context \<Rightarrow> (string \<rightharpoonup> flag_value) \<Rightarrow> Flag \<Rightarrow> bool" where
  "read_as_meant ctx given flag =
     (let v = effective given flag in
      case flag of
        IntFlag name _ _ _ \<Rightarrow> GlobalInt ctx name = theInt v
      | BoolFlag name _ \<Rightarrow> GlobalBool ctx name = theBool v
      | StringFlag name _ _ _ \<Rightarrow> GlobalString ctx name = theString v
      | UintFlag name _ _ _ \<Rightarrow> GlobalUint ctx name = theUint v \<and> GlobalUint64 ctx name = theUint v
      | Int64Flag name _ _ _ \<Rightarrow> GlobalInt64 ctx name = theInt v
      | Uint64Flag name _ _ _ \<Rightarrow> GlobalUint64 ctx name = theUint v
      | Float64Flag name _ _ _ \<Rightarrow> GlobalFloat64 ctx name = theFloat v)"

lemma looked_up_read:
  assumes "looked_up ctx (flagName flag) (effective given flag)" "same_kind (flagDefault flag) (effective given flag)"
  shows "read_as_meant ctx given flag"
  using assms
  by (cases flag; cases "effective given flag") (simp_all add: read_as_meant_def looked_up_def)

lemma all_read:
  assumes "reads_flags logDebug given ctx" "well_typed logDebug given"
  shows "list_all (read_as_meant ctx given) (getAllCliFlags logDebug)"
    and "list_all (\<lambda>flag. GlobalIsSet ctx (flagName flag) = (given (flagName flag) \<noteq> None)) (getAllCliFlags logDebug)"
  using assms unfolding reads_flags_def well_typed_def
  by (auto simp: list_all_iff intro: looked_up_read)

text \<open>Texts with an exponent are not numbers for \<open>ParseUint\<close>.\<close>

lemma parse_with_letter: "c \<in> set t \<Longrightarrow> from_dec_char c = None \<Longrightarrow> parse_digits from_dec_char 10 t = None"
  using is_decimal_parse [of t] by (cases "parse_digits from_dec_char 10 t") (auto simp: is_decimal_def list_all_iff is_digit_def)

lemma digits_of_large: "10 ^ 6 \<le> n \<Longrightarrow> 6 < length (nat_to_dec n)"
  using to_digits_length [of 10 n 6] by (simp add: nat_to_dec_def)

lemma digits_of_small: "n < 10 ^ 6 \<Longrightarrow> length (nat_to_dec n) \<le> 6"
  using to_digits_length [of 10 n 6] by (cases "n = 0") (simp_all add: nat_to_dec_def)

lemma shortestFrom_lower: "lower_bound f \<le> shortestFrom js f * 2 ^ 54"
proof (induction js)
  case Nil
  then show ?case by (simp add: shortestFrom.simps lower_bound_def)
next
  case (Cons j js)
  have up: "f \<le> f div 10 ^ j * 10 ^ j + 10 ^ j"
    using mod_less_divisor [of "10 ^ j" f] div_mult_mod_eq [of f "10 ^ j"] zero_less_power [of "10 :: nat" j] by linarith
  then have "f * 2 ^ 54 \<le> (f div 10 ^ j * 10 ^ j + 10 ^ j) * 2 ^ 54" by (rule mult_right_mono) simp
  moreover have "lower_bound f \<le> f * 2 ^ 54" by (simp add: lower_bound_def)
  ultimately have "lower_bound f \<le> (f div 10 ^ j * 10 ^ j + 10 ^ j) * 2 ^ 54" by linarith
  with Cons show ?case
    by (auto simp: shortestFrom.simps Let_def within_def split: if_splits)
qed

lemma shortest_large:
  assumes "10 ^ 6 \<le> n"
  shows "10 ^ 6 \<le> shortest_digits n"
proof (cases "n < 2 ^ 53")
  case True
  with assms show ?thesis by (simp add: shortest_digits_def shortestFrom_exact)
next
  case False
  then have "(2::nat) ^ (log2 n + 1) \<le> 2 * n" using log2_bounds [of n] by simp
  then have "n * 2 ^ 54 - 2 * n \<le> lower_bound n" by (auto simp: lower_bound_def)
  also have "\<dots> \<le> shortest_digits n * 2 ^ 54" unfolding shortest_digits_def by (rule shortestFrom_lower)
  finally have "n * 2 ^ 54 \<le> shortest_digits n * 2 ^ 54 + 2 * n" by linarith
  with False show ?thesis by simp
qed

lemma limit_text:
  assumes "integral x = Some n"
  shows "(case floatText x of None \<Rightarrow> 0 | Some t \<Rightarrow> uint64OfText t) = (if n < 10 ^ 6 then of_nat n else 0)"
proof (cases "n < 10 ^ 6")
  case True
  then have "shortest_digits n = n" by (simp add: shortest_digits_def shortestFrom_exact)
  with True digits_of_small [OF True] assms show ?thesis
    by (auto simp: floatText_def formatG_def uint64OfText_def Let_def)
next
  case False
  then have large: "6 < length (nat_to_dec (shortest_digits n))"
    by (intro digits_of_large shortest_large) simp
  have "CHR ''e'' \<in> set (formatG n)" using large by (auto simp: formatG_def exponentText_def Let_def)
  moreover have "from_dec_char (CHR ''e'') = None" by (simp add: from_dec_char_def)
  ultimately have "uint64OfText (formatG n) = 0" by (simp add: uint64OfText_def parse_with_letter)
  with False assms show ?thesis by (simp add: floatText_def)
qed

lemma limit_fraction: "integral x = None \<Longrightarrow> floatText x = None"
  by (simp add: floatText_def)

text \<open>
  If the library looks the gas limit of custom transfers up through the text of the float, as the
  release that the program is built with does, a million or more, and any fraction, counts as 0.
\<close>

lemma gas_limit_through_text:
  assumes "GlobalUint64 ctx ''gas-limit-custom-transfer'' =
      (case floatText x of None \<Rightarrow> 0 | Some t \<Rightarrow> uint64OfText t)"
  shows "f_gasLimitCustomTransfer (getParsedCliFlags ctx) =
    (case integral x of None \<Rightarrow> 0 | Some n \<Rightarrow> if n < 10 ^ 6 then of_nat n else 0)"
  using assms limit_text [of x] limit_fraction [of x]
  by (cases "integral x") (simp_all add: getParsedCliFlags_def)

lemma flags_read:
  assumes "reads_flags logDebug given ctx" "well_typed logDebug given"
  shows "read_exactly logDebug given (getParsedCliFlags ctx)"
  using all_read [OF assms]
  by (simp add: getParsedCliFlags_def read_exactly_def read_as_meant_def flag_defs Let_def)

text \<open>\<open>uint32(...)\<close> keeps the lower 32 bits.\<close>

lemma unat_lower_half: "unat (ucast (n :: u64) :: u32) = unat n mod 2 ^ 32"
  by (simp add: unsigned_ucast_eq take_bit_eq_mod)

lemma flagName_uint:
  "flagName cliFlagObserverActualShard = ''observer-actual-shard''"
  "flagName cliFlagObserverProjectedShard = ''observer-projected-shard''"
  "flagName cliFlagNumShards = ''num-shards''"
  "flagName cliFlagFirstHistoricalEpoch = ''first-historical-epoch''"
  "flagName cliFlagNumHistoricalEpochs = ''num-historical-epochs''"
  "flagName cliFlagActivationEpochSirius = ''activation-epoch-sirius''"
  "flagName cliFlagActivationEpochSpica = ''activation-epoch-spica''"
  by (simp_all add: cliFlagObserverActualShard_def cliFlagObserverProjectedShard_def cliFlagNumShards_def cliFlagFirstHistoricalEpoch_def cliFlagNumHistoricalEpochs_def cliFlagActivationEpochSirius_def cliFlagActivationEpochSpica_def)

lemma flags_truncated:
  assumes "reads_flags logDebug given ctx" "well_typed logDebug given"
  shows "unat (f_observerActualShard (getParsedCliFlags ctx)) = unat (theUint (effective given cliFlagObserverActualShard)) mod 2 ^ 32"
    "unat (f_observerProjectedShard (getParsedCliFlags ctx)) = unat (theUint (effective given cliFlagObserverProjectedShard)) mod 2 ^ 32"
    "unat (f_numShards (getParsedCliFlags ctx)) = unat (theUint (effective given cliFlagNumShards)) mod 2 ^ 32"
    "unat (f_firstHistoricalEpoch (getParsedCliFlags ctx)) = unat (theUint (effective given cliFlagFirstHistoricalEpoch)) mod 2 ^ 32"
    "unat (f_numHistoricalEpochs (getParsedCliFlags ctx)) = unat (theUint (effective given cliFlagNumHistoricalEpochs)) mod 2 ^ 32"
    "unat (f_activationEpochSirius (getParsedCliFlags ctx)) = unat (theUint (effective given cliFlagActivationEpochSirius)) mod 2 ^ 32"
    "unat (f_activationEpochSpica (getParsedCliFlags ctx)) = unat (theUint (effective given cliFlagActivationEpochSpica)) mod 2 ^ 32"
proof -
  have uint: "GlobalUint ctx (flagName flag) = theUint (effective given flag)"
    if "flag \<in> set (getAllCliFlags logDebug)" "\<exists>d. flagDefault flag = VUint d" for flag
    using all_read(1) [OF assms] that by (cases flag) (auto simp: list_all_iff read_as_meant_def Let_def)
  have "GlobalUint ctx (flagName cliFlagObserverActualShard) = theUint (effective given cliFlagObserverActualShard)"
    "GlobalUint ctx (flagName cliFlagObserverProjectedShard) = theUint (effective given cliFlagObserverProjectedShard)"
    "GlobalUint ctx (flagName cliFlagNumShards) = theUint (effective given cliFlagNumShards)"
    "GlobalUint ctx (flagName cliFlagFirstHistoricalEpoch) = theUint (effective given cliFlagFirstHistoricalEpoch)"
    "GlobalUint ctx (flagName cliFlagNumHistoricalEpochs) = theUint (effective given cliFlagNumHistoricalEpochs)"
    "GlobalUint ctx (flagName cliFlagActivationEpochSirius) = theUint (effective given cliFlagActivationEpochSirius)"
    "GlobalUint ctx (flagName cliFlagActivationEpochSpica) = theUint (effective given cliFlagActivationEpochSpica)"
    by (rule uint; simp add: flag_defs)+
  then show "unat (f_observerActualShard (getParsedCliFlags ctx)) = unat (theUint (effective given cliFlagObserverActualShard)) mod 2 ^ 32"
    "unat (f_observerProjectedShard (getParsedCliFlags ctx)) = unat (theUint (effective given cliFlagObserverProjectedShard)) mod 2 ^ 32"
    "unat (f_numShards (getParsedCliFlags ctx)) = unat (theUint (effective given cliFlagNumShards)) mod 2 ^ 32"
    "unat (f_firstHistoricalEpoch (getParsedCliFlags ctx)) = unat (theUint (effective given cliFlagFirstHistoricalEpoch)) mod 2 ^ 32"
    "unat (f_numHistoricalEpochs (getParsedCliFlags ctx)) = unat (theUint (effective given cliFlagNumHistoricalEpochs)) mod 2 ^ 32"
    "unat (f_activationEpochSirius (getParsedCliFlags ctx)) = unat (theUint (effective given cliFlagActivationEpochSirius)) mod 2 ^ 32"
    "unat (f_activationEpochSpica (getParsedCliFlags ctx)) = unat (theUint (effective given cliFlagActivationEpochSpica)) mod 2 ^ 32"
    by (simp_all add: getParsedCliFlags_def unat_lower_half flagName_uint)
qed

end
