(* ===== verification/JsonTextFacts.thy ===== *)
theory JsonTextFacts
  imports JsonText
begin

text \<open>
  The file of the custom currencies, printed in the layout of \<open>cmd/rosetta/testdata\<close>, and the
  proof that the decoder reads such a text back.
\<close>

section \<open>The layout of the file\<close>

definition newline :: string where "newline = [CHR 0x0A]"

definition quoted :: "string \<Rightarrow> string" where
  "quoted s = CHR 0x22 # s @ [CHR 0x22]"

definition print_currency :: "Currency \<Rightarrow> string" where
  "print_currency c =
     newline @ ''    {'' @
     newline @ ''        '' @ quoted ''symbol'' @ '': '' @ quoted (Symbol c) @ '','' @
     newline @ ''        '' @ quoted ''decimals'' @ '': '' @ int_to_dec (Decimals c) @
     newline @ ''    }''"

fun print_entries :: "Currency list \<Rightarrow> string" where
  "print_entries [] = []"
| "print_entries [c] = print_currency c @ newline"
| "print_entries (c # cs) = print_currency c @ '','' @ print_entries cs"

definition print_currencies :: "Currency list \<Rightarrow> string" where
  "print_currencies cs = ''['' @ print_entries cs @ '']''"

text \<open>Symbols that need no escape, and numbers of decimals that fit an \<open>int32\<close>.\<close>

definition plain_char :: "char \<Rightarrow> bool" where
  "plain_char c = (c \<noteq> CHR 0x22 \<and> c \<noteq> CHR 0x5C \<and> 32 \<le> byte_code c \<and> byte_code c < 128)"

definition printable :: "Currency \<Rightarrow> bool" where
  "printable c = (list_all plain_char (Symbol c) \<and> - (2 ^ 31) \<le> Decimals c \<and> Decimals c < 2 ^ 31)"

section \<open>The tokens of the file\<close>

lemma tokens_space: "is_space c \<Longrightarrow> tokens (c # s) = tokens s"
  by (simp add: tokens.simps)

lemma tokens_spaces: "list_all is_space ws \<Longrightarrow> tokens (ws @ s) = tokens s"
  by (induction ws) (simp_all add: tokens_space)

lemma is_space_cases:
  "is_space c \<Longrightarrow> punctuation c = None"
  by (auto simp: is_space_def punctuation_def)

lemma tokens_punctuation: "punctuation c = Some t \<Longrightarrow> tokens (c # s) = map_option (Cons t) (tokens s)"
  using is_space_cases [of c] by (auto simp: tokens.simps scan_token_def)

lemma scan_plain:
  "list_all plain_char name \<Longrightarrow> scan_string (name @ CHR 0x22 # s) = Some (name, s)"
proof (induction name)
  case Nil
  then show ?case by (simp add: scan_string.simps)
next
  case (Cons c name)
  from Cons.prems have "plain_char c" by simp
  then have "rune_size c (name @ CHR 0x22 # s) = 1" "c \<noteq> CHR 0x22" "c \<noteq> CHR 0x5C" "\<not> byte_code c < 32"
    by (auto simp: plain_char_def rune_size_ascii)
  with Cons show ?case by (simp add: scan_string.simps prepend_def)
qed

lemma tokens_quoted:
  "list_all plain_char name \<Longrightarrow> tokens (quoted name @ s) = map_option (Cons (TkString name)) (tokens s)"
  using scan_plain [of name s]
  by (simp add: quoted_def tokens.simps scan_token_def punctuation_def is_space_def)


lemma hd_to_digits: "2 \<le> b \<Longrightarrow> 0 < n \<Longrightarrow> hd (to_digits b n) \<noteq> 0"
  using to_of_digits [of b "to_digits b n"] hd_dropWhile [of "\<lambda>d. d = 0" "to_digits b n"]
    to_digits_lt [of _ b n] to_digits_eq_Nil [of b n]
  by (auto simp: list_all_iff)

text \<open>What may follow a number: nothing that would belong to it.\<close>

definition ends_number :: "string \<Rightarrow> bool" where
  "ends_number s =
     (case s of [] \<Rightarrow> True | c # _ \<Rightarrow> \<not> is_digit c \<and> c \<noteq> CHR ''.'' \<and> c \<noteq> CHR ''e'' \<and> c \<noteq> CHR ''E'')"

lemma scan_digits_stop:
  "list_all is_digit ds \<Longrightarrow> ends_number s \<Longrightarrow> scan_digits (ds @ s) = (ds, s)"
  by (cases s) (simp_all add: scan_digits_def ends_number_def list_all_iff takeWhile_append dropWhile_append)

lemma scan_rest: "ends_number s \<Longrightarrow> scan_fraction s = Some ([], s) \<and> scan_exponent s = Some ([], s)"
  by (cases s) (simp_all add: ends_number_def scan_fraction_def scan_exponent_def)

lemma dec_digit_0: "d < 10 \<Longrightarrow> dec_digit d = CHR ''0'' \<longleftrightarrow> d = 0"
  by (drule less_10_cases) (auto simp: dec_digit_def)

lemma nat_to_dec_head:
  "\<exists>c cs. nat_to_dec n = c # cs \<and> is_digit c \<and> (c = CHR ''0'' \<longrightarrow> cs = [])"
proof (cases "n = 0")
  case True
  then show ?thesis by (simp add: nat_to_dec_def is_digit_def from_dec_char_def)
next
  case False
  then obtain d ds where ds: "to_digits 10 n = d # ds"
    using to_digits_eq_Nil [of 10 n] by (cases "to_digits 10 n") auto
  then have "d < 10" using to_digits_lt [of d 10 n] by simp
  with ds hd_to_digits [of 10 n] False have "dec_digit d \<noteq> CHR ''0''" by (simp add: dec_digit_0)
  with ds \<open>d < 10\<close> False show ?thesis by (simp add: nat_to_dec_def)
qed

text \<open>The part of \<open>scan_number\<close> behind the sign.\<close>

lemma scan_unsigned:
  assumes "ends_number s"
  shows "(if take 1 (nat_to_dec n @ s) = ''0'' then (''0'', drop 1 (nat_to_dec n @ s))
      else scan_digits (nat_to_dec n @ s)) = (nat_to_dec n, s)"
proof -
  obtain c cs where c: "nat_to_dec n = c # cs" "c = CHR ''0'' \<longrightarrow> cs = []"
    using nat_to_dec_head by blast
  have "list_all is_digit (nat_to_dec n)" by (simp add: list_all_iff nat_to_dec_digits)
  from scan_digits_stop [OF this assms] c show ?thesis by auto
qed

lemma scan_int:
  assumes "ends_number s"
  shows "scan_number (int_to_dec i @ s) = Some (int_to_dec i, s)"
proof -
  obtain c cs where c: "nat_to_dec (nat \<bar>i\<bar>) = c # cs" "is_digit c"
    using nat_to_dec_head by blast
  then have "c \<noteq> CHR ''-''" by (auto simp: is_digit_def from_dec_char_def)
  then have sign: "takeWhile (\<lambda>c. c = CHR ''-'') (take 1 (int_to_dec i @ s)) = (if i < 0 then ''-'' else [])"
    using c by (auto simp: int_to_dec_def)
  have "drop (length (if i < 0 then ''-'' else [])) (int_to_dec i @ s) = nat_to_dec (nat \<bar>i\<bar>) @ s"
    by (simp add: int_to_dec_def)
  then have "scan_number (int_to_dec i @ s) =
      Some ((if i < 0 then ''-'' else []) @ nat_to_dec (nat \<bar>i\<bar>), s)"
    unfolding scan_number_def Let_def sign
    by (simp only: scan_unsigned [OF assms] prod.case nat_to_dec_nonempty if_False scan_rest [OF assms]
        bind.bind_lunit option.map append_Nil2)
  then show ?thesis by (simp add: int_to_dec_def)
qed

lemma tokens_int:
  assumes "ends_number s"
  shows "tokens (int_to_dec i @ s) = map_option (Cons (TkNumber (int_to_dec i))) (tokens s)"
proof -
  obtain c cs where c: "int_to_dec i = c # cs" "c = CHR ''-'' \<or> is_digit c"
    using nat_to_dec_head [of "nat i"] by (cases "i < 0") (auto simp: int_to_dec_def)
  then have "\<not> is_space c" "punctuation c = None" "c \<noteq> CHR 0x22"
    by (auto simp: is_space_def punctuation_def is_digit_def from_dec_char_def)
  with c scan_int [OF assms, of i] show ?thesis by (simp add: tokens.simps scan_token_def)
qed


section \<open>What the decoder makes of the file\<close>

definition currency_tokens :: "Currency \<Rightarrow> token list" where
  "currency_tokens c =
     [TkLBrace, TkString ''symbol'', TkColon, TkString (Symbol c), TkComma,
      TkString ''decimals'', TkColon, TkNumber (int_to_dec (Decimals c)), TkRBrace]"

fun entry_tokens :: "Currency list \<Rightarrow> token list" where
  "entry_tokens [] = []"
| "entry_tokens [c] = currency_tokens c"
| "entry_tokens (c # cs) = currency_tokens c @ TkComma # entry_tokens cs"

lemma punctuation_simps [simp]:
  "punctuation (CHR ''{'') = Some TkLBrace" "punctuation (CHR ''}'') = Some TkRBrace"
  "punctuation (CHR ''['') = Some TkLBracket" "punctuation (CHR '']'') = Some TkRBracket"
  "punctuation (CHR '','') = Some TkComma" "punctuation (CHR '':'') = Some TkColon"
  by (simp_all add: punctuation_def)

lemma tokens_print_currency:
  assumes "printable c"
  shows "tokens (print_currency c @ s) = map_option (append (currency_tokens c)) (tokens s)"
proof -
  have name: "list_all plain_char (Symbol c)" using assms by (simp add: printable_def)
  have space: "is_space (CHR 0x0A)" "is_space (CHR '' '')" by (simp_all add: is_space_def)
  have words: "list_all plain_char ''symbol''" "list_all plain_char ''decimals''"
    by (simp_all add: plain_char_def)
  have ends: "ends_number (CHR 0x0A # t)" for t
    by (simp add: ends_number_def is_digit_def from_dec_char_def)
  show ?thesis
    by (cases "tokens s")
      (simp_all add: print_currency_def newline_def currency_tokens_def tokens_space space
        tokens_punctuation tokens_int ends tokens_quoted [OF words(1)] tokens_quoted [OF words(2)]
        tokens_quoted [OF name])
qed

lemma tokens_print_entries:
  "list_all printable cs \<Longrightarrow> tokens (print_entries cs @ s) = map_option (append (entry_tokens cs)) (tokens s)"
proof (induction cs rule: print_entries.induct)
  case 1
  then show ?case by (cases "tokens s") simp_all
next
  case (2 c)
  then show ?case
    by (simp add: tokens_print_currency newline_def tokens_space is_space_def)
next
  case (3 c d cs)
  then show ?case
    by (cases "tokens s") (simp_all add: tokens_print_currency tokens_punctuation)
qed

lemma tokens_print_currencies:
  assumes "list_all printable cs" "list_all is_space ws"
  shows "tokens (print_currencies cs @ ws) = Some (TkLBracket # entry_tokens cs @ [TkRBracket])"
  using assms tokens_spaces [of ws "[]"]
  by (simp add: print_currencies_def tokens_punctuation tokens_print_entries)

definition json_of_currency :: "Currency \<Rightarrow> json_value" where
  "json_of_currency c =
     TObject [(''symbol'', TString (Symbol c)), (''decimals'', TNumber (int_to_dec (Decimals c)))]"

lemmas reader_simps = read_token_def value_due_def literal_value_def deliver_def

lemma read_currency:
  "read_tokens (currency_tokens c @ ts) (Reading (ArrayStart # st)) =
     read_tokens ts (Reading (ArrayNext [json_of_currency c] # st))"
  "read_tokens (currency_tokens c @ ts) (Reading (ArrayValue vs # st)) =
     read_tokens ts (Reading (ArrayNext (json_of_currency c # vs) # st))"
  by (simp_all add: currency_tokens_def reader_simps json_of_currency_def)

lemma read_entries:
  "cs \<noteq> [] \<Longrightarrow> read_tokens (entry_tokens cs @ ts) (Reading (ArrayValue vs # st)) =
     read_tokens ts (Reading (ArrayNext (rev (map json_of_currency cs) @ vs) # st))"
proof (induction cs arbitrary: vs rule: entry_tokens.induct)
  case (3 c d cs)
  then show ?case by (simp add: read_currency reader_simps)
qed (simp_all add: read_currency)

lemma read_array:
  "read_tokens (TkLBracket # entry_tokens cs @ [TkRBracket]) (Reading []) =
     Some (TArray (map json_of_currency cs))"
proof -
  have start: "read_tokens (TkLBracket # ts) (Reading []) = read_tokens ts (Reading [ArrayStart])" for ts
    by (simp add: reader_simps)
  show ?thesis
  proof (cases cs rule: entry_tokens.cases)
    case (3 c d ds)
    with read_entries [of "d # ds" "[TkRBracket]" "[json_of_currency c]" "[]"] show ?thesis
      unfolding start by (simp add: read_currency reader_simps)
  qed (simp_all only: start, simp_all add: read_currency reader_simps)
qed

lemma currency_of_json_of_currency:
  "printable c \<Longrightarrow> currency_of_json (json_of_currency c) = Inr c"
  by (simp add: json_of_currency_def currency_of_json_def currency_entry_def literal_int32_def
      printable_def zeroCurrency_def fold_name.simps)

lemma unmarshal_print_currencies:
  assumes "list_all printable cs" "list_all is_space ws"
  shows "unmarshalCurrencies (print_currencies cs @ ws) = Inr cs"
proof -
  have "traverse currency_of_json (map json_of_currency cs) = Inr cs"
    using assms(1) by (induction cs) (simp_all add: currency_of_json_of_currency)
  moreover have "parse_json (print_currencies cs @ ws) = Some (TArray (map json_of_currency cs))"
    unfolding parse_json_def tokens_print_currencies [OF assms] bind.bind_lunit by (rule read_array)
  ultimately show ?thesis by (simp add: unmarshalCurrencies_def)
qed

section \<open>Errors of the observer\<close>

text \<open>The body of a response that holds an error: no data, a message and a code.\<close>

definition print_api_error :: "string \<Rightarrow> string \<Rightarrow> string" where
  "print_api_error message code =
     ''{'' @ quoted ''data'' @ '':'' @ ''null'' @ '','' @ quoted ''error'' @ '':'' @ quoted message @ '','' @
     quoted ''code'' @ '':'' @ quoted code @ ''}''"

lemma tokens_null: "tokens (''null'' @ s) = map_option (Cons TkNull) (tokens s)"
  by (simp add: tokens.simps scan_token_def punctuation_def keyword_def is_space_def is_digit_def from_dec_char_def)

lemma unmarshal_print_api_error:
  assumes "list_all plain_char message" "list_all plain_char code"
  shows "unmarshalApiError (print_api_error message code) = Inr \<lparr>sae_Error = message, sae_Code = code\<rparr>"
proof -
  have names: "list_all plain_char ''data''" "list_all plain_char ''error''" "list_all plain_char ''code''"
    by (simp_all add: plain_char_def)
  have "tokens (print_api_error message code) =
      Some [TkLBrace, TkString ''data'', TkColon, TkNull, TkComma, TkString ''error'', TkColon, TkString message,
            TkComma, TkString ''code'', TkColon, TkString code, TkRBrace]"
    using tokens_null
    by (simp add: print_api_error_def tokens_punctuation punctuation_def tokens_quoted [OF names(1)]
        tokens_quoted [OF names(2)] tokens_quoted [OF names(3)] tokens_quoted [OF assms(1)]
        tokens_quoted [OF assms(2)])
  then have "parse_json (print_api_error message code) =
      Some (TObject [(''data'', TNull), (''error'', TString message), (''code'', TString code)])"
    by (simp add: parse_json_def reader_simps)
  then show ?thesis
    by (simp add: unmarshalApiError_def api_error_entry_def zeroApiError_def fold_name.simps)
qed

section \<open>The files of the tests\<close>

text \<open>The content of \<open>custom-currencies.json\<close>, line by line, and of \<open>custom-currencies-bad.json\<close>.\<close>

definition testdata_currencies :: "Currency list" where
  "testdata_currencies =
     [\<lparr>Symbol = ''WEGLD-bd4d79'', Decimals = 18\<rparr>, \<lparr>Symbol = ''USDC-c76f1f'', Decimals = 6\<rparr>]"

definition testdata_lines :: "string list" where
  "testdata_lines =
     [''['',
      ''    {'',
      ''        '' @ quoted ''symbol'' @ '': '' @ quoted ''WEGLD-bd4d79'' @ '','',
      ''        '' @ quoted ''decimals'' @ '': 18'',
      ''    },'',
      ''    {'',
      ''        '' @ quoted ''symbol'' @ '': '' @ quoted ''USDC-c76f1f'' @ '','',
      ''        '' @ quoted ''decimals'' @ '': 6'',
      ''    }'',
      '']'']"

lemma testdata_printed:
  "concat (map (\<lambda>l. l @ newline) testdata_lines) = print_currencies testdata_currencies @ newline"
  by (simp add: testdata_lines_def testdata_currencies_def print_currencies_def print_currency_def
      newline_def quoted_def int_to_dec_def nat_to_dec_def to_digits.simps dec_digit_def)

lemma testdata_printable: "list_all printable testdata_currencies"
  by (simp add: testdata_currencies_def printable_def plain_char_def)

lemma newline_space: "list_all is_space newline"
  by (simp add: newline_def is_space_def)

lemma testdata_loaded:
  "unmarshalCurrencies (concat (map (\<lambda>l. l @ newline) testdata_lines)) = Inr testdata_currencies"
  unfolding testdata_printed by (rule unmarshal_print_currencies [OF testdata_printable newline_space])

lemma testdata_bad: "unmarshalCurrencies (''{}'' @ newline) = Inl (JsonTypeError ''[]Currency'')"
  by (simp add: newline_def tokens_space is_space_def unmarshalCurrencies_def parse_json_def tokens_punctuation reader_simps)

end
