(* ===== verification/SampleSetups.thy ===== *)
theory SampleSetups
  imports SampleRuns Typing TestDoubles CommandLine JsonTextFacts
begin

text \<open>
  More of the sample platform: a mock that holds what the sample server holds, and the context of
  the flag library for any command line.
\<close>

section \<open>A mock of the sample server\<close>

text \<open>The sample server, when it handles contracts as well.\<close>

definition contractArgs :: ArgsNewNetworkProvider where
  "contractArgs = sampleArgs\<lparr>a_ShouldHandleContracts := True\<rparr>"

abbreviation contractP :: "(sample_cache \<times> unit) NetworkProvider" where
  "contractP \<equiv> serverProvider sampleExternals contractArgs"

definition sampleMockLibrary :: MockLibrary where
  "sampleMockLibrary =
     \<lparr>ml_Encode = ext_Encode (sampleExternals :: (sample_cache, unit) Externals),
      ml_Decode = ext_Decode (sampleExternals :: (sample_cache, unit) Externals),
      ml_NewMultiShardCoordinator = (\<lambda>shards self. Inr (\<lambda>k. 0)),
      ml_SafeMul = ext_SafeMul (sampleExternals :: (sample_cache, unit) Externals)\<rparr>"

definition sampleMock :: networkProviderMock where
  "sampleMock = NewNetworkProviderMock\<lparr>MockNativeCurrencySymbol := a_NativeCurrencySymbol contractArgs,
     MockCustomCurrencies := a_CustomCurrencies contractArgs,
     MockObservedActualShard := a_ObservedActualShard contractArgs,
     MockObservedProjectedShard := a_ObservedProjectedShard contractArgs,
     MockObservedProjectedShardIsSet := a_ObservedProjectedShardIsSet contractArgs,
     MockGenesisBlockHash := a_GenesisBlockHash contractArgs,
     MockGenesisTimestamp := a_GenesisTimestamp contractArgs,
     MockActivationEpochSirius := a_ActivationEpochSirius contractArgs,
     MockActivationEpochSpica := a_ActivationEpochSpica contractArgs,
     MockNetworkConfig := np_GetNetworkConfig contractP\<rparr>"

lemma sample_mock_configured:
  "mock_configured (sampleExternals :: (sample_cache, unit) Externals) contractArgs sampleMockLibrary sampleMock"
  by (simp add: mock_configured_def sampleMockLibrary_def sampleMock_def NewNetworkProviderMock_def
      mock_ComputeShardIdOfPubKey_def fun_eq_iff) (simp add: sampleExternals_def)

lemma sample_contract_args:
  "distinct (map Symbol (a_CustomCurrencies contractArgs))" "\<not> a_ObservedProjectedShardIsSet contractArgs"
  "a_ShouldHandleContracts contractArgs" "ext_Decode sampleExternals a \<noteq> Inr []"
  by (simp_all add: contractArgs_def sampleArgs_def sampleExternals_def)

lemma sample_contract_block:
  "\<exists>rtxs. transformBlockTxs sampleLibrary contractP (sampleChain n) = Inr rtxs \<and> rtxs \<noteq> []"
  by (rule sample_block_of)
    (simp_all add: provider_simps IsAddressObserved_def ConvertAddressToPubKey_def contractArgs_def sample_simps Let_def)

section \<open>A context for a command line\<close>

definition flagOf :: "string \<Rightarrow> string \<Rightarrow> Flag option" where
  "flagOf logDebug name = List.find (\<lambda>flag. flagName flag = name) (getAllCliFlags logDebug)"

lemma flagOf_name:
  assumes "distinct (map flagName (getAllCliFlags logDebug))" "flag \<in> set (getAllCliFlags logDebug)"
  shows "flagOf logDebug (flagName flag) = Some flag"
proof -
  have "List.find (\<lambda>f. flagName f = flagName flag) flags = Some flag"
    if "distinct (map flagName flags)" "flag \<in> set flags" for flags
    using that by (induction flags) auto
  with assms show ?thesis by (simp add: flagOf_def)
qed

text \<open>What the library looks up for a flag that the command line gives the value of.\<close>

definition contextOf :: "string \<Rightarrow> (string \<rightharpoonup> flag_value) \<Rightarrow> Context" where
  "contextOf logDebug given =
     (let val = (\<lambda>name. map_option (effective given) (flagOf logDebug name)) in
      \<lparr>GlobalInt = (\<lambda>name. case val name of Some (VInt i) \<Rightarrow> i | _ \<Rightarrow> 0),
       GlobalBool = (\<lambda>name. case val name of Some (VBool b) \<Rightarrow> b | _ \<Rightarrow> False),
       GlobalString = (\<lambda>name. case val name of Some (VString s) \<Rightarrow> s | _ \<Rightarrow> []),
       GlobalUint = (\<lambda>name. case val name of Some (VUint n) \<Rightarrow> n | _ \<Rightarrow> 0),
       GlobalInt64 = (\<lambda>name. case val name of Some (VInt64 i) \<Rightarrow> i | _ \<Rightarrow> 0),
       GlobalUint64 = (\<lambda>name. case val name of
           Some (VUint n) \<Rightarrow> n
         | Some (VUint64 n) \<Rightarrow> n
         | Some (VFloat64 x) \<Rightarrow> (case floatText x of None \<Rightarrow> 0 | Some t \<Rightarrow> uint64OfText t)
         | _ \<Rightarrow> 0),
       GlobalFloat64 = (\<lambda>name. case val name of Some (VFloat64 x) \<Rightarrow> x | _ \<Rightarrow> \<lparr>mantissa = 0, exponent = 0\<rparr>),
       GlobalIsSet = (\<lambda>name. given name \<noteq> None)\<rparr>)"

lemma flag_names_distinct: "distinct (map flagName (getAllCliFlags logDebug))"
  by (simp add: getAllCliFlags_def flag_defs)

lemma context_reads_flags: "reads_flags logDebug given (contextOf logDebug given)"
proof -
  have "looked_up (contextOf logDebug given) (flagName flag) (effective given flag)"
    if "flag \<in> set (getAllCliFlags logDebug)" for flag
    using flagOf_name [OF flag_names_distinct that]
    by (simp add: looked_up_def contextOf_def Let_def split: flag_value.split)
  then show ?thesis by (auto simp: reads_flags_def list_all_iff contextOf_def Let_def)
qed

lemma defaults_well_typed: "same_kind (flagDefault flag) (flagDefault flag)"
  by (cases flag) simp_all

text \<open>Three shards more than a number of 32 bits can hold, asked for on the command line.\<close>

definition sampleGiven :: "string \<rightharpoonup> flag_value" where
  "sampleGiven = [''num-shards'' \<mapsto> VUint 4294967299]"

lemma sample_given_typed: "well_typed logDebug sampleGiven"
proof -
  have "same_kind (flagDefault flag) (effective sampleGiven flag)"
    if "flag \<in> set (getAllCliFlags logDebug)" for flag
  proof (cases "flagName flag = ''num-shards''")
    case True
    have "flagName cliFlagNumShards = ''num-shards''" "cliFlagNumShards \<in> set (getAllCliFlags logDebug)"
      by (simp_all add: cliFlagNumShards_def getAllCliFlags_def)
    then have "flag = cliFlagNumShards"
      using flagOf_name [OF flag_names_distinct that] True
        flagOf_name [OF flag_names_distinct, of cliFlagNumShards logDebug] by simp
    then show ?thesis by (simp add: effective_def sampleGiven_def cliFlagNumShards_def)
  next
    case False
    then show ?thesis by (simp add: effective_def sampleGiven_def defaults_well_typed)
  qed
  then show ?thesis by (simp add: well_typed_def list_all_iff)
qed

section \<open>A server with a file of currencies\<close>

definition filePlatform :: "(unit, sample_cache, unit) Platform" where
  "filePlatform = samplePlatform\<lparr>readFile :=
     (\<lambda>name. if name = ''custom-currencies.json'' then Inr (concat (map (\<lambda>l. l @ newline) testdata_lines))
             else Inl (ErrorsNew ''no such file''))\<rparr>"

definition fileContext :: Context where
  "fileContext = (sampleContext False)\<lparr>GlobalString :=
     (\<lambda>name. if name = ''config-custom-currencies'' then ''custom-currencies.json''
             else if name = ''native-currency'' then ''EGLD'' else [])\<rparr>"

lemma file_content: "readFile filePlatform ''custom-currencies.json'' = Inr (print_currencies testdata_currencies @ newline)"
  by (simp add: filePlatform_def testdata_printed)

lemma file_started: "\<exists>sv. startRosetta filePlatform fileContext = Inr sv"
proof (rule sample_start)
  show "decideCustomCurrencies (readFile filePlatform)
      (f_configFileCustomCurrencies (getParsedCliFlags fileContext)) = Inr testdata_currencies"
    by (simp add: decideCustomCurrencies_def loadConfigOfCustomCurrencies_def getParsedCliFlags_def
        fileContext_def filePlatform_def testdata_loaded)
  show "\<exists>registered. registerCurrencies 0 testdata_currencies Map.empty [] = Inr registered"
    by (simp add: testdata_currencies_def Let_def)
qed (simp_all add: filePlatform_def samplePlatform_def)

section \<open>More runs\<close>

lemma unknown_type_refused_witness:
  "transformBlockTxs sampleLibrary sampleP
     (plainBlock 5 [plainMiniblock ''Normal'' [plainTx\<lparr>tx_Type := ''peculiar''\<rparr>]]) =
   Inl (unknownTransactionType ''peculiar'')"
  using unknown_type_refused [of "plainBlock 5 [plainMiniblock ''Normal'' [plainTx\<lparr>tx_Type := ''peculiar''\<rparr>]]"
      "[]" "plainTx\<lparr>tx_Type := ''peculiar'', tx_BlockNonce := 5\<rparr>" "[]" sampleLibrary sampleP]
  by (simp add: txsOfBlock_def plainBlock_def plainMiniblock_def filterTxsOfBlock_one_pass tx_type_defs
      isRelayedV1Transaction_def plainTx_def)

lemma self_referring_result_never_returns_witness:
  "findImmediatelyExecutingContractResultsOfTransaction 0 plainTx
     (directResults [plainTx\<lparr>tx_PreviousTransactionHash := ''aa''\<rparr>]) = None"
  by (rule self_referring_result_never_returns [of "plainTx\<lparr>tx_PreviousTransactionHash := ''aa''\<rparr>"])
    (simp_all add: plainTx_def)

lemma observed_addresses_witness:
  "IsAddressObserved sampleExternals sampleProvider ''sc-contract'' = Inr False \<and>
   IsAddressObserved sampleExternals sampleProvider ''alice'' = Inr True \<and>
   (\<exists>e. IsAddressObserved sampleExternals sampleProvider [] = Inl e)"
proof -
  have "ext_Decode sampleExternals ''sc-contract'' = Inr ''sc-contract''"
    "ext_Decode sampleExternals ''alice'' = Inr ''alice''"
    "\<exists>e. ext_Decode sampleExternals [] = Inl e" by (simp_all add: sampleExternals_def)
  with observed_addresses [of sampleExternals "''sc-contract''" sampleProvider]
    observed_addresses [of sampleExternals "''alice''" sampleProvider]
    observed_addresses [of sampleExternals "[]" sampleProvider]
  show ?thesis
    by (auto simp: sampleProvider_def providerOfArgs_def sampleArgs_def sampleExternals_def sampleLibrary_def
        has_prefix_def)
qed

text \<open>The extraction of local burns fails exactly when some burn event of the log does not
  have three topics; otherwise it gives one typed event per burn event, in order, with the token,
  the nonce and the number that the value topic denotes.\<close>

lemma local_burns_extracted:
  "((\<exists>e. extractEventsESDTLocalBurn tx = Inl e) \<longleftrightarrow>
      (\<exists>ev \<in> set (logEvents tx). ev_Identifier ev = transactionEventESDTLocalBurn \<and> length (ev_Topics ev) \<noteq> 3)) \<and>
   (\<forall>ts. extractEventsESDTLocalBurn tx = Inr ts \<longrightarrow>
      list_all2 (esdt_typed_of ev_Address)
        (filter (\<lambda>ev. ev_Identifier ev = transactionEventESDTLocalBurn) (logEvents tx)) ts)"
  using localBurn.extract_fails_iff [of tx] localBurn.extract_typed [of tx]
  by (auto simp: findManyEventsByIdentifier_set findManyEventsByIdentifier_filter)

lemma local_burns_extracted_witness:
  "\<exists>ts. extractEventsESDTLocalBurn burnTx = Inr ts \<and> length ts = 1 \<and>
     list_all2 (esdt_typed_of ev_Address) (logEvents burnTx) ts"
proof -
  have "\<nexists>e. extractEventsESDTLocalBurn burnTx = Inl e"
    using local_burns_extracted [of burnTx] by (simp add: burnTx_def logEvents_def)
  then obtain ts where ts: "extractEventsESDTLocalBurn burnTx = Inr ts"
    by (cases "extractEventsESDTLocalBurn burnTx") auto
  with local_burns_extracted [of burnTx] have "list_all2 (esdt_typed_of ev_Address) (logEvents burnTx) ts"
    by (simp add: burnTx_def logEvents_def)
  with ts show ?thesis by (auto simp: burnTx_def logEvents_def dest: list_all2_lengthD)
qed

text \<open>The answer for the balance of an account in the native currency: its amount and its block
  are those that the observer gives for the options of the request, its currency is the native
  one, and the metadata hold the nonce of the account.\<close>

lemma balance_is_the_observers:
  assumes "\<not> p_isOffline p" "address \<noteq> []" "blockIdentifierToAccountQueryOptions i = Inr opts"
    and "of_GetAccount E (p_observerUrl p) (buildUrlGetAccountNativeBalance address opts) w = (Inr response, w')"
    and "GetErrorMessage response = []"
  shows "doGetAccountBalance (asNetworkProvider E p) i address [] (c, w) =
    (Inr \<lparr>abr_BlockIdentifier = accountBlockCoordinatesToIdentifier (aob_BlockCoordinates (ar_Data response)),
          abr_Balances = [valueToNativeAmount (asNetworkProvider E p) (ac_Balance (aob_Account (ar_Data response)))],
          abr_Metadata = [''nonce'' \<mapsto> OUint64 (ac_Nonce (aob_Account (ar_Data response)))]\<rparr>, (c, w'))"
proof -
  have "np_GetAccountBalance (asNetworkProvider E p) address (getNativeCurrencySymbol (asNetworkProvider E p)) opts (c, w) =
      (Inr \<lparr>abb_Balance = ac_Balance (aob_Account (ar_Data response)),
            abb_Nonce = \<lparr>ou_Value = ac_Nonce (aob_Account (ar_Data response)), ou_HasValue = True\<rparr>,
            abb_BlockCoordinates = aob_BlockCoordinates (ar_Data response)\<rparr>, (c, w'))"
    using assms by (simp add: asNetworkProvider_def GetAccountBalance_def getNativeCurrencySymbol_def
        GetNativeCurrency_def getNativeBalance_def map_error_def getResource_def bind_step_def
        getResourceWithErrConversion_def ask_def)
  with assms(2,3) show ?thesis
    by (simp add: doGetAccountBalance_def Let_def getNativeCurrencySymbol_def valueToAmount_def isNativeCurrencySymbol_def)
qed

lemma balance_is_the_observers_witness:
  "fst (doGetAccountBalance (asNetworkProvider sampleExternals sampleProvider) None ''alice'' [] ([], ())) =
     Inr \<lparr>abr_BlockIdentifier = \<lparr>bi_Index = 8, bi_Hash = ''hash8''\<rparr>,
          abr_Balances = [valueToNativeAmount sampleP ''1000''], abr_Metadata = [''nonce'' \<mapsto> OUint64 7]\<rparr>"
proof -
  have "of_GetAccount sampleExternals (p_observerUrl sampleProvider)
      (buildUrlGetAccountNativeBalance ''alice'' NewAccountQueryOptionsOnFinalBlock) () = (Inr (ok sampleAccount), ())"
    by (simp add: sampleExternals_def)
  from balance_is_the_observers [OF sample_online(1) _ _ this, of None "[]"] show ?thesis
    by (simp add: blockIdentifierToAccountQueryOptions_def ok_def GetErrorMessage_def sampleAccount_def
        accountBlockCoordinatesToIdentifier_def int64_of_uint64_def sampleP_asNetworkProvider)
qed

text \<open>The currency symbol that the operations use for a token with a nonce is understood by
  the balance endpoint: the identifier extended by the bytes of the nonce leads to the balance of
  that token at that nonce.\<close>

lemma extended_identifiers_are_understood:
  assumes "esdt_identifier ev = ticker @ ''-'' @ random" "CHR ''-'' \<notin> set ticker" "CHR ''-'' \<notin> set random"
    and "length (nonceAsBytes ev) \<le> 8" "0 < of_digits 256 (map of_char (nonceAsBytes ev) :: nat list)"
  shows "decideCustomTokenBalanceUrl address (getExtendedIdentifier ev) opts =
    Inr (buildUrlGetAccountNonFungibleTokenBalance address (ticker @ ''-'' @ random)
      (of_nat (of_digits 256 (map of_char (nonceAsBytes ev)))) opts)"
proof -
  have ne: "nonceAsBytes ev \<noteq> []" using assms(5) by (auto simp: of_digits_def)
  have "of_digits 256 (map of_char (nonceAsBytes ev) :: nat list) < 256 ^ length (map of_char (nonceAsBytes ev) :: nat list)"
    by (rule of_digits_bound) auto
  also have "\<dots> \<le> 256 ^ 8" using assms(4) by (intro power_increasing) simp_all
  finally have "unat (of_nat (of_digits 256 (map of_char (nonceAsBytes ev))) :: u64) =
      of_digits 256 (map of_char (nonceAsBytes ev))"
    by (simp add: unat_of_nat)
  with assms(5) have "(of_nat (of_digits 256 (map of_char (nonceAsBytes ev))) :: u64) \<noteq> 0" by auto
  with parse_extended_identifier [OF assms(2,3) ne assms(4)] show ?thesis
    by (simp add: decideCustomTokenBalanceUrl_def getExtendedIdentifier_def ne assms(1))
qed

lemma extended_identifiers_are_understood_witness:
  "decideCustomTokenBalanceUrl ''alice'' (getExtendedIdentifier sampleNFT) NewAccountQueryOptionsOnFinalBlock =
   Inr (buildUrlGetAccountNonFungibleTokenBalance ''alice'' ''NFT-0a1b2c'' 258 NewAccountQueryOptionsOnFinalBlock)"
  using extended_identifiers_are_understood [of sampleNFT "''NFT''" "''0a1b2c''" "''alice''"
      NewAccountQueryOptionsOnFinalBlock]
  by (simp add: sampleNFT_def of_digits_def)

text \<open>The fee that an invalid transaction is charged for data movement is the product of its gas
  price and of the minimum gas, the gas of its data and the extra gas of guarded and relayed
  transactions, as long as that gas fits in 64 bits (\<open>core.SafeMul\<close> multiplies without overflow).\<close>

lemma move_balance_fee:
  assumes "\<And>a b. ext_SafeMul E a b = unat a * unat b"
    and "unat (nc_MinGasLimit (p_networkConfig p)) +
      unat (nc_GasPerDataByte (p_networkConfig p)) * length (tx_Data tx) +
      (if tx_GuardianAddr tx \<noteq> [] then unat (nc_ExtraGasLimitGuardedTx (p_networkConfig p)) else 0) +
      (if IsRelayedTxV3 tx then unat (nc_ExtraGasLimitRelayedTxV3 (p_networkConfig p)) else 0) < 2 ^ 64"
  shows "ComputeTransactionFeeForMoveBalance E p tx =
    (int (unat (nc_MinGasLimit (p_networkConfig p))) +
     int (unat (nc_GasPerDataByte (p_networkConfig p))) * int (length (tx_Data tx)) +
     (if tx_GuardianAddr tx \<noteq> [] then int (unat (nc_ExtraGasLimitGuardedTx (p_networkConfig p))) else 0) +
     (if IsRelayedTxV3 tx then int (unat (nc_ExtraGasLimitRelayedTxV3 (p_networkConfig p))) else 0)) *
    int (unat (tx_GasPrice tx))"
proof -
  have "unat (gasLimitForMoveBalance p tx) = gasForMoveBalance p tx"
    using assms(2) by (intro gasLimit_exact) (simp add: gasForMoveBalance_def Let_def)
  then show ?thesis
    by (simp add: ComputeTransactionFeeForMoveBalance_def assms(1) gasForMoveBalance_def Let_def
        del: uint_nat of_nat_unat flip: of_nat_mult of_nat_add)
qed

lemma move_balance_fee_witness:
  "ComputeTransactionFeeForMoveBalance sampleExternals sampleProvider
     (plainTx\<lparr>tx_Data := ''hi'', tx_GuardianAddr := ''guard''\<rparr>) = 103000 * 1000000000"
proof -
  have mul: "ext_SafeMul sampleExternals a b = unat a * unat b" for a b
    by (simp add: sampleExternals_def)
  have "p_networkConfig sampleProvider = np_GetNetworkConfig sampleP"
    by (simp add: sampleP_asNetworkProvider asNetworkProvider_def)
  from move_balance_fee [OF mul, of sampleProvider "plainTx\<lparr>tx_Data := ''hi'', tx_GuardianAddr := ''guard''\<rparr>"]
  show ?thesis
    by (simp add: \<open>p_networkConfig sampleProvider = _\<close> sampleP_fields plainTx_def IsRelayedTxV3_def)
qed

lemma large_nonces_are_altered:
  "newConstructionMetadata (metadataToObjectsMap (noMetadata\<lparr>cm_Nonce := 9007199254740993\<rparr>)) =
     Inr (noMetadata\<lparr>cm_Nonce := 9007199254740992\<rparr>) \<and>
   (\<exists>e. newConstructionMetadata (metadataToObjectsMap (noMetadata\<lparr>cm_Nonce := 18446744073709551615\<rparr>)) = Inl e)"
  by (simp add: newConstructionMetadata_def metadataToObjectsMap_def object_simps metadataFields_def noMetadata_def
      large_nonce_fields)

lemma invalid_sender_is_coerced:
  "newConstructionMetadata (metadataToObjectsMap (noMetadata\<lparr>cm_Sender := [CHR 0xFF]\<rparr>)) =
     Inr (noMetadata\<lparr>cm_Sender := [CHR 0xEF, CHR 0xBF, CHR 0xBD]\<rparr>)"
  using metadata_roundtrip [of "noMetadata\<lparr>cm_Sender := [CHR 0xFF]\<rparr>"]
  by (simp add: noMetadata_def coerced_metadata_def coerce_ff)

section \<open>An observer that refuses blocks\<close>

definition refusingExternals :: "(sample_cache, unit) Externals" where
  "refusingExternals = sampleExternals
     \<lparr>of_GetBlockByNonce := (\<lambda>shard n opts w.
        (Inl (ErrorsNew (print_api_error ''block not found'' ''internal_issue'')), w)),
      ext_ErrorText := (\<lambda>e. case e of ErrorsNew s \<Rightarrow> s | _ \<Rightarrow> [])\<rparr>"

lemma refusing_latest: "getLatestBlockNonce refusingExternals sampleProvider s = (Inr 8, s)"
  by (cases s, simp add: getLatestBlockNonce_def getPlainNodeStatus_def sample_online getResource_def bind_step_def
      getResourceWithErrConversion_def ask_def refusingExternals_def sampleExternals_def ok_def GetErrorMessage_def
      sampleStatus_def getLatestNonceGivenHighestFinalNonce_def nonceDelta_def)

lemma refusing_genesis: "bi_Index (getGenesisBlockIdentifier (asNetworkProvider refusingExternals sampleProvider)) = 0"
  using sample_genesis
  by (simp add: getGenesisBlockIdentifier_def asNetworkProvider_def GetGenesisBlockSummary_def)

lemma refusing_lookup: "cache_Get refusingExternals k c = (map_of c k, c)"
  by (simp add: refusingExternals_def sampleExternals_def)

lemma refusing_answer:
  "of_GetBlockByNonce refusingExternals shard n opts w =
     (Inl (ErrorsNew (print_api_error ''block not found'' ''internal_issue'')), w)"
  "ext_ErrorText refusingExternals (ErrorsNew s) = s"
  "list_all plain_char ''block not found''" "list_all plain_char ''internal_issue''"
  by (simp_all add: refusingExternals_def plain_char_def)

end
