(* ===== verification/BlockStoreSamples.thy ===== *)
theory BlockStoreSamples
  imports NonceReads SampleSetups
begin

text \<open>
  The sample platform with a cache of pointers, and an undisturbed run of two block requests.
\<close>

definition samplePointers :: "(bytes \<times> addr) list PointerCache" where
  "samplePointers = \<lparr>pc_Get = (\<lambda>k d. (map_of d k, d)), pc_Put = (\<lambda>k a d. (k, a) # d)\<rparr>"

definition sampleAlike :: "(addr \<Rightarrow> Block \<Rightarrow> bool) \<Rightarrow> (bytes \<times> addr) list \<Rightarrow> sample_cache \<Rightarrow> bool" where
  "sampleAlike R = list_all2 (rel_prod (=) R)"

lemma sample_alike_lookup: "sampleAlike R d c \<Longrightarrow> rel_option R (map_of d k) (map_of c k)"
  unfolding sampleAlike_def by (induction d c rule: list_all2_induct) auto

lemma sample_parametric: "parametric_cache samplePointers sampleExternals sampleAlike"
  unfolding parametric_cache_def
proof (intro conjI allI impI)
  fix R R' :: "addr \<Rightarrow> Block \<Rightarrow> bool" and d c
  assume "sampleAlike R d c" "\<forall>a b. R a b \<longrightarrow> R' a b"
  then show "sampleAlike R' d c" unfolding sampleAlike_def by (auto elim!: list_all2_mono)
qed (auto simp: samplePointers_def sampleExternals_def sample_alike_lookup, auto simp: sampleAlike_def)

lemma sample_enumerates: "enumerates (ext_enum sampleExternals) (\<lambda>ks. ks)"
proof -
  have "m = inOrder (\<lambda>ks. ks) m" if "distinct (map fst m)" for m :: txs_by_hash
  proof (rule nth_equalityI)
    fix i
    assume "i < length m"
    with that have "map_of m (fst (m ! i)) = Some (snd (m ! i))" by (simp add: map_of_is_SomeI)
    with \<open>i < length m\<close> show "m ! i = inOrder (\<lambda>ks. ks) m ! i" by (simp add: inOrder_def)
  qed (simp add: inOrder_def)
  then show ?thesis by (simp add: enumerates_def sampleExternals_def)
qed

definition emptyStore :: heap where
  "emptyStore = \<lparr>hp_Blocks = [], hp_MiniBlocks = [], hp_Txs = []\<rparr>"

lemma sample_get_block_answer:
  assumes "coherent map_of sampleChain c" "0 < n" "n \<le> 8"
  shows "\<exists>r. fst (getBlock sampleLibrary (asNetworkProvider sampleExternals sampleProvider) (ByNonce n) (c, ())) = Inr r"
proof -
  obtain r s' where "doGetBlock sampleLibrary
      (asNetworkProvider sampleExternals sampleProvider :: (sample_cache \<times> unit) NetworkProvider)
      \<lparr>pbi_Index = Some n, pbi_Hash = None\<rparr> (None, (c, ())) = (Inr r, s')"
    using sample_do_get_block_at [OF assms] by blast
  with assms(2) show ?thesis
    by (auto simp: doGetBlock_def sample_genesis getBlock_def Let_def split: prod.splits)
qed

text \<open>What the sample cache of pointers holds it goes on holding, and a block got by nonce is in it.\<close>

definition holds :: "bytes \<Rightarrow> ((bytes \<times> addr) list \<times> heap) \<times> 'w \<Rightarrow> bool" where
  "holds k s \<longleftrightarrow> k \<in> fst ` set (fst (fst s))"

lemma holds_Some: "holds k s \<Longrightarrow> \<exists>a. fst (pc_Get samplePointers k (fst (fst s))) = Some a"
  by (auto simp: holds_def samplePointers_def intro: weak_map_of_SomeI)

lemma doGetBlockByNonceAt_holds:
  assumes "doGetBlockByNonceAt samplePointers E p n s = (r, s')"
  shows "holds k s \<Longrightarrow> holds k s'" and "r = Inr b \<Longrightarrow> holds (blockNonceToBytes n) s'"
  using assms
  by (auto simp: doGetBlockByNonceAt_def getBlockByNonceCachedAt_def copyOut_def withStore_def ask_def
      cacheBlockByNonceAt_def samplePointers_def holds_def Let_def rev_image_eqI
      split: prod.splits option.splits sum.splits if_splits dest!: map_of_SomeD)

lemma simplifyBlockAt_holds:
  assumes "simplifyBlockWithScheduledTransactionsAt samplePointers order E p b s = (r, s')" "holds k s"
  shows "holds k s'"
  using assms
  by (auto simp: simplifyBlockWithScheduledTransactionsAt_def bind_step_def
      split: prod.splits sum.splits option.splits dest!: doGetBlockByNonceAt_holds(1) [where k = k])
    (simp_all add: holds_def)

lemma GetBlockByNonceAt_holds:
  assumes "GetBlockByNonceAt samplePointers order E c p n s = (Inr b, s')"
  shows "holds (blockNonceToBytes n) s'"
  using assms
  by (auto simp: GetBlockByNonceAt_def bind_step_def
      split: prod.splits sum.splits if_splits
      dest!: doGetBlockByNonceAt_holds(2) intro: simplifyBlockAt_holds)

lemma getBlockAt_holds:
  assumes "getBlockAt samplePointers order L E c p (ByNonce n) s = (Inr r, s')"
  shows "holds (blockNonceToBytes (uint64_of_int64 n)) s'"
proof -
  obtain b s1 where got: "GetBlockByNonceAt samplePointers order E c p (uint64_of_int64 n) s = (Inr b, s1)"
      and "fst (fst s') = fst (fst s1)"
    using assms
    by (auto simp: getBlockAt_def convertFetchedAt_def withStore_def orFail_def prod_eq_iff
        split: prod.splits sum.splits)
  with GetBlockByNonceAt_holds [OF got] show ?thesis by (simp add: holds_def)
qed

lemma sample_cached:
  "\<exists>r d h a. getBlockAt samplePointers (\<lambda>ks. ks) sampleLibrary sampleExternals [] sampleProvider (ByNonce 5)
      (([], emptyStore), ()) = (Inr r, ((d, h), ())) \<and>
    fst (pc_Get samplePointers (blockNonceToBytes 5) d) = Some a"
proof -
  let ?run = "getBlockAt samplePointers (\<lambda>ks. ks) sampleLibrary sampleExternals [] sampleProvider (ByNonce 5)
      (([], emptyStore), ())"
  have "sampleAlike (\<lambda>a b. False) [] []" by (simp add: sampleAlike_def)
  note same = inSequence_alike [OF sample_parametric sample_enumerates
      empty_caches_simulate [OF sample_parametric this], of sampleLibrary "[]" sampleProvider "[ByNonce 5]" emptyStore "()"]
  obtain r where "fst (getBlock sampleLibrary (asNetworkProvider sampleExternals sampleProvider) (ByNonce 5) ([], ())) = Inr r"
    using sample_get_block_answer [OF sample_coherent, of 5] by auto
  with same have "fst ?run = Inr r" by (simp add: answers_alike_def split_beta)
  then obtain d h where run: "?run = (Inr r, ((d, h), ()))" by (metis prod.collapse old.unit.exhaust)
  from holds_Some [OF getBlockAt_holds [OF run]] run show ?thesis by (auto simp: uint64_of_int64_def)
qed

lemma sample_answers_always: "n \<le> 8 \<Longrightarrow> answers_always sampleExternals sampleProvider sampleChain n"
  by (simp add: answers_always_def sample_latest) (simp add: sampleExternals_def ok_def)

text \<open>Two requests, one after the other, as one of their interleavings.\<close>

lemma sample_concurrent:
  "\<exists>trace ps s' r. interleaved world_moves trace
     (map (getBlockSteps sampleLibrary sampleExternals sampleProvider) [ByNonce 5, ByNonce 6], ([], ())) (ps, s') \<and>
     ps ! 0 = Done (Inr r)"
proof -
  let ?P = "asNetworkProvider sampleExternals sampleProvider :: (sample_cache \<times> unit) NetworkProvider"
  obtain r where "fst (getBlock sampleLibrary ?P (ByNonce 5) ([], ())) = Inr r"
    using sample_get_block_answer [OF sample_coherent, of 5] by auto
  then obtain s' where "getBlock sampleLibrary ?P (ByNonce 5) ([], ()) = (Inr r, s')" by (metis prod.collapse)
  then have "alone (getBlockSteps sampleLibrary sampleExternals sampleProvider (ByNonce 5)) ([], ()) = (Inr r, s')"
    by (simp add: getBlock_alone)
  from alone_interleaved [OF this, of 0 "map (getBlockSteps sampleLibrary sampleExternals sampleProvider) [ByNonce 5, ByNonce 6]"]
  show ?thesis by fastforce
qed

end
