(* ===== verification/ProxyAdapter.thy ===== *)
theory ProxyAdapter
  imports Urls Json "HOL-Library.AList" "HOL-Library.Char_ord" "HOL-Library.List_Lexorder"
begin

text \<open>
  The forwarder of the system tests (\<open>systemtests/proxyToObserverAdapter.go\<close>): it takes the requests
  that a server sends to an observer and sends them to the public proxy. The router of \<open>gin\<close>
  and the HTTP client are parameters. What a handler does outside is a list of effects.
\<close>

section \<open>Routes\<close>

datatype handler =
    HandleNodeStatus
  | HandleEpochStart
  | HandleBlockByNonce
  | HandleAccountESDT
  | HandleAccount
  | HandleSendTransaction

record adapter_route =
  ar_Method :: string
  ar_Pattern :: string
  ar_Handler :: handler

definition adapterRoutes :: "adapter_route list" where
  "adapterRoutes =
     [\<lparr>ar_Method = ''GET'', ar_Pattern = ''/node/status'', ar_Handler = HandleNodeStatus\<rparr>,
      \<lparr>ar_Method = ''GET'', ar_Pattern = ''/node/epoch-start/:epoch'', ar_Handler = HandleEpochStart\<rparr>,
      \<lparr>ar_Method = ''GET'', ar_Pattern = ''/block/by-nonce/:nonce'', ar_Handler = HandleBlockByNonce\<rparr>,
      \<lparr>ar_Method = ''GET'', ar_Pattern = ''/address/:address/esdt/:token'', ar_Handler = HandleAccountESDT\<rparr>,
      \<lparr>ar_Method = ''GET'', ar_Pattern = ''/address/:address'', ar_Handler = HandleAccount\<rparr>,
      \<lparr>ar_Method = ''POST'', ar_Pattern = ''/transaction/send'', ar_Handler = HandleSendTransaction\<rparr>]"

text \<open>
  A pattern of \<open>gin\<close> and a path, in segments: \<open>:name\<close> stands for one segment that is not empty, any
  other segment for itself. The result is the value of each parameter.
\<close>

fun fits :: "string list \<Rightarrow> string list \<Rightarrow> (string \<times> string) list option" where
  "fits [] [] = Some []"
| "fits (p # ps) (s # ss) =
     (if p \<noteq> [] \<and> hd p = CHR '':'' then
        (if s = [] then None else map_option (Cons (tl p, s)) (fits ps ss))
      else if p = s then fits ps ss else None)"
| "fits _ _ = None"

definition fits_path :: "string \<Rightarrow> string \<Rightarrow> (string \<times> string) list option" where
  "fits_path pattern path = fits (split_on (CHR ''/'') pattern) (split_on (CHR ''/'') path)"

text \<open>What is documented of the router: a request goes to a registered route that fits it, if there is one.\<close>

type_synonym router = "string \<Rightarrow> string \<Rightarrow> (handler \<times> (string \<times> string) list) option"

definition dispatches :: "router \<Rightarrow> bool" where
  "dispatches router \<longleftrightarrow>
     (\<forall>verb path. case router verb path of
        Some (h, params) \<Rightarrow>
          (\<exists>r \<in> set adapterRoutes. ar_Method r = verb \<and> fits_path (ar_Pattern r) path = Some params \<and> ar_Handler r = h)
      | None \<Rightarrow> (\<forall>r \<in> set adapterRoutes. ar_Method r = verb \<longrightarrow> fits_path (ar_Pattern r) path = None))"

section \<open>Forwarding\<close>

record adapter =
  ad_shard :: u64
  ad_proxyUrl :: string
  ad_sleepDuration :: u64

datatype effect =
    Sleep u64
  | Get string
  | Post string json

text \<open>
  The answer of a handler: a status and a body, or a panic, which \<open>gin.Recovery\<close> turns into the
  status 500.
\<close>

datatype reply = Reply nat json | Recovered

text \<open>
  A request as the router hands it over, with its query as \<open>url.Values\<close> (distinct keys) and its body as
  \<open>BindJSON\<close> reads it; the HTTP client, which gives a status and the decoded body (\<open>JObject\<close> or
  \<open>JNull\<close>, as it is decoded into a map), and the text of an error.
\<close>

record adapter_request =
  rq_Params :: "(string \<times> string) list"
  rq_Query :: "(string \<times> string list) list"
  rq_Body :: "go_error + json"

record Client =
  http_Get :: "string \<Rightarrow> go_error + nat \<times> (go_error + json)"
  http_Post :: "string \<Rightarrow> json \<Rightarrow> go_error + nat \<times> (go_error + json)"
  errorText :: "go_error \<Rightarrow> string"

definition Param :: "adapter_request \<Rightarrow> string \<Rightarrow> string" where
  "Param c name = (case map_of (rq_Params c) name of Some v \<Rightarrow> v | None \<Rightarrow> [])"

text \<open>\<open>url.Values.Encode\<close>: keys in the order of their bytes.\<close>

fun join_with :: "string \<Rightarrow> string list \<Rightarrow> string" where
  "join_with sep [] = []"
| "join_with sep [s] = s"
| "join_with sep (s # ss) = s @ sep @ join_with sep ss"

definition encode_values :: "(string \<times> string list) list \<Rightarrow> string" where
  "encode_values q =
     join_with ''&''
       (concat (map (\<lambda>(k, vs). map (\<lambda>v. url_escape_query k @ ''='' @ url_escape_query v) vs) (sort_key fst q)))"

text \<open>\<open>url.URL.String\<close> of a relative path whose first segment has no colon.\<close>

definition relative_url :: "string \<Rightarrow> string \<Rightarrow> string" where
  "relative_url path rawQuery =
     url_escape_path path @ (if rawQuery = [] then [] else ''?'' @ rawQuery)"

definition emitInternalServerError :: "Client \<Rightarrow> go_error \<Rightarrow> reply" where
  "emitInternalServerError client err = Reply 500 (JObject [(''error'', JString (errorText client err))])"

definition sleep :: "adapter \<Rightarrow> effect" where
  "sleep adapter = Sleep (ad_sleepDuration adapter)"

text \<open>
  \<open>mutateResponse\<close> gives \<open>None\<close> where it panics. (Marshalling what \<open>BindJSON\<close> has decoded cannot
  fail, so that branch of \<open>forwardPostRequest\<close> is left out.)
\<close>

definition forwardGetRequest ::
  "Client \<Rightarrow> adapter \<Rightarrow> adapter_request \<Rightarrow> string \<Rightarrow> (json \<Rightarrow> json option) \<Rightarrow> reply \<times> effect list" where
  "forwardGetRequest client adapter c urlPath mutateResponse =
     (let url = ad_proxyUrl adapter @ ''/'' @ relative_url urlPath (encode_values (rq_Query c));
          answer = (case http_Get client url of
              Inl err \<Rightarrow> emitInternalServerError client err
            | Inr (status, Inl err) \<Rightarrow> emitInternalServerError client err
            | Inr (status, Inr response) \<Rightarrow>
                (case mutateResponse response of Some response \<Rightarrow> Reply status response | None \<Rightarrow> Recovered))
      in (answer, [sleep adapter, Get url]))"

definition forwardPostRequest :: "Client \<Rightarrow> adapter \<Rightarrow> adapter_request \<Rightarrow> string \<Rightarrow> reply \<times> effect list" where
  "forwardPostRequest client adapter c urlPath =
     (let url = ad_proxyUrl adapter @ ''/'' @ urlPath in
      case rq_Body c of
        Inl err \<Rightarrow> (Reply 400 (JObject [(''error'', JString ''Bad request'')]), [])
      | Inr data1 \<Rightarrow>
          (case http_Post client url data1 of
             Inl err \<Rightarrow> emitInternalServerError client err
           | Inr (status, Inl err) \<Rightarrow> emitInternalServerError client err
           | Inr (status, Inr response) \<Rightarrow> Reply status response, [Post url data1]))"

section \<open>Handlers\<close>

text \<open>The field of a map; a nil map has none, and a field that is not there is nil.\<close>

definition json_field :: "json \<Rightarrow> string \<Rightarrow> json" where
  "json_field v key =
     (case v of JObject es \<Rightarrow> (case map_of es key of Some x \<Rightarrow> x | None \<Rightarrow> JNull) | _ \<Rightarrow> JNull)"

text \<open>
  The status of the node: \<open>status\<close> becomes \<open>metrics\<close>, with two fields that the proxy does not
  report. The assertions to a map panic on anything else.
\<close>

definition mutateNodeStatus :: "json \<Rightarrow> json option" where
  "mutateNodeStatus response =
     (case (response, json_field response ''data'') of
        (JObject object1, JObject data1) \<Rightarrow>
          (case json_field (JObject data1) ''status'' of
             JObject metrics \<Rightarrow>
               let metrics = AList.update ''erd_app_version'' (JString ''v1.2.3'') metrics;
                   metrics = AList.update ''erd_public_key_block_sign'' (JString ''00'') metrics;
                   data1 = AList.delete ''status'' (AList.update ''metrics'' (JObject metrics) data1)
               in Some (JObject (AList.update ''data'' (JObject data1) object1))
           | _ \<Rightarrow> None)
      | _ \<Rightarrow> None)"

definition getNodeStatus :: "Client \<Rightarrow> adapter \<Rightarrow> adapter_request \<Rightarrow> reply \<times> effect list" where
  "getNodeStatus client adapter c =
     forwardGetRequest client adapter c (''network/status/'' @ nat_to_dec (unat (ad_shard adapter))) mutateNodeStatus"

definition getEpochStart :: "Client \<Rightarrow> adapter \<Rightarrow> adapter_request \<Rightarrow> reply \<times> effect list" where
  "getEpochStart client adapter c =
     (let epoch = Param c ''epoch'' in
      forwardGetRequest client adapter c
        (''network/epoch-start/'' @ nat_to_dec (unat (ad_shard adapter)) @ ''/by-epoch/'' @ epoch) Some)"

definition adapter_getBlockByNonce :: "Client \<Rightarrow> adapter \<Rightarrow> adapter_request \<Rightarrow> reply \<times> effect list" where
  "adapter_getBlockByNonce client adapter c =
     (let nonce = Param c ''nonce'' in
      forwardGetRequest client adapter c
        (''block/'' @ nat_to_dec (unat (ad_shard adapter)) @ ''/by-nonce/'' @ nonce) Some)"

definition getAccountESDT :: "Client \<Rightarrow> adapter \<Rightarrow> adapter_request \<Rightarrow> reply \<times> effect list" where
  "getAccountESDT client adapter c =
     (let address = Param c ''address''; token = Param c ''token'' in
      forwardGetRequest client adapter c (''address/'' @ address @ ''/esdt/'' @ token) Some)"

definition getAccount :: "Client \<Rightarrow> adapter \<Rightarrow> adapter_request \<Rightarrow> reply \<times> effect list" where
  "getAccount client adapter c =
     (let address = Param c ''address'' in forwardGetRequest client adapter c (''address/'' @ address) Some)"

definition sendTransaction :: "Client \<Rightarrow> adapter \<Rightarrow> adapter_request \<Rightarrow> reply \<times> effect list" where
  "sendTransaction client adapter c = forwardPostRequest client adapter c ''transaction/send''"

fun runHandler :: "handler \<Rightarrow> Client \<Rightarrow> adapter \<Rightarrow> adapter_request \<Rightarrow> reply \<times> effect list" where
  "runHandler HandleNodeStatus = getNodeStatus"
| "runHandler HandleEpochStart = getEpochStart"
| "runHandler HandleBlockByNonce = adapter_getBlockByNonce"
| "runHandler HandleAccountESDT = getAccountESDT"
| "runHandler HandleAccount = getAccount"
| "runHandler HandleSendTransaction = sendTransaction"

text \<open>A request to the adapter; \<open>None\<close> where no route is registered (the router answers 404).\<close>

definition startAdapter ::
  "router \<Rightarrow> Client \<Rightarrow> adapter \<Rightarrow> string \<Rightarrow> string \<Rightarrow> (string \<times> string list) list \<Rightarrow> go_error + json \<Rightarrow>
     (reply \<times> effect list) option" where
  "startAdapter router client adapter verb path query body =
     map_option (\<lambda>(h, params). runHandler h client adapter
         \<lparr>rq_Params = params, rq_Query = query, rq_Body = body\<rparr>)
       (router verb path)"

section \<open>What reaches the proxy\<close>

lemma adapter_routes_split:
  "map (\<lambda>r. split_on (CHR ''/'') (ar_Pattern r)) adapterRoutes =
     [[[], ''node'', ''status''], [[], ''node'', ''epoch-start'', '':epoch''],
      [[], ''block'', ''by-nonce'', '':nonce''], [[], ''address'', '':address'', ''esdt'', '':token''],
      [[], ''address'', '':address''], [[], ''transaction'', ''send'']]"
  by (simp add: adapterRoutes_def)

lemma dispatchesD:
  assumes "dispatches router"
  shows "router verb path = Some (h, params) \<Longrightarrow>
      \<exists>r \<in> set adapterRoutes. ar_Method r = verb \<and> fits_path (ar_Pattern r) path = Some params \<and> ar_Handler r = h"
    and "router verb path = None \<Longrightarrow>
      \<forall>r \<in> set adapterRoutes. ar_Method r = verb \<longrightarrow> fits_path (ar_Pattern r) path = None"
  using assms unfolding dispatches_def by (drule_tac spec [of _ verb], drule_tac spec [of _ path], simp)+

lemma routed:
  assumes "dispatches router"
    and "\<exists>r \<in> set adapterRoutes. ar_Method r = verb \<and> fits_path (ar_Pattern r) path = Some params"
    and "\<forall>r \<in> set adapterRoutes. \<forall>ps. fits_path (ar_Pattern r) path = Some ps \<longrightarrow> ar_Handler r = h \<and> ps = params"
  shows "router verb path = Some (h, params)"
proof (cases "router verb path")
  case None
  with dispatchesD(2) [OF assms(1)] assms(2) show ?thesis by fastforce
next
  case (Some hp)
  with dispatchesD(1) [OF assms(1), of verb path "fst hp" "snd hp"] assms(3) show ?thesis
    by (metis prod.collapse)
qed

lemma not_routed:
  assumes "dispatches router" "\<forall>r \<in> set adapterRoutes. fits_path (ar_Pattern r) path = None"
  shows "router verb path = None"
proof (cases "router verb path")
  case (Some hp)
  with dispatchesD(1) [OF assms(1), of verb path "fst hp" "snd hp"] assms(2) show ?thesis by fastforce
qed simp

text \<open>A segment of a path: not empty and without a slash.\<close>

definition segment :: "string \<Rightarrow> bool" where
  "segment s = (s \<noteq> [] \<and> CHR ''/'' \<notin> set s)"

lemma split_segment: "segment s \<Longrightarrow> split_on (CHR ''/'') s = [s]"
  by (simp add: segment_def split_on_no_sep)

lemma split_segments: "segment s \<Longrightarrow> split_on (CHR ''/'') (s @ CHR ''/'' # t) = s # split_on (CHR ''/'') t"
  by (simp add: segment_def split_on_append_sep)

lemma digits_segment: "segment (nat_to_dec n)"
  using nat_to_dec_digits [of "CHR ''/''" n] by (auto simp: segment_def is_digit_def from_dec_char_def)

lemmas route_simps = fits_path_def adapterRoutes_def split_segment split_segments

lemma routed_paths:
  assumes "dispatches router" "segment a" "segment t"
  shows "router ''GET'' ''/node/status'' = Some (HandleNodeStatus, [])"
    and "router ''GET'' (''/node/epoch-start/'' @ a) = Some (HandleEpochStart, [(''epoch'', a)])"
    and "router ''GET'' (''/address/'' @ a @ ''/esdt/'' @ t) =
      Some (HandleAccountESDT, [(''address'', a), (''token'', t)])"
    and "router ''GET'' (''/address/'' @ a) = Some (HandleAccount, [(''address'', a)])"
  using assms(2,3) by (rule_tac routed [OF assms(1)]; simp add: route_simps segment_def)+

text \<open>The query that the observer paths carry, as \<open>url.Values\<close>.\<close>

definition options_query :: "AccountQueryOptions \<Rightarrow> (string \<times> string list) list" where
  "options_query options =
     (if OnFinalBlock options then [(urlParameterAccountQueryOptionsOnFinalBlock, [''true''])]
      else if ou_HasValue (aq_BlockNonce options)
      then [(urlParameterAccountQueryOptionsBlockNonce, [nat_to_dec (unat (ou_Value (aq_BlockNonce options)))])]
      else if aq_BlockHash options \<noteq> []
      then [(urlParameterAccountQueryOptionsBlockHash, [hex_encode (aq_BlockHash options)])]
      else [])"

lemma forwarded_url:
  assumes "options_query options \<noteq> []"
  shows "CHR ''/'' # relative_url path (encode_values (options_query options)) =
    buildUrlWithAccountQueryOptions (CHR ''/'' # path) options"
  using assms
  by (auto simp: options_query_def buildUrlWithAccountQueryOptions_def buildUrlWithQueryParameter_def
      relative_url_def encode_values_def url_escape_path_def split: if_splits)

lemma get_effects:
  "snd (forwardGetRequest client adapter c path mutate) =
     [sleep adapter, Get (ad_proxyUrl adapter @ ''/'' @ relative_url path (encode_values (rq_Query c)))]"
  by (simp add: forwardGetRequest_def Let_def)

lemma no_query: "relative_url path (encode_values []) = url_escape_path path"
  by (simp add: relative_url_def encode_values_def)

text \<open>
  Balances in the native currency and of fungible tokens, the node status and the start of an epoch
  reach the proxy, once each and after a pause.
\<close>

lemma adapter_forwards:
  assumes "dispatches router" "segment a" "segment t" "options_query options \<noteq> []"
  shows "map_option snd (startAdapter router client adapter ''GET'' (''/address/'' @ a) (options_query options) body) =
      Some [sleep adapter, Get (ad_proxyUrl adapter @ buildUrlGetAccountNativeBalance a options)]"
    and "map_option snd (startAdapter router client adapter ''GET'' (''/address/'' @ a @ ''/esdt/'' @ t)
        (options_query options) body) =
      Some [sleep adapter, Get (ad_proxyUrl adapter @ buildUrlGetAccountFungibleTokenBalance a t options)]"
  using forwarded_url [OF assms(4), of "''address/'' @ a"] forwarded_url [OF assms(4), of "''address/'' @ a @ ''/esdt/'' @ t"]
  by (simp_all add: startAdapter_def routed_paths [OF assms(1-3), simplified] getAccount_def getAccountESDT_def
      get_effects Param_def buildUrlGetAccountNativeBalance_def buildUrlGetAccountFungibleTokenBalance_def)

lemma forwarded_paths:
  "url_escape_path (''network/status/'' @ nat_to_dec n) = ''network/status/'' @ nat_to_dec n"
  "url_escape_path (''network/epoch-start/'' @ nat_to_dec n @ ''/by-epoch/'' @ nat_to_dec m) =
     ''network/epoch-start/'' @ nat_to_dec n @ ''/by-epoch/'' @ nat_to_dec m"
proof -
  have words: "\<forall>c \<in> set ''network/status/''. is_unreserved c \<or> c = CHR ''/''"
    "\<forall>c \<in> set ''network/epoch-start/''. is_unreserved c \<or> c = CHR ''/''"
    "\<forall>c \<in> set ''/by-epoch/''. is_unreserved c \<or> c = CHR ''/''"
    by (simp_all add: is_unreserved_def is_alnum_def)
  have digits: "\<forall>c \<in> set (nat_to_dec k). is_unreserved c \<or> c = CHR ''/''" for k
    by (auto intro: is_digit_unreserved nat_to_dec_digits)
  show "url_escape_path (''network/status/'' @ nat_to_dec n) = ''network/status/'' @ nat_to_dec n"
    and "url_escape_path (''network/epoch-start/'' @ nat_to_dec n @ ''/by-epoch/'' @ nat_to_dec m) =
     ''network/epoch-start/'' @ nat_to_dec n @ ''/by-epoch/'' @ nat_to_dec m"
    by (rule url_escape_path_plain; unfold set_append ball_Un; intro conjI words digits)+
qed

lemma adapter_forwards_status:
  assumes "dispatches router"
  shows "map_option snd (startAdapter router client adapter ''GET'' urlPathGetNodeStatus [] body) =
      Some [sleep adapter, Get (ad_proxyUrl adapter @ ''/network/status/'' @ nat_to_dec (unat (ad_shard adapter)))]"
    and "map_option snd (startAdapter router client adapter ''GET'' (buildUrlGetEpochStartInfo epoch) [] body) =
      Some [sleep adapter, Get (ad_proxyUrl adapter @ ''/network/epoch-start/'' @
        nat_to_dec (unat (ad_shard adapter)) @ ''/by-epoch/'' @ nat_to_dec (unat epoch))]"
proof -
  note routes = routed_paths [OF assms digits_segment digits_segment]
  show "map_option snd (startAdapter router client adapter ''GET'' urlPathGetNodeStatus [] body) =
      Some [sleep adapter, Get (ad_proxyUrl adapter @ ''/network/status/'' @ nat_to_dec (unat (ad_shard adapter)))]"
    unfolding startAdapter_def urlPathGetNodeStatus_def routes(1) option.map prod.case runHandler.simps
      getNodeStatus_def get_effects adapter_request.simps no_query forwarded_paths by simp
  have epoch: "Param \<lparr>rq_Params = [(''epoch'', e)], rq_Query = q, rq_Body = body\<rparr> ''epoch'' = e" for e q
    by (simp add: Param_def)
  show "map_option snd (startAdapter router client adapter ''GET'' (buildUrlGetEpochStartInfo epoch) [] body) =
      Some [sleep adapter, Get (ad_proxyUrl adapter @ ''/network/epoch-start/'' @
        nat_to_dec (unat (ad_shard adapter)) @ ''/by-epoch/'' @ nat_to_dec (unat epoch))]"
    unfolding startAdapter_def buildUrlGetEpochStartInfo_def routes(2) option.map prod.case runHandler.simps
      getEpochStart_def Let_def epoch get_effects adapter_request.simps no_query forwarded_paths by simp
qed

text \<open>Two kinds of requests that the server sends to an observer are not routed.\<close>

lemma adapter_misses:
  assumes "dispatches router" "segment a" "segment t"
  shows "startAdapter router client adapter ''GET''
      (''/address/'' @ a @ ''/nft/'' @ t @ ''/nonce/'' @ nat_to_dec n) query body = None"
    and "startAdapter router client adapter ''GET'' urlPathGetGenesisBalances query body = None"
proof -
  have "router ''GET'' (''/address/'' @ a @ ''/nft/'' @ t @ ''/nonce/'' @ nat_to_dec n) = None"
    using assms(2,3) digits_segment [of n]
    by (intro not_routed [OF assms(1)]) (simp add: route_simps)
  then show "startAdapter router client adapter ''GET''
      (''/address/'' @ a @ ''/nft/'' @ t @ ''/nonce/'' @ nat_to_dec n) query body = None"
    by (simp add: startAdapter_def)
  have "router ''GET'' urlPathGetGenesisBalances = None"
    by (rule not_routed [OF assms(1)]) (simp add: route_simps urlPathGetGenesisBalances_def)
  then show "startAdapter router client adapter ''GET'' urlPathGetGenesisBalances query body = None"
    by (simp add: startAdapter_def)
qed

text \<open>The status that the server reads is where it looks for it.\<close>

lemma status_is_moved:
  assumes "json_field response ''data'' = JObject data1" "json_field (JObject data1) ''status'' = JObject metrics"
  shows "\<exists>r data2 metrics2. mutateNodeStatus response = Some r \<and> json_field r ''data'' = JObject data2 \<and>
    json_field (JObject data2) ''metrics'' = JObject metrics2 \<and> json_field (JObject data2) ''status'' = JNull \<and>
    (\<forall>k. k \<notin> {''erd_app_version'', ''erd_public_key_block_sign''} \<longrightarrow> map_of metrics2 k = map_of metrics k)"
proof -
  from assms(1) obtain object1 where "response = JObject object1"
    by (cases response) (simp_all add: json_field_def)
  with assms show ?thesis
    by (simp add: mutateNodeStatus_def Let_def json_field_def update_conv' delete_conv')
qed

end
