(* ===== verification/Logs.thy ===== *)
theory Logs
  imports Wiring ProviderBlocks
begin

text \<open>
  What the program writes about its work: the description of the provider
  (\<open>provider/networkProvider.go\<close>), the counts of scheduled transactions
  (\<open>provider/scheduledMiniblocks.go\<close>), the trace of a block (\<open>services/logging.go\<close>), and the
  endpoints that measure how long they take. The logger and the terminal get lists of lines; what a
  stop watch measures is a parameter.
\<close>

section \<open>Lines\<close>

datatype log_value =
    LString string
  | LNumber int
  | LBool bool
  | LStrings "string list"
  | LDuration int

text \<open>A line of the logger (a message and named values), or text printed to the terminal.\<close>

datatype line =
    Logged string "(string \<times> log_value) list"
  | Printed string

abbreviation lnat :: "nat \<Rightarrow> log_value" where "lnat n \<equiv> LNumber (int n)"

section \<open>The provider (networkProvider.go, scheduledMiniblocks.go)\<close>

definition LogDescription :: "networkProvider \<Rightarrow> line list" where
  "LogDescription provider =
     [Logged ''Description of network provider''
       [(''blockchain'', LString (nc_BlockchainName (p_networkConfig provider))),
        (''network'', LString (nc_NetworkName (p_networkConfig provider))),
        (''isOffline'', LBool (p_isOffline provider)),
        (''observerUrl'', LString (p_observerUrl provider)),
        (''observedActualShard'', lnat (unat (p_observedActualShard provider))),
        (''observedProjectedShard'', lnat (unat (p_observedProjectedShard provider))),
        (''observedProjectedShardIsSet'', LBool (p_observedProjectedShardIsSet provider)),
        (''firstHistoricalEpoch'', lnat (unat (p_firstHistoricalEpoch provider))),
        (''numHistoricalEpochs'', lnat (unat (p_numHistoricalEpochs provider))),
        (''shouldHandleContracts'', LBool (p_shouldHandleContracts provider)),
        (''activationEpochSirius'', lnat (unat (p_activationEpochSirius provider))),
        (''activationEpochSpica'', lnat (unat (p_activationEpochSpica provider))),
        (''nativeCurrency'', LString (Symbol (GetNativeCurrency (p_currencies provider)))),
        (''customCurrencies'', LStrings (GetCustomCurrenciesSymbols (p_currencies provider)))]]"

text \<open>The loop over the miniblocks, with its three counters.\<close>

fun countScheduled :: "MiniBlock list \<Rightarrow> nat \<times> nat \<times> nat \<Rightarrow> nat \<times> nat \<times> nat" where
  "countScheduled [] counts = counts"
| "countScheduled (miniblock # rest) (numScheduled, numProcessed, numInvalid) =
     (let n = length (mb_Transactions miniblock) in
      countScheduled rest
        (if mb_ProcessingType miniblock = ''Scheduled'' then (numScheduled + n, numProcessed, numInvalid)
         else if mb_ProcessingType miniblock = ''Processed'' then (numScheduled, numProcessed + n, numInvalid)
         else if mb_Type miniblock = ''InvalidBlock'' then (numScheduled, numProcessed, numInvalid + n)
         else (numScheduled, numProcessed, numInvalid)))"

definition reportScheduledTransactions :: "Block \<Rightarrow> line list" where
  "reportScheduledTransactions block =
     (case countScheduled (bk_MiniBlocks block) (0, 0, 0) of
        (numScheduled, numProcessed, numInvalid) \<Rightarrow>
          if numScheduled > 0 \<or> numProcessed > 0
          then [Logged ''reportScheduledTransactions()''
                 [(''scheduled'', lnat numScheduled), (''processed'', lnat numProcessed),
                  (''invalid'', lnat numInvalid), (''block'', lnat (unat (bk_Nonce block)))]]
          else [])"

section \<open>The trace of a block (services/logging.go)\<close>

definition formatAmount :: "Amount \<Rightarrow> string" where
  "formatAmount amount =
     (let amount = am_Value amount;
          hasSign = has_prefix amount ''-'' \<or> has_prefix amount ''+''
      in if \<not> hasSign then CHR ''+'' # amount else amount)"

text \<open>\<open>%25s\<close>: blanks in front, up to a width of 25 (of the amounts, which are ASCII).\<close>

definition padded :: "nat \<Rightarrow> string \<Rightarrow> string" where
  "padded width s = replicate (width - length s) (CHR '' '') @ s"

fun enumerate_from :: "nat \<Rightarrow> 'a list \<Rightarrow> (nat \<times> 'a) list" where
  "enumerate_from n [] = []"
| "enumerate_from n (x # xs) = (n, x) # enumerate_from (Suc n) xs"

definition traceOperation :: "nat \<times> Operation \<Rightarrow> line" where
  "traceOperation entry =
     (case entry of (opIndex, operation) \<Rightarrow>
        Printed (CHR 0x09 # ''(OP '' @ nat_to_dec opIndex @ '') '' @ op_Address operation @
          CHR 0x09 # padded 25 (formatAmount (op_Amount operation)) @ [CHR 0x0A]))"

definition traceTransaction :: "nat \<times> Transaction \<Rightarrow> line list" where
  "traceTransaction entry =
     (case entry of (txIndex, tx) \<Rightarrow>
        Printed (''(TX '' @ nat_to_dec txIndex @ '') '' @ rt_Hash tx @ [CHR 0x0A]) #
        map traceOperation (enumerate_from 0 (rt_Operations tx)))"

text \<open>\<open>tracing\<close>: the level of the logger is that of traces (or lower).\<close>

definition traceBlockResponse :: "bool \<Rightarrow> BlockResponse \<Rightarrow> line list" where
  "traceBlockResponse tracing response =
     (if \<not> tracing then []
      else Logged ''Block''
             [(''nonce'', LNumber (bi_Index (br_BlockIdentifier response))),
              (''hash'', LString (bi_Hash (br_BlockIdentifier response))),
              (''numTxs'', lnat (length (br_Transactions response)))] #
           concat (map traceTransaction (enumerate_from 0 (br_Transactions response))))"

section \<open>Endpoints that measure their time (blockService.go, accountService.go)\<close>

text \<open>\<open>time.Duration\<close>, in nanoseconds. \<open>duration\<close> is \<open>stopWatch.GetMeasurement\<close>.\<close>

definition Millisecond :: int where "Millisecond = 1000000"

definition durationAlarmThresholdBlockServiceGetBlock :: int where
  "durationAlarmThresholdBlockServiceGetBlock = 500 * Millisecond"

definition durationAlarmThresholdAccountServiceGetAccountBalance :: int where
  "durationAlarmThresholdAccountServiceGetAccountBalance = 500 * Millisecond"

text \<open>The text of a duration of whole milliseconds, less than a second.\<close>

definition millisecondsText :: "int \<Rightarrow> string" where
  "millisecondsText duration = nat_to_dec (nat (duration div Millisecond)) @ ''ms''"

definition BlockEndpoint ::
  "bool \<Rightarrow> int \<Rightarrow> Library \<Rightarrow> 'w NetworkProvider \<Rightarrow> PartialBlockIdentifier \<Rightarrow> 'w block_state \<Rightarrow>
     ((failure + BlockResponse) \<times> line list) \<times> 'w block_state" where
  "BlockEndpoint tracing duration L P identifier s =
     (case doGetBlock L P identifier s of
        (Inl failure, s') \<Rightarrow> ((Inl failure, []), s')
      | (Inr response, s') \<Rightarrow>
          let alarm =
                (if duration > durationAlarmThresholdBlockServiceGetBlock
                 then [Logged (''blockService.Block() took more than '' @
                                millisecondsText durationAlarmThresholdBlockServiceGetBlock)
                        [(''duration'', LDuration duration),
                         (''blockNonce'', LNumber (bi_Index (br_BlockIdentifier response))),
                         (''blockHash'', LString (bi_Hash (br_BlockIdentifier response)))]]
                 else [])
          in ((Inr response, alarm @ traceBlockResponse tracing response), s'))"

definition AccountBalanceEndpoint ::
  "int \<Rightarrow> 'w NetworkProvider \<Rightarrow> PartialBlockIdentifier option \<Rightarrow> string \<Rightarrow> Currency list \<Rightarrow> 'w \<Rightarrow>
     ((failure + AccountBalanceResponse) \<times> line list) \<times> 'w" where
  "AccountBalanceEndpoint duration P identifier address currencies w =
     (case doGetAccountBalance P identifier address currencies w of
        (Inl failure, w') \<Rightarrow> ((Inl failure, []), w')
      | (Inr response, w') \<Rightarrow>
          let alarm =
                (if duration > durationAlarmThresholdAccountServiceGetAccountBalance
                 then [Logged (''accountService.AccountBalance() took more than '' @
                                millisecondsText durationAlarmThresholdAccountServiceGetAccountBalance)
                        [(''duration'', LDuration duration),
                         (''address'', LString address),
                         (''blockNonce'', LNumber (bi_Index (abr_BlockIdentifier response)))]]
                 else [])
          in ((Inr response, alarm), w'))"

section \<open>What the lines tell\<close>

text \<open>An amount is printed with its sign and reads back as the same number.\<close>

lemma formatAmount_value: "big_SetString (formatAmount a) = big_SetString (am_Value a)"
proof (cases "am_Value a")
  case Nil
  then show ?thesis by (simp add: formatAmount_def has_prefix_def big_SetString_def parse_digits_def)
next
  case (Cons c cs)
  then show ?thesis by (simp add: formatAmount_def has_prefix_def big_SetString_def Let_def)
qed

text \<open>The counters are lengths: of the scheduled transactions that the simplification starts from, first.\<close>

lemma countScheduled_sums:
  "fst (countScheduled miniblocks (s, counts)) =
     s + length (concat (map mb_Transactions
       (filter (\<lambda>miniblock. mb_ProcessingType miniblock = ScheduledProcessingType) miniblocks)))"
proof (induction miniblocks arbitrary: s counts)
  case (Cons m ms)
  obtain p i where c: "counts = (p, i)" by (metis prod.exhaust)
  show ?case by (simp add: c Cons.IH Let_def ScheduledProcessingType_def)
qed simp

lemma reported_scheduled:
  assumes "gatherScheduledTransactions block \<noteq> []"
  shows "\<exists>rest. reportScheduledTransactions block =
    [Logged ''reportScheduledTransactions()''
      ((''scheduled'', lnat (length (gatherScheduledTransactions block))) # rest)]"
proof -
  obtain s p i where c: "countScheduled (bk_MiniBlocks block) (0, 0, 0) = (s, p, i)"
    by (metis prod.exhaust)
  have "s = length (gatherScheduledTransactions block)"
    using countScheduled_sums [of "bk_MiniBlocks block" 0 "(0, 0)"] by (simp add: c gatherScheduledTransactions_def)
  with assms show ?thesis by (simp add: reportScheduledTransactions_def c)
qed

text \<open>The trace has one line for the block, one per transaction and one per operation.\<close>

lemma length_enumerate_from [simp]: "length (enumerate_from n xs) = length xs"
  by (induction xs arbitrary: n) simp_all

lemma trace_lines:
  "length (traceBlockResponse True response) =
     1 + sum_list (map (\<lambda>tx. 1 + length (rt_Operations tx)) (br_Transactions response))"
proof -
  have "length (concat (map traceTransaction (enumerate_from n txs))) =
      sum_list (map (\<lambda>tx. 1 + length (rt_Operations tx)) txs)" for n txs
    by (induction txs arbitrary: n) (simp_all add: traceTransaction_def)
  then show ?thesis by (simp add: traceBlockResponse_def)
qed

text \<open>What is measured and what is written change no answer: these are the handlers of the server.\<close>

lemma BlockEndpoint_answers:
  "handleBlock L P identifier s =
     (case BlockEndpoint tracing duration L P identifier s of ((r, _), s') \<Rightarrow> (answer RespBlock r, s'))"
  by (auto simp: BlockEndpoint_def Let_def split: prod.splits sum.splits)

lemma AccountBalanceEndpoint_answers:
  "handleAccountBalance P identifier address currencies s =
     keepGenesis RespAccountBalance
       (\<lambda>w. case AccountBalanceEndpoint duration P identifier address currencies w of ((r, _), w') \<Rightarrow> (r, w')) s"
proof -
  have "(\<lambda>w. case AccountBalanceEndpoint duration P identifier address currencies w of ((r, _), w') \<Rightarrow> (r, w')) =
      doGetAccountBalance P identifier address currencies"
    by (rule ext) (auto simp: AccountBalanceEndpoint_def Let_def split: prod.splits sum.splits)
  then show ?thesis by simp
qed

text \<open>A slow block is reported, a refused one never is.\<close>

lemma slow_blocks_are_reported:
  assumes "BlockEndpoint tracing duration L P identifier s = ((Inr response, lines), s')"
  shows "(\<exists>text. Logged text [(''duration'', LDuration duration),
             (''blockNonce'', LNumber (bi_Index (br_BlockIdentifier response))),
             (''blockHash'', LString (bi_Hash (br_BlockIdentifier response)))] \<in> set lines) \<or>
         duration \<le> 500 * Millisecond"
  using assms
  by (auto simp: BlockEndpoint_def durationAlarmThresholdBlockServiceGetBlock_def Let_def
      split: prod.splits sum.splits if_splits)

end
