(* ===== verification/Lifecycle.thy ===== *)
theory Lifecycle
  imports CommandLine Logs
begin

text \<open>
  The life of the process (\<open>cmd/rosetta/main.go\<close>): the application that \<open>main\<close> runs, its exit
  code, \<open>createHttpServer\<close>, and the second half of \<open>startRosetta\<close>: a goroutine serves HTTP while
  the main one waits for a signal, then shuts the server down within a second, closes it and
  closes the log file. The step relation has the documented behaviour of \<open>net/http\<close> and
  \<open>os/signal\<close>: \<open>Shutdown\<close> stops the listener and waits for the requests in flight, \<open>ListenAndServe\<close>
  then returns \<open>ErrServerClosed\<close>, \<open>Close\<close> drops what is left, and a signal that nobody asked to be
  notified of ends the process. \<open>SIGKILL\<close> cannot be caught. A listener may fail at any time, with
  whatever error.
\<close>

section \<open>main\<close>

text \<open>\<open>http.DefaultTransport.(*http.Transport).MaxIdleConnsPerHost\<close>, for the requests to the observer.\<close>

definition maxIdleConnsPerHost :: nat where "maxIdleConnsPerHost = 512"

record App =
  app_Name :: string
  app_Version :: string
  app_Usage :: string
  app_Flags :: "Flag list"
  app_Authors :: "(string \<times> string) list"

definition rosettaApp :: "string \<Rightarrow> App" where
  "rosettaApp logDebug =
     \<lparr>app_Name = ''MultiversX Rosetta CLI App'',
      app_Version = RosettaMiddlewareVersion,
      app_Usage = ''This is the entry point for starting a new MultiversX Rosetta instance'',
      app_Flags = getAllCliFlags logDebug,
      app_Authors = [(''The MultiversX Team'', ''contact@multiversx.com'')]\<rparr>"

text \<open>\<open>app.Run\<close> gives the error of the action; \<open>errorText\<close> is \<open>err.Error()\<close>.\<close>

definition mainExit :: "(go_error \<Rightarrow> string) \<Rightarrow> go_error + unit \<Rightarrow> line list \<times> nat" where
  "mainExit errorText err =
     (case err of Inl e \<Rightarrow> ([Logged (errorText e) []], 1) | Inr _ \<Rightarrow> ([], 0))"

section \<open>createHttpServer\<close>

text \<open>The router and the CORS middleware of the Rosetta SDK wrap the controllers.\<close>

record ('r, 'h) HttpSDK =
  sdk_NewRouter :: "'r list \<Rightarrow> 'h"
  sdk_CorsMiddleware :: "'h \<Rightarrow> 'h"

record 'h HttpServer =
  hs_Addr :: string
  hs_Handler :: 'h

definition createHttpServer :: "('r, 'h) HttpSDK \<Rightarrow> int \<Rightarrow> 'r list \<Rightarrow> go_error + 'h HttpServer" where
  "createHttpServer sdk port routers =
     (let router = sdk_NewRouter sdk routers;
          corsRouter = sdk_CorsMiddleware sdk router
      in Inr \<lparr>hs_Addr = httpAddress port, hs_Handler = corsRouter\<rparr>)"

section \<open>Serving and stopping\<close>

datatype os_signal = Interrupt | Kill | Terminate

text \<open>Where the main goroutine is in lines 109 to 130, and where the other one is in its body.\<close>

datatype main_pc = Launching | Subscribing | Waiting | ShuttingDown | Closing | ClosingLog | MainReturned

datatype http_pc = NotLaunched | Starting | Binding | Serving | ServerClosed | ServerFailed string | Ended

record lifecycle =
  lc_main :: main_pc
  lc_http :: http_pc
  lc_stop :: "os_signal option"
  lc_subscribed :: bool
  lc_inFlight :: "nat set"
  lc_answered :: "nat set"
  lc_dropped :: "nat set"
  lc_timedOut :: bool
  lc_interrupted :: bool
  lc_killed :: bool
  lc_log :: "line list"
  lc_logOpen :: bool

definition launched :: lifecycle where
  "launched =
     \<lparr>lc_main = Launching, lc_http = NotLaunched, lc_stop = None, lc_subscribed = False, lc_inFlight = {},
      lc_answered = {}, lc_dropped = {}, lc_timedOut = False, lc_interrupted = False, lc_killed = False,
      lc_log = [], lc_logOpen = True\<rparr>"

text \<open>\<open>signal.Notify(stop, os.Interrupt, os.Kill)\<close> on a channel that holds one signal: a second one is lost.\<close>

definition notified :: "os_signal set" where "notified = {Interrupt, Kill}"

definition caught :: "lifecycle \<Rightarrow> os_signal \<Rightarrow> bool" where
  "caught s signal \<longleftrightarrow> lc_subscribed s \<and> signal \<in> notified \<and> signal \<noteq> Kill"

definition inShutdown :: "lifecycle \<Rightarrow> bool" where
  "inShutdown s \<longleftrightarrow> lc_main s \<in> {ShuttingDown, Closing, ClosingLog, MainReturned}"

definition log_line :: "line \<Rightarrow> lifecycle \<Rightarrow> lifecycle" where
  "log_line l s = s\<lparr>lc_log := lc_log s @ [l]\<rparr>"

text \<open>\<open>running\<close>: the process has neither returned from main nor been killed.\<close>

definition running :: "lifecycle \<Rightarrow> bool" where
  "running s \<longleftrightarrow> \<not> lc_killed s \<and> lc_main s \<noteq> MainReturned"

text \<open>\<open>binds\<close> tells whether the operating system lets the process listen on the address.\<close>

inductive main_step :: "lifecycle \<Rightarrow> lifecycle \<Rightarrow> bool" where
  launch: "lc_main s = Launching \<Longrightarrow> main_step s (s\<lparr>lc_main := Subscribing, lc_http := Starting\<rparr>)"
| subscribe: "lc_main s = Subscribing \<Longrightarrow> main_step s (s\<lparr>lc_main := Waiting, lc_subscribed := True\<rparr>)"
| receive: "lc_main s = Waiting \<Longrightarrow> lc_stop s = Some sig \<Longrightarrow>
    main_step s (s\<lparr>lc_main := ShuttingDown, lc_stop := None\<rparr>)"
| drained: "lc_main s = ShuttingDown \<Longrightarrow> lc_inFlight s = {} \<Longrightarrow> main_step s (s\<lparr>lc_main := Closing\<rparr>)"
| timeout: "lc_main s = ShuttingDown \<Longrightarrow> main_step s (s\<lparr>lc_main := Closing, lc_timedOut := True\<rparr>)"
| close: "lc_main s = Closing \<Longrightarrow>
    main_step s (s\<lparr>lc_main := ClosingLog, lc_dropped := lc_dropped s \<union> lc_inFlight s, lc_inFlight := {}\<rparr>)"
| close_log: "lc_main s = ClosingLog \<Longrightarrow> main_step s (s\<lparr>lc_main := MainReturned, lc_logOpen := False\<rparr>)"

inductive http_step :: "bool \<Rightarrow> string \<Rightarrow> lifecycle \<Rightarrow> lifecycle \<Rightarrow> bool" for binds addr where
  announce: "lc_http s = Starting \<Longrightarrow>
    http_step binds addr s (log_line (Logged ''Starting HTTP server...'' [(''address'', LString addr)])
      (s\<lparr>lc_http := Binding\<rparr>))"
| listen: "lc_http s = Binding \<Longrightarrow> \<not> inShutdown s \<Longrightarrow> binds \<Longrightarrow> http_step binds addr s (s\<lparr>lc_http := Serving\<rparr>)"
| cannot_listen: "lc_http s = Binding \<Longrightarrow> \<not> inShutdown s \<Longrightarrow> \<not> binds \<Longrightarrow>
    http_step binds addr s (s\<lparr>lc_http := ServerFailed err\<rparr>)"
| cannot_accept: "lc_http s = Serving \<Longrightarrow> \<not> inShutdown s \<Longrightarrow> http_step binds addr s (s\<lparr>lc_http := ServerFailed err\<rparr>)"
| closed: "lc_http s \<in> {Binding, Serving} \<Longrightarrow> inShutdown s \<Longrightarrow> http_step binds addr s (s\<lparr>lc_http := ServerClosed\<rparr>)"
| log_closed: "lc_http s = ServerClosed \<Longrightarrow>
    http_step binds addr s (log_line (Logged ''HTTP server stopped'' []) (s\<lparr>lc_http := Ended\<rparr>))"
| log_failed: "lc_http s = ServerFailed err \<Longrightarrow>
    http_step binds addr s (log_line (Logged ''Unexpected HTTP server error'' [(''err'', LString err)]) (s\<lparr>lc_http := Ended\<rparr>))"

text \<open>What comes from outside: requests, their ends, signals.\<close>

inductive outside_step :: "lifecycle \<Rightarrow> lifecycle \<Rightarrow> bool" where
  accept: "lc_http s = Serving \<Longrightarrow> \<not> inShutdown s \<Longrightarrow> r \<notin> lc_inFlight s \<union> lc_answered s \<union> lc_dropped s \<Longrightarrow>
    outside_step s (s\<lparr>lc_inFlight := insert r (lc_inFlight s)\<rparr>)"
| finish: "r \<in> lc_inFlight s \<Longrightarrow>
    outside_step s (s\<lparr>lc_inFlight := lc_inFlight s - {r}, lc_answered := insert r (lc_answered s)\<rparr>)"
| interrupt: "caught s sig \<Longrightarrow>
    outside_step s (s\<lparr>lc_stop := (case lc_stop s of None \<Rightarrow> Some sig | Some pending \<Rightarrow> Some pending),
                      lc_interrupted := True\<rparr>)"
| fatal: "\<not> caught s sig \<Longrightarrow> outside_step s (s\<lparr>lc_killed := True\<rparr>)"

definition process_step :: "bool \<Rightarrow> string \<Rightarrow> lifecycle \<Rightarrow> lifecycle \<Rightarrow> bool" where
  "process_step binds addr s s' \<longleftrightarrow> running s \<and> (main_step s s' \<or> http_step binds addr s s' \<or> outside_step s s')"

inductive_cases main_stepE: "main_step s s'"
inductive_cases http_stepE: "http_step binds addr s s'"
inductive_cases outside_stepE: "outside_step s s'"

abbreviation lives :: "bool \<Rightarrow> string \<Rightarrow> lifecycle \<Rightarrow> bool" where
  "lives binds addr s \<equiv> (process_step binds addr)\<^sup>*\<^sup>* launched s"

section \<open>Stopping is graceful\<close>

text \<open>
  The main goroutine stops only after a signal, drops requests only after the time is over, and
  requests are accepted only by a server that listens.
\<close>

definition stops_when_asked :: "lifecycle \<Rightarrow> bool" where
  "stops_when_asked s \<longleftrightarrow>
     (inShutdown s \<longrightarrow> lc_interrupted s) \<and> (lc_stop s \<noteq> None \<longrightarrow> lc_interrupted s) \<and>
     (lc_interrupted s \<longrightarrow> lc_stop s \<noteq> None \<or> inShutdown s) \<and>
     (lc_subscribed s \<longleftrightarrow> lc_main s \<noteq> Launching \<and> lc_main s \<noteq> Subscribing) \<and>
     (lc_logOpen s \<longleftrightarrow> lc_main s \<noteq> MainReturned)"

definition drops_when_late :: "lifecycle \<Rightarrow> bool" where
  "drops_when_late s \<longleftrightarrow>
     (lc_main s = ClosingLog \<or> lc_main s = MainReturned \<longrightarrow> lc_inFlight s = {}) \<and>
     (lc_dropped s \<noteq> {} \<longrightarrow> lc_timedOut s) \<and>
     (lc_main s = Closing \<longrightarrow> lc_inFlight s = {} \<or> lc_timedOut s)"

definition serves_when_listening :: "bool \<Rightarrow> lifecycle \<Rightarrow> bool" where
  "serves_when_listening binds s \<longleftrightarrow>
     (binds \<or> (lc_http s \<noteq> Serving \<and> lc_inFlight s = {} \<and> lc_answered s = {} \<and> lc_dropped s = {}))"

lemma inShutdown_cases:
  "inShutdown s \<longleftrightarrow> lc_main s = ShuttingDown \<or> lc_main s = Closing \<or> lc_main s = ClosingLog \<or> lc_main s = MainReturned"
  by (simp add: inShutdown_def)

lemma stops_when_asked_step:
  "main_step s s' \<Longrightarrow> stops_when_asked s \<Longrightarrow> stops_when_asked s'"
  "http_step binds addr s s' \<Longrightarrow> stops_when_asked s \<Longrightarrow> stops_when_asked s'"
  "outside_step s s' \<Longrightarrow> stops_when_asked s \<Longrightarrow> stops_when_asked s'"
  by (erule main_stepE http_stepE outside_stepE;
      auto simp: stops_when_asked_def inShutdown_cases log_line_def caught_def split: option.splits; fail)+

lemma drops_when_late_step:
  "main_step s s' \<Longrightarrow> drops_when_late s \<Longrightarrow> drops_when_late s'"
  "http_step binds addr s s' \<Longrightarrow> drops_when_late s \<Longrightarrow> drops_when_late s'"
  "outside_step s s' \<Longrightarrow> drops_when_late s \<Longrightarrow> drops_when_late s'"
  by (erule main_stepE http_stepE outside_stepE;
      auto simp: drops_when_late_def inShutdown_cases log_line_def; fail)+

lemma serves_when_listening_step:
  "main_step s s' \<Longrightarrow> serves_when_listening binds s \<Longrightarrow> serves_when_listening binds s'"
  "http_step binds addr s s' \<Longrightarrow> serves_when_listening binds s \<Longrightarrow> serves_when_listening binds s'"
  "outside_step s s' \<Longrightarrow> serves_when_listening binds s \<Longrightarrow> serves_when_listening binds s'"
  by (erule main_stepE http_stepE outside_stepE; auto simp: serves_when_listening_def log_line_def; fail)+

definition orderly :: "bool \<Rightarrow> lifecycle \<Rightarrow> bool" where
  "orderly binds s \<longleftrightarrow> stops_when_asked s \<and> drops_when_late s \<and> serves_when_listening binds s"

lemma process_step_orderly: "process_step binds addr s s' \<Longrightarrow> orderly binds s \<Longrightarrow> orderly binds s'"
  unfolding process_step_def orderly_def
  by (elim conjE disjE; intro conjI;
      erule (1) stops_when_asked_step drops_when_late_step serves_when_listening_step)

lemma lives_orderly: "lives binds addr s \<Longrightarrow> orderly binds s"
proof (induction rule: rtranclp_induct)
  case base
  show ?case
    by (simp add: orderly_def stops_when_asked_def drops_when_late_def serves_when_listening_def
        inShutdown_cases launched_def)
qed (rule process_step_orderly)

text \<open>Once interrupted, nothing can keep the main goroutine from returning: it is never stuck.\<close>

lemma interrupted_main_steps:
  assumes "lives binds addr s" "running s" "lc_interrupted s"
  shows "\<exists>s'. main_step s s'"
proof -
  note inv = lives_orderly [OF assms(1)]
  show ?thesis
  proof (cases "lc_main s")
    case Waiting
    with inv assms(3) obtain sig where "lc_stop s = Some sig"
      by (auto simp: orderly_def stops_when_asked_def inShutdown_cases)
    with Waiting show ?thesis by (blast intro: main_step.receive)
  qed (use assms(2) in \<open>auto simp: running_def intro: main_step.intros\<close>)
qed

lemma lives_stops:
  assumes "lives binds addr s"
  shows "lc_main s = MainReturned \<Longrightarrow>
      lc_interrupted s \<and> lc_inFlight s = {} \<and> (lc_dropped s \<noteq> {} \<longrightarrow> lc_timedOut s)"
    and "lc_logOpen s \<longleftrightarrow> lc_main s \<noteq> MainReturned"
    and "\<not> binds \<Longrightarrow> lc_inFlight s = {} \<and> lc_answered s = {} \<and> lc_dropped s = {}"
proof -
  have inv: "stops_when_asked s" "drops_when_late s" "serves_when_listening binds s"
    using lives_orderly [OF assms] by (simp_all add: orderly_def)
  show "lc_logOpen s \<longleftrightarrow> lc_main s \<noteq> MainReturned" using inv(1) by (simp add: stops_when_asked_def)
  show "lc_interrupted s \<and> lc_inFlight s = {} \<and> (lc_dropped s \<noteq> {} \<longrightarrow> lc_timedOut s)"
    if "lc_main s = MainReturned"
    using inv(1,2) that by (simp add: stops_when_asked_def drops_when_late_def inShutdown_cases)
  show "lc_inFlight s = {} \<and> lc_answered s = {} \<and> lc_dropped s = {}" if "\<not> binds"
    using inv(3) that by (simp add: serves_when_listening_def)
qed

text \<open>And it makes at most this many steps until then.\<close>

definition stepsLeft :: "lifecycle \<Rightarrow> nat" where
  "stepsLeft s = (case lc_main s of Launching \<Rightarrow> 6 | Subscribing \<Rightarrow> 5 | Waiting \<Rightarrow> 4 | ShuttingDown \<Rightarrow> 3
      | Closing \<Rightarrow> 2 | ClosingLog \<Rightarrow> 1 | MainReturned \<Rightarrow> 0)"

lemma main_step_left: "main_step s s' \<Longrightarrow> stepsLeft s' < stepsLeft s"
  by (erule main_stepE) (simp_all add: stepsLeft_def)

lemma other_step_left: "http_step binds addr s s' \<Longrightarrow> stepsLeft s' = stepsLeft s"
  by (erule http_stepE) (simp_all add: stepsLeft_def log_line_def)

lemma outside_step_left: "outside_step s s' \<Longrightarrow> stepsLeft s' = stepsLeft s"
  by (erule outside_stepE) (simp_all add: stepsLeft_def)

text \<open>A termination request is no interrupt: it ends the process where it is.\<close>

lemma terminate_is_fatal: "outside_step s (s\<lparr>lc_killed := True\<rparr>)" "\<not> caught s Terminate" "\<not> caught s Kill"
  by (auto simp: caught_def notified_def intro: outside_step.fatal [of _ Terminate])

text \<open>A whole life: started, interrupted, stopped with no request in flight.\<close>

lemma lives_step: "lives binds addr s \<Longrightarrow> main_step s s' \<Longrightarrow> running s \<Longrightarrow> lives binds addr s'"
  by (rule rtranclp.rtrancl_into_rtrancl) (auto simp: process_step_def)

lemma lives_outside_step: "lives binds addr s \<Longrightarrow> outside_step s s' \<Longrightarrow> running s \<Longrightarrow> lives binds addr s'"
  by (rule rtranclp.rtrancl_into_rtrancl) (auto simp: process_step_def)

lemma sample_life: "\<exists>s. lives binds addr s \<and> lc_main s = MainReturned \<and> \<not> lc_killed s"
proof -
  define s1 where "s1 = launched\<lparr>lc_main := Subscribing, lc_http := Starting\<rparr>"
  define s2 where "s2 = s1\<lparr>lc_main := Waiting, lc_subscribed := True\<rparr>"
  define s3 where "s3 = s2\<lparr>lc_stop := Some Interrupt, lc_interrupted := True\<rparr>"
  define s4 where "s4 = s3\<lparr>lc_main := ShuttingDown, lc_stop := None\<rparr>"
  define s5 where "s5 = s4\<lparr>lc_main := Closing\<rparr>"
  define s6 where "s6 = s5\<lparr>lc_main := ClosingLog, lc_dropped := lc_dropped s5 \<union> lc_inFlight s5, lc_inFlight := {}\<rparr>"
  define s7 where "s7 = s6\<lparr>lc_main := MainReturned, lc_logOpen := False\<rparr>"
  note states = s1_def s2_def s3_def s4_def s5_def s6_def s7_def launched_def
  have "main_step launched s1" unfolding s1_def by (rule launch) (simp add: launched_def)
  with rtranclp.rtrancl_refl have l1: "lives binds addr s1"
    by (rule lives_step) (simp_all add: running_def launched_def)
  have "main_step s1 s2" unfolding s2_def by (rule subscribe) (simp add: s1_def)
  with l1 have l2: "lives binds addr s2"
    by (rule lives_step) (simp_all add: running_def states)
  have "caught s2 Interrupt" by (simp add: caught_def notified_def s2_def)
  then have "outside_step s2 (s2\<lparr>lc_stop := (case lc_stop s2 of None \<Rightarrow> Some Interrupt | Some p \<Rightarrow> Some p),
      lc_interrupted := True\<rparr>)"
    by (rule outside_step.interrupt)
  then have "outside_step s2 s3" by (simp add: states)
  with l2 have l3: "lives binds addr s3"
    by (rule lives_outside_step) (simp_all add: running_def states)
  have "main_step s3 s4" unfolding s4_def by (rule receive) (simp_all add: states)
  with l3 have l4: "lives binds addr s4"
    by (rule lives_step) (simp_all add: running_def states)
  have "main_step s4 s5" unfolding s5_def by (rule drained) (simp_all add: states)
  with l4 have l5: "lives binds addr s5"
    by (rule lives_step) (simp_all add: running_def states)
  have "main_step s5 s6" unfolding s6_def by (rule close) (simp add: states)
  with l5 have l6: "lives binds addr s6"
    by (rule lives_step) (simp_all add: running_def states)
  have "main_step s6 s7" unfolding s7_def by (rule close_log) (simp add: states)
  with l6 have "lives binds addr s7"
    by (rule lives_step) (simp_all add: running_def states)
  moreover have "lc_main s7 = MainReturned" "\<not> lc_killed s7" by (simp_all add: states)
  ultimately show ?thesis by blast
qed

end
