(* ===== verification/ServiceStructs.thy ===== *)
theory ServiceStructs
  imports Lifecycle
begin

text \<open>
  The structs of \<open>server/services\<close> and their constructors, with the pointers between them, and the
  interface that the factory hands around (\<open>server/factory/interface.go\<close>). The other theories pass
  the network provider to every function directly; here is why: whatever part of a constructed
  service a method goes through, it reaches the provider that the service was constructed with,
  and an error factory wherever it needs one. Only the offline service lacks its own.
\<close>

section \<open>The interface of the factory (interface.go)\<close>

text \<open>The interface of the services, and the description for the log.\<close>

record 'w FactoryNetworkProvider = "'w NetworkProvider" +
  np_LogDescription :: "line list"

definition asFactoryNetworkProvider ::
  "('c, 'w) Externals \<Rightarrow> networkProvider \<Rightarrow> ('c \<times> 'w) FactoryNetworkProvider" where
  "asFactoryNetworkProvider E p =
     NetworkProvider.extend (asNetworkProvider E p) \<lparr>np_LogDescription = LogDescription p\<rparr>"

section \<open>The parts that the services share\<close>

record 'w networkProviderExtension =
  ext_provider :: "'w NetworkProvider"

definition newNetworkProviderExtension :: "'w NetworkProvider \<Rightarrow> 'w networkProviderExtension" where
  "newNetworkProviderExtension provider = \<lparr>ext_provider = provider\<rparr>"

record 'w transactionEventsController =
  tec_provider :: "'w NetworkProvider"

definition newTransactionEventsController :: "'w NetworkProvider \<Rightarrow> 'w transactionEventsController" where
  "newTransactionEventsController provider = \<lparr>tec_provider = provider\<rparr>"

record 'w transactionsFeaturesDetector =
  tfd_networkProvider :: "'w NetworkProvider"
  tfd_networkProviderExtension :: "'w networkProviderExtension"
  tfd_eventsController :: "'w transactionEventsController"

definition newTransactionsFeaturesDetector :: "'w NetworkProvider \<Rightarrow> 'w transactionsFeaturesDetector" where
  "newTransactionsFeaturesDetector provider =
     \<lparr>tfd_networkProvider = provider,
      tfd_networkProviderExtension = newNetworkProviderExtension provider,
      tfd_eventsController = newTransactionEventsController provider\<rparr>"

record 'w transactionsTransformer =
  tt_provider :: "'w NetworkProvider"
  tt_extension :: "'w networkProviderExtension"
  tt_featuresDetector :: "'w transactionsFeaturesDetector"
  tt_eventsController :: "'w transactionEventsController"

definition newTransactionsTransformer :: "'w NetworkProvider \<Rightarrow> 'w transactionsTransformer" where
  "newTransactionsTransformer provider =
     \<lparr>tt_provider = provider,
      tt_extension = newNetworkProviderExtension provider,
      tt_featuresDetector = newTransactionsFeaturesDetector provider,
      tt_eventsController = newTransactionEventsController provider\<rparr>"

section \<open>The services\<close>

text \<open>A pointer to an error factory may be nil.\<close>

record 'w networkService =
  ns_provider :: "'w NetworkProvider"
  ns_extension :: "'w networkProviderExtension"
  ns_errFactory :: "errFactory option"

definition NewNetworkService :: "'w NetworkProvider \<Rightarrow> 'w networkService" where
  "NewNetworkService networkProvider =
     \<lparr>ns_provider = networkProvider,
      ns_extension = newNetworkProviderExtension networkProvider,
      ns_errFactory = Some newErrFactory\<rparr>"

record 'w accountService =
  as_provider :: "'w NetworkProvider"
  as_extension :: "'w networkProviderExtension"
  as_errFactory :: "errFactory option"

definition NewAccountService :: "'w NetworkProvider \<Rightarrow> 'w accountService" where
  "NewAccountService provider =
     \<lparr>as_provider = provider,
      as_extension = newNetworkProviderExtension provider,
      as_errFactory = Some newErrFactory\<rparr>"

definition getNativeSymbol :: "'w accountService \<Rightarrow> string" where
  "getNativeSymbol service = Symbol (np_GetNativeCurrency (as_provider service))"

record 'w blockService =
  bks_provider :: "'w NetworkProvider"
  bks_extension :: "'w networkProviderExtension"
  bks_errFactory :: "errFactory option"
  bks_txsTransformer :: "'w transactionsTransformer"
  bks_genesisBlock :: "BlockResponse option"

definition NewBlockService :: "'w NetworkProvider \<Rightarrow> 'w blockService" where
  "NewBlockService provider =
     (let extension = newNetworkProviderExtension provider in
      \<lparr>bks_provider = provider,
       bks_extension = extension,
       bks_errFactory = Some newErrFactory,
       bks_txsTransformer = newTransactionsTransformer provider,
       bks_genesisBlock = None\<rparr>)"

record 'w mempoolService =
  ms_provider :: "'w NetworkProvider"
  ms_errFactory :: "errFactory option"
  ms_txsTransformer :: "'w transactionsTransformer"

definition NewMempoolService :: "'w NetworkProvider \<Rightarrow> 'w mempoolService" where
  "NewMempoolService provider =
     \<lparr>ms_provider = provider,
      ms_errFactory = Some newErrFactory,
      ms_txsTransformer = newTransactionsTransformer provider\<rparr>"

record 'w constructionService =
  cs_provider :: "'w NetworkProvider"
  cs_extension :: "'w networkProviderExtension"
  cs_errFactory :: "errFactory option"

definition NewConstructionService :: "'w NetworkProvider \<Rightarrow> 'w constructionService" where
  "NewConstructionService networkProvider =
     \<lparr>cs_provider = networkProvider,
      cs_extension = newNetworkProviderExtension networkProvider,
      cs_errFactory = Some newErrFactory\<rparr>"

section \<open>The services behind the controllers\<close>

datatype 'w service =
    NetworkStruct "'w networkService"
  | AccountStruct "'w accountService"
  | BlockStruct "'w blockService"
  | MempoolStruct "'w mempoolService"
  | ConstructionStruct "'w constructionService"
  | OfflineStruct offlineService

text \<open>In the order of the controllers: network, account, block, mempool, construction.\<close>

definition offlineServices :: "'w NetworkProvider \<Rightarrow> 'w service list" where
  "offlineServices P =
     [NetworkStruct (NewNetworkService P), OfflineStruct NewOfflineService, OfflineStruct NewOfflineService,
      OfflineStruct NewOfflineService, ConstructionStruct (NewConstructionService P)]"

definition onlineServices :: "'w NetworkProvider \<Rightarrow> 'w service list" where
  "onlineServices P =
     [NetworkStruct (NewNetworkService P), AccountStruct (NewAccountService P), BlockStruct (NewBlockService P),
      MempoolStruct (NewMempoolService P), ConstructionStruct (NewConstructionService P)]"

fun implementationOf :: "'w service \<Rightarrow> implementation" where
  "implementationOf (NetworkStruct _) = NetworkService"
| "implementationOf (AccountStruct _) = AccountService"
| "implementationOf (BlockStruct _) = BlockService"
| "implementationOf (MempoolStruct _) = MempoolService"
| "implementationOf (ConstructionStruct _) = ConstructionService"
| "implementationOf (OfflineStruct s) = OfflineService s"

definition controllersOf :: "Routers \<Rightarrow> implementation list" where
  "controllersOf r = [networkController r, accountController r, blockController r, mempoolController r,
     constructionController r]"

lemma controllers_are_the_services:
  "CreateControllers newAsserter P = Inr r \<Longrightarrow>
     controllersOf r = map implementationOf (if np_IsOffline P then offlineServices P else onlineServices P)"
  by (auto simp: CreateControllers_def createOfflineControllers_def createOnlineControllers_def
      controllersOf_def offlineServices_def onlineServices_def Let_def split: if_splits)

section \<open>Every part works on the same provider\<close>

text \<open>The providers that the methods of a service reach, through whatever pointer.\<close>

definition detectorProviders :: "'w transactionsFeaturesDetector \<Rightarrow> 'w NetworkProvider list" where
  "detectorProviders d =
     [tfd_networkProvider d, ext_provider (tfd_networkProviderExtension d), tec_provider (tfd_eventsController d)]"

definition transformerProviders :: "'w transactionsTransformer \<Rightarrow> 'w NetworkProvider list" where
  "transformerProviders t =
     [tt_provider t, ext_provider (tt_extension t), tec_provider (tt_eventsController t)] @
     detectorProviders (tt_featuresDetector t)"

fun providersOf :: "'w service \<Rightarrow> 'w NetworkProvider list" where
  "providersOf (NetworkStruct s) = [ns_provider s, ext_provider (ns_extension s)]"
| "providersOf (AccountStruct s) = [as_provider s, ext_provider (as_extension s)]"
| "providersOf (BlockStruct s) =
     [bks_provider s, ext_provider (bks_extension s)] @ transformerProviders (bks_txsTransformer s)"
| "providersOf (MempoolStruct s) = ms_provider s # transformerProviders (ms_txsTransformer s)"
| "providersOf (ConstructionStruct s) = [cs_provider s, ext_provider (cs_extension s)]"
| "providersOf (OfflineStruct s) = []"

fun errFactoryOf :: "'w service \<Rightarrow> errFactory option" where
  "errFactoryOf (NetworkStruct s) = ns_errFactory s"
| "errFactoryOf (AccountStruct s) = as_errFactory s"
| "errFactoryOf (BlockStruct s) = bks_errFactory s"
| "errFactoryOf (MempoolStruct s) = ms_errFactory s"
| "errFactoryOf (ConstructionStruct s) = cs_errFactory s"
| "errFactoryOf (OfflineStruct s) = os_errFactory s"

lemmas constructor_defs =
  NewNetworkService_def NewAccountService_def NewBlockService_def NewMempoolService_def
  NewConstructionService_def NewOfflineService_def newTransactionsTransformer_def
  newTransactionsFeaturesDetector_def newTransactionEventsController_def newNetworkProviderExtension_def

lemma services_share_the_provider:
  "s \<in> set (onlineServices P) \<union> set (offlineServices P) \<Longrightarrow> Q \<in> set (providersOf s) \<Longrightarrow> Q = P"
  by (auto simp: onlineServices_def offlineServices_def constructor_defs detectorProviders_def
      transformerProviders_def Let_def)

lemma services_have_error_factories:
  "s \<in> set (onlineServices P) \<Longrightarrow> errFactoryOf s = Some newErrFactory"
  "s \<in> set (offlineServices P) \<Longrightarrow>
     errFactoryOf s = (case s of OfflineStruct _ \<Rightarrow> None | _ \<Rightarrow> Some newErrFactory)"
  by (auto simp: onlineServices_def offlineServices_def constructor_defs Let_def)

lemma getNativeSymbol_wired: "getNativeSymbol (NewAccountService P) = getNativeCurrencySymbol P"
  by (simp add: getNativeSymbol_def getNativeCurrencySymbol_def constructor_defs)

lemma factory_provider_truncates:
  "NetworkProvider.truncate (asFactoryNetworkProvider E p) = asNetworkProvider E p"
  by (simp add: asFactoryNetworkProvider_def NetworkProvider.defs asNetworkProvider_def)

end
