(* ===== verification/Spec2Isabelle.thy ===== *)
theory Spec2Isabelle
  imports BlockStoreSamples ProxyAdapter ServiceStructs
begin

text \<open>
  A model of MultiversX Rosetta, the Rosetta API server of the MultiversX network
  (\<open>src/cmd/rosetta\<close>, \<open>src/server\<close>), with the theorems that make it correct.

  \<^bold>\<open>The program.\<close> A server answers the Rosetta endpoints (network, account, block, mempool,
  construction). It keeps no chain of its own: a network provider asks one observer node,
  caches blocks by nonce, and undoes the effects of scheduled miniblocks, so that each block
  holds the transactions that take effect in it. A transformer turns these transactions, with the
  events of their logs, into balance-changing operations. The construction endpoints build,
  parse and sign transfers. In offline mode only the construction and network services work.

  \<^bold>\<open>Theories, in the order of the imports.\<close>
  Prelude: errors as sums, traversals, filters that may fail, maps.
  GoStd: what the program uses of Go's standard library: 64-bit arithmetic that wraps
  (words), hexadecimal and decimal text, \<open>math/big\<close>, \<open>fmt.Errorf\<close> as a list of parts.
  Resources: \<open>server/resources\<close>, the fields of mx-chain-core-go that the server reads, and the
  interface \<open>NetworkProvider\<close> as a record of functions, with its contract as the locale
  \<open>network_provider\<close>. A method that talks to the observer takes and returns the state \<open>'w\<close>
  of the world.
  Operations: \<open>services/operations.go\<close>, \<open>converters.go\<close>, \<open>networkProviderExtension.go\<close>.
  Errors: \<open>services/errors.go\<close>. Events: \<open>transactionEventsController.go\<close> and its event types;
  the extractors share the contract \<open>event_extractor\<close>. Features:
  \<open>transactionsFeaturesDetector.go\<close>. Transformer: \<open>transactionsTransformer.go\<close>.
  Currencies, Scheduled, Urls, Provider, ProviderBlocks: \<open>server/provider\<close> (currencies,
  scheduled miniblocks, observer paths and token identifiers, accounts and node status, blocks,
  fees, observed addresses). A method of the provider is a step on the cache and the world; what
  is not under \<open>src\<close> (the observer's processors, the LRU cache, the bech32 converter, the hasher,
  the enumeration order of a Go map) is the record \<open>Externals\<close>.
  Utf8: runes in UTF-8, valid texts, and what \<open>encoding/json\<close> makes of others.
  Json: \<open>encoding/json\<close> as far as the objects of the construction endpoints need it, with
  numbers as \<open>float64\<close> and texts in which invalid UTF-8 is replaced by U+FFFD. JsonText: the text
  of JSON, read token by token, and its decoding into currencies and errors of the observer. Construction: \<open>constructionService.go\<close>, \<open>constructionMetadata.go\<close>,
  \<open>constructionOptions.go\<close>. Services: the block, account, network, mempool and offline services.
  Factory: \<open>server/factory/provider.go\<close> and \<open>components\<close>; the constructors of other repositories
  are the record \<open>Constructors\<close>. Wiring: \<open>cmd/rosetta\<close> (flags to arguments, the file of
  currencies, the logger, profiling routes, \<open>startRosetta\<close>) and \<open>factory/controllers.go\<close>, with
  requests as a datatype. CommandLine: the table of flags of \<open>cli.go\<close>, what the flag library
  documents for it, and which fields keep the value of their flag.
  GenesisCache: the double-checked locking of \<open>getGenesisBlock\<close> as a step relation.
  ServerRuns: sequences of requests, and what every request keeps of an invariant of the provider's
  state (the locale \<open>provider_invariant\<close>). Views: providers that are alike for the parts of the server
  that do not ask the observer (the locale \<open>same_view\<close>).
  TestDoubles: \<open>testscommon\<close>, with the mock of the provider as a second model of \<open>network_provider\<close>.
  ProxyAdapter: \<open>systemtests/proxyToObserverAdapter.go\<close>. Logs: the lines that the provider and the
  services write about their work, with the alarms of the endpoints that measure their time.
  Concurrency: block requests as programs of atomic steps on the cache and the observer
  (\<open>GetBlockByNonce\<close>, \<open>GetBlockByHash\<close> and what they call), interleaved in any order.
  BlockStore: the same code with blocks, miniblocks and transactions as objects behind pointers:
  \<open>createBlockCopy\<close>, the simplification in place, \<open>tx.BlockNonce\<close>; the cache holds pointers
  (\<open>PointerCache\<close>). BlockStoreFacts: objects that stand for values, and the simulation of
  one model by the other, for caches that store what they are given (\<open>parametric_cache\<close>).
  NonceReads: nothing reads the block nonce of a transaction. BlockStoreSamples: instances.
  Lifecycle: the rest of \<open>cmd/rosetta/main.go\<close>: the application, \<open>createHttpServer\<close>, and the life of
  the process as step relations of its two goroutines and its surroundings (signals, requests).
  ServiceStructs: the structs of \<open>server/services\<close>, their constructors and
  \<open>factory/interface.go\<close>; all parts of a service reach the provider it was made with, which is why
  the other theories pass the provider directly.
  ProviderFacts, ScheduledFacts, TransformerFacts, Typing, ConstructionFacts, JsonTextFacts,
  ServerFacts: the lemmas on which the properties of this file rest. Samples, SampleRuns,
  SampleSetups: a concrete platform on which the properties are instantiated.

  \<^bold>\<open>What is shown.\<close> C1 to C8: recovered operations add up. The sum over a transaction is its
  fee, reward or refund in the native currency and what its events mint and burn in every other;
  the filters keep the balances of observed addresses; answers are well formed and typed; transfers,
  invalid transactions and multi-transfer events have exactly the effect that they should.
  C9 to C11: the specification of the scheduled miniblocks, exactly when the recursion returns,
  and independence of the enumeration order. Where amounts matter, C1, C2 and C5 ask for decimal texts
  (of the fee only where a type charges it) and for no negative value in an inner transaction.
  C12 to C16: the cached blocks are those of the chain, over any sequence of requests answers are blocks of the chain and link up, blocks by
  nonce are final, but a block by hash caches the next one, final or not. C17 to C21: the same for
  requests that run at the same time, which an observer that always answers lets end after ten
  accesses with the block of the chain; and the model with shared, mutable objects gives the
  answers of the model with values. C22 and C23: the shared genesis block.
  C24 to C28: intents survive the construction flow and signing, gas and fees, the objects between
  the endpoints and the numbers and texts they alter; the round trips are for numbers below
  \<open>2 ^ 53\<close> and texts that are valid UTF-8. C29 to C39: published errors, what the observer refuses,
  offline servers, flags, the file of currencies, node status, stopping, the mock that the tests use for the provider.
  C40: genesis balances.

  \<^bold>\<open>Bounds and fuel.\<close> Integers of Go types are words and wrap; where a theorem speaks of exact
  numbers it says what has to fit in 64 bits. The recursion over contract results is a
  \<open>partial_function\<close>: \<open>None\<close> is a call that never returns, and C10 says exactly which
  calls these are. Nothing else needs fuel: the tokenizer of JSON texts terminates by the length of
  the text, and the search for the shortest decimal text of a \<open>float64\<close> runs through the 22 powers
  of ten that a 64-bit number can need.

  \<^bold>\<open>Not modelled.\<close> The request validation and the routing of the Rosetta SDK (only the
  arguments of its asserter), the bytes on the wire (of HTTP only when the server listens, stops and
  drops requests), the Python scripts of the system tests. What a stop watch measures is a
  parameter. Code of mx-chain-proxy-go and mx-chain-core-go is not in the repository and is a
  parameter throughout. The text of operating-system and library errors is a parameter; so is
  what the flag library answers when a float flag is looked up as an integer. Go's
  bound on the nesting of JSON texts (10000) is left out.
\<close>

section \<open>Balances recovered from transactions\<close>

text \<open>C1: The operations recovered from a transaction change the sum of the native currency by
  what its type says (fees are taken, rewards and refunds are given, transfers add up to zero) and
  by the developer rewards that its events claim, on a server whose supported tokens do not
  begin the native symbol. The amounts are decimal texts (the value, and the initially paid fee of the
  types that charge it; contract results and rewards need none), and the inner transaction of a
  relayed one, if it can be read, does not bear a negative value.\<close>

theorem native_currency_adds_up:
  assumes "txToRosettaTx L (serverProvider E args) tx txs = Inr r"
    and "decimal_amounts tx" "inner_value_nonneg L tx"
    and "\<forall>c \<in> set (a_CustomCurrencies args). \<not> has_prefix (a_NativeCurrencySymbol args) (Symbol c)"
  shows "total_effect (getNativeCurrency (serverProvider E args)) (rt_Operations r) =
    base_change L (serverProvider E args) tx txs +
    (if hasAnySignalError tx then 0
     else sum_list (map (rewards_change (serverProvider E args) (tx_Epoch tx)
            (getNativeCurrency (serverProvider E args))) (logEvents tx)))"
proof -
  have apart: "\<forall>s. np_HasCustomCurrency (serverProvider E args) s \<longrightarrow>
      \<not> has_prefix (getNativeCurrencySymbol (serverProvider E args)) s"
    using assms(4)
    by (auto simp: provider_simps getNativeCurrencySymbol_def GetNativeCurrency_def
        has_currenciesOf currenciesOf_native)
  show ?thesis
    by (simp add: server.transaction_total [OF assms(1-3)] events_change_def
        server.native_supply_change [OF apart])
qed

theorem native_currency_adds_up_witness:
  "\<exists>r. txToRosettaTx sampleLibrary sampleP plainTx [plainTx] = Inr r \<and>
     total_effect (getNativeCurrency sampleP) (rt_Operations r) = - 50"
proof -
  obtain r where r: "txToRosettaTx sampleLibrary sampleP plainTx [plainTx] = Inr r"
    using sample_tx by blast
  have "\<forall>c \<in> set (a_CustomCurrencies sampleArgs). \<not> has_prefix (a_NativeCurrencySymbol sampleArgs) (Symbol c)"
    by (simp add: sampleArgs_def has_prefix_def)
  from native_currency_adds_up [OF r sample_decimal sample_inner_values this] r show ?thesis
    by (simp add: plainTx_fields base_change_def TxTypeNormal_def logEvents_def)
qed

text \<open>C2: In every other currency the operations recovered from a transaction add up to what its
  events mint, create and add minus what they burn and wipe, for the supported tokens; transfers
  add up to zero, and a transaction with a signal error changes nothing. The amounts are as in C1:
  decimal, a fee where the type charges one, no negative value in an inner transaction.\<close>

theorem token_supply_adds_up:
  assumes "txToRosettaTx L (serverProvider E args) tx txs = Inr r"
    and "decimal_amounts tx" "inner_value_nonneg L tx"
    and "cur \<noteq> getNativeCurrency (serverProvider E args)"
  shows "total_effect cur (rt_Operations r) =
    (if hasAnySignalError tx then 0
     else sum_list (map (supply_change (serverProvider E args) cur) (logEvents tx)))"
proof -
  have "rewards_change (serverProvider E args) (tx_Epoch tx) cur ev = 0" for ev
    using assms(4) by (simp add: rewards_change_def)
  then show ?thesis
    by (simp add: server.transaction_total [OF assms(1-3)] assms(4) events_change_def)
qed

theorem token_supply_adds_up_witness:
  "\<exists>r. txToRosettaTx sampleLibrary sampleP mintTx [mintTx] = Inr r \<and>
     total_effect \<lparr>Symbol = ''TOK-123456'', Decimals = 6\<rparr> (rt_Operations r) = 3"
proof -
  obtain r where r: "txToRosettaTx sampleLibrary sampleP mintTx [mintTx] = Inr r"
    using sample_mint_tx by blast
  have cur: "\<lparr>Symbol = ''TOK-123456'', Decimals = 6\<rparr> \<noteq> getNativeCurrency sampleP"
    by (simp add: getNativeCurrency_def provider_simps sampleArgs_def GetNativeCurrency_def currenciesOf_native)
  from token_supply_adds_up [OF r sample_mint_decimal sample_inner_values cur] r sample_mint_change
  show ?thesis by simp
qed

text \<open>C3: What the last loop of the transformer drops (operations of addresses that are not
  observed, zero amounts, empty transactions) does not change the balance of an observed account:
  over the answer for a block, every observed account gains in every currency what it gains over
  the operations recovered from the block, and other accounts appear nowhere.\<close>

theorem block_keeps_balances:
  assumes "transformBlockTxs L P block = Inr rtxs"
  shows "\<exists>recovered. recoveredTxs L P block = Inr recovered \<and>
    block_effect a cur rtxs =
      (if np_IsAddressObserved P a = Inr True then block_effect a cur recovered else 0)"
  using assms by (rule block_balances)

theorem block_keeps_balances_witness:
  "\<exists>rtxs recovered. transformBlockTxs sampleLibrary sampleP (sampleChain 5) = Inr rtxs \<and>
     recoveredTxs sampleLibrary sampleP (sampleChain 5) = Inr recovered \<and>
     block_effect ''alice'' (getNativeCurrency sampleP) rtxs =
     block_effect ''alice'' (getNativeCurrency sampleP) recovered"
proof -
  obtain rtxs where "transformBlockTxs sampleLibrary sampleP (sampleChain 5) = Inr rtxs"
    using sample_block by blast
  moreover have "np_IsAddressObserved sampleP ''alice'' = Inr True" by (rule sample_observed) (simp_all add: has_prefix_def)
  ultimately show ?thesis
    using block_keeps_balances [of sampleLibrary sampleP "sampleChain 5" rtxs "''alice''"
        "getNativeCurrency sampleP"] by auto
qed

text \<open>C4: Every transaction in the answer for a block has operations, and they have the form that
  Rosetta asks for: indices are positions, types and statuses are declared ones, amounts are not
  zero, addresses are observed.\<close>

theorem block_is_well_formed:
  assumes "transformBlockTxs L P block = Inr rtxs" "r \<in> set rtxs"
  shows "well_formed_operations P (rt_Operations r) \<and> rt_Operations r \<noteq> []"
  using assms by (rule block_well_formed)

theorem block_is_well_formed_witness:
  "\<exists>rtxs. transformBlockTxs sampleLibrary sampleP (sampleChain 5) = Inr rtxs \<and> rtxs \<noteq> [] \<and>
     (\<forall>r \<in> set rtxs. well_formed_operations sampleP (rt_Operations r))"
proof -
  obtain r rtxs where "transformBlockTxs sampleLibrary sampleP (sampleChain 5) = Inr (r # rtxs)"
    using sample_block by (metis list.exhaust)
  then show ?thesis using block_is_well_formed by blast
qed

text \<open>C5: Every operation of a transaction in the answer for a block carries an amount that parses as
  an integer, in the currency that goes with its type: a custom transfer in the currency of a
  supported token (with the bytes of a nonce, if any), everything else in the native currency. The
  amounts of the transactions are as in C1, and the receipts of the block have values.\<close>

theorem operations_are_typed:
  assumes "transformBlockTxs L (serverProvider E args) block = Inr rtxs" "r \<in> set rtxs"
    and "operation \<in> set (rt_Operations r)"
    and "\<forall>tx \<in> set (txsOfBlock block). decimal_amounts tx \<and> inner_value_nonneg L tx"
    and "\<forall>receipt \<in> set (receiptsOfBlock block). rc_Value receipt \<noteq> None"
  shows "typed_operation (serverProvider E args) operation"
  using assms by (rule server.block_typed)

theorem operations_are_typed_witness:
  "\<exists>rtxs. transformBlockTxs sampleLibrary sampleP (sampleChain 5) = Inr rtxs \<and> rtxs \<noteq> [] \<and>
     (\<forall>r \<in> set rtxs. \<forall>operation \<in> set (rt_Operations r). typed_operation sampleP operation)"
proof -
  obtain rtxs where rtxs: "transformBlockTxs sampleLibrary sampleP (sampleChain 5) = Inr rtxs" "rtxs \<noteq> []"
    using sample_block by blast
  have "\<forall>tx \<in> set (txsOfBlock (sampleChain 5)). decimal_amounts tx \<and> inner_value_nonneg sampleLibrary tx"
    "receiptsOfBlock (sampleChain 5) = []"
    using sample_decimals sample_inner_values
    by (simp_all add: txsOfBlock_def receiptsOfBlock_def sampleChain_def plainBlock_def plainMiniblock_def
        decimal_amounts_def charges_initial_fee_def plainTx_fields)
  with operations_are_typed [OF rtxs(1)] rtxs show ?thesis by auto
qed

text \<open>C6: A plain transfer (no logs, not relayed) moves its value from sender to receiver and
  takes its fee from the payer: the effect on each account is exactly that.\<close>

theorem plain_transfer_balances:
  assumes "txToRosettaTx L P tx txs = Inr r" "tx_Type tx = TxTypeNormal" "tx_Logs tx = None"
    and "\<not> isRelayedV1Transaction tx" "decimal_amounts tx" "isNonZeroAmount (tx_Value tx)"
  shows "effect_on a (getNativeCurrency P) (rt_Operations r) =
      (if a = tx_Receiver tx then amount_value (tx_Value tx) else 0)
      - (if a = tx_Sender tx then amount_value (tx_Value tx) else 0)
      - (if a = decideFeePayer tx then amount_value (tx_InitiallyPaidFee tx) else 0)"
  using assms by (rule plain_transfer_effect)

theorem plain_transfer_balances_witness:
  "\<exists>r. txToRosettaTx sampleLibrary sampleP plainTx [plainTx] = Inr r \<and>
     effect_on ''alice'' (getNativeCurrency sampleP) (rt_Operations r) = - 150 \<and>
     effect_on ''bob'' (getNativeCurrency sampleP) (rt_Operations r) = 100"
proof -
  obtain r where r: "txToRosettaTx sampleLibrary sampleP plainTx [plainTx] = Inr r"
    using sample_tx by blast
  have nz: "isNonZeroAmount (tx_Value plainTx)"
    using zero_amount_value [of "tx_Value plainTx"] by (auto simp: isNonZeroAmount_def plainTx_fields)
  note eff = plain_transfer_balances [OF r sample_plain(1,2,3) sample_decimal nz]
  show ?thesis
    using r eff [of "''alice''"] eff [of "''bob''"] by (simp add: plainTx_fields sample_fee_payer)
qed

text \<open>C7: An invalid transaction whose events do not count costs its fee payer the fee (the one
  that the provider computes when only data movement is paid) and changes nobody else, in no
  currency.\<close>

theorem invalid_transaction_costs_its_fee:
  assumes "txToRosettaTx L (serverProvider E args) tx txs = Inr r" "tx_Type tx = TxTypeInvalid"
    and "hasAnySignalError tx \<or> tx_Logs tx = None" "decimal_amounts tx"
  shows "effect_on a cur (rt_Operations r) =
      (if cur = getNativeCurrency (serverProvider E args) \<and> a = decideFeePayer tx
       then base_change L (serverProvider E args) tx txs else 0)"
  using assms server.fee_nonneg by (intro invalid_transaction_effect)

theorem invalid_transaction_costs_its_fee_witness:
  "\<exists>r. txToRosettaTx sampleLibrary sampleP invalidTx [] = Inr r \<and>
     effect_on ''bob'' (getNativeCurrency sampleP) (rt_Operations r) = 0 \<and>
     effect_on ''alice'' (getNativeCurrency sampleP) (rt_Operations r) = - 50"
proof -
  obtain r where r: "txToRosettaTx sampleLibrary sampleP invalidTx [] = Inr r"
    using sample_invalid(4) by blast
  note eff = invalid_transaction_costs_its_fee [OF r sample_invalid(1) disjI2 [OF sample_invalid(2)] sample_invalid(3)]
  show ?thesis
    using r eff [of "''alice''"] eff [of "''bob''"] sample_invalid(5,6) by simp
qed

text \<open>C8: A multi-transfer event is understood exactly when its topics are groups of three and a
  receiver; then it gives one transfer per group, with the token, nonce and value of the group,
  from the address of the event to the receiver.\<close>

theorem multi_transfer_layout:
  "((\<exists>evs. multiTransfersOfEvent P ev = Inr evs) \<longleftrightarrow> length (ev_Topics ev) mod 3 = 1) \<and>
   (ev_Topics ev = transfer_topics ts r \<longrightarrow> multiTransfersOfEvent P ev =
      Inr (map (transfer_event (ev_Address ev) (np_ConvertPubKeyToAddress P r)) ts))"
  by (simp add: multiTransfersOfEvent_succeeds_iff multiTransfersOfEvent_transfers)

theorem multi_transfer_layout_witness:
  "multiTransfersOfEvent sampleP
      \<lparr>ev_Address = ''alice'', ev_Identifier = transactionEventMultiESDTNFTTransfer,
       ev_Topics = transfer_topics [(''TOK-123456'', [], ''aa'')] ''bob'', ev_Data = []\<rparr> =
   Inr [transfer_event ''alice'' (np_ConvertPubKeyToAddress sampleP ''bob'') (''TOK-123456'', [], ''aa'')]"
  using multi_transfer_layout [of sampleP "\<lparr>ev_Address = ''alice'', ev_Identifier = transactionEventMultiESDTNFTTransfer,
       ev_Topics = transfer_topics [(''TOK-123456'', [], ''aa'')] ''bob'', ev_Data = []\<rparr>"
      "[(''TOK-123456'', [], ''aa'')]" "''bob''"] by simp

section \<open>Scheduled transactions and the chain\<close>

text \<open>C9: If neither the previous nor the current block has scheduled transactions, the transactions
  that take effect in a block are the listed ones, as they are. Otherwise they are, by hash, those of
  terms (a) to (d) of the comment in the source: executed now under a scheduled transaction, or listed
  in the block and not already counted before; each hash occurs once. The results counted are
  those reached from scheduled transactions through links inside the shard.\<close>

theorem effective_transactions:
  assumes "\<And>m. mset (enum m) = mset m"
    and "gatherEffectiveTransactions enum self prev cur nxt = Some txs"
  shows "if gatherScheduledTransactions prev = [] \<and> gatherScheduledTransactions cur = []
    then txs = gatherAllTransactions cur
    else \<exists>before now.
      set before = (if gatherScheduledTransactions prev = [] then {} else
        (\<Union>tx \<in> set (gatherScheduledTransactions prev).
          {r. executes_under self (directResults (gatherAllTransactions cur)) (tx_Hash tx) r})) \<and>
      set now = (if gatherScheduledTransactions cur = [] then {} else
        (\<Union>tx \<in> set (gatherScheduledTransactions cur).
          {r. executes_under self (directResults (gatherAllTransactions nxt)) (tx_Hash tx) r})) \<and>
      (\<forall>t. t \<in> set txs \<longleftrightarrow> effective_tx prev cur before now (tx_Hash t) = Some t) \<and>
      distinct (map tx_Hash txs)"
proof (cases "gatherScheduledTransactions prev = [] \<and> gatherScheduledTransactions cur = []")
  case True
  with assms(2) show ?thesis by (simp add: gatherEffectiveTransactions_def)
next
  case False
  then have nontrivial: "gatherScheduledTransactions prev \<noteq> [] \<or> gatherScheduledTransactions cur \<noteq> []" by blast
  obtain before now where *:
    "(if gatherScheduledTransactions prev = [] then before = []
     else findImmediatelyExecutingContractResults self (gatherScheduledTransactions prev)
            (gatherAllTransactions cur) = Some before) \<and>
    (if gatherScheduledTransactions cur = [] then now = []
     else findImmediatelyExecutingContractResults self (gatherScheduledTransactions cur)
            (gatherAllTransactions nxt) = Some now)"
    "\<forall>t. t \<in> set txs \<longleftrightarrow> effective_tx prev cur before now (tx_Hash t) = Some t"
    "distinct (map tx_Hash txs)"
    using gatherEffective_map [OF assms(1) nontrivial assms(2)] by blast
  then have "set before = (if gatherScheduledTransactions prev = [] then {} else
      (\<Union>tx \<in> set (gatherScheduledTransactions prev).
        {r. executes_under self (directResults (gatherAllTransactions cur)) (tx_Hash tx) r}))"
    and "set now = (if gatherScheduledTransactions cur = [] then {} else
      (\<Union>tx \<in> set (gatherScheduledTransactions cur).
        {r. executes_under self (directResults (gatherAllTransactions nxt)) (tx_Hash tx) r}))"
    using findImmediately_set by (auto split: if_splits)
  with * show ?thesis unfolding if_not_P [OF False] by blast
qed

theorem effective_transactions_witness:
  "\<exists>txs. gatherEffectiveTransactions (\<lambda>m. m) 0 (sampleChain 4) (sampleChain 5) (sampleChain 6) =
       Some (gatherAllTransactions (sampleChain 5)) \<and>
     gatherEffectiveTransactions (\<lambda>m. m) 0 (sampleChain 4) scheduledBlock (sampleChain 6) = Some txs \<and>
     distinct (map tx_Hash txs) \<and> txs \<noteq> []"
proof -
  obtain plain where p: "gatherEffectiveTransactions (\<lambda>m. m) 0 (sampleChain 4) (sampleChain 5) (sampleChain 6) = Some plain"
    by (simp add: gatherEffectiveTransactions_def sample_unscheduled)
  obtain txs where g: "gatherEffectiveTransactions (\<lambda>m. m) 0 (sampleChain 4) scheduledBlock (sampleChain 6) = Some txs"
    and ne: "txs \<noteq> []" using sample_scheduled by blast
  have "gatherScheduledTransactions scheduledBlock \<noteq> []"
    by (simp add: scheduledBlock_def gatherScheduledTransactions_def plainBlock_def plainMiniblock_def
        ScheduledProcessingType_def)
  then have "distinct (map tx_Hash txs)" using effective_transactions [OF _ g] by auto
  moreover have "plain = gatherAllTransactions (sampleChain 5)"
    using effective_transactions [OF _ p] by (simp add: sample_unscheduled)
  ultimately show ?thesis using p g ne by simp
qed

text \<open>C10: Building the block of effective transactions returns exactly when no scheduled transaction,
  of the previous or of the current block, leads through links of contract results inside the
  shard to a result that is its own descendant; otherwise the recursion runs forever.\<close>

theorem simplification_returns_exactly:
  "(\<exists>b. doSimplifyBlockWithScheduledTransactions enum prev cur nxt = Some b) \<longleftrightarrow>
     (\<forall>tx \<in> set (gatherScheduledTransactions prev).
        \<not> loops_below (bk_Shard cur) (directResults (gatherAllTransactions cur)) (tx_Hash tx)) \<and>
     (\<forall>tx \<in> set (gatherScheduledTransactions cur).
        \<not> loops_below (bk_Shard cur) (directResults (gatherAllTransactions nxt)) (tx_Hash tx))"
  by (rule simplify_returns_iff)

theorem simplification_returns_exactly_witness:
  "(\<exists>b. doSimplifyBlockWithScheduledTransactions (\<lambda>m. m) (sampleChain 4) scheduledBlock (sampleChain 6) = Some b) \<and>
   doSimplifyBlockWithScheduledTransactions (\<lambda>m. m) (sampleChain 4) scheduledBlock loopingBlock = None"
proof
  have "\<not> (\<exists>b. doSimplifyBlockWithScheduledTransactions (\<lambda>m. m) (sampleChain 4) scheduledBlock loopingBlock = Some b)"
    unfolding simplification_returns_exactly using looping_result looping_scheduled by auto
  then show "doSimplifyBlockWithScheduledTransactions (\<lambda>m. m) (sampleChain 4) scheduledBlock loopingBlock = None"
    by simp
qed (use simplify_returns [of scheduledBlock "sampleChain 6"] sample_acyclic in blast)

text \<open>C11: Go enumerates the map of effective transactions in any order, and the answer for the
  block does not depend on it: whichever order a run takes, it returns, and the transactions are
  the same up to order.\<close>

theorem enumeration_order_is_irrelevant:
  assumes "\<And>m. mset (enum1 m) = mset m" "\<And>m. mset (enum2 m) = mset m"
    and "doSimplifyBlockWithScheduledTransactions enum1 prev b nxt = Some b1"
    and "transformBlockTxs L P b1 = Inr rtxs"
  shows "\<exists>b2 rtxs2. doSimplifyBlockWithScheduledTransactions enum2 prev b nxt = Some b2 \<and>
    transformBlockTxs L P b2 = Inr rtxs2 \<and> mset rtxs2 = mset rtxs"
proof -
  obtain b2 where b2: "doSimplifyBlockWithScheduledTransactions enum2 prev b nxt = Some b2"
    "mset (txsOfBlock b1) = mset (txsOfBlock b2)" "receiptsOfBlock b1 = receiptsOfBlock b2"
    using simplified_mset [OF assms(1-3)] by blast
  from transformBlockTxs_mset [OF b2(2) arg_cong [OF b2(3)] assms(4)] b2(1) show ?thesis by blast
qed

theorem enumeration_order_is_irrelevant_witness:
  "\<exists>b2 rtxs2. doSimplifyBlockWithScheduledTransactions rev (sampleChain 4) (sampleChain 5) (sampleChain 6) = Some b2 \<and>
    transformBlockTxs sampleLibrary sampleP b2 = Inr rtxs2"
proof -
  obtain b1 rtxs where "doSimplifyBlockWithScheduledTransactions (\<lambda>m. m) (sampleChain 4) (sampleChain 5) (sampleChain 6) = Some b1"
    and "transformBlockTxs sampleLibrary sampleP b1 = Inr rtxs" using sample_simplified by blast
  from enumeration_order_is_irrelevant [OF _ _ this, of rev] show ?thesis by auto
qed

text \<open>C12: With an LRU cache and an observer that answers with the blocks of a chain, a block got
  by nonce is the block of the chain, simplified with its two neighbours, whatever the cache
  holds; and the cache goes on holding blocks of the chain only.\<close>

theorem block_by_nonce_is_of_the_chain:
  assumes "lawful_cache E contents" "serves_chain E p chain" "coherent contents chain (fst s)"
    and "bk_Nonce (chain n) = n" "GetBlockByNonce E p n s = (Inr b, s')"
  shows "doSimplifyBlockWithScheduledTransactions (ext_enum E) (chain (n - 1)) (chain n) (chain (n + 1)) = Some b \<and>
    coherent contents chain (fst s')"
  using GetBlockByNonce_Inr [OF assms] GetBlockByNonce_coherent [OF assms(1-3,5)] by blast

theorem block_by_nonce_is_of_the_chain_witness:
  "\<exists>b s'. GetBlockByNonce sampleExternals sampleProvider 5 ([], ()) = (Inr b, s') \<and>
     coherent map_of sampleChain (fst s')"
proof -
  obtain b s' where get: "GetBlockByNonce sampleExternals sampleProvider 5 ([], ()) = (Inr b, s')"
    using sample_get_block by blast
  have "bk_Nonce (sampleChain 5) = 5" by (simp add: sampleChain_def plainBlock_def)
  from block_by_nonce_is_of_the_chain [OF sample_cache_lawful sample_serves_chain _ this get] get
  show ?thesis by (auto simp: sample_coherent)
qed

text \<open>C13: Over any sequence of requests to an online server, whatever came before and whether it
  succeeded, every answer for a nonce of the chain is that block: its identifier, and the
  transactions that the transformer recovers from it and its neighbours.\<close>

theorem session_serves_the_chain:
  assumes "CreateControllers newAsserter P = Inr routers" "\<not> p_isOffline p" "P = asNetworkProvider E p"
    and "lawful_cache E contents" "serves_chain E p chain" "coherent contents chain c"
      "\<forall>n. bk_Nonce (chain n) = n"
    and "serveAll L P routers requests (g, (c, w)) = (answers, s')"
    and "i < length requests" "requests ! i = ReqBlock \<lparr>pbi_Index = Some n, pbi_Hash = None\<rparr>"
      "0 < n" "n < 2 ^ 63" "answers ! i = Inr (RespBlock r)"
  shows "\<exists>b. doSimplifyBlockWithScheduledTransactions (ext_enum E)
        (chain (uint64_of_int64 n - 1)) (chain (uint64_of_int64 n)) (chain (uint64_of_int64 n + 1)) = Some b \<and>
      transformBlockTxs L P b = Inr (br_Transactions r) \<and>
      br_BlockIdentifier r = \<lparr>bi_Index = n, bi_Hash = bk_Hash (chain (uint64_of_int64 n))\<rparr>"
  using session_block [OF assms] assms(7) by (rule converted_from_chain [OF _ _ assms(11,12)])

theorem session_serves_the_chain_witness:
  "\<exists>answers s' r5 r6. serveAll sampleLibrary sampleServer sampleRouters sampleSession (None, ([], ())) = (answers, s') \<and>
     answers ! 1 = Inr (RespBlock r5) \<and> br_BlockIdentifier r5 = \<lparr>bi_Index = 5, bi_Hash = bk_Hash (sampleChain 5)\<rparr> \<and>
     answers ! 3 = Inr (RespBlock r6) \<and> br_BlockIdentifier r6 = \<lparr>bi_Index = 6, bi_Hash = bk_Hash (sampleChain 6)\<rparr>"
proof -
  obtain answers s' r5 r6 where run:
      "serveAll sampleLibrary sampleServer sampleRouters sampleSession (None, ([], ())) = (answers, s')"
    and r: "answers ! 1 = Inr (RespBlock r5)" "answers ! 3 = Inr (RespBlock r6)"
    using sample_session by blast
  note at = session_serves_the_chain [OF sample_routers sample_online(1) refl sample_cache_lawful
      sample_serves_chain sample_coherent _ run]
  have "br_BlockIdentifier r5 = \<lparr>bi_Index = 5, bi_Hash = bk_Hash (sampleChain 5)\<rparr>"
    using at [of 1 5 r5] r(1) by (auto simp: sample_chain_linked sampleSession_def uint64_of_int64_def)
  moreover have "br_BlockIdentifier r6 = \<lparr>bi_Index = 6, bi_Hash = bk_Hash (sampleChain 6)\<rparr>"
    using at [of 3 6 r6] r(2) by (auto simp: sample_chain_linked sampleSession_def uint64_of_int64_def)
  ultimately show ?thesis using run r by blast
qed

text \<open>C14: The blocks that a server answers with form one chain: in any session on a chain that is
  linked by hashes, the parent in the answer for a nonce is the identifier in the answer for the
  nonce before it, in whatever order the two were asked for.\<close>

theorem session_parents_link_up:
  assumes "CreateControllers newAsserter P = Inr routers" "\<not> p_isOffline p" "P = asNetworkProvider E p"
    and "lawful_cache E contents" "serves_chain E p chain" "coherent contents chain c"
      "\<forall>n. bk_Nonce (chain n) = n" "\<forall>m. bk_PrevBlockHash (chain (m + 1)) = bk_Hash (chain m)"
    and "serveAll L P routers requests (g, (c, w)) = (answers, s')" "0 < n" "n + 1 < 2 ^ 63"
    and "i < length requests" "requests ! i = ReqBlock \<lparr>pbi_Index = Some n, pbi_Hash = None\<rparr>"
      "answers ! i = Inr (RespBlock r)"
    and "j < length requests" "requests ! j = ReqBlock \<lparr>pbi_Index = Some (n + 1), pbi_Hash = None\<rparr>"
      "answers ! j = Inr (RespBlock r')"
  shows "br_ParentBlockIdentifier r' = br_BlockIdentifier r"
proof -
  note at = session_block [OF assms(1-7,9)]
  from at [OF assms(12,13) _ _ assms(14)] at [OF assms(15,16) _ _ assms(17)] assms(10,11)
  obtain b b' where "doSimplifyBlockWithScheduledTransactions (ext_enum E) (chain (uint64_of_int64 n - 1))
        (chain (uint64_of_int64 n)) (chain (uint64_of_int64 n + 1)) = Some b" "convertToRosettaBlock L P b = Inr r"
    "doSimplifyBlockWithScheduledTransactions (ext_enum E) (chain (uint64_of_int64 (n + 1) - 1))
        (chain (uint64_of_int64 (n + 1))) (chain (uint64_of_int64 (n + 1) + 1)) = Some b'"
    "convertToRosettaBlock L P b' = Inr r'" by auto
  from chain_parents [OF assms(8,7,10,11) this] show ?thesis .
qed

theorem session_parents_link_up_witness:
  "\<exists>answers s' r5 r6. serveAll sampleLibrary sampleServer sampleRouters sampleSession (None, ([], ())) = (answers, s') \<and>
     answers ! 1 = Inr (RespBlock r5) \<and> answers ! 3 = Inr (RespBlock r6) \<and>
     br_ParentBlockIdentifier r6 = br_BlockIdentifier r5"
proof -
  obtain answers s' r5 r6 where run:
      "serveAll sampleLibrary sampleServer sampleRouters sampleSession (None, ([], ())) = (answers, s')"
    and r: "answers ! 1 = Inr (RespBlock r5)" "answers ! 3 = Inr (RespBlock r6)"
    using sample_session by blast
  have "br_ParentBlockIdentifier r6 = br_BlockIdentifier r5"
    using session_parents_link_up [OF sample_routers sample_online(1) refl sample_cache_lawful sample_serves_chain
        sample_coherent _ _ run, of 5 1 r5 3 r6] r
    by (auto simp: sample_chain_linked sampleSession_def)
  with run r show ?thesis by blast
qed

text \<open>C15: A block is given by nonce only if the observer has just reported a highest final nonce
  that is at least two above it: the block and the one after it are final.\<close>

theorem blocks_by_nonce_are_final:
  assumes "GetBlockByNonce E p n s = (Inr b, s')"
  shows "\<exists>status s1. getPlainNodeStatus E p s = (Inr status, s1) \<and>
           unat n + 2 \<le> unat (ns_HighestFinalNonce status)"
  using assms by (rule GetBlockByNonce_final)

theorem blocks_by_nonce_are_final_witness:
  "\<exists>b s'. GetBlockByNonce sampleExternals sampleProvider 5 ([], ()) = (Inr b, s') \<and>
     (\<exists>status s1. getPlainNodeStatus sampleExternals sampleProvider ([], ()) = (Inr status, s1) \<and>
       unat (5 :: u64) + 2 \<le> unat (ns_HighestFinalNonce status))"
  using sample_get_block blocks_by_nonce_are_final by blast

text \<open>C16: Getting a block by hash has no such test. On a cache that finds what was put into it, it
  caches the block that the observer has at the next nonce; that request is its last one, the final
  height is not asked for. From then on, as long as the cache holds that block, a request for the nonce
  simplifies and answers with it once the height is final, whatever block the observer has there by then.\<close>

theorem unfinal_block_is_served_later:
  assumes "finds_what_was_put E" "\<not> p_isOffline p" "doGetBlockByHash E p h s = (Inr b, s1)"
    and "doGetBlockByNonce E p (bk_Nonce b - 1) s1 = (Inr previous, s2)"
    and "n = bk_Nonce b + 1" "fst (cache_Get E (blockNonceToBytes n) (fst s2)) = None"
    and "of_GetBlockByNonce E (p_observedActualShard p) n withTransactionsAndLogs (snd s2) = (Inr response, w)"
    and "ar_Error response = []"
  shows "(\<exists>c. snd (GetBlockByHash E p h s) = (c, w) \<and>
      fst (cache_Get E (blockNonceToBytes n) c) = Some (ar_Data response)) \<and>
    (\<forall>c w1 w2 latest. fst (cache_Get E (blockNonceToBytes n) c) = Some (ar_Data response) \<longrightarrow>
      getLatestBlockNonce E p (c, w1) = (Inr latest, (c, w2)) \<longrightarrow> n \<le> latest \<longrightarrow>
      GetBlockByNonce E p n (c, w1) = simplifyBlockWithScheduledTransactions E p (ar_Data response)
        (snd (cache_Get E (blockNonceToBytes n) c), w2)) \<and>
    (\<forall>c w1 b' s'. fst (cache_Get E (blockNonceToBytes n) c) = Some (ar_Data response) \<longrightarrow>
      GetBlockByNonce E p n (c, w1) = (Inr b', s') \<longrightarrow> bk_Hash b' = bk_Hash (ar_Data response))"
  using GetBlockByHash_caches_next [OF assms(1-4) assms(6-8) [unfolded assms(5)]]
    GetBlockByNonce_cached [OF assms(2)] cached_block_answers [OF assms(2)]
  unfolding assms(5) by (intro conjI allI impI)

text \<open>A chain that replaces its block 11 between the two requests: the later one is answered with the
  block that was replaced, while the observer has another one there and calls it final.\<close>

theorem unfinal_block_is_served_later_witness:
  "\<exists>c b'. snd (GetBlockByHash forkExternals sampleProvider ''hash10'' ([], 0)) = (c, 0) \<and>
     fst (GetBlockByNonce forkExternals sampleProvider 11 (c, 1)) = Inr b' \<and>
     bk_Hash b' = bk_Hash forkBlock \<and> bk_Hash forkBlock \<noteq> bk_Hash (sampleChain 11)"
proof -
  have finds: "finds_what_was_put forkExternals"
    by (simp add: finds_what_was_put_def forkExternals_def sampleExternals_def)
  have ten: "doGetBlockByHash forkExternals sampleProvider ''hash10'' ([], 0) = (Inr (sampleChain 10), ([], 0))"
    by (simp add: doGetBlockByHash_def ask_def forkExternals_def ok_def)
  have nine: "doGetBlockByNonce forkExternals sampleProvider (bk_Nonce (sampleChain 10) - 1) ([], 0) =
      (Inr (sampleChain 9), ([(blockNonceToBytes 9, sampleChain 9)], 0))"
    by (simp add: fork_do_get sample_unscheduled Let_def)
  have nonce: "11 = bk_Nonce (sampleChain 10) + 1" by (simp add: sample_unscheduled)
  have miss: "fst (cache_Get forkExternals (blockNonceToBytes 11) (fst ([(blockNonceToBytes 9, sampleChain 9)], 0 :: nat))) = None"
    by (simp add: forkExternals_def sampleExternals_def blockNonceToBytes_inj)
  have reply: "of_GetBlockByNonce forkExternals (p_observedActualShard sampleProvider) 11 withTransactionsAndLogs
      (snd ([(blockNonceToBytes 9, sampleChain 9)], 0)) = (Inr (ok forkBlock), 0)" "ar_Error (ok forkBlock) = []"
    by (simp_all add: forkExternals_def ok_def)
  have data: "ar_Data (ok forkBlock) = forkBlock" by (simp add: ok_def)
  note general = unfinal_block_is_served_later [OF finds sample_online(1) ten nine nonce miss reply, unfolded data]
  obtain c where c: "snd (GetBlockByHash forkExternals sampleProvider ''hash10'' ([], 0)) = (c, 0)"
    "fst (cache_Get forkExternals (blockNonceToBytes 11) c) = Some forkBlock" using general by blast
  obtain b' s' where later: "GetBlockByNonce forkExternals sampleProvider 11 (c, 1) = (Inr b', s')"
    using fork_run c(1) by (metis fst_conv prod.collapse)
  with general c(2) have "bk_Hash b' = bk_Hash forkBlock" by blast
  with c(1) later forkBlock_other show ?thesis by simp
qed

section \<open>Requests at the same time, objects that are shared\<close>

text \<open>C17: Block requests may run concurrently, interleaved at every access to the cache and to the
  observer: the cache still holds blocks of the chain only, and whoever asked by nonce and got an
  answer got the block of the chain, simplified with its two neighbours.\<close>

theorem concurrent_requests_serve_the_chain:
  assumes "lawful_cache E contents" "serves_chain E p chain" "\<forall>n. bk_Nonce (chain n) = n"
    and "coherent contents chain (fst s)"
    and "interleaved world_moves trace (map (getBlockSteps L E p) queries, s) (ps, s')"
    and "i < length queries" "queries ! i = ByNonce nonce" "ps ! i = Done (Inr r)" "n = uint64_of_int64 nonce"
  shows "coherent contents chain (fst s') \<and>
    (\<exists>b. doSimplifyBlockWithScheduledTransactions (ext_enum E) (chain (n - 1)) (chain n) (chain (n + 1)) = Some b \<and>
      convertToRosettaBlock L (asNetworkProvider E p) b = Inr r)"
  using interleaved_requests(2,3) [OF assms(1-5)] assms(6-9)
  by (auto simp: of_the_chain_def Let_def)

theorem concurrent_requests_serve_the_chain_witness:
  "\<exists>trace ps s' r b. interleaved world_moves trace
     (map (getBlockSteps sampleLibrary sampleExternals sampleProvider) [ByNonce 5, ByNonce 6], ([], ())) (ps, s') \<and>
     ps ! 0 = Done (Inr r) \<and>
     doSimplifyBlockWithScheduledTransactions (\<lambda>m. m) (sampleChain 4) (sampleChain 5) (sampleChain 6) = Some b \<and>
     convertToRosettaBlock sampleLibrary sampleP b = Inr r"
proof -
  obtain trace ps s' r where run: "interleaved world_moves trace
      (map (getBlockSteps sampleLibrary sampleExternals sampleProvider) [ByNonce 5, ByNonce 6], ([], ())) (ps, s')"
    and r: "ps ! 0 = Done (Inr r)" using sample_concurrent by blast
  have five: "5 = uint64_of_int64 5" by (simp add: uint64_of_int64_def)
  have "\<exists>b. doSimplifyBlockWithScheduledTransactions (ext_enum (sampleExternals :: (sample_cache, unit) Externals))
        (sampleChain (5 - 1)) (sampleChain 5) (sampleChain (5 + 1)) = Some b \<and>
      convertToRosettaBlock sampleLibrary sampleP b = Inr r"
    unfolding sampleP_asNetworkProvider
    by (rule conjunct2 [OF concurrent_requests_serve_the_chain [OF sample_cache_lawful sample_serves_chain _ _ run _ _ r five]])
      (simp_all add: sample_nonce sample_coherent)
  then obtain b where "doSimplifyBlockWithScheduledTransactions (\<lambda>m. m) (sampleChain 4) (sampleChain 5) (sampleChain 6) = Some b"
    "convertToRosettaBlock sampleLibrary sampleP b = Inr r" by (auto simp: sampleExternals_def)
  with run r show ?thesis by blast
qed

text \<open>C18: With an observer that has the blocks of a chain whenever it is asked and is final beyond a
  nonce, a request for the block at that nonce (not the genesis block, whose requests take the
  mutex of C22) accesses the cache and the observer at most ten times, and after the tenth has its answer:
  the conversion of the block of the chain, simplified with its neighbours, whatever the
  other requests do in between and in whatever order. The simplification is assumed to return (C10).\<close>

theorem block_requests_need_ten_steps:
  assumes "lawful_cache E contents" "answers_always E p chain n" "\<forall>m. bk_Nonce (chain m) = m"
    and "\<not> p_isOffline p" "coherent contents chain (fst s)"
    and "doSimplifyBlockWithScheduledTransactions (ext_enum E) (chain (n - 1)) (chain n) (chain (n + 1)) = Some b"
    and "interleaved world_moves trace (map (getBlockSteps L E p) queries, s) (ps, s')"
    and "i < length queries" "queries ! i = ByNonce nonce" "n = uint64_of_int64 nonce"
  shows "count_list trace i \<le> 10 \<and>
    (count_list trace i = 10 \<longrightarrow>
      ps ! i = Done (orFail newErrFactory ErrUnableToGetBlock (convertToRosettaBlock L (asNetworkProvider E p) b))) \<and>
    (\<forall>r. ps ! i = Done r \<longrightarrow>
      r = orFail newErrFactory ErrUnableToGetBlock (convertToRosettaBlock L (asNetworkProvider E p) b))"
  using interleaved_ten_steps [OF assms(7,8)] interleaved_answers [OF assms] by blast

theorem block_requests_need_ten_steps_witness:
  "\<exists>trace ps s' b. interleaved world_moves trace
     (map (getBlockSteps sampleLibrary sampleExternals sampleProvider) [ByNonce 5, ByNonce 6], ([], ())) (ps, s') \<and>
     doSimplifyBlockWithScheduledTransactions (\<lambda>m. m) (sampleChain 4) (sampleChain 5) (sampleChain 6) = Some b \<and>
     ps ! 0 = Done (orFail newErrFactory ErrUnableToGetBlock (convertToRosettaBlock sampleLibrary sampleP b)) \<and>
     count_list trace 0 \<le> 10"
proof -
  obtain trace ps s' r where run: "interleaved world_moves trace
      (map (getBlockSteps sampleLibrary sampleExternals sampleProvider) [ByNonce 5, ByNonce 6], ([], ())) (ps, s')"
    and r: "ps ! 0 = Done (Inr r)" using sample_concurrent by blast
  have five: "(5 :: u64) = uint64_of_int64 5" by (simp add: uint64_of_int64_def)
  obtain b where b: "doSimplifyBlockWithScheduledTransactions (ext_enum (sampleExternals :: (sample_cache, unit) Externals))
      (sampleChain (5 - 1)) (sampleChain 5) (sampleChain (5 + 1)) = Some b"
    by (simp add: sample_simplify sample_unscheduled)
  have "count_list trace 0 \<le> 10 \<and> (\<forall>r. ps ! 0 = Done r \<longrightarrow>
      r = orFail newErrFactory ErrUnableToGetBlock (convertToRosettaBlock sampleLibrary sampleP b))"
    using block_requests_need_ten_steps [OF sample_cache_lawful sample_answers_always _ sample_online(1) _ b run _ _ five, where i = 0]
    by (simp add: sample_nonce sample_coherent sampleP_asNetworkProvider)
  with r have "ps ! 0 = Done (orFail newErrFactory ErrUnableToGetBlock (convertToRosettaBlock sampleLibrary sampleP b))"
    "count_list trace 0 \<le> 10" by simp_all
  moreover have "doSimplifyBlockWithScheduledTransactions (\<lambda>m. m) (sampleChain 4) (sampleChain 5) (sampleChain 6) = Some b"
    using b by (simp add: sampleExternals_def)
  ultimately show ?thesis using run by (intro exI conjI)
qed

text \<open>C19: Blocks as objects behind pointers and blocks as values give the same answers: over any
  sequence of block requests, with a cache of pointers whose entries share their transactions with
  the copies that are handed out, overwritten and written into, the answers are those of the model
  in which the cache holds values.\<close>

theorem shared_objects_do_not_show:
  assumes "parametric_cache K E alike" "enumerates (ext_enum E) order" "alike (\<lambda>a b. False) d c"
  shows "fst (inSequence (getBlockAt K order L E c0 p) queries ((d, h), w)) =
    fst (inSequence (getBlock L (asNetworkProvider E p)) queries (c, w))"
  using inSequence_alike [OF assms(1,2) empty_caches_simulate [OF assms(1,3)]]
  by (simp add: answers_alike_def)

theorem shared_objects_do_not_show_witness:
  "\<exists>r. fst (inSequence (getBlockAt samplePointers (\<lambda>ks. ks) sampleLibrary sampleExternals [] sampleProvider)
      [ByNonce 5, ByNonce 6, ByHash ''hash5''] (([], emptyStore), ())) ! 0 = Inr r"
proof -
  have "sampleAlike (\<lambda>a b. False) [] []" by (simp add: sampleAlike_def)
  note same = shared_objects_do_not_show [OF sample_parametric sample_enumerates this, where w = "()"
      and h = emptyStore and L = sampleLibrary and p = sampleProvider and ?c0.0 = "[]"
      and queries = "[ByNonce 5, ByNonce 6, ByHash ''hash5'']"]
  obtain r where "fst (getBlock sampleLibrary (asNetworkProvider sampleExternals sampleProvider) (ByNonce 5) ([], ())) = Inr r"
    using sample_get_block_answer [OF sample_coherent, of 5] by auto
  then show ?thesis unfolding same by (simp add: split_beta)
qed

text \<open>C20: After any sequence of block requests, an object that the cache gives for a nonce stands for
  the block of the chain at that nonce: all of its fields, miniblocks, transactions and receipts
  are those of the chain, except that the block nonce of a transaction may have been written.\<close>

theorem cached_objects_keep_their_blocks:
  assumes "parametric_cache K E alike" "enumerates (ext_enum E) order" "alike (\<lambda>a b. False) d c"
    and "lawful_cache E contents" "serves_chain E p chain" "coherent contents chain c"
    and "inSequence (getBlockAt K order L E c0 p) queries ((d, h), w) = (answers, ((d', h'), w'))"
    and "fst (pc_Get K (blockNonceToBytes n) d') = Some a"
  shows "stands_for h' a (chain n)"
proof -
  obtain S where "simulates alike S ((d', h'), w')
      (snd (inSequence (getBlock L (asNetworkProvider E p)) queries (c, w)))"
    using inSequence_alike [OF assms(1,2) empty_caches_simulate [OF assms(1,3)], of L c0 p queries h w] assms(7)
    by (auto simp: answers_alike_def)
  from cached_object_stands_for [OF assms(1,4) this _ assms(8)] inSequence_coherent [OF assms(4,5), of "(c, w)"] assms(6)
  show ?thesis by simp
qed

theorem cached_objects_keep_their_blocks_witness:
  "\<exists>r d h a. inSequence (getBlockAt samplePointers (\<lambda>ks. ks) sampleLibrary sampleExternals [] sampleProvider)
       [ByNonce 5] (([], emptyStore), ()) = ([Inr r], ((d, h), ())) \<and>
     fst (pc_Get samplePointers (blockNonceToBytes 5) d) = Some a \<and> stands_for h a (sampleChain 5)"
proof -
  obtain r d h a where run: "getBlockAt samplePointers (\<lambda>ks. ks) sampleLibrary sampleExternals [] sampleProvider
      (ByNonce 5) (([], emptyStore), ()) = (Inr r, ((d, h), ()))"
    and held: "fst (pc_Get samplePointers (blockNonceToBytes 5) d) = Some a"
    using sample_cached by blast
  have "sampleAlike (\<lambda>a b. False) [] []" by (simp add: sampleAlike_def)
  note keep = cached_objects_keep_their_blocks [OF sample_parametric sample_enumerates this sample_cache_lawful
      sample_serves_chain sample_coherent _ held]
  have served: "inSequence (getBlockAt samplePointers (\<lambda>ks. ks) sampleLibrary sampleExternals [] sampleProvider)
      [ByNonce 5] (([], emptyStore), ()) = ([Inr r], ((d, h), ()))"
    by (simp add: run)
  from served held keep [OF served] show ?thesis by (intro exI conjI)
qed

text \<open>C21: Transactions are shared, so requests that run at the same time write their block nonce into
  the same objects. It does not matter: whatever block nonces the transactions of a block have by
  the time a request reads them, and whatever objects were added meanwhile, the Rosetta
  transactions of the block are the same.\<close>

theorem racing_writes_change_no_answer:
  assumes "stands_for h a b" "grows h h'"
  shows "transformGathered L (asNetworkProvider E p) (map (txAt h') (gatherAllTransactionsAt h a))
      (gatherAllReceiptsAt h a) = transformBlockTxs L (asNetworkProvider E p) b"
  using assms by (rule transformed_in_grown_store)

theorem racing_writes_change_no_answer_witness:
  "transformGathered sampleLibrary sampleP
     (map (txAt (writeBlockNonce 77 0 (snd (decodeBlock (sampleChain 5) emptyStore))))
        (gatherAllTransactionsAt (snd (decodeBlock (sampleChain 5) emptyStore)) 0))
     (gatherAllReceiptsAt (snd (decodeBlock (sampleChain 5) emptyStore)) 0) =
   transformBlockTxs sampleLibrary sampleP (sampleChain 5) \<and>
   tx_BlockNonce (txAt (writeBlockNonce 77 0 (snd (decodeBlock (sampleChain 5) emptyStore))) 0) = 77"
proof -
  let ?h = "snd (decodeBlock (sampleChain 5) emptyStore)"
  have at: "fst (decodeBlock (sampleChain 5) emptyStore) = 0" "length (hp_Txs ?h) = 1"
    by (simp_all add: decodeBlock_def decodeMiniBlock_def newTxs_def newMiniBlock_def newBlock_def emptyStore_def
        sampleChain_def plainBlock_def plainMiniblock_def)
  have "stands_for ?h 0 (sampleChain 5)" using decodeBlock_spec [of emptyStore "sampleChain 5"] at by simp
  moreover have "grows ?h (writeBlockNonce 77 0 ?h)" using writes_grow [of "[0]" ?h 77] at by simp
  ultimately show ?thesis
    unfolding sampleP_asNetworkProvider
    by (simp add: racing_writes_change_no_answer writeBlockNonce_at at)
qed

text \<open>C22: However concurrent requests for the genesis block interleave, and however often the
  observer changes its answer, all that succeed return the same block, it is one that was
  fetched, and it was fetched once.\<close>

theorem one_genesis_block:
  assumes "reachable (fetch_of P) s" "threads s t = Returned (Inr b)" "threads s u = Returned (Inr b')"
  shows "b = b' \<and> fetch_of P (Inr b) \<and> fetches s = 1"
proof -
  have "knows (threads s t) = Some b" "knows (threads s u) = Some b'" using assms(2,3) by (simp_all add: knows_def)
  with reachable_value [OF assms(1)] show ?thesis unfolding value_invariant_def by (metis option.inject option.simps(3))
qed

theorem one_genesis_block_witness:
  "\<exists>s b. reachable (fetch_of sampleP) s \<and> threads s 0 = Returned (Inr b) \<and> fetches s = 1"
  using sample_returned one_genesis_block by metis

text \<open>C23: The sequential \<open>getGenesisBlock\<close> is a run of the concurrent protocol: a request that
  nobody interferes with returns what it returns, leaves in the field what it leaves, and
  releases the lock.\<close>

theorem sequential_call_is_a_run:
  assumes "quiet s t" "getGenesisBlock P (genesisBlock s, w) = (r, (cache, w'))"
  shows "\<exists>s'. (genesis_step (fetch_of P))\<^sup>*\<^sup>* s s' \<and> threads s' t = Returned r \<and> genesisBlock s' = cache \<and>
    readers s' = {} \<and> writer s' = None"
  using assms by (rule sequential_run)

theorem sequential_call_is_a_run_witness:
  "\<exists>s' r. (genesis_step (fetch_of sampleP))\<^sup>*\<^sup>* initial s' \<and> threads s' 0 = Returned r \<and> writer s' = None"
proof -
  obtain r c w where "getGenesisBlock sampleP (genesisBlock initial, ([], ())) = (r, (c, w))"
    by (metis prod.exhaust)
  from sequential_call_is_a_run [OF initial_quiet this] show ?thesis by blast
qed

section \<open>Constructing transactions\<close>

text \<open>C24: The intent to transfer the native currency, taken through the preprocess, metadata,
  payloads and parse endpoints of an online server, comes back as the operations of that
  transfer: the same accounts, the same amount, in the native currency. What the transaction is built from
  (\<open>buildable\<close>) holds numbers below \<open>2 ^ 53\<close> and texts that are valid UTF-8: accounts, symbol, amount
  and chain identifier; of the library it is asked that a transaction with such texts reads back.\<close>

theorem native_intent_survives:
  assumes "sender \<noteq> []" "receiver \<noteq> []" "is_decimal v" "isNonZeroAmount v"
    and "Symbol cur \<noteq> []" "isNativeCurrencySymbol P (Symbol cur)"
    and "\<not> np_IsOffline P" "np_GetAccount P sender w = (Inr account, w')"
    and "buildable P account (transferOptions (Symbol cur) sender receiver v)" "tx_text_law L"
  shows "constructed L P (transferIntent cur sender receiver v) w
    (indexOperations
      [newOperation opTransfer sender (valueToNativeAmount P (CHR ''-'' # v)),
       newOperation opTransfer receiver (valueToNativeAmount P v)])"
proof -
  have "\<not> isCustomCurrencyTransfer []" by (simp add: isCustomCurrencyTransfer_def builtInFunctionESDTTransfer_def has_prefix_def)
  then have "createOperationsFromPreparedTx P
      (transactionOf (builtMetadata P account (transferOptions (Symbol cur) sender receiver v))) =
    Inr (indexOperations
      [newOperation opTransfer sender (valueToNativeAmount P (CHR ''-'' # v)),
       newOperation opTransfer receiver (valueToNativeAmount P v)])"
    using assms(6) by (subst operations_of_native)
      (simp_all add: transactionOf_def builtMetadata_def transferOptions_def Let_def)
  from construct_transfer [OF assms(1-5,7-10) this] show ?thesis .
qed

theorem native_intent_survives_witness:
  "constructed sampleLibrary sampleP
     (transferIntent \<lparr>Symbol = ''EGLD'', Decimals = 18\<rparr> ''alice'' ''bob'' ''100'') ([], ())
     (indexOperations
       [newOperation opTransfer ''alice'' (valueToNativeAmount sampleP ''-100''),
        newOperation opTransfer ''bob'' (valueToNativeAmount sampleP ''100'')])"
  by (rule native_intent_survives [OF _ _ _ _ _ _ _ sample_get_account])
    (simp_all add: sample_hundred sampleP_fields isNativeCurrencySymbol_def sample_buildable_native sample_tx_text_law)

text \<open>C25: The intent to transfer a custom currency comes back as well, through the hexadecimal
  fields of the data of the transaction: the same accounts and the same number, as operations of
  that currency. Numbers and texts are limited as in C24.\<close>

theorem custom_intent_survives:
  assumes "sender \<noteq> []" "receiver \<noteq> []" "is_decimal v" "isNonZeroAmount v" "big_SetString v = Some i"
    and "Symbol cur \<noteq> []" "\<not> isNativeCurrencySymbol P (Symbol cur)"
    and "\<not> np_IsOffline P" "np_GetAccount P sender w = (Inr account, w')"
    and "buildable P account (transferOptions (Symbol cur) sender receiver v)" "tx_text_law L"
  shows "constructed L P (transferIntent cur sender receiver v) w
    (indexOperations
      [newOperation opCustomTransfer sender (valueToCustomAmount P (CHR ''-'' # int_to_dec i) (Symbol cur)),
       newOperation opCustomTransfer receiver (valueToCustomAmount P (int_to_dec i) (Symbol cur))])"
proof -
  have "0 \<le> i" using assms(5) big_SetString_unsigned [OF assms(3)] by auto
  moreover have "createOperationsFromPreparedTx P
      (transactionOf (builtMetadata P account (transferOptions (Symbol cur) sender receiver v))) =
    Inr (indexOperations
      [newOperation opCustomTransfer sender (valueToCustomAmount P (CHR ''-'' # int_to_dec \<bar>i\<bar>) (Symbol cur)),
       newOperation opCustomTransfer receiver (valueToCustomAmount P (int_to_dec \<bar>i\<bar>) (Symbol cur))])"
    using assms(7) by (subst operations_of_custom [OF _ assms(5), of _ "Symbol cur"])
      (simp_all add: transactionOf_def builtMetadata_def transferOptions_def Let_def)
  ultimately show ?thesis using construct_transfer [OF assms(1-4,6,8-11)] by simp
qed

theorem custom_intent_survives_witness:
  "constructed sampleLibrary sampleP
     (transferIntent \<lparr>Symbol = ''TOK-123456'', Decimals = 6\<rparr> ''alice'' ''bob'' ''100'') ([], ())
     (indexOperations
       [newOperation opCustomTransfer ''alice'' (valueToCustomAmount sampleP (CHR ''-'' # int_to_dec 100) ''TOK-123456''),
        newOperation opCustomTransfer ''bob'' (valueToCustomAmount sampleP (int_to_dec 100) ''TOK-123456'')])"
proof -
  let ?cur = "\<lparr>Symbol = ''TOK-123456'', Decimals = 6\<rparr>"
  have "constructed sampleLibrary sampleP (transferIntent ?cur ''alice'' ''bob'' ''100'') ([], ())
     (indexOperations
       [newOperation opCustomTransfer ''alice'' (valueToCustomAmount sampleP (CHR ''-'' # int_to_dec 100) (Symbol ?cur)),
        newOperation opCustomTransfer ''bob'' (valueToCustomAmount sampleP (int_to_dec 100) (Symbol ?cur))])"
    by (rule custom_intent_survives [OF _ _ _ _ _ _ _ _ sample_get_account])
      (simp_all add: sample_hundred sampleP_fields isNativeCurrencySymbol_def sample_buildable_custom sample_tx_text_law)
  then show ?thesis by simp
qed

text \<open>C26: Signing does not change what a transaction does: the signed text that the combine
  endpoint gives parses to the operations of the unsigned one, and names its sender as signer. Of the
  library it is asked that transactions whose texts are valid UTF-8 read back, and that no others are read.\<close>

theorem signing_keeps_the_intent:
  assumes "tx_text_law L" "lib_UnmarshalTx L bare = Inr tx"
    and "ConstructionParse L P bare False = Inr (ops, signers)"
  shows "\<exists>result. ConstructionCombine L bare [signature] = Inr result \<and>
    lib_UnmarshalTx L result = Inr (tx\<lparr>pt_Signature := hex_encode signature\<rparr>) \<and>
    ConstructionParse L P result True = Inr (ops, [pt_Sender tx])"
proof -
  obtain result where "ConstructionCombine L bare [signature] = Inr result"
    and signed: "lib_UnmarshalTx L result = Inr (tx\<lparr>pt_Signature := hex_encode signature\<rparr>)"
    using combine_signs [OF assms(1,2)] by blast
  moreover have "createOperationsFromPreparedTx P tx = Inr ops"
    using assms(2,3) by (auto simp: ConstructionParse_def getTxFromRequest_def split: sum.splits)
  then have "createOperationsFromPreparedTx P (tx\<lparr>pt_Signature := hex_encode signature\<rparr>) = Inr ops"
    by (simp add: operations_ignore_signature)
  from parse_transfer [OF signed this, of True] have "ConstructionParse L P result True = Inr (ops, [pt_Sender tx])"
    by simp
  ultimately show ?thesis by blast
qed

theorem signing_keeps_the_intent_witness:
  "\<exists>bare result ops. ConstructionParse sampleLibrary sampleP bare False = Inr (ops, []) \<and>
     ConstructionCombine sampleLibrary bare [''ab''] = Inr result \<and>
     ConstructionParse sampleLibrary sampleP result True = Inr (ops, [''alice''])"
proof -
  have prepared: "\<not> isCustomCurrencyTransfer (pt_Data samplePrepared)" "pt_Sender samplePrepared = ''alice''"
    by (simp_all add: samplePrepared_def isCustomCurrencyTransfer_def builtInFunctionESDTTransfer_def has_prefix_def)
  obtain bare where u: "lib_UnmarshalTx sampleLibrary bare = Inr samplePrepared"
    using sample_tx_text_law sample_prepared_valid unfolding tx_text_law_def by blast
  from parse_transfer [OF u operations_of_native [OF prepared(1)], of sampleP False] obtain ops where
    p: "ConstructionParse sampleLibrary sampleP bare False = Inr (ops, [])" by auto
  from signing_keeps_the_intent [OF sample_tx_text_law u p, of "''ab''"] p prepared(2) show ?thesis by metis
qed

text \<open>C27: For a transfer of the native currency, the price that the metadata endpoint settles on
  is at least the minimum of the network, its gas limit pays for the minimum and for every byte of
  data, and the suggested fee is exactly that gas at that price, when 64 bits hold the gas.\<close>

theorem accepted_gas_pays_for_the_data:
  assumes "computeFeeComponents L P opts d = Inr (fee, limit, price)"
    and "isNativeCurrencySymbol P (co_CurrencySymbol opts)"
    and "unat (nc_MinGasLimit (np_GetNetworkConfig P)) +
           unat (nc_GasPerDataByte (np_GetNetworkConfig P)) * length d < 2 ^ 64"
  shows "nc_MinGasPrice (np_GetNetworkConfig P) \<le> price \<and>
    unat (nc_MinGasLimit (np_GetNetworkConfig P)) +
      unat (nc_GasPerDataByte (np_GetNetworkConfig P)) * length d \<le> unat limit \<and>
    fee = int (unat (nc_MinGasLimit (np_GetNetworkConfig P)) +
               unat (nc_GasPerDataByte (np_GetNetworkConfig P)) * length d) * uint price"
proof -
  note exact = movementGas_exact [OF assms(3)]
  have "uint (movementGasLimitOf (np_GetNetworkConfig P) d) = int (unat (movementGasLimitOf (np_GetNetworkConfig P) d))"
    by simp
  with components_accepted [OF assms(1)] assms(2) show ?thesis
    by (simp add: computeFee_native exact word_le_nat_alt del: uint_nat)
qed

theorem accepted_gas_pays_for_the_data_witness:
  "\<exists>fee. computeFeeComponents sampleLibrary sampleP (transferOptions ''EGLD'' ''alice'' ''bob'' ''100'') ''hi'' =
     Inr (fee, 53000, 1000000000) \<and> fee = 53000 * 1000000000"
proof -
  let ?o = "transferOptions ''EGLD'' ''alice'' ''bob'' ''100''"
  have native: "isNativeCurrencySymbol sampleP (co_CurrencySymbol ?o)"
    by (simp add: isNativeCurrencySymbol_def sampleP_fields transferOptions_def)
  have "\<exists>fee. computeFeeComponents sampleLibrary sampleP ?o ''hi'' = Inr (fee, 53000, 1000000000)"
    using components_default [of ?o sampleLibrary sampleP "''hi''"] native
    by (simp add: sampleP_fields movementGasLimitOf_def transferOptions_def)
  then obtain fee where f: "computeFeeComponents sampleLibrary sampleP ?o ''hi'' = Inr (fee, 53000, 1000000000)"
    by blast
  from accepted_gas_pays_for_the_data [OF f native] f show ?thesis by (simp add: sampleP_fields)
qed

text \<open>C28: The objects that travel between the construction endpoints have been text in between: they
  hold numbers as \<open>float64\<close>, and texts whose invalid UTF-8 is replaced. While the numbers are below
  \<open>2 ^ 53\<close>, options and metadata decode to what they were made from, with their texts coerced, hence
  unchanged where these are valid UTF-8. Beyond these limits they are altered: the sender FF arrives
  as EF BF BD, the nonce 9007199254740993 as 9007199254740992, and the largest nonce is refused.\<close>

theorem objects_carry_53_bits:
  assumes "unat (co_GasLimit opts) < 2 ^ 53" "unat (co_GasPrice opts) < 2 ^ 53"
    and "unat (cm_GasLimit m) < 2 ^ 53" "unat (cm_GasPrice m) < 2 ^ 53" "unat (cm_Nonce m) < 2 ^ 53"
    and "0 \<le> cm_Version m" "cm_Version m < 2 ^ 53"
  shows "newConstructionOptions (optionsToObjectsMap opts) = Inr (coerced_options opts) \<and>
    newConstructionMetadata (metadataToObjectsMap m) = Inr (coerced_metadata m) \<and>
    (valid_options opts \<longrightarrow> coerced_options opts = opts) \<and> (valid_metadata m \<longrightarrow> coerced_metadata m = m) \<and>
    newConstructionMetadata (metadataToObjectsMap (noMetadata\<lparr>cm_Sender := [CHR 0xFF]\<rparr>)) =
      Inr (noMetadata\<lparr>cm_Sender := [CHR 0xEF, CHR 0xBF, CHR 0xBD]\<rparr>) \<and>
    newConstructionMetadata (metadataToObjectsMap (noMetadata\<lparr>cm_Nonce := 9007199254740993\<rparr>)) =
      Inr (noMetadata\<lparr>cm_Nonce := 9007199254740992\<rparr>) \<and>
    (\<exists>e. newConstructionMetadata (metadataToObjectsMap (noMetadata\<lparr>cm_Nonce := 18446744073709551615\<rparr>)) = Inl e)"
  using options_roundtrip [OF assms(1,2)] metadata_roundtrip [OF assms(3-7)] coerced_valid_options
    coerced_valid_metadata invalid_sender_is_coerced large_nonces_are_altered by blast

theorem objects_carry_53_bits_witness:
  "newConstructionOptions (optionsToObjectsMap (transferOptions ''EGLD'' ''alice'' ''bob'' ''100'')) =
     Inr (transferOptions ''EGLD'' ''alice'' ''bob'' ''100'') \<and>
   newConstructionMetadata (metadataToObjectsMap (noMetadata\<lparr>cm_Nonce := 9007199254740991\<rparr>)) =
     Inr (noMetadata\<lparr>cm_Nonce := 9007199254740991\<rparr>)"
proof -
  have "valid_options (transferOptions ''EGLD'' ''alice'' ''bob'' ''100'')"
    "valid_metadata (noMetadata\<lparr>cm_Nonce := 9007199254740991\<rparr>)"
    by (simp_all add: transferOptions_def noMetadata_def valid_options_def valid_metadata_def)
  then show ?thesis
    using objects_carry_53_bits [of "transferOptions ''EGLD'' ''alice'' ''bob'' ''100''"
      "noMetadata\<lparr>cm_Nonce := 9007199254740991\<rparr>"]
    by (simp add: transferOptions_def noMetadata_def)
qed

section \<open>Servers\<close>

text \<open>C29: Whatever a started server is asked, a refusal is one of the errors that its own network
  options publish, with the same code, message and retriable flag.\<close>

theorem refusals_are_published:
  assumes "startRosetta platform ctx = Inr sv"
    and "fst (serve L (asNetworkProvider (sv_Externals sv) (sv_Provider sv)) (sv_Routers sv) request s) =
      Inl (Refused e)"
  shows "\<exists>p \<in> set (getPossibleErrors newErrFactory).
    re_Code p = re_Code e \<and> re_Message p = re_Message e \<and> re_Retriable p = re_Retriable e"
proof -
  obtain cs where "CreateControllers (newServer platform)
      (asNetworkProvider (sv_Externals sv) (sv_Provider sv)) = Inr (sv_Routers sv)"
    using startRosetta_Inr [OF assms(1)] by blast
  from serve_published [OF this, of L request s] assms(2) show ?thesis
    by (simp add: published_def published_error_def)
qed

theorem refusals_are_published_witness:
  "\<exists>sv e. startRosetta samplePlatform (sampleContext False) = Inr sv \<and>
     fst (serve sampleLibrary (asNetworkProvider (sv_Externals sv) (sv_Provider sv)) (sv_Routers sv)
            ReqMempool (None, ([], ()))) = Inl (Refused e) \<and>
     (\<exists>p \<in> set (getPossibleErrors newErrFactory). re_Code p = re_Code e)"
proof -
  obtain sv where sv: "startRosetta samplePlatform (sampleContext False) = Inr sv"
    using sample_started by blast
  let ?P = "asNetworkProvider (sv_Externals sv) (sv_Provider sv)"
  from startRosetta_Inr [OF sv] have "CreateControllers (newServer samplePlatform) ?P = Inr (sv_Routers sv)"
    and "\<not> np_IsOffline ?P"
    by (auto simp: provider_simps argsOfCreate_def argsOfFlags_def getParsedCliFlags_def sample_flags)
  from createControllers_online [OF this, of sampleLibrary ReqMempool "(None, ([], ()))"]
  have "fst (serve sampleLibrary ?P (sv_Routers sv) ReqMempool (None, ([], ()))) =
      Inl (Refused (newErr newErrFactory ErrNotImplemented))"
    by (simp add: Mempool_def answer_def)
  with refusals_are_published [OF sv this] sv show ?thesis by blast
qed

text \<open>C30: What the observer says when it refuses a block reaches the client: the error of the body of
  its answer as "message: code", or the error of a response that holds one, behind the nonce that
  was asked for, in a refusal that says that the block cannot be got.\<close>

theorem observer_errors_are_told:
  assumes "\<not> p_isOffline p" "getLatestBlockNonce E p (snd s) = (Inr latest, s1)" "uint64_of_int64 n \<le> latest"
    and "n \<noteq> bi_Index (getGenesisBlockIdentifier (asNetworkProvider E p))"
    and "fst (cache_Get E (blockNonceToBytes (uint64_of_int64 n)) (fst s1)) = None"
    and "fst (of_GetBlockByNonce E (p_observedActualShard p) (uint64_of_int64 n)
      withTransactionsAndLogs (snd s1)) = reply"
    and "(\<exists>err message code. reply = Inl err \<and> ext_ErrorText E err = print_api_error message code \<and>
        list_all plain_char message \<and> list_all plain_char code \<and> told = message @ '': '' @ code) \<or>
      (\<exists>response. reply = Inr response \<and> ar_Error response = told \<and> told \<noteq> [])"
  shows "fst (doGetBlock L (asNetworkProvider E p) \<lparr>pbi_Index = Some n, pbi_Hash = None\<rparr> s) =
    Inl (Refused (newErrWithOriginal newErrFactory ErrUnableToGetBlock
      (Errorf [Err (ErrorsNew ''cannot get block''), Txt '': '', Err (ErrorsNew told),
               Txt '', nonce = '', Txt (nat_to_dec (unat (uint64_of_int64 n)))])))"
proof -
  have "tells E (fst (of_GetBlockByNonce E (p_observedActualShard p) (uint64_of_int64 n)
      withTransactionsAndLogs (snd s1))) (ErrorsNew told)"
    unfolding assms(6) using assms(7)
    by (auto simp: tells_def convertStructuredApiErrToFlatErr_def unmarshal_print_api_error)
  from block_endpoint_tells [OF assms(1-5) this] show ?thesis
    by (simp add: newErrCannotGetBlockByNonce_def errCannotGetBlock_def)
qed

theorem observer_errors_are_told_witness:
  "fst (doGetBlock sampleLibrary (asNetworkProvider refusingExternals sampleProvider)
      \<lparr>pbi_Index = Some 5, pbi_Hash = None\<rparr> (None, ([], ()))) =
    Inl (Refused (newErrWithOriginal newErrFactory ErrUnableToGetBlock
      (Errorf [Err (ErrorsNew ''cannot get block''), Txt '': '',
               Err (ErrorsNew ''block not found: internal_issue''), Txt '', nonce = '', Txt ''5''])))"
proof -
  let ?body = "print_api_error ''block not found'' ''internal_issue''"
  have told: "\<exists>err message code. (Inl (ErrorsNew ?body) :: go_error + Block ApiResponse) = Inl err \<and>
      ext_ErrorText refusingExternals err = print_api_error message code \<and>
      list_all plain_char message \<and> list_all plain_char code \<and>
      ''block not found: internal_issue'' = message @ '': '' @ code"
    using refusing_answer by (intro exI conjI) (auto intro!: refl)
  have "nat_to_dec 5 = ''5''" by (simp add: nat_to_dec_def to_digits.simps dec_digit_def)
  moreover have "uint64_of_int64 5 = 5" by (simp add: uint64_of_int64_def)
  ultimately show ?thesis
    using observer_errors_are_told [where p = sampleProvider and E = refusingExternals and s = "(None, ([], ()))"
        and latest = 8 and ?s1.0 = "([], ())" and n = 5 and L = sampleLibrary, OF _ _ _ _ _ _ disjI1 [OF told]]
    by (simp add: sample_online refusing_latest refusing_genesis refusing_lookup refusing_answer)
qed

text \<open>C31: A server started with the offline flag never talks to the observer and keeps no state:
  no request changes the world, the cache of blocks or the kept genesis block.\<close>

theorem offline_server_touches_nothing:
  assumes "startRosetta platform ctx = Inr sv" "GlobalBool ctx ''offline''"
  shows "snd (serve L (asNetworkProvider (sv_Externals sv) (sv_Provider sv)) (sv_Routers sv) request s) = s"
proof -
  from startRosetta_Inr [OF assms(1)] assms(2)
  have "CreateControllers (newServer platform)
      (asNetworkProvider (sv_Externals sv) (sv_Provider sv)) = Inr (sv_Routers sv)"
    and "np_IsOffline (asNetworkProvider (sv_Externals sv) (sv_Provider sv))"
    by (auto simp: provider_simps argsOfCreate_def argsOfFlags_def getParsedCliFlags_def)
  then show ?thesis by (rule offline_state)
qed

theorem offline_server_touches_nothing_witness:
  "\<exists>sv. startRosetta samplePlatform (sampleContext True) = Inr sv \<and>
     snd (serve sampleLibrary (asNetworkProvider (sv_Externals sv) (sv_Provider sv)) (sv_Routers sv)
            ReqNetworkStatus (None, ([], ()))) = (None, ([], ()))"
  using sample_started offline_server_touches_nothing [of samplePlatform "sampleContext True"]
  by (metis sample_flags(1))

text \<open>C32: The endpoints that need no observer (the network list and the construction endpoints other than
  metadata and submit) give the same answers on an offline server as on an online one with
  the same arguments, whatever state the two are in.\<close>

theorem offline_answers_alike:
  assumes "needsNoObserver request"
    and "CreateControllers asserter1 (serverProvider E args) = Inr r1"
    and "CreateControllers asserter2 (serverProvider E (args\<lparr>a_IsOffline := isOffline, a_ObserverUrl := url\<rparr>)) = Inr r2"
  shows "fst (serve L (serverProvider E args) r1 request s1) =
    fst (serve L (serverProvider E (args\<lparr>a_IsOffline := isOffline, a_ObserverUrl := url\<rparr>)) r2 request s2)"
  using assms by (rule offline_answers)

theorem offline_answers_alike_witness:
  "\<exists>online offline. CreateControllers (\<lambda>_. Inr ()) sampleP = Inr online \<and>
     CreateControllers (\<lambda>_. Inr ()) offlineP = Inr offline \<and>
     fst (serve sampleLibrary sampleP online (ReqDerive ''edwards25519'' ''key'') (None, ([], ()))) =
     fst (serve sampleLibrary offlineP offline (ReqDerive ''edwards25519'' ''key'') (None, ([], ())))"
proof -
  have "\<exists>r. CreateControllers (\<lambda>_. Inr ()) P = Inr r" for P :: "(sample_cache \<times> unit) NetworkProvider"
    by (simp add: CreateControllers_def createOfflineControllers_def createOnlineControllers_def createAsserter_def Let_def)
  then obtain online offline where c: "CreateControllers (\<lambda>_. Inr ()) sampleP = Inr online"
    "CreateControllers (\<lambda>_. Inr ()) offlineP = Inr offline" by meson
  have off: "offlineArgs = sampleArgs\<lparr>a_IsOffline := True, a_ObserverUrl := a_ObserverUrl sampleArgs\<rparr>"
    by (simp add: offlineArgs_def)
  from offline_answers_alike [OF _ c(1) c(2) [unfolded off], of "ReqDerive ''edwards25519'' ''key''"] c show ?thesis
    unfolding off by auto
qed

text \<open>C33: On a server started offline the block, account and mempool endpoints do not answer with the error
  for the offline mode: their service was made without an error factory, and they crash.\<close>

theorem offline_endpoints_crash:
  assumes "startRosetta platform ctx = Inr sv" "GlobalBool ctx ''offline''"
    and "request \<in> {ReqBlock pbi, ReqBlockTransaction, ReqAccountBalance i a cs, ReqAccountCoins,
      ReqMempool, ReqMempoolTransaction h}"
  shows "fst (serve L (asNetworkProvider (sv_Externals sv) (sv_Provider sv)) (sv_Routers sv) request s) =
    Inl (Crashed ''nil pointer dereference'')"
proof -
  from startRosetta_Inr [OF assms(1)] assms(2)
  have "CreateControllers (newServer platform)
      (asNetworkProvider (sv_Externals sv) (sv_Provider sv)) = Inr (sv_Routers sv)"
    and "np_IsOffline (asNetworkProvider (sv_Externals sv) (sv_Provider sv))"
    by (auto simp: provider_simps argsOfCreate_def argsOfFlags_def getParsedCliFlags_def)
  note routers = createControllers_offline [OF this]
  show ?thesis
    using assms(3) by (auto simp: serve_def routers offlineEndpoint_def NewOfflineService_def nilPointer_def)
qed

theorem offline_endpoints_crash_witness:
  "\<exists>sv. startRosetta samplePlatform (sampleContext True) = Inr sv \<and>
     fst (serve sampleLibrary (asNetworkProvider (sv_Externals sv) (sv_Provider sv)) (sv_Routers sv)
            ReqMempool (None, ([], ()))) = Inl (Crashed ''nil pointer dereference'')"
proof -
  obtain sv where sv: "startRosetta samplePlatform (sampleContext True) = Inr sv"
    using sample_started by blast
  with offline_endpoints_crash [OF sv, of ReqMempool] show ?thesis by (auto simp: sample_flags)
qed

text \<open>C34: A started server runs on the network that its flags describe, with one exception: the
  timestamp of the genesis block is 0 whatever the flag says.\<close>

theorem server_follows_its_flags:
  assumes "startRosetta platform ctx = Inr sv" "P = asNetworkProvider (sv_Externals sv) (sv_Provider sv)"
  shows "np_IsOffline P = GlobalBool ctx ''offline'' \<and>
    np_GetNetworkConfig P =
      \<lparr>nc_BlockchainName = GlobalString ctx ''blockchain'', nc_NetworkID = GlobalString ctx ''network-id'',
       nc_NetworkName = GlobalString ctx ''network-name'', nc_MinGasPrice = GlobalUint64 ctx ''min-gas-price'',
       nc_MinGasLimit = GlobalUint64 ctx ''min-gas-limit'',
       nc_GasPerDataByte = GlobalUint64 ctx ''gas-per-data-byte'',
       nc_GasPriceModifier = GlobalFloat64 ctx ''gas-price-modifier'',
       nc_GasLimitCustomTransfer = GlobalUint64 ctx ''gas-limit-custom-transfer'',
       nc_ExtraGasLimitGuardedTx = GlobalUint64 ctx ''extra-gas-limit-guarded-tx'',
       nc_ExtraGasLimitRelayedTxV3 = GlobalUint64 ctx ''extra-gas-limit-relayed-tx-v3''\<rparr> \<and>
    getNativeCurrency P = \<lparr>Symbol = GlobalString ctx ''native-currency'', Decimals = 18\<rparr> \<and>
    bs_Hash (np_GetGenesisBlockSummary P) = GlobalString ctx ''genesis-block'' \<and>
    np_GetGenesisTimestamp P = 0"
proof -
  from startRosetta_Inr [OF assms(1)] assms(2) obtain cs where
    "P = serverProvider (sv_Externals sv) (argsOfCreate (argsOfFlags (getParsedCliFlags ctx) cs))" by blast
  then show ?thesis
    by (simp add: provider_simps argsOfCreate_def argsOfFlags_def getParsedCliFlags_def getNativeCurrency_def
        GetNativeCurrency_def currenciesOf_native GetGenesisBlockSummary_def)
qed

theorem server_follows_its_flags_witness:
  "\<exists>sv. startRosetta samplePlatform (sampleContext False) = Inr sv \<and>
     getNativeCurrencySymbol (asNetworkProvider (sv_Externals sv) (sv_Provider sv)) = ''EGLD'' \<and>
     GlobalInt64 (sampleContext False) ''genesis-timestamp'' = 1596117600 \<and>
     np_GetGenesisTimestamp (asNetworkProvider (sv_Externals sv) (sv_Provider sv)) = 0"
proof -
  obtain sv where sv: "startRosetta samplePlatform (sampleContext False) = Inr sv"
    using sample_started by blast
  from server_follows_its_flags [OF sv refl] sv show ?thesis
    by (simp add: getNativeCurrency_def getNativeCurrencySymbol_def) (simp add: sampleContext_def)
qed

text \<open>C35: What the program reads off the command line: where the field has the type of its flag, the
  value given or the default; shards and epochs, flags of 64 bits that are converted to 32, only
  modulo \<open>2 ^ 32\<close>; the gas limit of custom transfers, a float flag, is what the library answers when it
  is asked for an integer, of which nothing is said here.\<close>

theorem flags_are_read:
  assumes "reads_flags logDebug given ctx" "well_typed logDebug given"
  shows "read_exactly logDebug given (getParsedCliFlags ctx) \<and>
    unat (f_observerActualShard (getParsedCliFlags ctx)) = unat (theUint (effective given cliFlagObserverActualShard)) mod 2 ^ 32 \<and>
    unat (f_observerProjectedShard (getParsedCliFlags ctx)) = unat (theUint (effective given cliFlagObserverProjectedShard)) mod 2 ^ 32 \<and>
    unat (f_numShards (getParsedCliFlags ctx)) = unat (theUint (effective given cliFlagNumShards)) mod 2 ^ 32 \<and>
    unat (f_firstHistoricalEpoch (getParsedCliFlags ctx)) = unat (theUint (effective given cliFlagFirstHistoricalEpoch)) mod 2 ^ 32 \<and>
    unat (f_numHistoricalEpochs (getParsedCliFlags ctx)) = unat (theUint (effective given cliFlagNumHistoricalEpochs)) mod 2 ^ 32 \<and>
    unat (f_activationEpochSirius (getParsedCliFlags ctx)) = unat (theUint (effective given cliFlagActivationEpochSirius)) mod 2 ^ 32 \<and>
    unat (f_activationEpochSpica (getParsedCliFlags ctx)) = unat (theUint (effective given cliFlagActivationEpochSpica)) mod 2 ^ 32 \<and>
    f_gasLimitCustomTransfer (getParsedCliFlags ctx) = GlobalUint64 ctx (flagName cliFlagGasLimitCustomTransfer)"
  using flags_read [OF assms] flags_truncated [OF assms]
  by (simp add: getParsedCliFlags_def cliFlagGasLimitCustomTransfer_def)

theorem flags_are_read_witness:
  "unat (f_numShards (getParsedCliFlags (contextOf ''DEBUG'' sampleGiven))) = 3 \<and>
   f_port (getParsedCliFlags (contextOf ''DEBUG'' sampleGiven)) = 8091"
proof -
  have "unat (theUint (effective sampleGiven cliFlagNumShards)) = 4294967299"
    "theInt (effective sampleGiven cliFlagPort) = 8091"
    by (simp_all add: effective_def sampleGiven_def cliFlagNumShards_def cliFlagPort_def)
  with flags_are_read [OF context_reads_flags sample_given_typed, of "''DEBUG''"] show ?thesis
    by (simp add: read_exactly_def)
qed

text \<open>C36: A server that is started with a file of custom currencies, printed in the layout of the
  one in \<open>testdata\<close> from any currencies whose symbols need no escape, supports exactly these.\<close>

theorem currencies_file_round_trip:
  assumes "startRosetta platform ctx = Inr sv" "GlobalString ctx ''config-custom-currencies'' = file1" "file1 \<noteq> []"
    and "readFile platform file1 = Inr (print_currencies cs @ spaces)"
    and "list_all printable cs" "list_all is_space spaces"
  shows "np_GetCustomCurrencies (asNetworkProvider (sv_Externals sv) (sv_Provider sv)) = cs"
proof -
  have "decideCustomCurrencies (readFile platform) file1 = Inr cs"
    using assms(3-6) by (simp add: decideCustomCurrencies_def loadConfigOfCustomCurrencies_def unmarshal_print_currencies)
  with startRosetta_Inr [OF assms(1)] assms(2) show ?thesis
    by (auto simp: provider_simps argsOfCreate_def argsOfFlags_def currenciesOf_def GetCustomCurrencies_def)
qed

theorem currencies_file_round_trip_witness:
  "\<exists>sv. startRosetta filePlatform fileContext = Inr sv \<and>
     np_GetCustomCurrencies (asNetworkProvider (sv_Externals sv) (sv_Provider sv)) = testdata_currencies"
proof -
  obtain sv where sv: "startRosetta filePlatform fileContext = Inr sv" using file_started by blast
  have "np_GetCustomCurrencies (asNetworkProvider (sv_Externals sv) (sv_Provider sv)) = testdata_currencies"
    by (rule currencies_file_round_trip [OF sv _ _ file_content testdata_printable newline_space])
      (simp_all add: fileContext_def)
  with sv show ?thesis by blast
qed

text \<open>C37: The node status that a server reports: the latest block is two below the highest final
  nonce of the observer, and the oldest block with history is the one at which the epoch starts
  that is the later of the first historical epoch and the current epoch less their number.\<close>

theorem status_window:
  assumes "GetNodeStatus E p s = (Inr st, s')"
  shows "\<exists>plain s1 s2 epoch s3 n.
    getPlainNodeStatus E p s = (Inr plain, s1) \<and> unat n + 2 = unat (ns_HighestFinalNonce plain) \<and> n \<noteq> 0 \<and>
    getBlockSummaryByNonce E p n s1 = (Inr (ans_LatestBlock st), s2) \<and>
    (\<exists>e. uint e = max (uint (p_firstHistoricalEpoch p))
                      (uint (ns_CurrentEpoch plain) - uint (p_numHistoricalEpochs p)) \<and>
      getEpochStartInfo E p e s2 = (Inr epoch, s3)) \<and>
    getBlockSummaryByNonce E p (es_Nonce epoch) s3 = (Inr (ans_OldestBlockWithHistoricalState st), s') \<and>
    (ans_Synced st \<longleftrightarrow> ns_IsSyncing plain = 0)"
proof -
  from GetNodeStatus_Inr [OF assms] obtain plain s1 s2 epoch s3 where
    *: "getPlainNodeStatus E p s = (Inr plain, s1)" "2 < unat (ns_HighestFinalNonce plain)"
      "getBlockSummaryByNonce E p (ns_HighestFinalNonce plain - 2) s1 = (Inr (ans_LatestBlock st), s2)"
      "getEpochStartInfo E p (getOldestEligibleEpoch p (ns_CurrentEpoch plain)) s2 = (Inr epoch, s3)"
      "getBlockSummaryByNonce E p (es_Nonce epoch) s3 = (Inr (ans_OldestBlockWithHistoricalState st), s')"
      "ans_Synced st \<longleftrightarrow> ns_IsSyncing plain = 0"
    by metis
  let ?n = "ns_HighestFinalNonce plain - 2"
  from *(2) have n: "unat ?n = unat (ns_HighestFinalNonce plain) - 2"
    by (intro latest_nonce_unat) (simp add: latest_nonce_Inr)
  with *(2) have "unat ?n + 2 = unat (ns_HighestFinalNonce plain)" "unat ?n \<noteq> 0" by linarith+
  then have "unat ?n + 2 = unat (ns_HighestFinalNonce plain)" "?n \<noteq> 0" by auto
  with * oldest_epoch [of p "ns_CurrentEpoch plain"] show ?thesis by blast
qed

theorem status_window_witness:
  "\<exists>st. GetNodeStatus sampleExternals sampleProvider ([], ()) = (Inr st, ([], ())) \<and>
     (\<exists>plain s1. getPlainNodeStatus sampleExternals sampleProvider ([], ()) = (Inr plain, s1) \<and>
        (ans_Synced st \<longleftrightarrow> ns_IsSyncing plain = 0))"
  using sample_node_status [of "([], ())"] status_window by metis

text \<open>C38: Stopping is graceful. Whenever \<open>main\<close> returns, the process had been interrupted, no
  request is in flight any more, and none was dropped unless the second that the shutdown may take
  was over; the log file is closed then and not before. Once interrupted, \<open>main\<close> can always go on,
  and every step that it makes brings it closer to its end, which no request and no second signal
  defers. A server that cannot listen serves nothing.\<close>

theorem stopping_is_graceful:
  assumes "lives binds addr s"
  shows "(lc_main s = MainReturned \<longrightarrow>
      lc_interrupted s \<and> lc_inFlight s = {} \<and> (lc_dropped s \<noteq> {} \<longrightarrow> lc_timedOut s)) \<and>
    (lc_logOpen s \<longleftrightarrow> lc_main s \<noteq> MainReturned) \<and>
    (running s \<and> lc_interrupted s \<longrightarrow> (\<exists>s'. main_step s s')) \<and>
    (\<forall>s'. main_step s s' \<longrightarrow> stepsLeft s' < stepsLeft s) \<and>
    (\<forall>s'. http_step binds addr s s' \<or> outside_step s s' \<longrightarrow> stepsLeft s' = stepsLeft s) \<and>
    (\<not> binds \<longrightarrow> lc_inFlight s = {} \<and> lc_answered s = {} \<and> lc_dropped s = {})"
proof (intro conjI allI impI)
  show "\<exists>s'. main_step s s'" if "running s \<and> lc_interrupted s"
    using interrupted_main_steps [OF assms] that by blast
  show "stepsLeft s' < stepsLeft s" if "main_step s s'" for s'
    using that by (rule main_step_left)
  show "stepsLeft s' = stepsLeft s" if "http_step binds addr s s' \<or> outside_step s s'" for s'
    using that by (blast intro: other_step_left outside_step_left)
qed (use lives_stops [OF assms] in \<open>blast+\<close>)

theorem stopping_is_graceful_witness:
  "\<exists>s. lives True '':8080'' s \<and> lc_main s = MainReturned \<and> lc_interrupted s \<and> lc_inFlight s = {} \<and> \<not> lc_logOpen s"
proof -
  obtain s where s: "lives True '':8080'' s" "lc_main s = MainReturned"
    using sample_life [of True "'':8080''"] by blast
  from stopping_is_graceful [OF s(1)] s show ?thesis by blast
qed

text \<open>C39: The provider that the tests mock stands for some real ones, those that handle contracts
  (which is not the default) and have no projected shard: a mock that holds the arguments of such a
  server, with distinct symbols, gives the same answer for a block, transactions, identifiers and
  errors included, if fees and receipt hashes agree and the transactions with a relayer are those of
  version 3; and so it does for the genesis operations. A server without contracts drops operations
  that the mock keeps.\<close>

theorem mock_answers_as_the_server:
  assumes "mock_configured E args X m" "distinct (map Symbol (a_CustomCurrencies args))"
    and "\<not> a_ObservedProjectedShardIsSet args" "a_ShouldHandleContracts args" "\<forall>a. ext_Decode E a \<noteq> Inr []"
    and "\<forall>tx \<in> set (txsOfBlock block). IsRelayedTxV3 tx \<longleftrightarrow> tx_RelayerAddress tx \<noteq> []"
    and "\<forall>receipt \<in> set (receiptsOfBlock block).
      np_ComputeReceiptHash (serverProvider E args) receipt = Inr (MockComputedReceiptHash m)"
  shows "convertToRosettaBlock L (mockNetworkProvider X m) block = convertToRosettaBlock L (serverProvider E args) block \<and>
    createGenesisOperations (mockNetworkProvider X m) balances = createGenesisOperations (serverProvider E args) balances"
proof -
  note view = mock_same_view [OF assms(1-5)]
  have hash: "np_ComputeReceiptHash (mockNetworkProvider X m) receipt = Inr (MockComputedReceiptHash m)" for receipt
    using assms(1) by (simp add: mockNetworkProvider_def mock_ComputeReceiptHash_def orNextError_def mock_configured_def)
  from assms(6,7) have "transformBlockTxs L (serverProvider E args) block = transformBlockTxs L (mockNetworkProvider X m) block"
    by (intro same_view.block_view [OF view]) (simp_all add: mock_fee [OF assms(1)] hash)
  from same_view.converted_view [OF view this] same_view.genesis_view [OF view, of balances] show ?thesis by simp
qed

theorem mock_answers_as_the_server_witness:
  "\<exists>r. convertToRosettaBlock sampleLibrary contractP (sampleChain 5) = Inr r \<and> br_Transactions r \<noteq> [] \<and>
     convertToRosettaBlock sampleLibrary (mockNetworkProvider sampleMockLibrary sampleMock) (sampleChain 5) = Inr r"
proof -
  obtain rtxs where "transformBlockTxs sampleLibrary contractP (sampleChain 5) = Inr rtxs" "rtxs \<noteq> []"
    using sample_contract_block by blast
  then obtain r where r: "convertToRosettaBlock sampleLibrary contractP (sampleChain 5) = Inr r" "br_Transactions r \<noteq> []"
    by (auto simp: convertToRosettaBlock_def Let_def)
  have "receiptsOfBlock (sampleChain 5) = []"
    "\<forall>tx \<in> set (txsOfBlock (sampleChain 5)). IsRelayedTxV3 tx \<longleftrightarrow> tx_RelayerAddress tx \<noteq> []"
    by (simp_all add: receiptsOfBlock_def txsOfBlock_def sampleChain_def plainBlock_def plainMiniblock_def
        IsRelayedTxV3_def plainTx_def)
  then have "convertToRosettaBlock sampleLibrary (mockNetworkProvider sampleMockLibrary sampleMock) (sampleChain 5) =
      convertToRosettaBlock sampleLibrary contractP (sampleChain 5)"
    using mock_answers_as_the_server [OF sample_mock_configured, of "sampleChain 5" sampleLibrary "[]"]
    by (simp add: sample_contract_args)
  with r show ?thesis by auto
qed

section \<open>Genesis balances\<close>

text \<open>C40: The genesis block, when it is built, identifies itself and its parent as the genesis
  block and holds one transaction, which gives every observed address the sum of the balances
  that the observer lists for it, and nothing to any other address.\<close>

theorem genesis_gives_the_balances:
  assumes "doGetGenesisBlock P w = (Inr r, w')"
  shows "br_BlockIdentifier r = getGenesisBlockIdentifier P \<and>
    br_ParentBlockIdentifier r = getGenesisBlockIdentifier P \<and>
    (\<exists>balances t. np_GetGenesisBalances P w = (Inr balances, w') \<and> br_Transactions r = [t] \<and>
       effect_on a (getNativeCurrency P) (rt_Operations t) =
         (if np_IsAddressObserved P a = Inr True
          then sum_list (map (\<lambda>b. amount_value (gb_Balance b)) (filter (\<lambda>b. gb_Address b = a) balances)) else 0))"
proof -
  from assms obtain balances ops where "np_GetGenesisBalances P w = (Inr balances, w')"
    and ops: "createGenesisOperations P balances = Inr ops" and "r = genesisResponse P ops"
    by (auto simp: doGetGenesisBlock_def orFail_def split: prod.splits sum.splits)
  with genesis_operations [OF ops, of a] show ?thesis by (auto simp: genesisResponse_def)
qed

theorem genesis_gives_the_balances_witness:
  "\<exists>r t. fst (doGetGenesisBlock sampleP ([], ())) = Inr r \<and> br_Transactions r = [t] \<and>
     effect_on ''alice'' (getNativeCurrency sampleP) (rt_Operations t) = 1000"
proof -
  obtain r where r: "fst (doGetGenesisBlock sampleP ([], ())) = Inr r" using sample_genesis_block by blast
  then have "doGetGenesisBlock sampleP ([], ()) = (Inr r, snd (doGetGenesisBlock sampleP ([], ())))"
    by (simp add: prod_eq_iff)
  from genesis_gives_the_balances [OF this, of "''alice''"] r sample_genesis_balances sample_observed [of "''alice''"]
  show ?thesis by (auto simp: has_prefix_def amount_value_def sample_thousand)
qed

end
